(* ===== verification/Prelude.thy ===== *)
theory Prelude
  imports Main "HOL-Library.Word" "HOL-Library.Monad_Syntax"
begin

text \<open>
  Shared vocabulary of the development: the C integer types, the macros of
  \<^verbatim>\<open>include/utils.h\<close> with the integer promotions the compiler applies to them,
  in-place writes to byte arrays (\<open>splice\<close>), reads of byte ranges (\<open>subrange\<close>) and the
  little-endian byte encoding of machine words. The lemmas are declared to the
  simplifier or collected in the named theorem lists below, so that the component theories
  carry no array or word arithmetic of their own.
\<close>

unbundle bit_operations_syntax

named_theorems array_simps \<open>length, read and update laws of byte arrays\<close>
named_theorems host_simps \<open>unfolding of the C runtime operations\<close>

type_synonym u8 = "8 word"
type_synonym u16 = "16 word"
type_synonym u32 = "32 word"
type_synonym u64 = "64 word"

section \<open>Byte ranges of arrays\<close>

definition subrange :: "'a list \<Rightarrow> nat \<Rightarrow> nat \<Rightarrow> 'a list" where
  "subrange xs i n = take n (drop i xs)"

definition splice :: "'a list \<Rightarrow> nat \<Rightarrow> 'a list \<Rightarrow> 'a list" where
  "splice xs i ys = take i xs @ ys @ drop (i + length ys) xs"

lemma length_subrange [array_simps]: "i + n \<le> length xs \<Longrightarrow> length (subrange xs i n) = n"
  by (simp add: subrange_def)

lemma nth_subrange [array_simps]: "k < n \<Longrightarrow> i + n \<le> length xs \<Longrightarrow> subrange xs i n ! k = xs ! (i + k)"
  by (simp add: subrange_def)

lemma subrange_one [array_simps]: "i < length xs \<Longrightarrow> subrange xs i (Suc 0) = [xs ! i]"
  by (simp add: subrange_def take_Suc_conv_app_nth)

lemma subrange_all [array_simps]: "n = length xs \<Longrightarrow> subrange xs 0 n = xs"
  by (simp add: subrange_def)

lemma length_splice [array_simps]:
  "i + length ys \<le> length xs \<Longrightarrow> length (splice xs i ys) = length xs"
  by (simp add: splice_def)

lemma splice_Nil [array_simps]: "splice xs i [] = xs"
  by (simp add: splice_def)

lemma nth_splice:
  assumes "i + length ys \<le> length xs" and "k < length xs"
  shows "splice xs i ys ! k = (if i \<le> k \<and> k < i + length ys then ys ! (k - i) else xs ! k)"
  using assms by (auto simp: splice_def nth_append)

lemma subrange_splice_same [array_simps]:
  assumes "i + length ys \<le> length xs" and "n = length ys"
  shows "subrange (splice xs i ys) i n = ys"
  using assms by (simp add: subrange_def splice_def)

lemma subrange_splice_other [array_simps]:
  assumes "i + length ys \<le> length xs" and "j + n \<le> i \<or> i + length ys \<le> j"
    and "j + n \<le> length xs"
  shows "subrange (splice xs i ys) j n = subrange xs j n"
proof (rule nth_equalityI)
  show "length (subrange (splice xs i ys) j n) = length (subrange xs j n)"
    using assms by (simp add: length_subrange length_splice)
next
  fix k
  assume "k < length (subrange (splice xs i ys) j n)"
  then have "k < n" by (simp add: subrange_def)
  with assms show "subrange (splice xs i ys) j n ! k = subrange xs j n ! k"
    by (auto simp: nth_subrange nth_splice length_splice)
qed

lemma splice_subrange_id [array_simps]:
  "i + n \<le> length xs \<Longrightarrow> splice xs i (subrange xs i n) = xs"
  by (rule nth_equalityI) (auto simp: nth_splice nth_subrange length_splice length_subrange)

section \<open>First match\<close>

lemma find_upt_Some:
  "find P [0..<n] = Some i \<longleftrightarrow> i < n \<and> P i \<and> (\<forall>j < i. \<not> P j)"
proof (induction n)
  case 0
  then show ?case by simp
next
  case (Suc n)
  have app: "find P (xs @ ys) = (case find P xs of None \<Rightarrow> find P ys | Some y \<Rightarrow> Some y)" for xs ys :: "nat list"
    by (induction xs) auto
  show ?case
  proof (cases "find P [0..<n]")
    case None
    then have "\<forall>j < n. \<not> P j" by (auto simp: find_None_iff)
    with None show ?thesis by (auto simp: app less_Suc_eq)
  next
    case (Some k)
    then have "k < n" "P k" "\<forall>j < k. \<not> P j"
      by (auto simp: find_Some_iff)
    with Some Suc show ?thesis
      by (auto simp: app)
  qed
qed

section \<open>Little-endian encoding\<close>

text \<open>The byte image of a machine integer on the little-endian hosts the VMM runs on.\<close>

definition le_bytes :: "nat \<Rightarrow> 'a::len word \<Rightarrow> u8 list" where
  "le_bytes n w = map (\<lambda>i. ucast (drop_bit (8 * i) w)) [0..<n]"

fun le_word :: "u8 list \<Rightarrow> 'a::len word" where
  "le_word [] = 0"
| "le_word (b # bs) = ucast b OR push_bit 8 (le_word bs)"

lemma length_le_bytes [simp]: "length (le_bytes n w) = n"
  by (simp add: le_bytes_def)

lemma nth_le_bytes: "i < n \<Longrightarrow> le_bytes n w ! i = ucast (drop_bit (8 * i) w)"
  by (simp add: le_bytes_def)

lemma bit_le_word:
  "bit (le_word bs :: 'a::len word) k \<longleftrightarrow>
     k < LENGTH('a) \<and> k div 8 < length bs \<and> bit (bs ! (k div 8)) (k mod 8)"
proof (induction bs arbitrary: k)
  case Nil
  then show ?case by simp
next
  case (Cons b bs)
  show ?case
  proof (cases "k < 8")
    case True
    then show ?thesis
      by (auto simp: bit_or_iff bit_push_bit_iff bit_ucast_iff)
  next
    case False
    then have "k div 8 = Suc ((k - 8) div 8)" and "(k - 8) mod 8 = k mod 8"
      by (simp_all add: le_div_geq le_mod_geq)
    moreover have "\<not> bit b k"
      using False by (auto dest: bit_imp_le_length)
    ultimately show ?thesis
      using False Cons.IH [of "k - 8"]
      by (auto simp: bit_or_iff bit_push_bit_iff bit_ucast_iff)
  qed
qed

lemma le_word_le_bytes [simp]:
  assumes "LENGTH('a) \<le> 8 * n"
  shows "le_word (le_bytes n w) = (w :: 'a::len word)"
proof (rule bit_word_eqI)
  fix k
  assume k: "k < LENGTH('a)"
  then have "k div 8 < n" using assms by linarith
  moreover have "8 * (k div 8) + k mod 8 = k" by simp
  ultimately show "bit (le_word (le_bytes n w) :: 'a word) k = bit w k"
    using k by (simp add: bit_le_word nth_le_bytes bit_ucast_iff bit_drop_bit_eq)
qed

text \<open>A narrow word zero-extended and cut back is itself.\<close>

lemma ucast_widen [simp]:
  assumes "LENGTH('a) \<le> LENGTH('b)"
  shows "ucast (ucast (x :: 'a::len word) :: 'b::len word) = x"
  using assms by (intro bit_word_eqI) (auto simp: bit_ucast_iff dest: bit_imp_le_length)

lemma unat_ucast_up [simp]:
  assumes "LENGTH('a) \<le> LENGTH('b)"
  shows "unat (ucast (x :: 'a::len word) :: 'b::len word) = unat x"
proof -
  have "unat x < 2 ^ LENGTH('a)" by (rule unsigned_less)
  also have "(2 :: nat) ^ LENGTH('a) \<le> 2 ^ LENGTH('b)" using assms by simp
  finally show ?thesis by (simp add: unsigned_ucast_eq take_bit_nat_eq_self)
qed

section \<open>Macros of include/utils.h\<close>

text \<open>
  \<open>ALIGN_UP\<close> and \<open>ALIGN_DOWN\<close> are macros, so the width of the mask is the width of
  \<open>a\<close>. \<open>PAGE_SIZE\<close> is \<open>1U << 12\<close>, an \<open>unsigned int\<close>: the mask
  \<open>~(PAGE_SIZE - 1)\<close> is computed in 32 bits and then zero-extended to the 64 bits of
  \<open>x\<close>. With a plain \<open>int\<close> constant the mask is negative and is sign-extended.
\<close>

definition ALIGN_UP_uint :: "u64 \<Rightarrow> u32 \<Rightarrow> u64" where
  "ALIGN_UP_uint x a = (x + ucast (a - 1)) AND ucast (NOT (a - 1))"

definition ALIGN_DOWN_uint :: "u64 \<Rightarrow> u32 \<Rightarrow> u64" where
  "ALIGN_DOWN_uint x a = x AND ucast (NOT (a - 1))"

definition ALIGN_UP_int :: "u64 \<Rightarrow> u32 \<Rightarrow> u64" where
  "ALIGN_UP_int x a = (x + scast (a - 1)) AND scast (NOT (a - 1))"

definition PAGE_SIZE :: u32 where
  "PAGE_SIZE = push_bit 12 1"

definition PAGE_ALIGN_UP :: "u64 \<Rightarrow> u64" where
  "PAGE_ALIGN_UP x = ALIGN_UP_uint x PAGE_SIZE"

definition PAGE_ALIGN_DOWN :: "u64 \<Rightarrow> u64" where
  "PAGE_ALIGN_DOWN x = ALIGN_DOWN_uint x PAGE_SIZE"

lemma page_mask: "(ucast (NOT (PAGE_SIZE - 1)) :: u64) = 0xFFFFF000"
  by (simp add: PAGE_SIZE_def)

lemma page_mask_push_bit: "(0xFFFFF000 :: u64) = push_bit 12 (mask 20)"
  by (simp add: mask_eq_exp_minus_1)

lemma PAGE_ALIGN_DOWN_bits:
  "bit (PAGE_ALIGN_DOWN x) n \<longleftrightarrow> bit x n \<and> 12 \<le> n \<and> n < 32"
  unfolding PAGE_ALIGN_DOWN_def ALIGN_DOWN_uint_def page_mask page_mask_push_bit
  by (auto simp: bit_and_iff bit_push_bit_iff bit_mask_iff)

text \<open>
  What the page macros compute: the low 32 bits of the operand, rounded to a page. Below
  4 GiB that is the intended rounding.
\<close>

lemma unat_PAGE_ALIGN_DOWN:
  "unat (PAGE_ALIGN_DOWN x) = unat x mod 2 ^ 32 div 4096 * 4096"
proof -
  have "PAGE_ALIGN_DOWN x = push_bit 12 (drop_bit 12 (take_bit 32 x))"
    by (rule bit_word_eqI)
      (auto simp: PAGE_ALIGN_DOWN_bits bit_push_bit_iff bit_drop_bit_eq bit_take_bit_iff)
  then have "unat (PAGE_ALIGN_DOWN x) = take_bit 64 (push_bit 12 (drop_bit 12 (take_bit 32 (unat x))))"
    by (simp only: unsigned_push_bit_eq unsigned_drop_bit_eq unsigned_take_bit_eq) simp
  also have "push_bit 12 (drop_bit 12 (take_bit 32 (unat x))) = unat x mod 2 ^ 32 div 4096 * 4096"
    by (simp add: push_bit_eq_mult drop_bit_eq_div take_bit_eq_mod)
  finally have "unat (PAGE_ALIGN_DOWN x) = take_bit 64 (unat x mod 2 ^ 32 div 4096 * 4096)" .
  moreover have "unat x mod 2 ^ 32 div 4096 * 4096 < 2 ^ 64"
    by (rule le_less_trans [of _ "unat x mod 2 ^ 32"]) (simp_all add: div_times_less_eq_dividend)
  ultimately show ?thesis
    by (simp add: take_bit_nat_eq_self)
qed

lemma PAGE_ALIGN_UP_DOWN: "PAGE_ALIGN_UP x = PAGE_ALIGN_DOWN (x + 4095)"
  by (simp add: PAGE_ALIGN_UP_def PAGE_ALIGN_DOWN_def ALIGN_UP_uint_def ALIGN_DOWN_uint_def
      PAGE_SIZE_def)

lemma unat_PAGE_ALIGN_UP:
  assumes "unat x + 4095 < 2 ^ 64"
  shows "unat (PAGE_ALIGN_UP x) = (unat x + 4095) mod 2 ^ 32 div 4096 * 4096"
proof -
  have "unat (x + 4095) = unat x + 4095"
    using assms by (simp add: unat_word_ariths)
  then show ?thesis
    by (simp add: PAGE_ALIGN_UP_DOWN unat_PAGE_ALIGN_DOWN)
qed

lemma page_round_holds:
  "(x::nat) \<le> (x + 4095) mod 2 ^ 32 div 4096 * 4096 \<longleftrightarrow> x \<le> 2 ^ 32 - 4096"
proof
  assume "x \<le> 2 ^ 32 - 4096"
  then have "(x + 4095) mod 2 ^ 32 = x + 4095" by simp
  then show "x \<le> (x + 4095) mod 2 ^ 32 div 4096 * 4096" by (simp; arith)
next
  assume "x \<le> (x + 4095) mod 2 ^ 32 div 4096 * 4096"
  also have "\<dots> \<le> (2 ^ 32 - 1) div 4096 * 4096"
    by (intro mult_le_mono1 div_le_mono) (simp add: less_Suc_eq_le [symmetric])
  finally show "x \<le> 2 ^ 32 - 4096" by simp
qed

lemma unat_u64_less: "unat (a :: u64) < 2 ^ 64"
  using unsigned_less [of a] by (simp add: unsigned_less)

lemma unat_uminus: "a \<noteq> 0 \<Longrightarrow> unat (- a :: u64) = 2 ^ 64 - unat a"
  using unat_sub_if_size [of 0 a] by (simp add: word_size unat_eq_0)

end
