(* ===== verification/Structs.thy ===== *)
theory Structs
  imports Prelude
begin

text \<open>
  The data of the program: the structures and enumerations of \<^verbatim>\<open>include/*.h\<close> and the
  private structures of the device files. A C structure is a \<^theory_text>\<open>record\<close> whose fields
  carry a short prefix and the C name; an enumeration is a \<^theory_text>\<open>datatype\<close> with the
  source's constructors. A pointer to a byte buffer is a \<open>ptr\<close>, a block number and a byte
  offset, so that pointer arithmetic stays inside one allocation; a pointer to a structure is a
  \<open>ref\<close>, the number of the allocation that holds it, with 0 for the null pointer. A function
  pointer is the name of the table or driver it belongs to. A C \<open>int\<close> is an
  \<^typ>\<open>int\<close>, or a \<^typ>\<open>nat\<close> where it only counts.
\<close>

datatype ptr = Ptr nat u64

type_synonym ref = nat

abbreviation NULL :: ptr where "NULL \<equiv> Ptr 0 0"

fun ptr_add :: "ptr \<Rightarrow> u64 \<Rightarrow> ptr" where
  "ptr_add (Ptr b off) k = Ptr b (off + k)"

section \<open>include/mm.h\<close>

record mm_slot =
  sl_gpa :: u64
  sl_hva :: ptr
  sl_size :: u64
  sl_slot_id :: u32
  sl_flags :: u64

record mm_ctx =
  mm_slots :: "mm_slot list"
  mm_num_slots :: nat
  mm_total_size :: u64

section \<open>include/hypervisor.h\<close>

datatype hv_type = HV_TYPE_AUTO | HV_TYPE_KVM | HV_TYPE_HVF | HV_TYPE_HVF_X86_64 | HV_TYPE_HVF_ARM64

text \<open>The three operation tables a backend exports.\<close>

datatype hv_backend = Kvm_ops | Hvf_ops | Hvf_arm64_ops

datatype hv_exit_reason =
    HV_EXIT_UNKNOWN | HV_EXIT_NONE | HV_EXIT_HLT | HV_EXIT_IO | HV_EXIT_MMIO | HV_EXIT_EXTERNAL
  | HV_EXIT_FAIL_ENTRY | HV_EXIT_SHUTDOWN | HV_EXIT_INTERNAL_ERROR | HV_EXIT_EXCEPTION
  | HV_EXIT_IRQ_WINDOW_OPEN | HV_EXIT_SET_TPR | HV_EXIT_TPR_ACCESS | HV_EXIT_S390_SIEIC
  | HV_EXIT_S390_RESET | HV_EXIT_DCR | HV_EXIT_NMI | HV_EXIT_OSI | HV_EXIT_PAPR_HCALL
  | HV_EXIT_S390_UCONTROL | HV_EXIT_WATCHDOG | HV_EXIT_S390_TSCH | HV_EXIT_EPR
  | HV_EXIT_SYSTEM_EVENT | HV_EXIT_S390_STSI | HV_EXIT_IOAPIC_EOI | HV_EXIT_HYPERV
  | HV_EXIT_ARM_NISV | HV_EXIT_X86_RDMSR | HV_EXIT_X86_WRMSR | HV_EXIT_DIRTY_LOG_FULL
  | HV_EXIT_X86_BUS_LOCK | HV_EXIT_X86_HYPERCALL | HV_EXIT_HVF_VMX | HV_EXIT_CANCELED
  | HV_EXIT_VTIMER | HV_EXIT_ARM_EXCEPTION | HV_EXIT_ARM_TRAP | HV_EXIT_ARM_MMIO
  | HV_EXIT_ARM_IRQ

datatype hv_io_dir = HV_IO_IN | HV_IO_OUT

record hv_io =
  io_port :: u16
  io_size :: u8
  io_direction :: hv_io_dir
  io_data :: u32

record hv_mmio =
  mmio_addr :: u64
  mmio_size :: u8
  mmio_is_write :: int
  mmio_data :: u64

text \<open>
  The union of \<open>struct hv_exit\<close> is kept as three members. Every producer zeroes the whole
  structure first and then writes the one member its exit reason selects, and every consumer
  reads only that member, so the members never overlay each other's bytes.
\<close>

record hv_exit =
  ex_reason :: hv_exit_reason
  ex_io :: hv_io
  ex_mmio :: hv_mmio
  ex_error_code :: u64

record hv_regs =
  rg_rax :: u64  rg_rbx :: u64  rg_rcx :: u64  rg_rdx :: u64
  rg_rsi :: u64  rg_rdi :: u64  rg_rsp :: u64  rg_rbp :: u64
  rg_r8 :: u64  rg_r9 :: u64  rg_r10 :: u64  rg_r11 :: u64
  rg_r12 :: u64  rg_r13 :: u64  rg_r14 :: u64  rg_r15 :: u64
  rg_rip :: u64  rg_rflags :: u64

record hv_segment =
  sg_selector :: u16
  sg_base :: u64
  sg_limit :: u32
  sg_ar :: u32

record hv_dtable =
  dt_base :: u64
  dt_limit :: u32
  dt_ar :: u32

record hv_sregs =
  sr_cs :: hv_segment  sr_ds :: hv_segment  sr_es :: hv_segment  sr_fs :: hv_segment
  sr_gs :: hv_segment  sr_ss :: hv_segment  sr_ldt :: hv_segment  sr_tr :: hv_segment
  sr_gdt :: hv_dtable  sr_idt :: hv_dtable
  sr_cr0 :: u64  sr_cr2 :: u64  sr_cr3 :: u64  sr_cr4 :: u64  sr_cr8 :: u64
  sr_efer :: u64
  sr_apic_base :: u64

record hv_memory_slot =
  ms_slot :: u32
  ms_gpa :: u64
  ms_size :: u64
  ms_hva :: ptr
  ms_flags :: u64

text \<open>
  \<open>struct hv_vm\<close> and \<open>struct hv_vcpu\<close> with their backend data. A machine has the size of the
  run area of its processors on KVM and the flag \<open>vm_created\<close> on HVF; a processor has its run area on
  KVM and on HVF for x86, and the framework's processor number, the flag \<open>vcpu_created\<close> and the
  exit information on HVF. A member its backend does not have stays zero.
\<close>

record hv_vm =
  hv_ops_of :: hv_backend
  hv_fd :: int
  hv_mmap_size :: int
  hv_vm_created :: int

record hv_vcpu =
  hc_ops :: hv_backend
  hc_fd :: int
  hc_vm :: ref
  hc_index :: int
  hc_run :: ptr
  hc_id :: u64
  hc_created :: int
  hc_exit_info :: ptr

text \<open>
  What the Apple framework reports in the \<open>hv_vcpu_exit_t\<close> it hands to the creator of a processor.
\<close>

record hv_vcpu_exit_info =
  xi_reason :: u32
  xi_syndrome :: u64
  xi_virtual_address :: u64
  xi_physical_address :: u64

section \<open>include/vcpu.h\<close>

datatype vcpu_state = VCPU_STATE_STOPPED | VCPU_STATE_RUNNING | VCPU_STATE_WAITING | VCPU_STATE_ERROR

record vcpu =
  c_hv_vcpu :: ref
  c_vm :: ref
  c_index :: int
  c_state :: vcpu_state
  c_should_stop :: bool
  c_initial_rip :: u64
  c_has_initial_state :: bool
  c_exit_count :: u64
  c_io_count :: u64
  c_mmio_count :: u64
  c_halt_count :: u64
  c_shutdown_count :: u64
  c_exception_count :: u64
  c_canceled_count :: u64
  c_vtimer_count :: u64
  c_unknown_count :: u64
  c_total_run_time_us :: u64
  c_instructions_executed :: u64

section \<open>include/vm.h\<close>

definition VM_MAX_SLOTS :: nat where "VM_MAX_SLOTS = 32"
definition VM_MAX_VCPUS :: int where "VM_MAX_VCPUS = 8"
definition VM_MAX_DEVICES :: nat where "VM_MAX_DEVICES = 16"

datatype vm_state = VM_STATE_STOPPED | VM_STATE_RUNNING | VM_STATE_PAUSED | VM_STATE_ERROR

record vm_mem_region =
  r_gpa :: u64
  r_hva :: ptr
  r_size :: u64
  r_slot :: u32
  r_used :: bool

record vm =
  v_hv_vm :: ref
  v_state :: vm_state
  v_mem_regions :: "vm_mem_region list"
  v_mem_size :: u64
  v_vcpus :: "ref list"
  v_num_vcpus :: int
  v_devices :: "ref list"
  v_num_devices :: nat
  v_kernel_path :: "string option"
  v_initrd_path :: "string option"
  v_cmdline :: "string option"
  v_irq_base :: int

section \<open>include/devices.h\<close>

text \<open>The operation tables a device can point to, one per device file.\<close>

datatype device_ops_id =
  Mmio_console_ops | Virtio_console_ops | Virtio_blk_ops | Virtio_net_ops | Vfio_device_ops

record device =
  d_ops :: "device_ops_id option"
  d_name :: "string option"
  d_vm :: ref
  d_gpa_start :: u64
  d_gpa_end :: u64
  d_size :: u64
  d_data :: ref
  d_irq :: int
  d_irq_fd :: int

section \<open>include/virtio.h\<close>

datatype virtio_device_id = VIRTIO_ID_NET | VIRTIO_ID_BLOCK | VIRTIO_ID_CONSOLE | VIRTIO_ID_RNG

fun virtio_id_num :: "virtio_device_id \<Rightarrow> u32" where
  "virtio_id_num VIRTIO_ID_NET = 1"
| "virtio_id_num VIRTIO_ID_BLOCK = 2"
| "virtio_id_num VIRTIO_ID_CONSOLE = 3"
| "virtio_id_num VIRTIO_ID_RNG = 4"

definition VRING_DESC_F_NEXT :: u16 where "VRING_DESC_F_NEXT = 1"

record vring_desc =
  desc_addr :: u64
  desc_len :: u32
  desc_flags :: u16
  desc_next :: u16

record virtqueue =
  q_dev :: ref
  q_index :: u16
  q_size :: u16
  q_desc_gpa :: u64
  q_avail_gpa :: u64
  q_used_gpa :: u64
  q_desc :: ptr
  q_avail :: ptr
  q_used :: ptr
  q_last_avail_idx :: u16
  q_last_used_idx :: u16
  q_ready :: int
  q_priv :: ref

text \<open>The drivers whose callbacks a virtio device can hold.\<close>

datatype virtio_driver = Drv_console | Drv_blk | Drv_net

text \<open>
  \<open>struct virtio_dev\<close> less its first member, the embedded \<open>struct device\<close>: that one
  lives under the same \<open>ref\<close>, which is what \<open>container_of\<close> computes.
\<close>

record virtio_dev =
  vd_device_id :: virtio_device_id
  vd_device_features :: u32
  vd_driver_features :: u32
  vd_device_status :: u8
  vd_queues :: "virtqueue list"
  vd_num_queues :: nat
  vd_queue_notify :: "virtio_driver option"
  vd_config_read :: "virtio_driver option"
  vd_config_write :: "virtio_driver option"
  vd_priv :: ref

section \<open>include/vfio.h\<close>

definition VFIO_MAX_REGIONS :: nat where "VFIO_MAX_REGIONS = 8"
definition VFIO_MAX_IRQS :: nat where "VFIO_MAX_IRQS = 32"

record vfio_region_info =
  ri_argsz :: u32
  ri_flags :: u32
  ri_index :: u32
  ri_cap_offset :: u32
  ri_size :: u64
  ri_offset :: u64

record vfio_irq_info =
  ii_argsz :: u32
  ii_flags :: u32
  ii_index :: u32
  ii_count :: u32

record vfio_device_info =
  di_argsz :: u32
  di_flags :: u32
  di_num_regions :: u32
  di_num_irqs :: u32

record vfio_region =
  vr_index :: u32
  vr_size :: u64
  vr_offset :: u64
  vr_gpa :: u64
  vr_hva :: ptr
  vr_flags :: u32

record vfio_irq =
  vi_index :: u32
  vi_count :: u32
  vi_type :: int
  vi_fds :: "int list"
  vi_enabled :: int

text \<open>
  \<open>struct vfio_dev\<close> less the members no code reads or writes: the embedded \<open>struct device\<close>, the
  class code, the revision and the name.
\<close>

record vfio_dev =
  vf_container_fd :: int
  vf_group_fd :: int
  vf_device_fd :: int
  vf_vendor_id :: u16
  vf_device_id :: u16
  vf_regions :: "vfio_region list"
  vf_num_regions :: int
  vf_irqs :: "vfio_irq list"
  vf_num_irqs :: int
  vf_iommu_group :: int

record vfio_container =
  vc_fd :: int

section \<open>Private structures of the device files\<close>

record mmio_console_state =
  u_rx_buf :: u8
  u_tx_buf :: u8
  u_ier :: u8
  u_iir :: u8
  u_lcr :: u8
  u_mcr :: u8
  u_lsr :: u8
  u_msr :: u8
  u_scr :: u8
  u_dll :: u8
  u_dlm :: u8
  u_dlab :: bool
  u_stdin_fd :: int
  u_log_file :: int

record virtio_console_state =
  con_cols :: u16
  con_rows :: u16
  con_max_nr_ports :: u32
  con_emerg_wr :: u32

record virtio_blk_state =
  blk_capacity :: u64
  blk_size_max :: u32
  blk_seg_max :: u32
  blk_cylinders :: u16
  blk_heads :: u8
  blk_sectors :: u8
  blk_cfg_blk_size :: u32
  blk_disk_fd :: int
  blk_disk_size :: u64
  blk_blk_size :: u32

record virtio_net_state =
  net_mac :: "u8 list"
  net_status :: u16
  net_max_virtqueue_pairs :: u16
  net_tap_fd :: int

end
