(* ===== verification/Host.thy ===== *)
theory Host
  imports Structs
begin

text \<open>
  The C runtime and the operating system under the program. \<open>host\<close> is the state of the
  process: the byte blocks the allocator handed out, one typed heap per C structure, the global
  variables and the history of external calls. \<open>env\<close> is everything outside the program: which
  allocations succeed and what each external call (system call, ioctl, thread or framework call)
  answers, as a function of the history of calls so far, so that a theorem about every \<open>env\<close>
  covers every failure pattern. The outcome \<^const>\<open>None\<close> of an operation is undefined
  behaviour: a null, freed or out-of-range access, a division by zero, a bad \<open>free\<close>.
\<close>

datatype arch = X86_64 | AARCH64
datatype os_kind = Linux | MacOS

datatype syscall =
    SYS_eventfd
  | SYS_open string string
  | SYS_close int
  | SYS_read int nat
  | SYS_write int "u8 list"
  | SYS_pread int nat u64
  | SYS_pwrite int "u8 list" u64
  | SYS_fstat int
  | SYS_fcntl int string
  | SYS_ioctl int string "u64 list"
  | SYS_mmap int u64 u64
  | SYS_munmap ptr u64
  | SYS_fopen string string
  | SYS_fputc int u8
  | SYS_fsize int
  | SYS_fread int nat
  | SYS_fclose int
  | SYS_pthread_create ref
  | SYS_pthread_cancel ref
  | SYS_pthread_join ref
  | SYS_hvf string "u64 list"

text \<open>
  An answer: the return value, \<open>errno\<close>, the fields an ioctl wrote back (each zero-extended
  to 64 bits) and the bytes a read delivered.
\<close>

record answer =
  a_ret :: int
  a_errno :: int
  a_words :: "u64 list"
  a_bytes :: "u8 list"

text \<open>
  \<open>guest_writes\<close> is what a running guest and the kernel write while a vCPU runs: for each block
  and index the new byte, if any. \<open>oversized_shift\<close> is what the compiler makes of a shift by
  the full width of its operand, which C leaves undefined. The last five are constants of the headers
  of the Apple framework.
\<close>

record env =
  alloc_ok :: "nat \<Rightarrow> bool"
  answer_of :: "syscall list \<Rightarrow> syscall \<Rightarrow> answer"
  guest_writes :: "syscall list \<Rightarrow> nat \<Rightarrow> nat \<Rightarrow> u8 option"
  oversized_shift :: u32
  arch_of :: arch
  os_of :: os_kind
  HV_ERROR :: int
  HV_UNSUPPORTED :: int
  HV_EXIT_REASON_CANCELED :: u32
  HV_EXIT_REASON_EXCEPTION :: u32
  HV_EXIT_REASON_VTIMER_ACTIVATED :: u32

record host =
  mem :: "nat \<Rightarrow> u8 list option"
  next_ref :: nat
  history :: "syscall list"
  stdout_bytes :: "u8 list"
  errno :: int
  log_level :: int
  g_hv_ops :: "hv_backend option"
  kvm_fd :: int
  vms :: "ref \<Rightarrow> vm option"
  vcpus :: "ref \<Rightarrow> vcpu option"
  hv_vms :: "ref \<Rightarrow> hv_vm option"
  hv_vcpus :: "ref \<Rightarrow> hv_vcpu option"
  devs :: "ref \<Rightarrow> device option"
  vdevs :: "ref \<Rightarrow> virtio_dev option"
  uarts :: "ref \<Rightarrow> mmio_console_state option"
  consoles :: "ref \<Rightarrow> virtio_console_state option"
  blks :: "ref \<Rightarrow> virtio_blk_state option"
  nets :: "ref \<Rightarrow> virtio_net_state option"
  vfios :: "ref \<Rightarrow> vfio_dev option"
  vconts :: "ref \<Rightarrow> vfio_container option"
  fw_exits :: "nat \<Rightarrow> hv_vcpu_exit_info option"

definition LOG_LEVEL_INFO :: int where "LOG_LEVEL_INFO = 3"

text \<open>The process at the start of \<open>main\<close>, and an environment in which everything works.\<close>

definition init_host :: host where
  "init_host =
     \<lparr>mem = (\<lambda>_. None), next_ref = 1, history = [], stdout_bytes = [], errno = 0,
      log_level = LOG_LEVEL_INFO, g_hv_ops = None, kvm_fd = -1,
      vms = (\<lambda>_. None), vcpus = (\<lambda>_. None), hv_vms = (\<lambda>_. None), hv_vcpus = (\<lambda>_. None),
      devs = (\<lambda>_. None), vdevs = (\<lambda>_. None), uarts = (\<lambda>_. None), consoles = (\<lambda>_. None),
      blks = (\<lambda>_. None), nets = (\<lambda>_. None), vfios = (\<lambda>_. None), vconts = (\<lambda>_. None),
      fw_exits = (\<lambda>_. None)\<rparr>"

definition answer_ok :: "int \<Rightarrow> answer" where
  "answer_ok r = \<lparr>a_ret = r, a_errno = 0, a_words = [], a_bytes = []\<rparr>"

definition ok_env :: env where
  "ok_env = \<lparr>alloc_ok = (\<lambda>_. True), answer_of = (\<lambda>_ _. answer_ok 0), guest_writes = (\<lambda>_ _ _. None),
     oversized_shift = 0, arch_of = X86_64, os_of = Linux, HV_ERROR = - 0x516BFFF, HV_UNSUPPORTED = - 0x516BFF1,
     HV_EXIT_REASON_CANCELED = 0, HV_EXIT_REASON_EXCEPTION = 1, HV_EXIT_REASON_VTIMER_ACTIVATED = 2\<rparr>"

section \<open>External calls\<close>

text \<open>
  A call asks the environment, is entered in the history (latest first) and sets \<open>errno\<close>
  when it fails.
\<close>

definition syscall :: "env \<Rightarrow> syscall \<Rightarrow> host \<Rightarrow> answer \<times> host" where
  "syscall E c s =
     (let a = answer_of E (history s) c
      in (a, s\<lparr>history := c # history s,
               errno := (if a_ret a < 0 then a_errno a else errno s)\<rparr>))"

section \<open>Allocation\<close>

text \<open>
  Every allocation takes the next number, whether it succeeds or not; a failed one returns the
  null reference 0.
\<close>

definition alloc :: "env \<Rightarrow> host \<Rightarrow> ref \<times> host" where
  "alloc E s =
     (if alloc_ok E (next_ref s) then next_ref s else 0, s\<lparr>next_ref := Suc (next_ref s)\<rparr>)"

text \<open>\<open>calloc(1, n)\<close> and \<open>malloc(n)\<close> of a byte buffer; the latter with given contents.\<close>

definition alloc_bytes :: "env \<Rightarrow> u8 list \<Rightarrow> host \<Rightarrow> ptr \<times> host" where
  "alloc_bytes E bs s =
     (case alloc E s of (b, s') \<Rightarrow>
        if b = 0 then (NULL, s') else (Ptr b 0, s'\<lparr>mem := (mem s')(b \<mapsto> bs)\<rparr>))"

definition calloc :: "env \<Rightarrow> u64 \<Rightarrow> host \<Rightarrow> ptr \<times> host" where
  "calloc E n = alloc_bytes E (replicate (unat n) 0)"

text \<open>\<open>free\<close>: the null pointer, or the start of a live block.\<close>

fun free :: "ptr \<Rightarrow> host \<Rightarrow> host option" where
  "free (Ptr b off) s =
     (if b = 0 \<and> off = 0 then Some s
      else if off = 0 \<and> mem s b \<noteq> None then Some (s\<lparr>mem := (mem s)(b := None)\<rparr>)
      else None)"

section \<open>Byte access\<close>

fun load :: "host \<Rightarrow> ptr \<Rightarrow> nat \<Rightarrow> u8 list option" where
  "load s (Ptr b off) n =
     (case mem s b of None \<Rightarrow> None
      | Some bs \<Rightarrow> if unat off + n \<le> length bs then Some (subrange bs (unat off) n) else None)"

fun store :: "ptr \<Rightarrow> u8 list \<Rightarrow> host \<Rightarrow> host option" where
  "store (Ptr b off) xs s =
     (case mem s b of None \<Rightarrow> None
      | Some bs \<Rightarrow> if unat off + length xs \<le> length bs
          then Some (s\<lparr>mem := (mem s)(b \<mapsto> splice bs (unat off) xs)\<rparr>) else None)"

definition load_word :: "host \<Rightarrow> ptr \<Rightarrow> nat \<Rightarrow> 'a::len word option" where
  "load_word s p n = map_option le_word (load s p n)"

definition store_word :: "ptr \<Rightarrow> nat \<Rightarrow> 'a::len word \<Rightarrow> host \<Rightarrow> host option" where
  "store_word p n w s = store p (le_bytes n w) s"

text \<open>A write into the buffer a caller passed by address.\<close>

definition put_buf :: "u8 list \<Rightarrow> nat \<Rightarrow> u8 list \<Rightarrow> u8 list option" where
  "put_buf buf i xs = (if i + length xs \<le> length buf then Some (splice buf i xs) else None)"

fun ptr_block :: "ptr \<Rightarrow> nat" where
  "ptr_block (Ptr b off) = b"

text \<open>
  \<open>mmap\<close> of a device or run area: a new block with the bytes the kernel shows there, or
  \<open>MAP_FAILED\<close>, for which the null pointer stands.
\<close>

definition mmap :: "env \<Rightarrow> int \<Rightarrow> int \<Rightarrow> u64 \<Rightarrow> host \<Rightarrow> ptr \<times> host" where
  "mmap E fd len off s =
     (let (a, s1) = syscall E (SYS_mmap fd (of_int len) off) s in
      if a_ret a < 0 then (NULL, s1)
      else (Ptr (next_ref s1) 0,
            s1\<lparr>next_ref := Suc (next_ref s1),
               mem := (mem s1)(next_ref s1 \<mapsto> take (nat len) (a_bytes a @ replicate (nat len) 0))\<rparr>))"

definition munmap :: "env \<Rightarrow> ptr \<Rightarrow> int \<Rightarrow> host \<Rightarrow> host" where
  "munmap E p len s =
     (let s1 = snd (syscall E (SYS_munmap p (of_int len)) s) in
      s1\<lparr>mem := (mem s1)(ptr_block p := None)\<rparr>)"

section \<open>Structures, output and the running guest\<close>

text \<open>
  \<open>free\<close> of a structure: the null pointer or a live one, which is then dead in every heap. A
  virtio device is the structure under its reference in two heaps.
\<close>

definition obj_live :: "host \<Rightarrow> ref \<Rightarrow> bool" where
  "obj_live s r \<longleftrightarrow> vms s r \<noteq> None \<or> vcpus s r \<noteq> None \<or> hv_vms s r \<noteq> None \<or> hv_vcpus s r \<noteq> None
     \<or> devs s r \<noteq> None \<or> vdevs s r \<noteq> None \<or> uarts s r \<noteq> None \<or> consoles s r \<noteq> None
     \<or> blks s r \<noteq> None \<or> nets s r \<noteq> None \<or> vfios s r \<noteq> None \<or> vconts s r \<noteq> None"

definition free_obj :: "ref \<Rightarrow> host \<Rightarrow> host option" where
  "free_obj r s =
     (if r = 0 then Some s
      else if obj_live s r
      then Some (s\<lparr>vms := (vms s)(r := None), vcpus := (vcpus s)(r := None),
                   hv_vms := (hv_vms s)(r := None), hv_vcpus := (hv_vcpus s)(r := None),
                   devs := (devs s)(r := None), vdevs := (vdevs s)(r := None),
                   uarts := (uarts s)(r := None), consoles := (consoles s)(r := None),
                   blks := (blks s)(r := None), nets := (nets s)(r := None),
                   vfios := (vfios s)(r := None), vconts := (vconts s)(r := None)\<rparr>)
      else None)"

text \<open>The numbers still to be handed out name nothing.\<close>

definition fresh_heap :: "host \<Rightarrow> bool" where
  "fresh_heap s \<longleftrightarrow> next_ref s \<noteq> 0 \<and> (\<forall>r \<ge> next_ref s. \<not> obj_live s r \<and> mem s r = None)"

text \<open>\<open>strdup\<close> of a name: the copy, unless the allocation fails.\<close>

definition strdup :: "env \<Rightarrow> string \<Rightarrow> host \<Rightarrow> string option \<times> host" where
  "strdup E str s = (case alloc E s of (r, s') \<Rightarrow> (if r = 0 then None else Some str, s'))"

definition putchar :: "u8 \<Rightarrow> host \<Rightarrow> host" where
  "putchar b s = s\<lparr>stdout_bytes := stdout_bytes s @ [b]\<rparr>"

definition guest_runs :: "env \<Rightarrow> host \<Rightarrow> host" where
  "guest_runs E s =
     s\<lparr>mem := (\<lambda>b. map_option
          (\<lambda>bs. map (\<lambda>i. case guest_writes E (history s) b i of None \<Rightarrow> bs ! i | Some x \<Rightarrow> x) [0..<length bs])
          (mem s b))\<rparr>"

section \<open>Frames\<close>

text \<open>
  What an operation may change. \<open>io_only\<close>: nothing but the record of external calls and
  \<open>errno\<close>. \<open>handler_frame\<close>: neither the machine, its processors, the devices registered
  with it and the backend handles, nor the shape of any memory block; only contents of memory,
  device state, output and the record of calls.
\<close>

definition io_only :: "host \<Rightarrow> host \<Rightarrow> bool" where
  "io_only s s' \<longleftrightarrow> s' = s\<lparr>history := history s', errno := errno s'\<rparr>"

definition handler_frame :: "host \<Rightarrow> host \<Rightarrow> bool" where
  "handler_frame s s' \<longleftrightarrow> vms s' = vms s \<and> vcpus s' = vcpus s \<and> devs s' = devs s
     \<and> hv_vms s' = hv_vms s \<and> hv_vcpus s' = hv_vcpus s \<and> g_hv_ops s' = g_hv_ops s
     \<and> kvm_fd s' = kvm_fd s \<and> log_level s' = log_level s \<and> next_ref s' = next_ref s
     \<and> (\<forall>b. map_option length (mem s' b) = map_option length (mem s b))"

named_theorems frame_intros \<open>which operations respect the frames\<close>

lemma io_only_refl [frame_intros]: "io_only s s"
  by (simp add: io_only_def)

lemma io_only_trans: "io_only s s' \<Longrightarrow> io_only s' s'' \<Longrightarrow> io_only s s''"
  unfolding io_only_def by (cases s; cases s'; cases s'') simp

lemma syscall_io_only [frame_intros]: "syscall E c s = (a, s') \<Longrightarrow> io_only s s'"
  by (auto simp: syscall_def io_only_def Let_def)

lemma syscall_snd_io [frame_intros]: "io_only s (snd (syscall E c s))"
  by (rule syscall_io_only [OF prod.collapse [symmetric]])

lemma io_only_frame: "io_only s s' \<Longrightarrow> handler_frame s s'"
  unfolding io_only_def handler_frame_def by (cases s; cases s') simp

lemma foldl_syscall_io: "io_only s (foldl (\<lambda>s b. snd (syscall E (c b) s)) s bs)"
proof (induction bs arbitrary: s)
  case (Cons b bs)
  then show ?case by (auto intro: io_only_trans [OF syscall_snd_io])
qed (simp add: frame_intros)

lemma io_only_heaps:
  assumes "io_only s s'"
  shows "devs s' = devs s" "uarts s' = uarts s" "vms s' = vms s" "vdevs s' = vdevs s" "mem s' = mem s"
    "next_ref s' = next_ref s" "stdout_bytes s' = stdout_bytes s" "g_hv_ops s' = g_hv_ops s"
    "consoles s' = consoles s" "blks s' = blks s" "nets s' = nets s" "hv_vms s' = hv_vms s"
    "hv_vcpus s' = hv_vcpus s" "vcpus s' = vcpus s" "vfios s' = vfios s" "vconts s' = vconts s"
    "fw_exits s' = fw_exits s" "obj_live s' = obj_live s"
  using assms unfolding io_only_def obj_live_def [abs_def] by (cases s; cases s'; simp)+

lemma handler_frame_refl [frame_intros]: "handler_frame s s"
  by (simp add: handler_frame_def)

lemma handler_frame_trans: "handler_frame s s' \<Longrightarrow> handler_frame s' s'' \<Longrightarrow> handler_frame s s''"
  by (simp add: handler_frame_def)

lemma syscall_frame [frame_intros]: "syscall E c s = (a, s') \<Longrightarrow> handler_frame s s'"
  by (rule io_only_frame, rule syscall_io_only)

lemma syscall_parts:
  assumes "syscall E c s = (a, s')"
  shows "a = answer_of E (history s) c" and "history s' = c # history s" and "mem s' = mem s"
    and "stdout_bytes s' = stdout_bytes s" and "devs s' = devs s" and "vdevs s' = vdevs s"
    and "vms s' = vms s"
  using assms by (auto simp: syscall_def Let_def)

lemma putchar_frame [frame_intros]: "handler_frame s (putchar b s)"
  by (simp add: handler_frame_def putchar_def)

lemma guest_runs_frame [frame_intros]: "handler_frame s (guest_runs E s)"
  by (simp add: handler_frame_def guest_runs_def option.map_comp comp_def)

section \<open>Laws of the byte memory\<close>

fun separate :: "ptr \<Rightarrow> nat \<Rightarrow> ptr \<Rightarrow> nat \<Rightarrow> bool" where
  "separate (Ptr b i) m (Ptr c j) n \<longleftrightarrow> b \<noteq> c \<or> unat i + m \<le> unat j \<or> unat j + n \<le> unat i"

text \<open>
  What the program relies on when it copies bytes through pointers: a read returns as many bytes
  as it asked for, a write is defined exactly where a read of the same range is, it is read back,
  and it changes nothing outside its range.
\<close>

locale byte_memory =
  fixes rd :: "'s \<Rightarrow> ptr \<Rightarrow> nat \<Rightarrow> u8 list option"
    and wr :: "ptr \<Rightarrow> u8 list \<Rightarrow> 's \<Rightarrow> 's option"
  assumes rd_length: "rd s p n = Some bs \<Longrightarrow> length bs = n"
    and wr_defined: "wr p xs s \<noteq> None \<longleftrightarrow> rd s p (length xs) \<noteq> None"
    and rd_wr_same: "wr p xs s = Some s' \<Longrightarrow> rd s' p (length xs) = Some xs"
    and rd_wr_other: "wr p xs s = Some s' \<Longrightarrow> separate p (length xs) q n \<Longrightarrow> rd s' q n = rd s q n"
begin

lemma write_then_read:
  assumes "rd s p (length xs) = Some old"
  shows "\<exists>s'. wr p xs s = Some s' \<and> rd s' p (length xs) = Some xs"
  using assms wr_defined [of p xs s] by (auto dest: rd_wr_same)

lemma copy_then_read:
  assumes "rd s q n = Some xs" and "rd s p n = Some old" and "separate p n q n"
  shows "\<exists>s'. wr p xs s = Some s' \<and> rd s' p n = Some xs \<and> rd s' q n = Some xs"
proof -
  have n: "length xs = n" using assms(1) by (rule rd_length)
  then obtain s' where s': "wr p xs s = Some s'" and "rd s' p (length xs) = Some xs"
    using write_then_read assms(2) by blast
  moreover have "rd s' q n = rd s q n"
    using s' assms(3) n by (simp add: rd_wr_other)
  ultimately show ?thesis
    using assms(1) n by auto
qed

lemma writes_commute_read:
  assumes "wr p xs s = Some s'" and "wr q ys s' = Some s''" and "separate q (length ys) p (length xs)"
  shows "rd s'' p (length xs) = Some xs \<and> rd s'' q (length ys) = Some ys"
  using assms rd_wr_same rd_wr_other by metis

end

interpretation hm: byte_memory load store
proof
  fix s p n bs
  show "load s p n = Some bs \<Longrightarrow> length bs = n"
    by (cases p) (auto simp: array_simps split: option.splits if_splits)
next
  fix p xs s
  show "store p xs s \<noteq> None \<longleftrightarrow> load s p (length xs) \<noteq> None"
    by (cases p) (auto split: option.splits)
next
  fix p xs s s'
  show "store p xs s = Some s' \<Longrightarrow> load s' p (length xs) = Some xs"
    by (cases p) (auto simp: array_simps split: option.splits if_splits)
next
  fix p xs s s' q n
  show "store p xs s = Some s' \<Longrightarrow> separate p (length xs) q n \<Longrightarrow> load s' q n = load s q n"
    by (cases p; cases q) (auto simp: array_simps split: option.splits if_splits)
qed

lemma load_mem_cong: "mem s' = mem s \<Longrightarrow> load s' q n = load s q n"
  by (cases q) simp

lemma store_frame:
  assumes "store p xs s = Some s'"
  shows "s' = s\<lparr>mem := mem s'\<rparr>"
  using assms by (cases p) (auto split: option.splits if_splits)

lemma store_fields:
  assumes "store p xs s = Some s'"
  shows "stdout_bytes s' = stdout_bytes s" "history s' = history s" "devs s' = devs s" "vdevs s' = vdevs s"
    "vms s' = vms s" "consoles s' = consoles s" "blks s' = blks s" "nets s' = nets s"
  using assms by (cases p; auto split: option.splits if_splits)+

lemma store_keeps_blocks:
  assumes "store p xs s = Some s'"
  shows "map_option length (mem s' b) = map_option length (mem s b)"
  using assms by (cases p) (auto simp: array_simps split: option.splits if_splits)

lemma store_handler_frame [frame_intros]: "store p xs s = Some s' \<Longrightarrow> handler_frame s s'"
  using store_frame [of p xs s s'] store_keeps_blocks [of p xs s s']
  unfolding handler_frame_def by (cases s; cases s') auto

lemma load_word_store_word:
  assumes "store_word p n (w :: 'a::len word) s = Some s'" and "LENGTH('a) \<le> 8 * n"
  shows "load_word s' p n = Some w"
  using assms hm.rd_wr_same [of p "le_bytes n w" s s']
  by (simp add: load_word_def store_word_def)

text \<open>
  Which ranges are readable depends only on the lengths of the blocks, so a write keeps every
  range readable.
\<close>

lemma load_defined_blocks:
  assumes "\<And>b. map_option length (mem s' b) = map_option length (mem s b)"
  shows "(load s' p n \<noteq> None) = (load s p n \<noteq> None)"
proof (cases p)
  case (Ptr b off)
  with assms [of b] show ?thesis
    by (cases "mem s b"; cases "mem s' b") auto
qed

lemma store_keeps_readable:
  "store p xs s = Some s' \<Longrightarrow> (load s' q n \<noteq> None) = (load s q n \<noteq> None)"
  by (rule load_defined_blocks) (rule store_keeps_blocks)

lemma frame_keeps_readable:
  "handler_frame s s' \<Longrightarrow> (load s' q n \<noteq> None) = (load s q n \<noteq> None)"
  by (rule load_defined_blocks) (simp add: handler_frame_def)

lemma load_sub:
  assumes "load s (Ptr b off) m \<noteq> None" and "unat k + n \<le> m" and "unat off + unat k < 2 ^ 64"
  shows "load s (ptr_add (Ptr b off) k) n \<noteq> None"
proof -
  have "unat (off + k) = unat off + unat k"
    using assms(3) by (simp add: unat_word_ariths)
  with assms(1,2) show ?thesis
    by (auto split: option.splits if_splits)
qed

section \<open>Guest memory through a translation\<close>

text \<open>
  The contract between guest memory and its users: a context (a memory context of mm.c, a
  machine of vm.c) translates a guest range to a host pointer or to null. Where the context is
  backed by live host memory and the range does not wrap around the address space, a non-null
  answer may be read and written in full.
\<close>

definition no_wrap :: "u64 \<Rightarrow> nat \<Rightarrow> bool" where
  "no_wrap a n \<longleftrightarrow> unat a + n < 2 ^ 64"

lemma unat_no_wrap: "no_wrap a (unat n) \<Longrightarrow> unat (a + n) = unat a + unat n"
  by (simp add: no_wrap_def unat_word_ariths)

text \<open>
  One range of guest addresses, \<open>sz\<close> bytes from \<open>base\<close>, backed by the host buffer at
  \<open>hva\<close>.
\<close>

definition range_backed :: "host \<Rightarrow> u64 \<Rightarrow> ptr \<Rightarrow> u64 \<Rightarrow> bool" where
  "range_backed s base hva sz \<longleftrightarrow> no_wrap base (unat sz)
     \<and> (case hva of Ptr b off \<Rightarrow> b \<noteq> 0 \<and> no_wrap off (unat sz))
     \<and> load s hva (unat sz) \<noteq> None"

definition in_range :: "u64 \<Rightarrow> u64 \<Rightarrow> u64 \<Rightarrow> nat \<Rightarrow> bool" where
  "in_range base sz gpa n \<longleftrightarrow> unat base \<le> unat gpa \<and> unat gpa + n \<le> unat base + unat sz"

lemma ptr_block_add [simp]: "ptr_block (ptr_add p k) = ptr_block p"
  by (cases p) simp

lemma ptr_add_add: "ptr_add (ptr_add p j) k = ptr_add p (j + k)"
  by (cases p) (simp add: add.assoc)

lemma range_backed_not_NULL: "range_backed s base hva sz \<Longrightarrow> ptr_add hva k \<noteq> NULL"
  by (cases hva) (simp add: range_backed_def)

lemma range_backed_store:
  "range_backed s base hva sz \<Longrightarrow> store p xs s = Some s' \<Longrightarrow> range_backed s' base hva sz"
  using store_keeps_readable [of p xs s s'] by (auto simp: range_backed_def)

lemma range_backed_frame:
  "range_backed s base hva sz \<Longrightarrow> handler_frame s s' \<Longrightarrow> range_backed s' base hva sz"
  using frame_keeps_readable [of s s'] by (auto simp: range_backed_def)

lemma unat_offset: "in_range base sz gpa n \<Longrightarrow> unat (gpa - base) = unat gpa - unat base"
  by (simp add: in_range_def unat_sub word_le_nat_alt)

lemma range_readable:
  assumes "range_backed s base hva sz" and "in_range base sz gpa n"
  shows "load s (ptr_add hva (gpa - base)) n \<noteq> None"
proof (cases hva)
  case (Ptr b off)
  have inside: "unat (gpa - base) + n \<le> unat sz"
    using assms(2) unat_offset [OF assms(2)] by (auto simp: in_range_def)
  moreover have "unat off + unat (gpa - base) < 2 ^ 64"
    using assms(1) Ptr inside by (simp add: range_backed_def no_wrap_def)
  ultimately show ?thesis
    using assms(1) Ptr load_sub [of s b off "unat sz"] by (simp add: range_backed_def)
qed

lemma range_separate:
  assumes "range_backed s base hva sz" and "in_range base sz gpa n" and "in_range base sz g m"
    and "unat gpa + n \<le> unat g \<or> unat g + m \<le> unat gpa"
  shows "separate (ptr_add hva (gpa - base)) n (ptr_add hva (g - base)) m"
proof (cases hva)
  case (Ptr b off)
  have "unat (off + (gpa - base)) = unat off + (unat gpa - unat base)"
    and "unat (off + (g - base)) = unat off + (unat g - unat base)"
    using assms(1-3) Ptr unat_offset [OF assms(2)] unat_offset [OF assms(3)]
    by (auto simp: range_backed_def no_wrap_def in_range_def unat_word_ariths(1))
  with Ptr assms(2-4) show ?thesis by (auto simp: in_range_def)
qed

lemma range_no_wrap:
  assumes "range_backed s base hva sz" and "in_range base sz gpa n"
    and "ptr_add hva (gpa - base) = Ptr b off"
  shows "no_wrap off n"
proof (cases hva)
  case (Ptr b' off')
  have "unat (off' + (gpa - base)) = unat off' + (unat gpa - unat base)"
    using assms(1,2) Ptr unat_offset [OF assms(2)]
    by (auto simp: range_backed_def no_wrap_def in_range_def unat_word_ariths(1))
  with assms Ptr show ?thesis by (auto simp: range_backed_def no_wrap_def in_range_def)
qed

lemma separate_blocks: "ptr_block p \<noteq> ptr_block q \<Longrightarrow> separate p m q n"
  by (cases p; cases q) simp

lemma load_inside:
  assumes "load s (Ptr b off) n = Some xs" and "unat k < n" and "no_wrap off n"
  shows "load s (ptr_add (Ptr b off) k) 1 = Some [xs ! unat k]"
proof -
  have "unat (off + k) = unat off + unat k"
    using assms by (simp add: no_wrap_def unat_word_ariths(1))
  then show ?thesis
    using assms by (auto simp: array_simps split: option.splits if_splits)
qed

locale guest_translation =
  fixes translate :: "'c \<Rightarrow> u64 \<Rightarrow> u64 \<Rightarrow> ptr"
    and backed :: "'c \<Rightarrow> host \<Rightarrow> bool"
  assumes translate_readable:
      "backed c s \<Longrightarrow> no_wrap gpa (unat n) \<Longrightarrow> translate c gpa n \<noteq> NULL \<Longrightarrow>
       load s (translate c gpa n) (unat n) \<noteq> None"
    and translate_no_wrap:
      "backed c s \<Longrightarrow> no_wrap gpa (unat n) \<Longrightarrow> translate c gpa n = Ptr b off \<Longrightarrow> Ptr b off \<noteq> NULL \<Longrightarrow>
       no_wrap off (unat n)"
    and backed_store: "backed c s \<Longrightarrow> store p xs s = Some s' \<Longrightarrow> backed c s'"
begin

lemma guest_write_read:
  assumes "backed c s" and "no_wrap gpa (unat n)" and "translate c gpa n \<noteq> NULL"
    and "length xs = unat n"
  shows "\<exists>s'. store (translate c gpa n) xs s = Some s'
           \<and> load s' (translate c gpa n) (unat n) = Some xs \<and> backed c s'"
proof -
  obtain old where "load s (translate c gpa n) (length xs) = Some old"
    using translate_readable assms by fastforce
  then obtain s' where "store (translate c gpa n) xs s = Some s'"
    and "load s' (translate c gpa n) (length xs) = Some xs"
    using hm.write_then_read by blast
  then show ?thesis using assms(1,4) backed_store by auto
qed

lemma guest_read_defined:
  assumes "backed c s" and "no_wrap gpa (unat n)" and "translate c gpa n \<noteq> NULL"
  obtains bs where "load s (translate c gpa n) (unat n) = Some bs" and "length bs = unat n"
  using translate_readable [OF assms] hm.rd_length by blast

end

text \<open>
  Guest memory as the guest sees it: the byte at a guest physical address, if the context maps
  it.
\<close>

definition guest_byte :: "(u64 \<Rightarrow> u64 \<Rightarrow> ptr) \<Rightarrow> host \<Rightarrow> u64 \<Rightarrow> u8 option" where
  "guest_byte tr s g = (if tr g 1 = NULL then None else map_option hd (load s (tr g 1) 1))"

text \<open>
  When the ranges of a context neither overlap in guest space nor share host memory, translation
  is injective, and a write through it is exactly an update of the guest's view.
\<close>

locale guest_map = guest_translation translate backed
  for translate :: "'c \<Rightarrow> u64 \<Rightarrow> u64 \<Rightarrow> ptr" and backed :: "'c \<Rightarrow> host \<Rightarrow> bool" +
  fixes apart :: "'c \<Rightarrow> bool"
  assumes translate_inside:
      "backed c s \<Longrightarrow> apart c \<Longrightarrow> no_wrap gpa (unat n) \<Longrightarrow> translate c gpa n \<noteq> NULL \<Longrightarrow>
       unat k < unat n \<Longrightarrow>
       translate c (gpa + k) 1 = ptr_add (translate c gpa n) k \<and> translate c (gpa + k) 1 \<noteq> NULL"
    and translate_outside:
      "backed c s \<Longrightarrow> apart c \<Longrightarrow> no_wrap gpa (unat n) \<Longrightarrow> translate c gpa n \<noteq> NULL \<Longrightarrow>
       no_wrap g 1 \<Longrightarrow> translate c g 1 \<noteq> NULL \<Longrightarrow>
       \<not> (unat gpa \<le> unat g \<and> unat g < unat gpa + unat n) \<Longrightarrow>
       separate (translate c gpa n) (unat n) (translate c g 1) 1"
begin

lemma guest_write_map:
  assumes "backed c s" and "apart c" and "no_wrap gpa (unat n)" and "translate c gpa n \<noteq> NULL"
    and "length xs = unat n"
  shows "\<exists>s'. store (translate c gpa n) xs s = Some s' \<and> backed c s'
     \<and> (\<forall>g. no_wrap g 1 \<longrightarrow> guest_byte (translate c) s' g =
           (if unat gpa \<le> unat g \<and> unat g < unat gpa + unat n
            then Some (xs ! (unat g - unat gpa)) else guest_byte (translate c) s g))"
proof -
  obtain s' where st: "store (translate c gpa n) xs s = Some s'"
    and ld: "load s' (translate c gpa n) (unat n) = Some xs" and bk: "backed c s'"
    using guest_write_read assms by blast
  obtain b off where p: "translate c gpa n = Ptr b off" by (cases "translate c gpa n")
  have nw: "no_wrap off (unat n)"
    using translate_no_wrap assms(1,3,4) p by metis
  have inside: "guest_byte (translate c) s' g = Some (xs ! (unat g - unat gpa))"
    if "unat gpa \<le> unat g" "unat g < unat gpa + unat n" for g
  proof -
    have k: "unat (g - gpa) = unat g - unat gpa"
      using that by (simp add: unat_sub word_le_nat_alt)
    then have "unat (g - gpa) < unat n" using that by simp
    then have "translate c (gpa + (g - gpa)) 1 = ptr_add (Ptr b off) (g - gpa)"
      and nn: "translate c (gpa + (g - gpa)) 1 \<noteq> NULL"
      using translate_inside [OF assms(1-4), of "g - gpa"] p by metis+
    then have eq: "translate c g 1 = ptr_add (Ptr b off) (g - gpa)" by simp
    moreover have "ptr_add (Ptr b off) (g - gpa) \<noteq> NULL"
      using nn unfolding eq [symmetric] by simp
    moreover have "load s' (ptr_add (Ptr b off) (g - gpa)) 1 = Some [xs ! unat (g - gpa)]"
      using load_inside [of s' b off "unat n" xs "g - gpa"] ld p nw k that by simp
    ultimately show ?thesis unfolding guest_byte_def by (simp add: k del: load.simps ptr_add.simps)
  qed
  have outside: "guest_byte (translate c) s' g = guest_byte (translate c) s g"
    if "no_wrap g 1" "\<not> (unat gpa \<le> unat g \<and> unat g < unat gpa + unat n)" for g
  proof (cases "translate c g 1 = NULL")
    case False
    then have "separate (translate c gpa n) (length xs) (translate c g 1) 1"
      using translate_outside [OF assms(1-4) that(1)] that(2) assms(5) by simp
    then show ?thesis using hm.rd_wr_other [OF st] by (simp add: guest_byte_def)
  qed (simp add: guest_byte_def)
  show ?thesis using st bk inside outside by (intro exI [of _ s']) auto
qed

end

text \<open>
  Both providers of guest memory keep a table of ranges and search it. The two laws below are
  all that has to be shown of a search: an answer lies in a range of the table, and an address in
  a range is answered from it.
\<close>

type_synonym range_table = "nat \<Rightarrow> (u64 \<times> ptr \<times> u64) option"

definition table_backed :: "range_table \<Rightarrow> host \<Rightarrow> bool" where
  "table_backed t s \<longleftrightarrow> (\<forall>i base hva sz. t i = Some (base, hva, sz) \<longrightarrow> range_backed s base hva sz)"

definition table_apart :: "range_table \<Rightarrow> bool" where
  "table_apart t \<longleftrightarrow> (\<forall>i j base hva sz base' hva' sz'.
     i \<noteq> j \<longrightarrow> t i = Some (base, hva, sz) \<longrightarrow> t j = Some (base', hva', sz') \<longrightarrow>
     ptr_block hva \<noteq> ptr_block hva' \<and> (\<forall>g. \<not> (in_range base sz g 1 \<and> in_range base' sz' g 1)))"

lemma table_apartD:
  "table_apart t \<Longrightarrow> t i = Some (b, h, z) \<Longrightarrow> t j = Some (b', h', z') \<Longrightarrow> i \<noteq> j \<Longrightarrow> in_range b z g 1 \<Longrightarrow>
   \<not> in_range b' z' g 1"
  unfolding table_apart_def by blast

locale region_table =
  fixes tbl :: "'c \<Rightarrow> range_table"
    and translate :: "'c \<Rightarrow> u64 \<Rightarrow> u64 \<Rightarrow> ptr"
  assumes translate_hit:
      "table_backed (tbl c) s \<Longrightarrow> no_wrap gpa (unat n) \<Longrightarrow> translate c gpa n \<noteq> NULL \<Longrightarrow>
       \<exists>i base hva sz. tbl c i = Some (base, hva, sz) \<and> in_range base sz gpa (unat n)
         \<and> translate c gpa n = ptr_add hva (gpa - base)"
    and translate_one:
      "table_backed (tbl c) s \<Longrightarrow> table_apart (tbl c) \<Longrightarrow> tbl c i = Some (base, hva, sz) \<Longrightarrow>
       in_range base sz g 1 \<Longrightarrow> translate c g 1 = ptr_add hva (g - base)"

sublocale region_table \<subseteq> guest_map translate "\<lambda>c. table_backed (tbl c)" "\<lambda>c. table_apart (tbl c)"
proof
  fix c s gpa n
  assume "table_backed (tbl c) s" "no_wrap gpa (unat n)" "translate c gpa n \<noteq> NULL"
  then show "load s (translate c gpa n) (unat n) \<noteq> None"
    using translate_hit [of c s gpa n] range_readable unfolding table_backed_def by metis
next
  fix c s gpa n b off
  assume "table_backed (tbl c) s" "no_wrap gpa (unat n)" "translate c gpa n = Ptr b off" "Ptr b off \<noteq> NULL"
  then show "no_wrap off (unat n)"
    using translate_hit [of c s gpa n] range_no_wrap unfolding table_backed_def by metis
next
  fix c s p xs s'
  assume "table_backed (tbl c) s" "store p xs s = Some s'"
  then show "table_backed (tbl c) s'"
    unfolding table_backed_def by (metis range_backed_store)
next
  fix c s gpa n and k :: u64
  assume bk: "table_backed (tbl c) s" and ap: "table_apart (tbl c)" and nw: "no_wrap gpa (unat n)"
    and nn: "translate c gpa n \<noteq> NULL" and k: "unat k < unat n"
  obtain i base hva sz where i: "tbl c i = Some (base, hva, sz)" and ir: "in_range base sz gpa (unat n)"
    and eq: "translate c gpa n = ptr_add hva (gpa - base)"
    using translate_hit [OF bk nw nn] by blast
  have "unat (gpa + k) = unat gpa + unat k"
    using nw k by (simp add: no_wrap_def unat_word_ariths(1))
  then have "in_range base sz (gpa + k) 1"
    using ir k by (simp add: in_range_def)
  then have "translate c (gpa + k) 1 = ptr_add hva (gpa + k - base)"
    by (rule translate_one [OF bk ap i])
  moreover have "ptr_add hva (gpa + k - base) \<noteq> NULL"
    using bk i range_backed_not_NULL unfolding table_backed_def by blast
  ultimately show "translate c (gpa + k) 1 = ptr_add (translate c gpa n) k \<and> translate c (gpa + k) 1 \<noteq> NULL"
    by (simp add: eq ptr_add_add algebra_simps)
next
  fix c s gpa n g
  assume bk: "table_backed (tbl c) s" and ap: "table_apart (tbl c)" and nw: "no_wrap gpa (unat n)"
    and nn: "translate c gpa n \<noteq> NULL" and nw1: "no_wrap g 1" and nn1: "translate c g 1 \<noteq> NULL"
    and out: "\<not> (unat gpa \<le> unat g \<and> unat g < unat gpa + unat n)"
  obtain i base hva sz where i: "tbl c i = Some (base, hva, sz)" and ir: "in_range base sz gpa (unat n)"
    and eq: "translate c gpa n = ptr_add hva (gpa - base)"
    using translate_hit [OF bk nw nn] by blast
  obtain j base' hva' sz' where j: "tbl c j = Some (base', hva', sz')" and jr: "in_range base' sz' g 1"
    and eq1: "translate c g 1 = ptr_add hva' (g - base')"
    using translate_hit [OF bk _ nn1] nw1 by auto
  show "separate (translate c gpa n) (unat n) (translate c g 1) 1"
  proof (cases "i = j")
    case True
    then show ?thesis
      using range_separate [of s base hva sz gpa "unat n" g 1] bk i j ir jr out eq eq1
      by (auto simp: table_backed_def)
  next
    case False
    then have "ptr_block hva \<noteq> ptr_block hva'"
      using ap i j unfolding table_apart_def by blast
    then show ?thesis by (simp add: eq eq1 separate_blocks)
  qed
qed

end
