(* ===== verification/Mm.thy ===== *)
theory Mm
  imports Host
begin

text \<open>
  Memory contexts, \<^verbatim>\<open>src/mm.c\<close> with the inline helpers of \<^verbatim>\<open>include/mm.h\<close>. A context
  is passed by value: the functions that change it return the new one. A slot is named by its
  index where the code returns its address. \<open>mm_wf\<close> is the invariant of a context,
  \<open>mm_backed\<close> says that its slots are backed by live host memory.
\<close>

section \<open>Operations\<close>

definition zero_slot :: mm_slot where
  "zero_slot = \<lparr>sl_gpa = 0, sl_hva = NULL, sl_size = 0, sl_slot_id = 0, sl_flags = 0\<rparr>"

definition mm_create :: "env \<Rightarrow> host \<Rightarrow> mm_ctx option \<times> host" where
  "mm_create E s =
     (case alloc E s of (r, s') \<Rightarrow>
        (if r = 0 then None
         else Some \<lparr>mm_slots = replicate 32 zero_slot, mm_num_slots = 0, mm_total_size = 0\<rparr>, s'))"

definition mm_alloc_guest_mem :: "env \<Rightarrow> u64 \<Rightarrow> host \<Rightarrow> ptr \<times> host" where
  "mm_alloc_guest_mem E sz s = calloc E (PAGE_ALIGN_UP sz) s"

definition mm_free_guest_mem :: "ptr \<Rightarrow> u64 \<Rightarrow> host \<Rightarrow> host option" where
  "mm_free_guest_mem p sz s = (if p = NULL then Some s else free p s)"

fun mm_destroy_slots :: "mm_slot list \<Rightarrow> host \<Rightarrow> host option" where
  "mm_destroy_slots [] s = Some s"
| "mm_destroy_slots (sl # sls) s =
     do { s' \<leftarrow> (if sl_hva sl \<noteq> NULL then mm_free_guest_mem (sl_hva sl) (sl_size sl) s else Some s);
          mm_destroy_slots sls s' }"

definition mm_destroy :: "mm_ctx option \<Rightarrow> host \<Rightarrow> host option" where
  "mm_destroy mm s =
     (case mm of None \<Rightarrow> Some s
      | Some m \<Rightarrow> mm_destroy_slots (take (mm_num_slots m) (mm_slots m)) s)"

definition mm_add_slot :: "mm_ctx \<Rightarrow> u64 \<Rightarrow> ptr \<Rightarrow> u64 \<Rightarrow> u64 \<Rightarrow> int \<times> mm_ctx" where
  "mm_add_slot mm gpa hva sz flags =
     (if mm_num_slots mm \<ge> 32 then (-1, mm)
      else (0, mm\<lparr>mm_slots := (mm_slots mm)[mm_num_slots mm :=
                    \<lparr>sl_gpa = gpa, sl_hva = hva, sl_size = sz,
                     sl_slot_id = of_nat (mm_num_slots mm), sl_flags = flags\<rparr>],
                  mm_total_size := mm_total_size mm + sz,
                  mm_num_slots := mm_num_slots mm + 1\<rparr>))"

definition mm_find_slot :: "mm_ctx \<Rightarrow> u64 \<Rightarrow> nat option" where
  "mm_find_slot mm gpa =
     find (\<lambda>i. gpa \<ge> sl_gpa (mm_slots mm ! i)
             \<and> gpa < sl_gpa (mm_slots mm ! i) + sl_size (mm_slots mm ! i))
          [0..<mm_num_slots mm]"

definition mm_gpa_to_hva :: "mm_ctx \<Rightarrow> u64 \<Rightarrow> u64 \<Rightarrow> ptr" where
  "mm_gpa_to_hva mm gpa sz =
     (case mm_find_slot mm gpa of
        None \<Rightarrow> NULL
      | Some i \<Rightarrow>
          let slot = mm_slots mm ! i in
          if gpa + sz > sl_gpa slot + sl_size slot then NULL
          else ptr_add (sl_hva slot) (gpa - sl_gpa slot))"

definition mm_write_gpa :: "mm_ctx \<Rightarrow> u64 \<Rightarrow> u8 list \<Rightarrow> u64 \<Rightarrow> host \<Rightarrow> (int \<times> host) option" where
  "mm_write_gpa mm gpa data sz s =
     (let hva = mm_gpa_to_hva mm gpa sz in
      if hva = NULL then Some (-1, s)
      else if length data < unat sz then None
      else do { s' \<leftarrow> store hva (take (unat sz) data) s; Some (0, s') })"

definition mm_read_gpa :: "mm_ctx \<Rightarrow> u64 \<Rightarrow> u8 list \<Rightarrow> u64 \<Rightarrow> host \<Rightarrow> (int \<times> u8 list) option" where
  "mm_read_gpa mm gpa data sz s =
     (let hva = mm_gpa_to_hva mm gpa sz in
      if hva = NULL then Some (-1, data)
      else do { bs \<leftarrow> load s hva (unat sz); data' \<leftarrow> put_buf data 0 bs; Some (0, data') })"

text \<open>The typed accessors of the header; a read takes the variable the caller passed by address.\<close>

definition mm_write8 :: "mm_ctx \<Rightarrow> u64 \<Rightarrow> u8 \<Rightarrow> host \<Rightarrow> (int \<times> host) option" where
  "mm_write8 mm gpa val s = mm_write_gpa mm gpa (le_bytes 1 val) 1 s"

definition mm_write16 :: "mm_ctx \<Rightarrow> u64 \<Rightarrow> u16 \<Rightarrow> host \<Rightarrow> (int \<times> host) option" where
  "mm_write16 mm gpa val s = mm_write_gpa mm gpa (le_bytes 2 val) 2 s"

definition mm_write32 :: "mm_ctx \<Rightarrow> u64 \<Rightarrow> u32 \<Rightarrow> host \<Rightarrow> (int \<times> host) option" where
  "mm_write32 mm gpa val s = mm_write_gpa mm gpa (le_bytes 4 val) 4 s"

definition mm_write64 :: "mm_ctx \<Rightarrow> u64 \<Rightarrow> u64 \<Rightarrow> host \<Rightarrow> (int \<times> host) option" where
  "mm_write64 mm gpa val s = mm_write_gpa mm gpa (le_bytes 8 val) 8 s"

definition mm_read8 :: "mm_ctx \<Rightarrow> u64 \<Rightarrow> u8 \<Rightarrow> host \<Rightarrow> (int \<times> u8) option" where
  "mm_read8 mm gpa val s =
     do { (r, b) \<leftarrow> mm_read_gpa mm gpa (le_bytes 1 val) 1 s; Some (r, le_word b) }"

definition mm_read16 :: "mm_ctx \<Rightarrow> u64 \<Rightarrow> u16 \<Rightarrow> host \<Rightarrow> (int \<times> u16) option" where
  "mm_read16 mm gpa val s =
     do { (r, b) \<leftarrow> mm_read_gpa mm gpa (le_bytes 2 val) 2 s; Some (r, le_word b) }"

definition mm_read32 :: "mm_ctx \<Rightarrow> u64 \<Rightarrow> u32 \<Rightarrow> host \<Rightarrow> (int \<times> u32) option" where
  "mm_read32 mm gpa val s =
     do { (r, b) \<leftarrow> mm_read_gpa mm gpa (le_bytes 4 val) 4 s; Some (r, le_word b) }"

definition mm_read64 :: "mm_ctx \<Rightarrow> u64 \<Rightarrow> u64 \<Rightarrow> host \<Rightarrow> (int \<times> u64) option" where
  "mm_read64 mm gpa val s =
     do { (r, b) \<leftarrow> mm_read_gpa mm gpa (le_bytes 8 val) 8 s; Some (r, le_word b) }"

section \<open>The invariant of a context\<close>

text \<open>
  Thirty-two slots, a prefix of them in use, each carrying its own index, and the total size
  the sum (modulo 2 to the 64) of the sizes in use.
\<close>

definition mm_wf :: "mm_ctx \<Rightarrow> bool" where
  "mm_wf mm \<longleftrightarrow> length (mm_slots mm) = 32 \<and> mm_num_slots mm \<le> 32
     \<and> (\<forall>i < mm_num_slots mm. sl_slot_id (mm_slots mm ! i) = of_nat i)
     \<and> mm_total_size mm = sum_list (map sl_size (take (mm_num_slots mm) (mm_slots mm)))"

definition mm_table :: "mm_ctx \<Rightarrow> range_table" where
  "mm_table mm i =
     (if i < mm_num_slots mm
      then Some (sl_gpa (mm_slots mm ! i), sl_hva (mm_slots mm ! i), sl_size (mm_slots mm ! i)) else None)"

abbreviation mm_backed :: "mm_ctx \<Rightarrow> host \<Rightarrow> bool" where
  "mm_backed mm s \<equiv> table_backed (mm_table mm) s"

abbreviation mm_apart :: "mm_ctx \<Rightarrow> bool" where
  "mm_apart mm \<equiv> table_apart (mm_table mm)"

lemma mm_create_wf: "mm_create E s = (Some mm, s') \<Longrightarrow> mm_wf mm \<and> mm_backed mm s'"
  by (auto simp: mm_create_def mm_wf_def table_backed_def mm_table_def split: prod.splits if_splits)

lemma mm_add_slot_full: "mm_num_slots mm \<ge> 32 \<Longrightarrow> mm_add_slot mm gpa hva sz flags = (-1, mm)"
  by (simp add: mm_add_slot_def)

lemma sum_sizes_snoc:
  assumes "n < length xs"
  shows "sum_list (map f (take (Suc n) (xs[n := x]))) = sum_list (map f (take n xs)) + f x"
  using assms by (simp add: take_Suc_conv_app_nth)

lemma mm_add_slot_wf:
  assumes "mm_wf mm" and "mm_add_slot mm gpa hva sz flags = (r, mm')"
  shows "mm_wf mm'"
  using assms
  by (auto simp: mm_add_slot_def mm_wf_def sum_sizes_snoc nth_list_update less_Suc_eq
      split: if_splits)

text \<open>
  In a backed context the two tests of the code, made on wrapping sums, are the tests on the
  real addresses.
\<close>

lemma mm_backedD:
  "mm_backed mm s \<Longrightarrow> i < mm_num_slots mm \<Longrightarrow>
   range_backed s (sl_gpa (mm_slots mm ! i)) (sl_hva (mm_slots mm ! i)) (sl_size (mm_slots mm ! i))"
  unfolding table_backed_def by (metis mm_table_def)

lemma mm_slot_test:
  assumes "mm_backed mm s" and "i < mm_num_slots mm"
  shows "(gpa \<ge> sl_gpa (mm_slots mm ! i) \<and> gpa < sl_gpa (mm_slots mm ! i) + sl_size (mm_slots mm ! i))
     \<longleftrightarrow> in_range (sl_gpa (mm_slots mm ! i)) (sl_size (mm_slots mm ! i)) gpa 1"
  using mm_backedD [OF assms]
  by (auto simp: range_backed_def in_range_def word_le_nat_alt word_less_nat_alt unat_no_wrap)

lemma mm_find_slot_Some:
  assumes "mm_backed mm s"
  shows "mm_find_slot mm gpa = Some i \<longleftrightarrow> i < mm_num_slots mm
     \<and> in_range (sl_gpa (mm_slots mm ! i)) (sl_size (mm_slots mm ! i)) gpa 1
     \<and> (\<forall>j < i. \<not> in_range (sl_gpa (mm_slots mm ! j)) (sl_size (mm_slots mm ! j)) gpa 1)"
  unfolding mm_find_slot_def find_upt_Some using mm_slot_test [OF assms] less_trans by blast

lemma mm_apartD:
  assumes "mm_apart mm" and "i < mm_num_slots mm" and "j < i"
    and "in_range (sl_gpa (mm_slots mm ! i)) (sl_size (mm_slots mm ! i)) g 1"
  shows "\<not> in_range (sl_gpa (mm_slots mm ! j)) (sl_size (mm_slots mm ! j)) g 1"
proof -
  let ?e = "\<lambda>k. (sl_gpa (mm_slots mm ! k), sl_hva (mm_slots mm ! k), sl_size (mm_slots mm ! k))"
  have "mm_table mm i = Some (?e i)" and "mm_table mm j = Some (?e j)" and "i \<noteq> j"
    using assms(2,3) by (auto simp: mm_table_def)
  with assms(1,4) table_apartD show ?thesis by blast
qed

interpretation mmg: region_table mm_table mm_gpa_to_hva
proof
  fix c s gpa n
  assume bk: "mm_backed c s" and nw: "no_wrap gpa (unat n)" and nn: "mm_gpa_to_hva c gpa n \<noteq> NULL"
  obtain i where i: "mm_find_slot c gpa = Some i"
    using nn by (auto simp: mm_gpa_to_hva_def split: option.splits)
  then have t: "mm_table c i = Some (sl_gpa (mm_slots c ! i), sl_hva (mm_slots c ! i), sl_size (mm_slots c ! i))"
    and r: "in_range (sl_gpa (mm_slots c ! i)) (sl_size (mm_slots c ! i)) gpa 1"
    using mm_find_slot_Some [OF bk] by (auto simp: mm_table_def)
  have fits: "\<not> gpa + n > sl_gpa (mm_slots c ! i) + sl_size (mm_slots c ! i)"
    using nn i by (auto simp: mm_gpa_to_hva_def Let_def split: if_splits)
  then have "in_range (sl_gpa (mm_slots c ! i)) (sl_size (mm_slots c ! i)) gpa (unat n)"
    using t r bk nw
    by (auto simp: in_range_def table_backed_def range_backed_def not_less word_le_nat_alt unat_no_wrap)
  then show "\<exists>i base hva sz. mm_table c i = Some (base, hva, sz) \<and> in_range base sz gpa (unat n)
      \<and> mm_gpa_to_hva c gpa n = ptr_add hva (gpa - base)"
    using t i fits by (intro exI [of _ i]) (simp add: mm_gpa_to_hva_def Let_def)
next
  fix c s i base hva sz g
  assume bk: "mm_backed c s" and ap: "mm_apart c" and t: "mm_table c i = Some (base, hva, sz)"
    and r: "in_range base sz g 1"
  have i: "i < mm_num_slots c" and eqs: "base = sl_gpa (mm_slots c ! i)" "sz = sl_size (mm_slots c ! i)"
    using t by (auto simp: mm_table_def split: if_splits)
  have "mm_find_slot c g = Some i"
    using mm_find_slot_Some [OF bk] mm_apartD [OF ap i] i r eqs by auto
  moreover have "\<not> g + 1 > base + sz"
  proof -
    have nw: "no_wrap base (unat sz)"
      using bk t by (auto simp: table_backed_def range_backed_def)
    then have "no_wrap g (unat (1 :: u64))"
      using r by (simp add: in_range_def no_wrap_def)
    with nw r show ?thesis
      by (simp add: in_range_def not_less word_le_nat_alt unat_no_wrap)
  qed
  ultimately show "mm_gpa_to_hva c g 1 = ptr_add hva (g - base)"
    using t by (auto simp: mm_gpa_to_hva_def mm_table_def Let_def split: if_splits)
qed

section \<open>A small context\<close>

text \<open>Sixteen bytes of host memory at guest address 0x1000, for the concrete instances below.\<close>

definition ex_mm_host :: host where
  "ex_mm_host = init_host\<lparr>mem := (\<lambda>_. None)(1 \<mapsto> replicate 16 0), next_ref := 2\<rparr>"

definition ex_mm :: mm_ctx where
  "ex_mm = snd (mm_add_slot \<lparr>mm_slots = replicate 32 zero_slot, mm_num_slots = 0, mm_total_size = 0\<rparr>
     0x1000 (Ptr 1 0) 16 7)"

lemma ex_mm_slot: "mm_num_slots ex_mm = 1"
  "mm_slots ex_mm ! 0 = \<lparr>sl_gpa = 0x1000, sl_hva = Ptr 1 0, sl_size = 16, sl_slot_id = 0, sl_flags = 7\<rparr>"
  by (simp_all add: ex_mm_def mm_add_slot_def)

lemma ex_mm_find: "mm_find_slot ex_mm 0x1004 = Some 0"
  by (simp add: mm_find_slot_def ex_mm_slot)

lemma ex_mm_translate: "mm_gpa_to_hva ex_mm 0x1004 4 = Ptr 1 4"
  by (simp add: mm_gpa_to_hva_def ex_mm_find ex_mm_slot Let_def)

lemma ex_mm_backed: "mm_backed ex_mm ex_mm_host"
  by (auto simp: table_backed_def mm_table_def range_backed_def no_wrap_def ex_mm_slot ex_mm_host_def
      split: if_splits)

lemma ex_mm_apart: "mm_apart ex_mm"
  by (simp add: table_apart_def mm_table_def ex_mm_slot)

lemma ex_mm_wf: "mm_wf ex_mm"
  unfolding ex_mm_def by (rule mm_add_slot_wf [OF _ prod.collapse [symmetric]]) (simp add: mm_wf_def)

lemma ex_no_wrap: "no_wrap 0x1004 (unat (4 :: u64))"
  by (simp add: no_wrap_def)

section \<open>Properties\<close>

lemma mm_gpa_to_hva_inside:
  assumes "mm_backed mm s" and "mm_apart mm" and "i < mm_num_slots mm" and "0 < n"
    and "in_range (sl_gpa (mm_slots mm ! i)) (sl_size (mm_slots mm ! i)) gpa (unat n)"
  shows "mm_gpa_to_hva mm gpa n \<noteq> NULL"
proof -
  note rb = mm_backedD [OF assms(1,3)]
  have n: "0 < unat n" using assms(4) by (simp add: word_less_nat_alt)
  then have "in_range (sl_gpa (mm_slots mm ! i)) (sl_size (mm_slots mm ! i)) gpa 1"
    using assms(5) by (auto simp: in_range_def)
  then have "mm_find_slot mm gpa = Some i"
    using mm_find_slot_Some [OF assms(1)] mm_apartD [OF assms(2,3)] assms(3) by auto
  moreover have "\<not> gpa + n > sl_gpa (mm_slots mm ! i) + sl_size (mm_slots mm ! i)"
  proof -
    have "no_wrap gpa (unat n)" using assms(5) rb by (auto simp: in_range_def range_backed_def no_wrap_def)
    then show ?thesis
      using assms(5) rb by (auto simp: in_range_def range_backed_def not_less word_le_nat_alt unat_no_wrap)
  qed
  ultimately show ?thesis
    using range_backed_not_NULL [OF rb] by (simp add: mm_gpa_to_hva_def Let_def)
qed

text \<open>
  Translation is exact. In a context whose slots are backed and lie apart, a non-empty range
  that does not wrap is translated exactly when one slot in use holds all of it.
\<close>

theorem mm_gpa_to_hva_exact:
  assumes "mm_backed mm s" and "mm_apart mm" and "no_wrap gpa (unat n)" and "0 < n"
  shows "mm_gpa_to_hva mm gpa n \<noteq> NULL \<longleftrightarrow>
     (\<exists>i < mm_num_slots mm. in_range (sl_gpa (mm_slots mm ! i)) (sl_size (mm_slots mm ! i)) gpa (unat n))"
  using mmg.translate_hit [OF assms(1,3)] mm_gpa_to_hva_inside [OF assms(1,2) _ assms(4)]
  by (fastforce simp: mm_table_def split: if_splits)

theorem mm_gpa_to_hva_exact_witness:
  "mm_gpa_to_hva ex_mm 0x1004 4 \<noteq> NULL \<longleftrightarrow>
     (\<exists>i < mm_num_slots ex_mm. in_range (sl_gpa (mm_slots ex_mm ! i)) (sl_size (mm_slots ex_mm ! i)) 0x1004 (unat (4 :: u64)))"
  by (rule mm_gpa_to_hva_exact [OF ex_mm_backed ex_mm_apart ex_no_wrap]) simp

text \<open>
  C27: a write of \<open>n\<close> bytes to a translated range succeeds, keeps the context backed, and changes
  the guest's view of memory exactly on that range, to the bytes written.
\<close>

theorem mm_write_gpa_guest_view:
  assumes "mm_backed mm s" and "mm_apart mm" and "no_wrap gpa (unat n)"
    and "mm_gpa_to_hva mm gpa n \<noteq> NULL" and "length data = unat n"
  shows "\<exists>s'. mm_write_gpa mm gpa data n s = Some (0, s') \<and> mm_backed mm s'
     \<and> (\<forall>g. no_wrap g 1 \<longrightarrow> guest_byte (mm_gpa_to_hva mm) s' g =
           (if unat gpa \<le> unat g \<and> unat g < unat gpa + unat n
            then Some (data ! (unat g - unat gpa)) else guest_byte (mm_gpa_to_hva mm) s g))"
  using mmg.guest_write_map [OF assms] assms(4,5) by (auto simp: mm_write_gpa_def Let_def)

theorem mm_write_gpa_guest_view_witness:
  "\<exists>s'. mm_write_gpa ex_mm 0x1004 [1, 2, 3, 4] 4 ex_mm_host = Some (0, s') \<and> mm_backed ex_mm s'
     \<and> (\<forall>g. no_wrap g 1 \<longrightarrow> guest_byte (mm_gpa_to_hva ex_mm) s' g =
           (if unat (0x1004 :: u64) \<le> unat g \<and> unat g < unat (0x1004 :: u64) + unat (4 :: u64)
            then Some ([1, 2, 3, 4] ! (unat g - unat (0x1004 :: u64)))
            else guest_byte (mm_gpa_to_hva ex_mm) ex_mm_host g))"
  by (rule mm_write_gpa_guest_view [OF ex_mm_backed ex_mm_apart ex_no_wrap]) (simp_all add: ex_mm_translate)

text \<open>
  What is written is read back: a read of the same range into a buffer of its size returns
  the bytes written.
\<close>

theorem mm_write_read_roundtrip:
  assumes "mm_backed mm s" and "no_wrap gpa (unat n)" and "mm_gpa_to_hva mm gpa n \<noteq> NULL"
    and "length data = unat n" and "length buf = unat n"
  shows "\<exists>s'. mm_write_gpa mm gpa data n s = Some (0, s') \<and> mm_read_gpa mm gpa buf n s' = Some (0, data)"
  using mmg.guest_write_read [OF assms(1-4)] assms(3-5)
  by (auto simp: mm_write_gpa_def mm_read_gpa_def put_buf_def splice_def Let_def)

theorem mm_write_read_roundtrip_witness:
  "\<exists>s'. mm_write_gpa ex_mm 0x1004 [1, 2, 3, 4] 4 ex_mm_host = Some (0, s')
     \<and> mm_read_gpa ex_mm 0x1004 [0, 0, 0, 0] 4 s' = Some (0, [1, 2, 3, 4])"
  by (rule mm_write_read_roundtrip [OF ex_mm_backed ex_no_wrap]) (simp_all add: ex_mm_translate)

text \<open>
  The translation does not guard against wrap-around. For any address a slot covers, the size
  that brings \<open>gpa + size\<close> to zero passes the bounds check, and the write through the pointer
  returned is out of bounds.
\<close>

theorem mm_gpa_to_hva_wraps:
  assumes "mm_backed mm s" and "mm_find_slot mm gpa = Some i"
    and "sl_hva (mm_slots mm ! i) = Ptr b 0" and "mem s b = Some bs"
    and "length bs = unat (sl_size (mm_slots mm ! i))" and "gpa \<noteq> 0"
    and "length data = unat (- gpa)"
  shows "mm_gpa_to_hva mm gpa (- gpa) \<noteq> NULL \<and> mm_write_gpa mm gpa data (- gpa) s = None"
proof -
  have i: "i < mm_num_slots mm" and r: "in_range (sl_gpa (mm_slots mm ! i)) (sl_size (mm_slots mm ! i)) gpa 1"
    using assms(1,2) mm_find_slot_Some by blast+
  note rb = mm_backedD [OF assms(1) i]
  have eq: "mm_gpa_to_hva mm gpa (- gpa) = Ptr b (gpa - sl_gpa (mm_slots mm ! i))"
    using assms(2,3) by (simp add: mm_gpa_to_hva_def Let_def)
  then have nn: "mm_gpa_to_hva mm gpa (- gpa) \<noteq> NULL"
    using rb assms(3) by (auto simp: range_backed_def)
  have "unat (- gpa) = 2 ^ 64 - unat gpa"
    using assms(6) by (rule unat_uminus)
  then have "unat (gpa - sl_gpa (mm_slots mm ! i)) + length data > length bs"
    using assms(5,7) rb r unat_offset [OF r] unat_u64_less [of gpa]
    by (auto simp: range_backed_def no_wrap_def in_range_def)
  then have "store (mm_gpa_to_hva mm gpa (- gpa)) data s = None"
    using assms(4) by (simp add: eq)
  with nn assms(7) show ?thesis by (simp add: mm_write_gpa_def)
qed

theorem mm_gpa_to_hva_wraps_witness:
  "mm_gpa_to_hva ex_mm 0x1004 (- 0x1004) \<noteq> NULL
     \<and> mm_write_gpa ex_mm 0x1004 (replicate (unat (- 0x1004 :: u64)) 0) (- 0x1004) ex_mm_host = None"
  by (rule mm_gpa_to_hva_wraps [OF ex_mm_backed ex_mm_find, where b = 1 and bs = "replicate 16 0"])
    (simp_all add: ex_mm_slot ex_mm_host_def)

text \<open>
  \<open>mm_add_slot\<close> keeps the invariant of the context. It fails exactly when all 32 slots are
  in use and then changes nothing; otherwise it fills the next slot, under its own index, and
  leaves the others alone.
\<close>

theorem mm_add_slot_correct:
  assumes "mm_wf mm" and "mm_add_slot mm gpa hva sz flags = (r, mm')"
  shows "mm_wf mm' \<and> r = (if mm_num_slots mm < 32 then 0 else -1)
     \<and> (r = -1 \<longrightarrow> mm' = mm)
     \<and> (r = 0 \<longrightarrow> mm_num_slots mm' = mm_num_slots mm + 1
          \<and> mm_slots mm' ! mm_num_slots mm =
              \<lparr>sl_gpa = gpa, sl_hva = hva, sl_size = sz, sl_slot_id = of_nat (mm_num_slots mm), sl_flags = flags\<rparr>
          \<and> (\<forall>i < mm_num_slots mm. mm_slots mm' ! i = mm_slots mm ! i))"
  using mm_add_slot_wf [OF assms] assms
  by (auto simp: mm_add_slot_def mm_wf_def split: if_splits)

theorem mm_add_slot_correct_witness:
  "mm_wf (snd (mm_add_slot ex_mm 0x2000 (Ptr 2 0) 16 7))
     \<and> mm_num_slots (snd (mm_add_slot ex_mm 0x2000 (Ptr 2 0) 16 7)) = 2"
  using mm_add_slot_correct [OF ex_mm_wf, of "0x2000" "Ptr 2 0" 16 7 0
      "snd (mm_add_slot ex_mm 0x2000 (Ptr 2 0) 16 7)"]
  by (simp add: mm_add_slot_def ex_mm_slot)

text \<open>
  C28: \<open>mm_alloc_guest_mem\<close> returns a zeroed block that holds the requested size only up to
  4 GiB less a page: above, the page rounding drops the upper half of the size.
\<close>

theorem mm_alloc_guest_mem_size:
  assumes "unat sz + 4095 < 2 ^ 64" and "alloc_ok E (next_ref s)" and "next_ref s \<noteq> 0"
  shows "\<exists>s' len. mm_alloc_guest_mem E sz s = (Ptr (next_ref s) 0, s')
     \<and> mem s' (next_ref s) = Some (replicate len 0) \<and> (unat sz \<le> len \<longleftrightarrow> unat sz \<le> 2 ^ 32 - 4096)"
proof -
  note page_round_holds [of "unat sz"]
  with assms show ?thesis
    by (simp add: mm_alloc_guest_mem_def calloc_def alloc_bytes_def alloc_def unat_PAGE_ALIGN_UP)
qed

theorem mm_alloc_guest_mem_size_witness:
  "\<exists>s' len. mm_alloc_guest_mem ok_env 0x100000000 ex_mm_host = (Ptr (next_ref ex_mm_host) 0, s')
     \<and> mem s' (next_ref ex_mm_host) = Some (replicate len 0)
     \<and> (unat (0x100000000 :: u64) \<le> len \<longleftrightarrow> unat (0x100000000 :: u64) \<le> 2 ^ 32 - 4096)"
  by (rule mm_alloc_guest_mem_size) (simp_all add: ex_mm_host_def ok_env_def)

end
