(* ===== verification/Devices.thy ===== *)
theory Devices
  imports Host
begin

text \<open>
  The device framework, \<^verbatim>\<open>src/devices.c\<close>: creation, registration with a machine, lookup by
  guest address, dispatch of MMIO accesses and the interrupt eventfd. The operation tables the
  device files export are the parameter \<open>tbl\<close>; the locale \<open>device_handlers\<close> states what the
  framework relies on of them.

  A handler reads from or writes to a buffer its caller passed by address. The buffer is its list
  of bytes; a read handler returns the new bytes.
\<close>

record device_ops =
  do_name :: string
  do_read :: "(ref \<Rightarrow> u64 \<Rightarrow> u8 list \<Rightarrow> u64 \<Rightarrow> host \<Rightarrow> (int \<times> u8 list \<times> host) option) option"
  do_write :: "(ref \<Rightarrow> u64 \<Rightarrow> u8 list \<Rightarrow> u64 \<Rightarrow> host \<Rightarrow> (int \<times> host) option) option"
  do_destroy :: "(ref \<Rightarrow> host \<Rightarrow> host option) option"

type_synonym device_tables = "device_ops_id \<Rightarrow> device_ops"

definition zero_device :: device where
  "zero_device = \<lparr>d_ops = None, d_name = None, d_vm = 0, d_gpa_start = 0, d_gpa_end = 0, d_size = 0,
     d_data = 0, d_irq = 0, d_irq_fd = 0\<rparr>"

abbreviation set_dev :: "ref \<Rightarrow> device \<Rightarrow> host \<Rightarrow> host" where
  "set_dev r d s \<equiv> s\<lparr>devs := (devs s)(r \<mapsto> d)\<rparr>"

abbreviation set_vm :: "ref \<Rightarrow> vm \<Rightarrow> host \<Rightarrow> host" where
  "set_vm r v s \<equiv> s\<lparr>vms := (vms s)(r \<mapsto> v)\<rparr>"

section \<open>Creation and destruction\<close>

text \<open>
  The private data is a structure of the caller's type: \<open>zero_priv\<close> enters the zeroed
  structure into its heap.
\<close>

definition device_create :: "env \<Rightarrow> string \<Rightarrow> nat \<Rightarrow> (ref \<Rightarrow> host \<Rightarrow> host) \<Rightarrow> host \<Rightarrow> (ref \<times> host) option" where
  "device_create E name priv_size zero_priv s =
     (let (dev, s1) = alloc E s in
      if dev = 0 then Some (0, s1)
      else
        let (nm, s2) = strdup E name (set_dev dev zero_device s1) in
        if nm = None then do { s3 \<leftarrow> free_obj dev s2; Some (0, s3) }
        else if priv_size > 0 then
          let (p, s3) = alloc E s2 in
          if p = 0 then do { s4 \<leftarrow> free_obj dev s3; Some (0, s4) }
          else Some (dev, set_dev dev (zero_device\<lparr>d_name := nm, d_data := p, d_irq_fd := -1\<rparr>) (zero_priv p s3))
        else Some (dev, set_dev dev (zero_device\<lparr>d_name := nm, d_irq_fd := -1\<rparr>) s2))"

text \<open>
  The structure is read again after its \<open>destroy\<close> handler and after the private data is freed,
  as the code does.
\<close>

definition device_destroy :: "env \<Rightarrow> device_tables \<Rightarrow> ref \<Rightarrow> host \<Rightarrow> host option" where
  "device_destroy E tbl dev s =
     (if dev = 0 then Some s
      else do {
        d \<leftarrow> devs s dev;
        s1 \<leftarrow> (case d_ops d of None \<Rightarrow> Some s
               | Some t \<Rightarrow> (case do_destroy (tbl t) of None \<Rightarrow> Some s | Some f \<Rightarrow> f dev s));
        d1 \<leftarrow> devs s1 dev;
        let s2 = (if d_irq_fd d1 \<ge> 0 then snd (syscall E (SYS_close (d_irq_fd d1)) s1) else s1);
        s3 \<leftarrow> free_obj (d_data d1) s2;
        d3 \<leftarrow> devs s3 dev;
        free_obj dev s3 })"

section \<open>Registration\<close>

definition eventfd :: "env \<Rightarrow> host \<Rightarrow> int \<times> host" where
  "eventfd E s =
     (case os_of E of
        Linux \<Rightarrow> (let (a, s') = syscall E SYS_eventfd s in (a_ret a, s'))
      | MacOS \<Rightarrow> (-1, s))"

definition device_register :: "env \<Rightarrow> ref \<Rightarrow> ref \<Rightarrow> host \<Rightarrow> (int \<times> host) option" where
  "device_register E vm dev s =
     (if vm = 0 \<or> dev = 0 then Some (-1, s)
      else do {
        v \<leftarrow> vms s vm;
        if v_num_devices v \<ge> VM_MAX_DEVICES then Some (-1, s)
        else do {
          d \<leftarrow> devs s dev;
          let (fd, s1) = (if d_irq_fd d < 0 then eventfd E (set_dev dev (d\<lparr>d_vm := vm\<rparr>) s)
                          else (d_irq_fd d, set_dev dev (d\<lparr>d_vm := vm\<rparr>) s));
          let s2 = set_dev dev (d\<lparr>d_vm := vm, d_irq_fd := fd\<rparr>) s1;
          if fd < 0 then Some (-1, s2)
          else Some (0, set_vm vm (v\<lparr>v_devices := (v_devices v)[v_num_devices v := dev],
                                     v_num_devices := v_num_devices v + 1\<rparr>) s2) } })"

text \<open>The inner loop of \<open>device_unregister\<close>: entries \<open>i .. n - 2\<close> take their successor.\<close>

definition shift_devices :: "ref list \<Rightarrow> nat \<Rightarrow> nat \<Rightarrow> ref list" where
  "shift_devices ds i n = foldl (\<lambda>xs j. xs[j := xs ! (j + 1)]) ds [i..<n - 1]"

definition remove_device :: "vm \<Rightarrow> ref \<Rightarrow> vm" where
  "remove_device v dev =
     (case find (\<lambda>i. v_devices v ! i = dev) [0..<v_num_devices v] of
        None \<Rightarrow> v
      | Some i \<Rightarrow> v\<lparr>v_devices := shift_devices (v_devices v) i (v_num_devices v),
                    v_num_devices := v_num_devices v - 1\<rparr>)"

definition device_unregister :: "env \<Rightarrow> device_tables \<Rightarrow> ref \<Rightarrow> host \<Rightarrow> host option" where
  "device_unregister E tbl dev s =
     (if dev = 0 then Some s
      else do {
        d \<leftarrow> devs s dev;
        if d_vm d = 0 then Some s
        else do {
          v \<leftarrow> vms s (d_vm d);
          device_destroy E tbl dev (set_vm (d_vm d) (remove_device v dev) s) } })"

section \<open>Lookup and dispatch\<close>

fun find_device :: "ref list \<Rightarrow> u64 \<Rightarrow> host \<Rightarrow> ref option" where
  "find_device [] gpa s = Some 0"
| "find_device (r # rs) gpa s =
     do { d \<leftarrow> devs s r;
          if gpa \<ge> d_gpa_start d \<and> gpa \<le> d_gpa_end d then Some r else find_device rs gpa s }"

definition device_find_at_gpa :: "vm \<Rightarrow> u64 \<Rightarrow> host \<Rightarrow> ref option" where
  "device_find_at_gpa v gpa s = find_device (take (v_num_devices v) (v_devices v)) gpa s"

definition device_handle_mmio ::
    "device_tables \<Rightarrow> vm \<Rightarrow> u64 \<Rightarrow> bool \<Rightarrow> u8 list \<Rightarrow> u8 \<Rightarrow> host \<Rightarrow> (int \<times> u8 list \<times> host) option" where
  "device_handle_mmio tbl v gpa is_write data sz s =
     do {
       dev \<leftarrow> device_find_at_gpa v gpa s;
       if dev = 0 then Some (-1, data, s)
       else do {
         d \<leftarrow> devs s dev;
         let off = gpa - d_gpa_start d;
         if is_write then
           (case Option.bind (d_ops d) (\<lambda>t. do_write (tbl t)) of
              Some f \<Rightarrow> do { (ret, s') \<leftarrow> f dev off data (ucast sz) s; Some (ret, data, s') }
            | None \<Rightarrow> Some (-1, data, s))
         else
           (case Option.bind (d_ops d) (\<lambda>t. do_read (tbl t)) of
              Some f \<Rightarrow> f dev off data (ucast sz) s
            | None \<Rightarrow> Some (-1, data, s)) } }"

section \<open>Interrupts\<close>

definition device_assert_irq :: "env \<Rightarrow> ref \<Rightarrow> host \<Rightarrow> (int \<times> host) option" where
  "device_assert_irq E dev s =
     do { d \<leftarrow> devs s dev;
          if d_irq_fd d < 0 then Some (-1, s)
          else let (a, s') = syscall E (SYS_write (d_irq_fd d) (le_bytes 8 (1 :: u64))) s in
               if a_ret a \<noteq> 8 then Some (-1, s') else Some (0, s') }"

definition device_deassert_irq :: "env \<Rightarrow> ref \<Rightarrow> host \<Rightarrow> (int \<times> host) option" where
  "device_deassert_irq E dev s =
     do { d \<leftarrow> devs s dev;
          if d_irq_fd d < 0 then Some (-1, s)
          else let (a, s') = syscall E (SYS_read (d_irq_fd d) 8) s in Some (0, s') }"

lemma device_assert_irq_io: "device_assert_irq E dev s = Some (ret, s') \<Longrightarrow> io_only s s'"
  by (auto simp: device_assert_irq_def frame_intros split: Option.bind_splits if_splits prod.splits)

lemma device_deassert_irq_io: "device_deassert_irq E dev s = Some (ret, s') \<Longrightarrow> io_only s s'"
  by (auto simp: device_deassert_irq_def frame_intros split: Option.bind_splits if_splits prod.splits)

section \<open>The device list of a machine\<close>

text \<open>
  The array and its count stand for the list of registered devices; \<open>vm_devs_wf\<close> is the
  invariant of the pair.
\<close>

definition registered :: "vm \<Rightarrow> ref list" where
  "registered v = take (v_num_devices v) (v_devices v)"

definition vm_devs_wf :: "vm \<Rightarrow> bool" where
  "vm_devs_wf v \<longleftrightarrow> length (v_devices v) = VM_MAX_DEVICES \<and> v_num_devices v \<le> VM_MAX_DEVICES"

lemma length_shift_devices: "length (shift_devices ds i n) = length ds"
proof -
  have "length (foldl (\<lambda>xs j. xs[j := xs ! (j + 1)]) ds js) = length ds" for js :: "nat list"
    by (induction js arbitrary: ds) simp_all
  then show ?thesis by (simp add: shift_devices_def)
qed

lemma nth_shift_devices:
  assumes "n \<le> length ds" and "k < length ds"
  shows "shift_devices ds i n ! k = (if i \<le> k \<and> k < n - 1 then ds ! (k + 1) else ds ! k)"
proof -
  have "foldl (\<lambda>xs j. xs[j := xs ! (j + 1)]) ds [i..<m] ! k = (if i \<le> k \<and> k < m then ds ! (k + 1) else ds ! k)
     \<and> length (foldl (\<lambda>xs j. xs[j := xs ! (j + 1)]) ds [i..<m]) = length ds"
    if "m < length ds \<or> m = 0" "k < length ds" for m k :: nat
    using that
  proof (induction m arbitrary: k)
    case (Suc m)
    then show ?case by (cases "i \<le> m") (auto simp: nth_list_update less_Suc_eq)
  qed simp
  note this [of "n - 1" k]
  moreover have "n - 1 < length ds \<or> n - 1 = 0" using assms by auto
  ultimately show ?thesis using assms(2) by (simp add: shift_devices_def)
qed

lemma shift_devices_delete:
  assumes "i < n" and "n \<le> length ds"
  shows "take (n - 1) (shift_devices ds i n) = take i ds @ drop (Suc i) (take n ds)"
  using assms by (intro nth_equalityI)
    (auto simp: nth_shift_devices length_shift_devices nth_append min_def split: if_splits)

lemma remove1_first:
  assumes "i < length xs" and "xs ! i = x" and "\<forall>j < i. xs ! j \<noteq> x"
  shows "remove1 x xs = take i xs @ drop (Suc i) xs"
proof -
  have "xs = take i xs @ x # drop (Suc i) xs" using assms(1,2) id_take_nth_drop by blast
  moreover have "x \<notin> set (take i xs)" using assms(3) by (auto simp: in_set_conv_nth)
  ultimately show ?thesis by (metis remove1.simps(2) remove1_append)
qed

lemma remove_device_registered:
  assumes "vm_devs_wf v"
  shows "registered (remove_device v dev) = remove1 dev (registered v) \<and> vm_devs_wf (remove_device v dev)"
proof (cases "find (\<lambda>i. v_devices v ! i = dev) [0..<v_num_devices v]")
  case None
  then have "dev \<notin> set (registered v)"
    using assms by (auto simp: find_None_iff registered_def in_set_conv_nth)
  with None assms show ?thesis by (simp add: remove_device_def remove1_idem)
next
  case (Some i)
  then have i: "i < v_num_devices v" "v_devices v ! i = dev" "\<forall>j < i. v_devices v ! j \<noteq> dev"
    unfolding find_upt_Some by auto
  have n: "v_num_devices v \<le> length (v_devices v)" using assms by (simp add: vm_devs_wf_def)
  have "remove1 dev (registered v) = take i (v_devices v) @ drop (Suc i) (registered v)"
    using remove1_first [of i "registered v" dev] i n by (simp add: registered_def)
  with Some assms i n show ?thesis
    by (auto simp: remove_device_def registered_def vm_devs_wf_def length_shift_devices
        shift_devices_delete [simplified])
qed

section \<open>Lookup\<close>

definition covers :: "host \<Rightarrow> ref \<Rightarrow> u64 \<Rightarrow> bool" where
  "covers s r gpa \<longleftrightarrow> (\<exists>d. devs s r = Some d \<and> d_gpa_start d \<le> gpa \<and> gpa \<le> d_gpa_end d)"

definition devices_live :: "host \<Rightarrow> ref list \<Rightarrow> bool" where
  "devices_live s rs \<longleftrightarrow> (\<forall>r \<in> set rs. r \<noteq> 0 \<and> devs s r \<noteq> None)"

lemma find_device_find:
  assumes "devices_live s rs"
  shows "find_device rs gpa s = Some (case find (\<lambda>r. covers s r gpa) rs of None \<Rightarrow> 0 | Some r \<Rightarrow> r)"
  using assms by (induction rs) (auto simp: devices_live_def covers_def)

lemma find_device_exact:
  assumes "devices_live s rs" and "r \<noteq> 0"
    and "\<And>r r'. r \<in> set rs \<Longrightarrow> r' \<in> set rs \<Longrightarrow> covers s r gpa \<Longrightarrow> covers s r' gpa \<Longrightarrow> r = r'"
  shows "find_device rs gpa s = Some r \<longleftrightarrow> r \<in> set rs \<and> covers s r gpa"
proof (cases "find (\<lambda>r. covers s r gpa) rs")
  case None
  then show ?thesis
    using assms(2) find_device_find [OF assms(1), of gpa] find_None_iff [of "\<lambda>r. covers s r gpa" rs] by auto
next
  case (Some q)
  then have "q \<in> set rs" "covers s q gpa" using find_Some_iff [of "\<lambda>r. covers s r gpa" rs q] by auto
  with Some assms(3) show ?thesis
    using find_device_find [OF assms(1), of gpa] by auto
qed

lemma find_device_covers: "find_device rs gpa s = Some r \<Longrightarrow> r \<noteq> 0 \<Longrightarrow> r \<in> set rs \<and> covers s r gpa"
  by (induction rs) (auto simp: covers_def split: Option.bind_splits if_splits)

lemma find_device_cong: "devs s' = devs s \<Longrightarrow> find_device rs gpa s' = find_device rs gpa s"
  by (induction rs) (auto split: Option.bind_splits)

section \<open>The contract of the handlers\<close>

text \<open>
  What the framework relies on: a read or write handler stays within the handler frame and
  keeps the length of the buffer, and a \<open>destroy\<close> handler leaves the machines alone.
\<close>

locale device_handlers =
  fixes tbl :: device_tables
  assumes read_frame: "do_read (tbl t) = Some f \<Longrightarrow> f dev off data sz s = Some (ret, data', s') \<Longrightarrow>
      handler_frame s s' \<and> length data' = length data"
    and write_frame: "do_write (tbl t) = Some g \<Longrightarrow> g dev off data sz s = Some (ret, s') \<Longrightarrow> handler_frame s s'"
    and destroy_vms: "do_destroy (tbl t) = Some h \<Longrightarrow> dev \<noteq> 0 \<Longrightarrow> h dev s = Some s' \<Longrightarrow> devs s' dev \<noteq> None \<Longrightarrow>
      vms s' = vms s \<and> devs s' = devs s"
begin

lemma handle_mmio_frame:
  assumes "device_handle_mmio tbl v gpa w data sz s = Some (ret, data', s')"
  shows "handler_frame s s' \<and> length data' = length data"
  using assms
  by (auto simp: device_handle_mmio_def frame_intros Let_def split: Option.bind_splits if_splits option.splits
      dest: read_frame write_frame)

lemma destroy_keeps_vms:
  assumes "device_destroy E tbl dev s = Some s'" and "devs s dev = Some d"
    and "vms s dev = None" and "vms s (d_data d) = None"
  shows "vms s' = vms s"
proof (cases "dev = 0")
  case False
  let ?s1 = "case d_ops d of None \<Rightarrow> Some s
     | Some t \<Rightarrow> (case do_destroy (tbl t) of None \<Rightarrow> Some s | Some f \<Rightarrow> f dev s)"
  from assms(1,2) False obtain s1 d1 where s1: "?s1 = Some s1" and d1: "devs s1 dev = Some d1"
    by (auto simp: device_destroy_def split: Option.bind_splits)
  have same: "vms s1 = vms s \<and> devs s1 = devs s"
    using s1 d1 destroy_vms [OF _ False] by (auto split: option.splits)
  define s2 where "s2 = (if d_irq_fd d1 \<ge> 0 then snd (syscall E (SYS_close (d_irq_fd d1)) s1) else s1)"
  have s2: "vms s2 = vms s1" by (simp add: s2_def syscall_def Let_def)
  obtain s3 where s3: "free_obj (d_data d1) s2 = Some s3" and s4: "free_obj dev s3 = Some s'"
    using assms(1,2) False s1 d1 by (auto simp: device_destroy_def s2_def split: Option.bind_splits)
  have "d1 = d" using d1 same assms(2) by simp
  with s3 s4 s2 same assms(3,4) show ?thesis
    by (auto simp: free_obj_def fun_upd_idem split: if_splits)
qed (use assms(1) in \<open>simp add: device_destroy_def\<close>)

text \<open>Unregistering takes exactly this device out of the list of its machine.\<close>

lemma unregister_removes:
  assumes "device_unregister E tbl dev s = Some s'" and "dev \<noteq> 0" and "devs s dev = Some d"
    and "d_vm d \<noteq> 0" and "vms s (d_vm d) = Some v" and "vm_devs_wf v"
    and "vms s dev = None" and "vms s (d_data d) = None"
  shows "\<exists>v'. vms s' = (vms s)(d_vm d \<mapsto> v') \<and> vm_devs_wf v' \<and> registered v' = remove1 dev (registered v)"
proof -
  let ?s = "set_vm (d_vm d) (remove_device v dev) s"
  have "device_destroy E tbl dev ?s = Some s'"
    using assms by (simp add: device_unregister_def)
  moreover have "d_vm d \<noteq> dev" "d_vm d \<noteq> d_data d" using assms(5,7,8) by auto
  ultimately have "vms s' = vms ?s"
    using destroy_keeps_vms [of E dev ?s s' d] assms(3,7,8) by simp
  then show ?thesis using remove_device_registered [OF assms(6)] by auto
qed

end

end
