(* ===== verification/Mmio_Console.thy ===== *)
theory Mmio_Console
  imports Devices
begin

text \<open>
  The debug console, \<^verbatim>\<open>src/devices/mmio.c\<close>: a serial port in the manner of the 16550 with its
  registers in \<^typ>\<open>mmio_console_state\<close>. The read and write handlers, the destructor, the
  operation table and the constructor are translated; the laws are about single registers and
  about whole sequences of guest accesses.
\<close>

section \<open>Registers\<close>

definition UART_LSR_DR :: u8 where "UART_LSR_DR = 0x01"
definition UART_LSR_THRE :: u8 where "UART_LSR_THRE = 0x20"
definition UART_LSR_TEMT :: u8 where "UART_LSR_TEMT = 0x40"
definition UART_IIR_NO_INT :: u8 where "UART_IIR_NO_INT = 0x01"
definition MMIO_CONSOLE_GPA :: u64 where "MMIO_CONSOLE_GPA = 0x90000000"
definition MMIO_CONSOLE_SIZE :: u64 where "MMIO_CONSOLE_SIZE = 0x1000"

abbreviation set_uart :: "ref \<Rightarrow> mmio_console_state \<Rightarrow> host \<Rightarrow> host" where
  "set_uart r u s \<equiv> s\<lparr>uarts := (uarts s)(r \<mapsto> u)\<rparr>"

text \<open>The value read at an offset, and the registers after it.\<close>

definition uart_read :: "mmio_console_state \<Rightarrow> u64 \<Rightarrow> u8 \<times> mmio_console_state" where
  "uart_read u off =
     (if off = 0 then
        (if u_dlab u then (u_dll u, u) else (u_rx_buf u, u\<lparr>u_lsr := u_lsr u AND NOT UART_LSR_DR\<rparr>))
      else if off = 1 then (if u_dlab u then u_dlm u else u_ier u, u)
      else if off = 2 then (u_iir u, u)
      else if off = 3 then (u_lcr u, u)
      else if off = 4 then (u_mcr u, u)
      else if off = 5 then (u_lsr u, u)
      else if off = 6 then (u_msr u, u)
      else if off = 7 then (u_scr u, u)
      else (0, u))"

definition mmio_console_read :: "ref \<Rightarrow> u64 \<Rightarrow> u8 list \<Rightarrow> u64 \<Rightarrow> host \<Rightarrow> (int \<times> u8 list \<times> host) option" where
  "mmio_console_read dev off data sz s =
     do { d \<leftarrow> devs s dev;
          u \<leftarrow> uarts s (d_data d);
          let (val, u') = uart_read u off;
          data' \<leftarrow> put_buf data 0 [val];
          Some (0, data', set_uart (d_data d) u' s) }"

text \<open>Transmission of a character: standard output, then the log file when it is open.\<close>

definition uart_transmit :: "env \<Rightarrow> mmio_console_state \<Rightarrow> u8 \<Rightarrow> host \<Rightarrow> host" where
  "uart_transmit E u val s =
     (let s1 = putchar val s in
      if u_log_file u \<noteq> 0 then snd (syscall E (SYS_fputc (u_log_file u) val) s1) else s1)"

definition mmio_console_write :: "env \<Rightarrow> ref \<Rightarrow> u64 \<Rightarrow> u8 list \<Rightarrow> u64 \<Rightarrow> host \<Rightarrow> (int \<times> host) option" where
  "mmio_console_write E dev off data sz s =
     do { d \<leftarrow> devs s dev;
          val \<leftarrow> (case data of [] \<Rightarrow> None | b # _ \<Rightarrow> Some b);
          u \<leftarrow> uarts s (d_data d);
          let r = d_data d;
          Some (0,
            if off = 0 then
              (if u_dlab u then set_uart r (u\<lparr>u_dll := val\<rparr>) s
               else set_uart r (u\<lparr>u_lsr := u_lsr u OR (UART_LSR_TEMT OR UART_LSR_THRE)\<rparr>) (uart_transmit E u val s))
            else if off = 1 then set_uart r (if u_dlab u then u\<lparr>u_dlm := val\<rparr> else u\<lparr>u_ier := val\<rparr>) s
            else if off = 2 then s
            else if off = 3 then set_uart r (u\<lparr>u_lcr := val, u_dlab := (val AND 0x80 \<noteq> 0)\<rparr>) s
            else if off = 4 then set_uart r (u\<lparr>u_mcr := val\<rparr>) s
            else if off = 7 then set_uart r (u\<lparr>u_scr := val\<rparr>) s
            else s) }"

definition mmio_console_destroy :: "env \<Rightarrow> ref \<Rightarrow> host \<Rightarrow> host option" where
  "mmio_console_destroy E dev s =
     do { d \<leftarrow> devs s dev;
          if d_data d = 0 then Some s
          else do {
            u \<leftarrow> uarts s (d_data d);
            let s1 = (if u_stdin_fd u \<ge> 0 then snd (syscall E (SYS_close (u_stdin_fd u)) s) else s);
            let s2 = (if u_log_file u \<noteq> 0 then snd (syscall E (SYS_fclose (u_log_file u)) s1) else s1);
            Some s2 } }"

definition mmio_console_ops :: "env \<Rightarrow> device_ops" where
  "mmio_console_ops E = \<lparr>do_name = ''mmio-console'', do_read = Some mmio_console_read,
     do_write = Some (mmio_console_write E), do_destroy = Some (mmio_console_destroy E)\<rparr>"

section \<open>Creation\<close>

definition zero_uart :: mmio_console_state where
  "zero_uart = \<lparr>u_rx_buf = 0, u_tx_buf = 0, u_ier = 0, u_iir = 0, u_lcr = 0, u_mcr = 0, u_lsr = 0, u_msr = 0,
     u_scr = 0, u_dll = 0, u_dlm = 0, u_dlab = False, u_stdin_fd = 0, u_log_file = 0\<rparr>"

definition uart_init :: "int \<Rightarrow> mmio_console_state" where
  "uart_init log_file = zero_uart\<lparr>u_lsr := UART_LSR_TEMT OR UART_LSR_THRE, u_iir := UART_IIR_NO_INT,
     u_stdin_fd := 0, u_log_file := log_file\<rparr>"

definition log_banner :: "u8 list" where
  "log_banner = map of_char (''=== Vibe-VMM Console Log ==='' @ [CHR 0x0A])"

text \<open>
  The terminal settings the constructor fetches are not used, so that call is left out. The size
  of the private structure is 32 bytes.
\<close>

definition mmio_console_create :: "env \<Rightarrow> host \<Rightarrow> (ref \<times> host) option" where
  "mmio_console_create E s =
     do { (dev, s1) \<leftarrow> device_create E ''mmio-console'' 32 (\<lambda>p. set_uart p zero_uart) s;
          if dev = 0 then Some (0, s1)
          else do {
            d \<leftarrow> devs s1 dev;
            let (f, s2) = syscall E (SYS_fopen ''vmm_console.log'' ''w'') s1;
            let s3 = (if a_ret f \<noteq> 0
                      then foldl (\<lambda>s b. snd (syscall E (SYS_fputc (a_ret f) b) s)) s2 log_banner else s2);
            Some (dev, set_dev dev (d\<lparr>d_ops := Some Mmio_console_ops, d_gpa_start := MMIO_CONSOLE_GPA,
                         d_gpa_end := MMIO_CONSOLE_GPA + MMIO_CONSOLE_SIZE - 1, d_size := MMIO_CONSOLE_SIZE\<rparr>)
                       (set_uart (d_data d) (uart_init (a_ret f)) s3)) } }"

section \<open>The handlers in their frame\<close>

lemma put_buf_length: "put_buf data i xs = Some data' \<Longrightarrow> length data' = length data"
  by (auto simp: put_buf_def array_simps split: if_splits)

lemma set_uart_frame: "handler_frame s s' \<Longrightarrow> handler_frame s (set_uart r u s')"
  by (simp add: handler_frame_def)

lemma uart_transmit_frame: "handler_frame s (uart_transmit E u val s)"
  by (auto simp: uart_transmit_def Let_def syscall_def handler_frame_def putchar_def)

lemma mmio_console_read_frame:
  "mmio_console_read dev off data sz s = Some (ret, data', s') \<Longrightarrow>
   handler_frame s s' \<and> length data' = length data"
  by (auto simp: mmio_console_read_def put_buf_length split: Option.bind_splits prod.splits
      intro: set_uart_frame frame_intros)

lemma mmio_console_write_frame:
  "mmio_console_write E dev off data sz s = Some (ret, s') \<Longrightarrow> handler_frame s s'"
  by (auto simp: mmio_console_write_def Let_def split: Option.bind_splits if_splits
      intro: set_uart_frame uart_transmit_frame frame_intros)

lemma mmio_console_destroy_io: "mmio_console_destroy E dev s = Some s' \<Longrightarrow> io_only s s'"
  by (auto simp: mmio_console_destroy_def Let_def syscall_def io_only_def
      split: Option.bind_splits if_splits)

section \<open>Sequences of guest accesses\<close>

text \<open>
  A guest drives the port by reads and writes of one byte. \<open>console_run\<close> performs a sequence
  of them; \<open>tx_spec\<close> says what the sequence transmits: the bytes written to offset 0 while
  the divisor latch is closed, the latch being opened and closed by bit 7 of the line control
  register.
\<close>

datatype access = Rd u64 | Wr u64 u8

fun console_run :: "env \<Rightarrow> ref \<Rightarrow> access list \<Rightarrow> host \<Rightarrow> host option" where
  "console_run E dev [] s = Some s"
| "console_run E dev (Rd off # as) s =
     do { (ret, data, s') \<leftarrow> mmio_console_read dev off (replicate 8 0) 1 s; console_run E dev as s' }"
| "console_run E dev (Wr off b # as) s =
     do { (ret, s') \<leftarrow> mmio_console_write E dev off [b] 1 s; console_run E dev as s' }"

fun tx_spec :: "bool \<Rightarrow> access list \<Rightarrow> u8 list" where
  "tx_spec dlab [] = []"
| "tx_spec dlab (Rd off # as) = tx_spec dlab as"
| "tx_spec dlab (Wr off b # as) =
     (if off = 0 \<and> \<not> dlab then b # tx_spec dlab as
      else if off = 3 then tx_spec (b AND 0x80 \<noteq> 0) as else tx_spec dlab as)"

text \<open>
  The invariant of the port: the latch flag is bit 7 of the line control register, the
  transmitter is always ready, and the receiver never holds a byte.
\<close>

definition uart_inv :: "mmio_console_state \<Rightarrow> bool" where
  "uart_inv u \<longleftrightarrow> (u_dlab u \<longleftrightarrow> u_lcr u AND 0x80 \<noteq> 0) \<and> u_lsr u = UART_LSR_TEMT OR UART_LSR_THRE \<and> u_rx_buf u = 0"

definition console_live :: "host \<Rightarrow> ref \<Rightarrow> device \<Rightarrow> mmio_console_state \<Rightarrow> bool" where
  "console_live s dev d u \<longleftrightarrow> devs s dev = Some d \<and> uarts s (d_data d) = Some u"

lemmas uart_consts = UART_LSR_DR_def UART_LSR_THRE_def UART_LSR_TEMT_def UART_IIR_NO_INT_def

lemma uart_read_inv: "uart_inv u \<Longrightarrow> uart_inv (snd (uart_read u off))"
  by (simp add: uart_read_def uart_inv_def uart_consts)

lemma console_read_step:
  assumes "console_live s dev d u" and "data \<noteq> []"
  shows "mmio_console_read dev off data sz s =
     Some (0, fst (uart_read u off) # tl data, set_uart (d_data d) (snd (uart_read u off)) s)"
  using assms by (cases data)
    (auto simp: mmio_console_read_def console_live_def put_buf_def splice_def split: prod.splits)

lemma uart_transmit_out:
  "stdout_bytes (uart_transmit E u val s) = stdout_bytes s @ [val]" "devs (uart_transmit E u val s) = devs s"
  "uarts (uart_transmit E u val s) = uarts s"
  by (auto simp: uart_transmit_def Let_def syscall_def putchar_def)

lemma console_write_step:
  assumes "console_live s dev d u"
  shows "\<exists>s' u'. mmio_console_write E dev off (b # bs) sz s = Some (0, s') \<and> console_live s' dev d u'
     \<and> (uart_inv u \<longrightarrow> uart_inv u')
     \<and> u_dlab u' = (if off = 3 then b AND 0x80 \<noteq> 0 else u_dlab u)
     \<and> stdout_bytes s' = stdout_bytes s @ (if off = 0 \<and> \<not> u_dlab u then [b] else [])"
  using assms
  by (auto simp: mmio_console_write_def console_live_def Let_def uart_transmit_out uart_inv_def uart_consts)

lemma uart_read_dlab: "u_dlab (snd (uart_read u off)) = u_dlab u"
  by (simp add: uart_read_def)

lemma console_run_spec:
  assumes "console_live s dev d u"
  shows "\<exists>s' u'. console_run E dev as s = Some s' \<and> console_live s' dev d u'
     \<and> (uart_inv u \<longrightarrow> uart_inv u')
     \<and> stdout_bytes s' = stdout_bytes s @ tx_spec (u_dlab u) as"
  using assms
proof (induction as arbitrary: s u)
  case Nil
  then show ?case by auto
next
  case (Cons a as)
  show ?case
  proof (cases a)
    case (Rd off)
    let ?s = "set_uart (d_data d) (snd (uart_read u off)) s"
    have "console_live ?s dev d (snd (uart_read u off))" using Cons.prems by (simp add: console_live_def)
    from Cons.IH [OF this] show ?thesis
      using Rd console_read_step [OF Cons.prems, of "replicate 8 0"] uart_read_inv [of u off]
      by (auto simp: uart_read_dlab)
  next
    case (Wr off b)
    obtain s1 u1 where w: "mmio_console_write E dev off [b] 1 s = Some (0, s1)" and l: "console_live s1 dev d u1"
      and i: "uart_inv u \<longrightarrow> uart_inv u1" and dl: "u_dlab u1 = (if off = 3 then b AND 0x80 \<noteq> 0 else u_dlab u)"
      and o1: "stdout_bytes s1 = stdout_bytes s @ (if off = 0 \<and> \<not> u_dlab u then [b] else [])"
      using console_write_step [OF Cons.prems, of E off b "[]" 1] by blast
    from Cons.IH [OF l] show ?thesis using Wr w i dl o1 by fastforce
  qed
qed

section \<open>Life cycle\<close>

lemma console_device_create:
  assumes "fresh_heap s" and "n > 0"
  shows "(\<exists>s'. device_create E name n (\<lambda>p. set_uart p zero_uart) s = Some (0, s')
            \<and> devs s' = devs s \<and> uarts s' = uarts s)
     \<or> (\<exists>dev p s'. device_create E name n (\<lambda>p. set_uart p zero_uart) s = Some (dev, s')
            \<and> dev \<noteq> 0 \<and> p \<noteq> 0 \<and> p \<noteq> dev \<and> \<not> obj_live s dev \<and> \<not> obj_live s p
            \<and> devs s' = (devs s)(dev \<mapsto> zero_device\<lparr>d_name := Some name, d_data := p, d_irq_fd := -1\<rparr>)
            \<and> uarts s' = (uarts s)(p \<mapsto> zero_uart))"
proof -
  have fresh: "\<not> obj_live s r" if "next_ref s \<le> r" for r
    using assms(1) that by (simp add: fresh_heap_def)
  have none: "devs s r = None" "uarts s r = None" if "next_ref s \<le> r" for r
    using fresh [OF that] by (auto simp: obj_live_def)
  note defs = device_create_def alloc_def strdup_def free_obj_def obj_live_def
  show ?thesis
  proof (cases "alloc_ok E (next_ref s) \<and> alloc_ok E (Suc (next_ref s)) \<and> alloc_ok E (Suc (Suc (next_ref s)))")
    case True
    then show ?thesis
      using assms fresh [of "next_ref s"] fresh [of "Suc (Suc (next_ref s))"]
      by (intro disjI2 exI [of _ "next_ref s"] exI [of _ "Suc (Suc (next_ref s))"])
        (simp add: defs fresh_heap_def Let_def)
  next
    case False
    then show ?thesis
      using assms none [of "next_ref s"]
      by (intro disjI1) (auto simp: defs fresh_heap_def Let_def fun_upd_idem)
  qed
qed

lemma console_create_ok:
  assumes "device_create E ''mmio-console'' 32 (\<lambda>p. set_uart p zero_uart) s = Some (dev, s')" and "dev \<noteq> 0"
    and "devs s' dev = Some d"
  shows "\<exists>s1 f. mmio_console_create E s = Some (dev, s1)
     \<and> devs s1 = (devs s')(dev \<mapsto> d\<lparr>d_ops := Some Mmio_console_ops, d_gpa_start := MMIO_CONSOLE_GPA,
          d_gpa_end := MMIO_CONSOLE_GPA + MMIO_CONSOLE_SIZE - 1, d_size := MMIO_CONSOLE_SIZE\<rparr>)
     \<and> uarts s1 = (uarts s')(d_data d \<mapsto> uart_init f)"
proof -
  obtain f s2 where f: "syscall E (SYS_fopen ''vmm_console.log'' ''w'') s' = (f, s2)" by fastforce
  define s3 where "s3 = (if a_ret f \<noteq> 0
    then foldl (\<lambda>s b. snd (syscall E (SYS_fputc (a_ret f) b) s)) s2 log_banner else s2)"
  have "io_only s2 s3" by (simp add: s3_def foldl_syscall_io frame_intros)
  then have "devs s3 = devs s'" "uarts s3 = uarts s'"
    using io_only_heaps(1,2) [OF syscall_io_only [OF f]] io_only_heaps(1,2) [of s2 s3] by simp_all
  then show ?thesis
    using assms f by (auto simp: mmio_console_create_def Let_def s3_def [symmetric])
qed

lemma mmio_console_destroy_live:
  assumes "console_live s dev d u"
  shows "\<exists>s'. mmio_console_destroy E dev s = Some s' \<and> io_only s s'"
proof -
  have "mmio_console_destroy E dev s \<noteq> None"
    using assms by (auto simp: mmio_console_destroy_def console_live_def Let_def)
  then show ?thesis using mmio_console_destroy_io by blast
qed

lemma console_device_destroy:
  assumes "console_live s dev d u" and "dev \<noteq> 0" and "d_data d \<noteq> 0" and "d_data d \<noteq> dev"
    and "d_ops d = Some Mmio_console_ops" and "tbl Mmio_console_ops = mmio_console_ops E"
  shows "\<exists>s'. device_destroy E tbl dev s = Some s'
     \<and> devs s' = (devs s)(dev := None, d_data d := None) \<and> uarts s' = (uarts s)(dev := None, d_data d := None)"
proof -
  obtain s1 where s1: "mmio_console_destroy E dev s = Some s1" and io: "io_only s s1"
    using mmio_console_destroy_live [OF assms(1)] by blast
  define s2 where "s2 = (if d_irq_fd d \<ge> 0 then snd (syscall E (SYS_close (d_irq_fd d)) s1) else s1)"
  have "io_only s1 s2"
    by (simp add: s2_def frame_intros)
  then have h: "devs s2 = devs s" "uarts s2 = uarts s"
    using io_only_heaps [OF io] io_only_heaps [of s1 s2] by simp_all
  have "devs s1 dev = Some d" using assms(1) io_only_heaps(1) [OF io] by (simp add: console_live_def)
  then show ?thesis
    using assms s1 h
    by (simp add: device_destroy_def mmio_console_ops_def console_live_def s2_def [symmetric] free_obj_def
        obj_live_def fun_upd_twist)
qed

section \<open>A small console\<close>

definition ex_console_dev :: device where
  "ex_console_dev = zero_device\<lparr>d_ops := Some Mmio_console_ops, d_data := 2, d_gpa_start := 0x90000000,
     d_gpa_end := 0x90000FFF, d_size := 0x1000, d_irq_fd := -1\<rparr>"

definition ex_console_host :: host where
  "ex_console_host = init_host\<lparr>devs := (\<lambda>_. None)(1 \<mapsto> ex_console_dev),
     uarts := (\<lambda>_. None)(2 \<mapsto> uart_init 0), next_ref := 3\<rparr>"

lemma ex_console_live: "console_live ex_console_host 1 ex_console_dev (uart_init 0)"
  by (simp add: console_live_def ex_console_host_def ex_console_dev_def)

lemma ex_console_inv: "uart_inv (uart_init 0)"
  by (simp add: uart_inv_def uart_init_def zero_uart_def)

lemma init_host_fresh: "fresh_heap init_host"
  by (simp add: fresh_heap_def init_host_def obj_live_def)

section \<open>Properties\<close>

text \<open>
  C17: the console transmits what it should. A sequence of guest accesses to a live console never
  fails, keeps the invariant of the port, and adds to standard output exactly the bytes the
  16550 would send: those written to the transmit register while the divisor latch is closed, in
  order.
\<close>

theorem mmio_console_transmits:
  assumes "console_live s dev d u" and "uart_inv u"
  shows "\<exists>s' u'. console_run E dev as s = Some s' \<and> console_live s' dev d u' \<and> uart_inv u'
     \<and> stdout_bytes s' = stdout_bytes s @ tx_spec (u_dlab u) as"
  using console_run_spec [OF assms(1)] assms(2) by blast

theorem mmio_console_transmits_witness:
  "\<exists>s' u'. console_run ok_env 1 [Wr 0 72, Wr 3 0x80, Wr 0 1, Wr 3 3, Rd 5, Wr 0 105] ex_console_host = Some s'
     \<and> console_live s' 1 ex_console_dev u' \<and> uart_inv u' \<and> stdout_bytes s' = [72, 105]"
  using mmio_console_transmits [OF ex_console_live ex_console_inv, of ok_env
      "[Wr 0 72, Wr 3 0x80, Wr 0 1, Wr 3 3, Rd 5, Wr 0 105]"]
  by (simp add: ex_console_host_def init_host_def uart_init_def zero_uart_def)

text \<open>
  Creating and destroying the console leaves no structure behind. Whatever allocation fails,
  the constructor returns a device or null without leaking; a device it returns covers the
  console's page of guest addresses and satisfies the invariant, and destroying it gives every
  structure back.
\<close>

theorem mmio_console_lifecycle:
  assumes "fresh_heap s" and "tbl Mmio_console_ops = mmio_console_ops E"
  shows "\<exists>dev s1. mmio_console_create E s = Some (dev, s1)
     \<and> (dev = 0 \<longrightarrow> devs s1 = devs s \<and> uarts s1 = uarts s)
     \<and> (dev \<noteq> 0 \<longrightarrow> (\<exists>d u s2. console_live s1 dev d u \<and> uart_inv u \<and> \<not> u_dlab u
          \<and> (\<forall>gpa. covers s1 dev gpa \<longleftrightarrow> 0x90000000 \<le> gpa \<and> gpa \<le> 0x90000FFF)
          \<and> device_destroy E tbl dev s1 = Some s2 \<and> devs s2 = devs s \<and> uarts s2 = uarts s))"
  using console_device_create [OF assms(1), where n = 32 and E = E and name = "''mmio-console''", OF zero_less_numeral]
proof (elim disjE exE conjE)
  fix s'
  assume "device_create E ''mmio-console'' 32 (\<lambda>p. set_uart p zero_uart) s = Some (0, s')"
    "devs s' = devs s" "uarts s' = uarts s"
  then show ?thesis by (simp add: mmio_console_create_def)
next
  fix dev p s'
  let ?d = "zero_device\<lparr>d_name := Some ''mmio-console'', d_data := p, d_irq_fd := -1,
     d_ops := Some Mmio_console_ops, d_gpa_start := MMIO_CONSOLE_GPA,
     d_gpa_end := MMIO_CONSOLE_GPA + MMIO_CONSOLE_SIZE - 1, d_size := MMIO_CONSOLE_SIZE\<rparr>"
  assume c: "device_create E ''mmio-console'' 32 (\<lambda>p. set_uart p zero_uart) s = Some (dev, s')"
    and r: "dev \<noteq> 0" "p \<noteq> 0" "p \<noteq> dev" "\<not> obj_live s dev" "\<not> obj_live s p"
    and h: "devs s' = (devs s)(dev \<mapsto> zero_device\<lparr>d_name := Some ''mmio-console'', d_data := p, d_irq_fd := -1\<rparr>)"
      "uarts s' = (uarts s)(p \<mapsto> zero_uart)"
  obtain s1 f where cr: "mmio_console_create E s = Some (dev, s1)" and d1: "devs s1 = (devs s')(dev \<mapsto> ?d)"
    and u1: "uarts s1 = (uarts s')(p \<mapsto> uart_init f)"
    using console_create_ok [OF c r(1)] h(1) by fastforce
  then obtain u where u: "uarts s1 = (uarts s)(p \<mapsto> u)" "uart_inv u" "\<not> u_dlab u"
    using h by (auto simp: uart_inv_def uart_init_def zero_uart_def)
  have live: "console_live s1 dev ?d u" using d1 u h by (simp add: console_live_def)
  obtain s2 where "device_destroy E tbl dev s1 = Some s2" "devs s2 = (devs s1)(dev := None, p := None)"
    "uarts s2 = (uarts s1)(dev := None, p := None)"
    using console_device_destroy [OF live, of tbl E] r assms(2) by auto
  moreover have "devs s dev = None" "devs s p = None" "uarts s dev = None" "uarts s p = None"
    using r(4,5) by (auto simp: obj_live_def)
  ultimately have "device_destroy E tbl dev s1 = Some s2 \<and> devs s2 = devs s \<and> uarts s2 = uarts s"
    using d1 u h by (auto simp: fun_upd_idem)
  moreover have "covers s1 dev gpa \<longleftrightarrow> 0x90000000 \<le> gpa \<and> gpa \<le> 0x90000FFF" for gpa
    using d1 by (simp add: covers_def MMIO_CONSOLE_GPA_def MMIO_CONSOLE_SIZE_def)
  ultimately show ?thesis using cr live u r(1) by blast
qed

theorem mmio_console_lifecycle_witness:
  "\<exists>dev s1. mmio_console_create ok_env init_host = Some (dev, s1)
     \<and> (dev = 0 \<longrightarrow> devs s1 = devs init_host \<and> uarts s1 = uarts init_host)
     \<and> (dev \<noteq> 0 \<longrightarrow> (\<exists>d u s2. console_live s1 dev d u \<and> uart_inv u \<and> \<not> u_dlab u
          \<and> (\<forall>gpa. covers s1 dev gpa \<longleftrightarrow> 0x90000000 \<le> gpa \<and> gpa \<le> 0x90000FFF)
          \<and> device_destroy ok_env (\<lambda>_. mmio_console_ops ok_env) dev s1 = Some s2
          \<and> devs s2 = devs init_host \<and> uarts s2 = uarts init_host))"
  by (rule mmio_console_lifecycle [OF init_host_fresh, where tbl = "\<lambda>_. mmio_console_ops ok_env"]) simp

text \<open>
  Every writable register reads back what was written to it: the scratch, modem control and
  line control registers always, the interrupt enable register with the divisor latch closed, the
  two halves of the divisor with the latch open.
\<close>

theorem mmio_console_readback:
  assumes "console_live s dev d u" and "off \<in> {3, 4, 7} \<or> off = 1 \<or> (off = 0 \<and> u_dlab u)"
  shows "\<exists>s1 s2. mmio_console_write E dev off (b # bs) 1 s = Some (0, s1)
     \<and> mmio_console_read dev off (x # xs) 1 s1 = Some (0, b # xs, s2)"
  using assms
  by (auto simp: mmio_console_write_def mmio_console_read_def console_live_def uart_read_def Let_def
      put_buf_def splice_def)

theorem mmio_console_readback_witness:
  "\<exists>s1 s2. mmio_console_write ok_env 1 7 [0x5A] 1 ex_console_host = Some (0, s1)
     \<and> mmio_console_read 1 7 [0, 0] 1 s1 = Some (0, [0x5A, 0], s2)"
  by (rule mmio_console_readback [OF ex_console_live]) simp

end
