(* ===== verification/Hypervisor.thy ===== *)
theory Hypervisor
  imports Host
begin

text \<open>
  The hypervisor abstraction layer, \<^verbatim>\<open>src/hypervisor.c\<close>, and the operation table
  \<open>struct hv_ops\<close> of \<^verbatim>\<open>include/hypervisor.h\<close>. A member of the table that is a null
  function pointer is \<^const>\<open>None\<close>. The three tables the linker provides are the parameter
  \<open>ops\<close> of every wrapper; which of them is current is the global \<^const>\<open>g_hv_ops\<close>. The locale
  \<open>hv_tables\<close> states what the callers rely on, and the backend theories discharge it.
\<close>

record hv_ops =
  ho_init :: "(host \<Rightarrow> (int \<times> host) option) option"
  ho_cleanup :: "(host \<Rightarrow> host option) option"
  ho_create_vm :: "(host \<Rightarrow> (ref \<times> host) option) option"
  ho_destroy_vm :: "(ref \<Rightarrow> host \<Rightarrow> host option) option"
  ho_vm_get_fd :: "(ref \<Rightarrow> host \<Rightarrow> int option) option"
  ho_create_vcpu :: "(ref \<Rightarrow> int \<Rightarrow> host \<Rightarrow> (ref \<times> host) option) option"
  ho_destroy_vcpu :: "(ref \<Rightarrow> host \<Rightarrow> host option) option"
  ho_vcpu_get_fd :: "(ref \<Rightarrow> host \<Rightarrow> int option) option"
  ho_vcpu_exit :: "(ref \<Rightarrow> host \<Rightarrow> (int \<times> host) option) option"
  ho_map_mem :: "(ref \<Rightarrow> hv_memory_slot \<Rightarrow> host \<Rightarrow> (int \<times> host) option) option"
  ho_unmap_mem :: "(ref \<Rightarrow> u32 \<Rightarrow> host \<Rightarrow> (int \<times> host) option) option"
  ho_run :: "(ref \<Rightarrow> host \<Rightarrow> (int \<times> host) option) option"
  ho_get_exit :: "(ref \<Rightarrow> hv_exit \<Rightarrow> host \<Rightarrow> (int \<times> hv_exit \<times> host) option) option"
  ho_get_regs :: "(ref \<Rightarrow> hv_regs \<Rightarrow> host \<Rightarrow> (int \<times> hv_regs \<times> host) option) option"
  ho_set_regs :: "(ref \<Rightarrow> hv_regs \<Rightarrow> host \<Rightarrow> (int \<times> host) option) option"
  ho_get_sregs :: "(ref \<Rightarrow> hv_sregs \<Rightarrow> host \<Rightarrow> (int \<times> hv_sregs \<times> host) option) option"
  ho_set_sregs :: "(ref \<Rightarrow> hv_sregs \<Rightarrow> host \<Rightarrow> (int \<times> host) option) option"
  ho_irq_line :: "(ref \<Rightarrow> int \<Rightarrow> int \<Rightarrow> host \<Rightarrow> (int \<times> host) option) option"

type_synonym hv_linked = "hv_backend \<Rightarrow> hv_ops"

section \<open>Selecting a backend\<close>

definition hv_detect :: "env \<Rightarrow> hv_type \<Rightarrow> hv_type" where
  "hv_detect E type =
     (if type = HV_TYPE_AUTO
      then (case os_of E of
              Linux \<Rightarrow> HV_TYPE_KVM
            | MacOS \<Rightarrow> (case arch_of E of AARCH64 \<Rightarrow> HV_TYPE_HVF_ARM64 | X86_64 \<Rightarrow> HV_TYPE_HVF_X86_64))
      else type)"

fun hv_select :: "env \<Rightarrow> hv_type \<Rightarrow> hv_backend option" where
  "hv_select E HV_TYPE_KVM = Some Kvm_ops"
| "hv_select E HV_TYPE_HVF_X86_64 = Some Hvf_ops"
| "hv_select E HV_TYPE_HVF_ARM64 = Some Hvf_arm64_ops"
| "hv_select E HV_TYPE_HVF = (if arch_of E = X86_64 then Some Hvf_ops else Some Hvf_arm64_ops)"
| "hv_select E HV_TYPE_AUTO = None"

definition hv_init :: "env \<Rightarrow> hv_linked \<Rightarrow> hv_type \<Rightarrow> host \<Rightarrow> (int \<times> host) option" where
  "hv_init E ops type s =
     (case hv_select E (hv_detect E type) of
        None \<Rightarrow> Some (-1, s)
      | Some b \<Rightarrow>
          let s1 = s\<lparr>g_hv_ops := Some b\<rparr> in
          (case ho_init (ops b) of
             None \<Rightarrow> Some (0, s1)
           | Some init \<Rightarrow>
               do { (ret, s2) \<leftarrow> init s1;
                    if ret < 0 then Some (ret, s2\<lparr>g_hv_ops := None\<rparr>) else Some (0, s2) }))"

text \<open>The current table's member, when there is a table and the member is not null.\<close>

definition cur_op :: "hv_linked \<Rightarrow> (hv_ops \<Rightarrow> 'f option) \<Rightarrow> host \<Rightarrow> 'f option" where
  "cur_op ops member s = (case g_hv_ops s of None \<Rightarrow> None | Some b \<Rightarrow> member (ops b))"

definition hv_cleanup :: "hv_linked \<Rightarrow> host \<Rightarrow> host option" where
  "hv_cleanup ops s =
     do { s' \<leftarrow> (case cur_op ops ho_cleanup s of None \<Rightarrow> Some s | Some f \<Rightarrow> f s);
          Some (s'\<lparr>g_hv_ops := None\<rparr>) }"

definition hv_get_ops :: "host \<Rightarrow> hv_backend option" where
  "hv_get_ops s = g_hv_ops s"

section \<open>The wrappers\<close>

definition hv_create_vm :: "hv_linked \<Rightarrow> host \<Rightarrow> (ref \<times> host) option" where
  "hv_create_vm ops s = (case cur_op ops ho_create_vm s of None \<Rightarrow> Some (0, s) | Some f \<Rightarrow> f s)"

definition hv_destroy_vm :: "hv_linked \<Rightarrow> ref \<Rightarrow> host \<Rightarrow> host option" where
  "hv_destroy_vm ops vm s = (case cur_op ops ho_destroy_vm s of None \<Rightarrow> Some s | Some f \<Rightarrow> f vm s)"

definition hv_vm_get_fd :: "hv_linked \<Rightarrow> ref \<Rightarrow> host \<Rightarrow> int option" where
  "hv_vm_get_fd ops vm s = (case cur_op ops ho_vm_get_fd s of None \<Rightarrow> Some (-1) | Some f \<Rightarrow> f vm s)"

definition hv_create_vcpu :: "hv_linked \<Rightarrow> ref \<Rightarrow> int \<Rightarrow> host \<Rightarrow> (ref \<times> host) option" where
  "hv_create_vcpu ops vm index s =
     (case cur_op ops ho_create_vcpu s of None \<Rightarrow> Some (0, s) | Some f \<Rightarrow> f vm index s)"

definition hv_destroy_vcpu :: "hv_linked \<Rightarrow> ref \<Rightarrow> host \<Rightarrow> host option" where
  "hv_destroy_vcpu ops vcpu s =
     (case cur_op ops ho_destroy_vcpu s of None \<Rightarrow> Some s | Some f \<Rightarrow> f vcpu s)"

definition hv_vcpu_get_fd :: "hv_linked \<Rightarrow> ref \<Rightarrow> host \<Rightarrow> int option" where
  "hv_vcpu_get_fd ops vcpu s =
     (case cur_op ops ho_vcpu_get_fd s of None \<Rightarrow> Some (-1) | Some f \<Rightarrow> f vcpu s)"

definition hv_vcpu_exit :: "hv_linked \<Rightarrow> ref \<Rightarrow> host \<Rightarrow> (int \<times> host) option" where
  "hv_vcpu_exit ops vcpu s =
     (if g_hv_ops s = None then Some (-1, s)
      else (case cur_op ops ho_vcpu_exit s of None \<Rightarrow> Some (0, s) | Some f \<Rightarrow> f vcpu s))"

definition hv_map_mem :: "hv_linked \<Rightarrow> ref \<Rightarrow> u32 \<Rightarrow> u64 \<Rightarrow> ptr \<Rightarrow> u64 \<Rightarrow> host \<Rightarrow> (int \<times> host) option" where
  "hv_map_mem ops vm slot gpa hva sz s =
     (case cur_op ops ho_map_mem s of
        None \<Rightarrow> Some (-1, s)
      | Some f \<Rightarrow> f vm \<lparr>ms_slot = slot, ms_gpa = gpa, ms_size = sz, ms_hva = hva, ms_flags = 0\<rparr> s)"

definition hv_unmap_mem :: "hv_linked \<Rightarrow> ref \<Rightarrow> u32 \<Rightarrow> host \<Rightarrow> (int \<times> host) option" where
  "hv_unmap_mem ops vm slot s =
     (case cur_op ops ho_unmap_mem s of None \<Rightarrow> Some (-1, s) | Some f \<Rightarrow> f vm slot s)"

definition hv_run :: "hv_linked \<Rightarrow> ref \<Rightarrow> host \<Rightarrow> (int \<times> host) option" where
  "hv_run ops vcpu s = (case cur_op ops ho_run s of None \<Rightarrow> Some (-1, s) | Some f \<Rightarrow> f vcpu s)"

definition hv_get_exit :: "hv_linked \<Rightarrow> ref \<Rightarrow> hv_exit \<Rightarrow> host \<Rightarrow> (int \<times> hv_exit \<times> host) option" where
  "hv_get_exit ops vcpu ex s =
     (case cur_op ops ho_get_exit s of None \<Rightarrow> Some (-1, ex, s) | Some f \<Rightarrow> f vcpu ex s)"

definition hv_get_regs :: "hv_linked \<Rightarrow> ref \<Rightarrow> hv_regs \<Rightarrow> host \<Rightarrow> (int \<times> hv_regs \<times> host) option" where
  "hv_get_regs ops vcpu regs s =
     (case cur_op ops ho_get_regs s of None \<Rightarrow> Some (-1, regs, s) | Some f \<Rightarrow> f vcpu regs s)"

definition hv_set_regs :: "hv_linked \<Rightarrow> ref \<Rightarrow> hv_regs \<Rightarrow> host \<Rightarrow> (int \<times> host) option" where
  "hv_set_regs ops vcpu regs s =
     (case cur_op ops ho_set_regs s of None \<Rightarrow> Some (-1, s) | Some f \<Rightarrow> f vcpu regs s)"

definition hv_get_sregs :: "hv_linked \<Rightarrow> ref \<Rightarrow> hv_sregs \<Rightarrow> host \<Rightarrow> (int \<times> hv_sregs \<times> host) option" where
  "hv_get_sregs ops vcpu sregs s =
     (case cur_op ops ho_get_sregs s of None \<Rightarrow> Some (-1, sregs, s) | Some f \<Rightarrow> f vcpu sregs s)"

definition hv_set_sregs :: "hv_linked \<Rightarrow> ref \<Rightarrow> hv_sregs \<Rightarrow> host \<Rightarrow> (int \<times> host) option" where
  "hv_set_sregs ops vcpu sregs s =
     (case cur_op ops ho_set_sregs s of None \<Rightarrow> Some (-1, s) | Some f \<Rightarrow> f vcpu sregs s)"

definition hv_irq_line :: "hv_linked \<Rightarrow> ref \<Rightarrow> int \<Rightarrow> int \<Rightarrow> host \<Rightarrow> (int \<times> host) option" where
  "hv_irq_line ops vm irq level s =
     (case cur_op ops ho_irq_line s of None \<Rightarrow> Some (-1, s) | Some f \<Rightarrow> f vm irq level s)"

lemma hv_select_detect: "\<exists>b. hv_select E (hv_detect E type) = Some b"
  by (cases type; cases "os_of E"; cases "arch_of E") (simp_all add: hv_detect_def)

section \<open>The contract of a backend\<close>

text \<open>
  What the layer and its callers rely on: initialisation leaves the choice of the table alone;
  mapping, unmapping, reading an exit and the interrupt line touch nothing of the process but the record of calls;
  running a processor may change memory contents but no structure of the program.
\<close>

locale hv_tables =
  fixes ops :: hv_linked
  assumes init_keeps_table:
      "ho_init (ops b) = Some f \<Longrightarrow> f s = Some (ret, s') \<Longrightarrow> g_hv_ops s' = g_hv_ops s"
    and map_io: "ho_map_mem (ops b) = Some g \<Longrightarrow> g vm slot s = Some (ret, s') \<Longrightarrow> io_only s s'"
    and unmap_io: "ho_unmap_mem (ops b) = Some h \<Longrightarrow> h vm n s = Some (ret, s') \<Longrightarrow> io_only s s'"
    and irq_io: "ho_irq_line (ops b) = Some k \<Longrightarrow> k vm irq level s = Some (ret, s') \<Longrightarrow> io_only s s'"
    and run_frame: "ho_run (ops b) = Some r \<Longrightarrow> r vcpu s = Some (ret, s') \<Longrightarrow> handler_frame s s'"
    and get_exit_io: "ho_get_exit (ops b) = Some e \<Longrightarrow> e vcpu ex s = Some (ret, ex', s') \<Longrightarrow> io_only s s'"
begin

lemma init_selects:
  assumes "hv_init E ops type s = Some (ret, s')"
  shows "g_hv_ops s' = (if ret = 0 then hv_select E (hv_detect E type) else None) \<and> ret \<le> 0"
proof -
  obtain b where b: "hv_select E (hv_detect E type) = Some b" using hv_select_detect by blast
  show ?thesis
  proof (cases "ho_init (ops b)")
    case None
    with assms b show ?thesis by (auto simp: hv_init_def Let_def)
  next
    case (Some f)
    with assms b obtain r s2 where f: "f (s\<lparr>g_hv_ops := Some b\<rparr>) = Some (r, s2)"
      and res: "(if r < 0 then Some (r, s2\<lparr>g_hv_ops := None\<rparr>) else Some (0, s2)) = Some (ret, s')"
      by (auto simp: hv_init_def Let_def split: Option.bind_splits)
    have "g_hv_ops s2 = Some b" using init_keeps_table [OF Some f] by simp
    with b res show ?thesis by (auto split: if_splits)
  qed
qed

lemma map_mem_io: "hv_map_mem ops vm slot gpa hva sz s = Some (ret, s') \<Longrightarrow> io_only s s'"
  by (auto simp: hv_map_mem_def cur_op_def frame_intros split: option.splits dest: map_io)

lemma unmap_mem_io: "hv_unmap_mem ops vm slot s = Some (ret, s') \<Longrightarrow> io_only s s'"
  by (auto simp: hv_unmap_mem_def cur_op_def frame_intros split: option.splits dest: unmap_io)

lemma irq_line_io: "hv_irq_line ops vm irq level s = Some (ret, s') \<Longrightarrow> io_only s s'"
  by (auto simp: hv_irq_line_def cur_op_def frame_intros split: option.splits dest: irq_io)

lemma hv_run_frame: "hv_run ops vcpu s = Some (ret, s') \<Longrightarrow> handler_frame s s'"
  by (auto simp: hv_run_def cur_op_def frame_intros split: option.splits dest: run_frame)

lemma hv_get_exit_io: "hv_get_exit ops vcpu ex s = Some (ret, ex', s') \<Longrightarrow> io_only s s'"
  by (auto simp: hv_get_exit_def cur_op_def frame_intros split: option.splits dest: get_exit_io)

end

end
