(* ===== verification/Kvm.thy ===== *)
theory Kvm
  imports Hypervisor
begin

text \<open>
  The KVM backend, \<^verbatim>\<open>src/hypervisor/kvm.c\<close>, and the stub tables of
  \<^verbatim>\<open>src/hypervisor/kvm_stub.c\<close> and \<^verbatim>\<open>src/hypervisor/hvf_stub.c\<close>. The kernel is reached by
  ioctls: the fields of the structure passed are the words of the call, the fields the kernel
  writes back are the words of its answer, in the order of the structure. The run area shared
  with the kernel is a memory block, read at the byte offsets of \<open>struct kvm_run\<close>.
\<close>

section \<open>Initialisation\<close>

definition KVM_API_VERSION :: int where "KVM_API_VERSION = 12"

definition EINTR :: int where "EINTR = 4"

definition kvm_init :: "env \<Rightarrow> host \<Rightarrow> (int \<times> host) option" where
  "kvm_init E s =
     (let (a, s1) = syscall E (SYS_open ''/dev/kvm'' ''O_RDWR'') s;
          s2 = s1\<lparr>kvm_fd := a_ret a\<rparr> in
      if a_ret a < 0 then Some (-1, s2)
      else
        let (v, s3) = syscall E (SYS_ioctl (kvm_fd s2) ''KVM_GET_API_VERSION'' [0]) s2 in
        if a_ret v < 0 \<or> a_ret v \<noteq> KVM_API_VERSION
        then Some (-1, (snd (syscall E (SYS_close (kvm_fd s3)) s3))\<lparr>kvm_fd := -1\<rparr>)
        else Some (0, s3))"

definition kvm_cleanup :: "env \<Rightarrow> host \<Rightarrow> host option" where
  "kvm_cleanup E s =
     Some (if kvm_fd s \<ge> 0 then (snd (syscall E (SYS_close (kvm_fd s)) s))\<lparr>kvm_fd := -1\<rparr> else s)"

section \<open>Machines and processors\<close>

definition zero_hv_vm :: hv_vm where
  "zero_hv_vm = \<lparr>hv_ops_of = Kvm_ops, hv_fd = 0, hv_mmap_size = 0, hv_vm_created = 0\<rparr>"

definition zero_hv_vcpu :: hv_vcpu where
  "zero_hv_vcpu = \<lparr>hc_ops = Kvm_ops, hc_fd = 0, hc_vm = 0, hc_index = 0, hc_run = NULL,
     hc_id = 0, hc_created = 0, hc_exit_info = NULL\<rparr>"

text \<open>
  The backend data \<open>struct kvm_vm_data\<close> and \<open>struct kvm_vcpu_data\<close> are allocated on their own;
  their one field is kept in the handle.
\<close>

definition kvm_create_vm :: "env \<Rightarrow> host \<Rightarrow> (ref \<times> host) option" where
  "kvm_create_vm E s =
     (let (a, s1) = syscall E (SYS_ioctl (kvm_fd s) ''KVM_CREATE_VM'' [0]) s in
      if a_ret a < 0 then Some (0, s1)
      else
        let (vm, s2) = alloc E s1 in
        if vm = 0 then Some (0, snd (syscall E (SYS_close (a_ret a)) s2))
        else
          let (data, s3) = alloc E (s2\<lparr>hv_vms := (hv_vms s2)(vm \<mapsto> zero_hv_vm)\<rparr>) in
          if data = 0 then do { s4 \<leftarrow> free_obj vm s3; Some (0, snd (syscall E (SYS_close (a_ret a)) s4)) }
          else
            let (m, s4) = syscall E (SYS_ioctl (kvm_fd s3) ''KVM_GET_VCPU_MMAP_SIZE'' [0]) s3 in
            if a_ret m \<le> 0
            then do { s5 \<leftarrow> free_obj vm s4; Some (0, snd (syscall E (SYS_close (a_ret a)) s5)) }
            else Some (vm, s4\<lparr>hv_vms := (hv_vms s4)(vm \<mapsto>
                   zero_hv_vm\<lparr>hv_ops_of := Kvm_ops, hv_fd := a_ret a, hv_mmap_size := a_ret m\<rparr>)\<rparr>))"

definition kvm_destroy_vm :: "env \<Rightarrow> ref \<Rightarrow> host \<Rightarrow> host option" where
  "kvm_destroy_vm E vm s =
     (if vm = 0 then Some s
      else do { v \<leftarrow> hv_vms s vm;
                free_obj vm (if hv_fd v \<ge> 0 then snd (syscall E (SYS_close (hv_fd v)) s) else s) })"

definition kvm_vm_get_fd :: "ref \<Rightarrow> host \<Rightarrow> int option" where
  "kvm_vm_get_fd vm s = do { v \<leftarrow> hv_vms s vm; Some (hv_fd v) }"

definition kvm_create_vcpu :: "env \<Rightarrow> ref \<Rightarrow> int \<Rightarrow> host \<Rightarrow> (ref \<times> host) option" where
  "kvm_create_vcpu E vm index s =
     do {
       v \<leftarrow> hv_vms s vm;
       let (a, s1) = syscall E (SYS_ioctl (hv_fd v) ''KVM_CREATE_VCPU'' [of_int index]) s;
       if a_ret a < 0 then Some (0, s1)
       else
         let (vcpu, s2) = alloc E s1 in
         if vcpu = 0 then Some (0, snd (syscall E (SYS_close (a_ret a)) s2))
         else
           let (data, s3) = alloc E (s2\<lparr>hv_vcpus := (hv_vcpus s2)(vcpu \<mapsto> zero_hv_vcpu)\<rparr>) in
           if data = 0 then do { s4 \<leftarrow> free_obj vcpu s3; Some (0, snd (syscall E (SYS_close (a_ret a)) s4)) }
           else
             let (run, s4) = mmap E (a_ret a) (hv_mmap_size v) 0 s3 in
             if run = NULL
             then do { s5 \<leftarrow> free_obj vcpu s4; Some (0, snd (syscall E (SYS_close (a_ret a)) s5)) }
             else Some (vcpu, s4\<lparr>hv_vcpus := (hv_vcpus s4)(vcpu \<mapsto>
                    zero_hv_vcpu\<lparr>hc_ops := Kvm_ops, hc_fd := a_ret a, hc_vm := vm, hc_index := index, hc_run := run\<rparr>)\<rparr>) }"

definition kvm_destroy_vcpu :: "env \<Rightarrow> ref \<Rightarrow> host \<Rightarrow> host option" where
  "kvm_destroy_vcpu E vcpu s =
     (if vcpu = 0 then Some s
      else do {
        c \<leftarrow> hv_vcpus s vcpu;
        s1 \<leftarrow> (if hc_run c = NULL then Some s
               else do { v \<leftarrow> hv_vms s (hc_vm c); Some (munmap E (hc_run c) (hv_mmap_size v) s) });
        free_obj vcpu (if hc_fd c \<ge> 0 then snd (syscall E (SYS_close (hc_fd c)) s1) else s1) })"

definition kvm_vcpu_get_fd :: "ref \<Rightarrow> host \<Rightarrow> int option" where
  "kvm_vcpu_get_fd vcpu s = do { c \<leftarrow> hv_vcpus s vcpu; Some (hc_fd c) }"

section \<open>Memory and interrupts\<close>

text \<open>A host pointer as the kernel receives it: block and offset.\<close>

fun ptr_words :: "ptr \<Rightarrow> u64 list" where
  "ptr_words (Ptr b off) = [of_nat b, off]"

text \<open>An ioctl whose failure is the only thing the code looks at.\<close>

definition ioctl_check :: "env \<Rightarrow> int \<Rightarrow> string \<Rightarrow> u64 list \<Rightarrow> host \<Rightarrow> int \<times> host" where
  "ioctl_check E fd req ws s =
     (let (a, s') = syscall E (SYS_ioctl fd req ws) s in (if a_ret a < 0 then -1 else 0, s'))"

definition kvm_map_mem :: "env \<Rightarrow> ref \<Rightarrow> hv_memory_slot \<Rightarrow> host \<Rightarrow> (int \<times> host) option" where
  "kvm_map_mem E vm slot s =
     do { v \<leftarrow> hv_vms s vm;
          Some (ioctl_check E (hv_fd v) ''KVM_SET_USER_MEMORY_REGION''
            ([ucast (ms_slot slot), ucast (ucast (ms_flags slot) :: u32), ms_gpa slot, ms_size slot]
             @ ptr_words (ms_hva slot)) s) }"

definition kvm_unmap_mem :: "env \<Rightarrow> ref \<Rightarrow> u32 \<Rightarrow> host \<Rightarrow> (int \<times> host) option" where
  "kvm_unmap_mem E vm slot s =
     do { v \<leftarrow> hv_vms s vm;
          Some (ioctl_check E (hv_fd v) ''KVM_SET_USER_MEMORY_REGION'' ([ucast slot, 0, 0, 0] @ ptr_words NULL) s) }"

definition kvm_irq_line :: "env \<Rightarrow> ref \<Rightarrow> int \<Rightarrow> int \<Rightarrow> host \<Rightarrow> (int \<times> host) option" where
  "kvm_irq_line E vm irq level s =
     do { v \<leftarrow> hv_vms s vm;
          Some (ioctl_check E (hv_fd v) ''KVM_IRQ_LINE''
            [ucast (of_int irq :: u32), if level \<noteq> 0 then 1 else 0] s) }"

section \<open>Running\<close>

text \<open>While the call is in the kernel the guest runs: the run area and guest memory change.\<close>

definition kvm_run :: "env \<Rightarrow> ref \<Rightarrow> host \<Rightarrow> (int \<times> host) option" where
  "kvm_run E vcpu s =
     do { c \<leftarrow> hv_vcpus s vcpu;
          let (a, s') = syscall E (SYS_ioctl (hc_fd c) ''KVM_RUN'' [0]) (guest_runs E s);
          if a_ret a < 0 then (if errno s' = EINTR then Some (0, s') else Some (-1, s')) else Some (0, s') }"

definition kvm_convert_exit_reason :: "u32 \<Rightarrow> hv_exit_reason" where
  "kvm_convert_exit_reason r =
     (if r = 5 then HV_EXIT_HLT
      else if r = 2 then HV_EXIT_IO
      else if r = 6 then HV_EXIT_MMIO
      else if r = 10 then HV_EXIT_EXTERNAL
      else if r = 9 then HV_EXIT_FAIL_ENTRY
      else if r = 8 then HV_EXIT_SHUTDOWN
      else if r = 17 then HV_EXIT_INTERNAL_ERROR
      else if r = 1 then HV_EXIT_EXCEPTION
      else HV_EXIT_UNKNOWN)"

definition zero_exit :: hv_exit where
  "zero_exit = \<lparr>ex_reason = HV_EXIT_UNKNOWN,
     ex_io = \<lparr>io_port = 0, io_size = 0, io_direction = HV_IO_IN, io_data = 0\<rparr>,
     ex_mmio = \<lparr>mmio_addr = 0, mmio_size = 0, mmio_is_write = 0, mmio_data = 0\<rparr>, ex_error_code = 0\<rparr>"

text \<open>
  The fields of the run area: the exit reason at offset 8, the union at 16. A copy into the
  zeroed exit structure fills the low bytes of the field; it must not pass the end of the
  structure, 16 bytes after the port data and 8 after the MMIO data.
\<close>

definition kvm_exit_io :: "host \<Rightarrow> ptr \<Rightarrow> hv_io option" where
  "kvm_exit_io s run =
     do {
       dir \<leftarrow> load_word s (ptr_add run 16) 2 :: u16 option;
       sz \<leftarrow> load_word s (ptr_add run 18) 2 :: u16 option;
       port \<leftarrow> load_word s (ptr_add run 20) 2;
       data \<leftarrow> (if dir = 0
         then do { off \<leftarrow> load_word s (ptr_add run 24) 8;
                   bs \<leftarrow> load s (ptr_add run off) (unat sz);
                   if unat sz \<le> 16 then Some (le_word (take 4 bs)) else None }
         else Some 0);
       Some \<lparr>io_port = port, io_size = ucast sz, io_direction = (if dir = 0 then HV_IO_IN else HV_IO_OUT),
             io_data = data\<rparr> }"

definition kvm_exit_mmio :: "host \<Rightarrow> ptr \<Rightarrow> hv_mmio option" where
  "kvm_exit_mmio s run =
     do {
       addr \<leftarrow> load_word s (ptr_add run 16) 8;
       len \<leftarrow> load_word s (ptr_add run 32) 4 :: u32 option;
       w \<leftarrow> load_word s (ptr_add run 36) 1 :: u8 option;
       data \<leftarrow> (if w \<noteq> 0
         then (if unat len \<le> 8 then map_option le_word (load s (ptr_add run 24) (unat len)) else None)
         else Some 0);
       Some \<lparr>mmio_addr = addr, mmio_size = ucast len, mmio_is_write = uint w, mmio_data = data\<rparr> }"

definition kvm_get_exit :: "ref \<Rightarrow> hv_exit \<Rightarrow> host \<Rightarrow> (int \<times> hv_exit \<times> host) option" where
  "kvm_get_exit vcpu ex s =
     do {
       c \<leftarrow> hv_vcpus s vcpu;
       r \<leftarrow> load_word s (ptr_add (hc_run c) 8) 4 :: u32 option;
       let ex0 = zero_exit\<lparr>ex_reason := kvm_convert_exit_reason r\<rparr>;
       ex' \<leftarrow> (if r = 2 then do { x \<leftarrow> kvm_exit_io s (hc_run c); Some (ex0\<lparr>ex_io := x\<rparr>) }
               else if r = 6 then do { x \<leftarrow> kvm_exit_mmio s (hc_run c); Some (ex0\<lparr>ex_mmio := x\<rparr>) }
               else if r = 9 then do { x \<leftarrow> load_word s (hc_run c) 8; Some (ex0\<lparr>ex_error_code := x\<rparr>) }
               else if r = 17
               then do { x \<leftarrow> load_word s (ptr_add (hc_run c) 64) 4; Some (ex0\<lparr>ex_error_code := ucast (x :: u32)\<rparr>) }
               else Some ex0);
       Some (0, ex', s) }"

section \<open>Registers\<close>

definition kvm_get_regs :: "env \<Rightarrow> ref \<Rightarrow> hv_regs \<Rightarrow> host \<Rightarrow> (int \<times> hv_regs \<times> host) option" where
  "kvm_get_regs E vcpu regs s =
     do {
       c \<leftarrow> hv_vcpus s vcpu;
       let (a, s') = syscall E (SYS_ioctl (hc_fd c) ''KVM_GET_REGS'' []) s;
       let w = (\<lambda>i. if i < length (a_words a) then a_words a ! i else 0);
       if a_ret a < 0 then Some (-1, regs, s')
       else Some (0, \<lparr>rg_rax = w 0, rg_rbx = w 1, rg_rcx = w 2, rg_rdx = w 3, rg_rsi = w 4, rg_rdi = w 5,
       rg_rsp = w 6, rg_rbp = w 7, rg_r8 = w 8, rg_r9 = w 9, rg_r10 = w 10, rg_r11 = w 11,
       rg_r12 = w 12, rg_r13 = w 13, rg_r14 = w 14, rg_r15 = w 15, rg_rip = w 16, rg_rflags = w 17\<rparr>, s') }"

definition kvm_regs_words :: "hv_regs \<Rightarrow> u64 list" where
  "kvm_regs_words regs =
     [rg_rax regs, rg_rbx regs, rg_rcx regs, rg_rdx regs, rg_rsi regs, rg_rdi regs,
      rg_rsp regs, rg_rbp regs, rg_r8 regs, rg_r9 regs, rg_r10 regs, rg_r11 regs,
      rg_r12 regs, rg_r13 regs, rg_r14 regs, rg_r15 regs, rg_rip regs, rg_rflags regs]"

definition kvm_set_regs :: "env \<Rightarrow> ref \<Rightarrow> hv_regs \<Rightarrow> host \<Rightarrow> (int \<times> host) option" where
  "kvm_set_regs E vcpu regs s =
     do { c \<leftarrow> hv_vcpus s vcpu; Some (ioctl_check E (hc_fd c) ''KVM_SET_REGS'' (kvm_regs_words regs) s) }"

text \<open>
  \<open>struct kvm_sregs\<close>: eight segments of base, limit, selector and a 16-bit \<open>ar\<close>, two
  descriptor tables of base, limit and a 32-bit \<open>ar\<close>, seven control registers. The last two
  segments, \<open>ldt\<close> and \<open>tr\<close>, are copied in neither direction.
\<close>

definition kvm_get_sregs :: "env \<Rightarrow> ref \<Rightarrow> hv_sregs \<Rightarrow> host \<Rightarrow> (int \<times> hv_sregs \<times> host) option" where
  "kvm_get_sregs E vcpu sregs s =
     do {
       c \<leftarrow> hv_vcpus s vcpu;
       let (a, s') = syscall E (SYS_ioctl (hc_fd c) ''KVM_GET_SREGS'' []) s;
       let w = (\<lambda>i. if i < length (a_words a) then a_words a ! i else 0);
       let seg = (\<lambda>i. \<lparr>sg_selector = ucast (w (i + 2)), sg_base = w i, sg_limit = ucast (w (i + 1)),
                        sg_ar = ucast (ucast (w (i + 3)) :: u16)\<rparr>);
       let dt = (\<lambda>i. \<lparr>dt_base = w i, dt_limit = ucast (w (i + 1)), dt_ar = ucast (w (i + 2))\<rparr>);
       if a_ret a < 0 then Some (-1, sregs, s')
       else Some (0, sregs\<lparr>sr_cs := seg 0,
            sr_ds := seg 4,
            sr_es := seg 8,
            sr_fs := seg 12,
            sr_gs := seg 16,
            sr_ss := seg 20,
            sr_gdt := dt 32, sr_idt := dt 35,
            sr_cr0 := w 38, sr_cr2 := w 39, sr_cr3 := w 40, sr_cr4 := w 41, sr_cr8 := w 42, sr_efer := w 43, sr_apic_base := w 44\<rparr>, s') }"

definition kvm_sregs_words :: "hv_sregs \<Rightarrow> u64 list" where
  "kvm_sregs_words sregs =
     (let seg = (\<lambda>g. [sg_base g, ucast (sg_limit g), ucast (sg_selector g), ucast (ucast (sg_ar g) :: u16)]);
          dt = (\<lambda>t. [dt_base t, ucast (dt_limit t), ucast (dt_ar t)]) in
      seg (sr_cs sregs) @ seg (sr_ds sregs) @ seg (sr_es sregs) @ seg (sr_fs sregs) @ seg (sr_gs sregs) @ seg (sr_ss sregs)
      @ replicate 8 0 @ dt (sr_gdt sregs) @ dt (sr_idt sregs)
      @ [sr_cr0 sregs, sr_cr2 sregs, sr_cr3 sregs, sr_cr4 sregs, sr_cr8 sregs, sr_efer sregs, sr_apic_base sregs])"

definition kvm_set_sregs :: "env \<Rightarrow> ref \<Rightarrow> hv_sregs \<Rightarrow> host \<Rightarrow> (int \<times> host) option" where
  "kvm_set_sregs E vcpu sregs s =
     do { c \<leftarrow> hv_vcpus s vcpu; Some (ioctl_check E (hc_fd c) ''KVM_SET_SREGS'' (kvm_sregs_words sregs) s) }"

section \<open>The tables\<close>

definition kvm_ops :: "env \<Rightarrow> hv_ops" where
  "kvm_ops E = \<lparr>ho_init = Some (kvm_init E), ho_cleanup = Some (kvm_cleanup E),
     ho_create_vm = Some (kvm_create_vm E), ho_destroy_vm = Some (kvm_destroy_vm E),
     ho_vm_get_fd = Some kvm_vm_get_fd,
     ho_create_vcpu = Some (kvm_create_vcpu E), ho_destroy_vcpu = Some (kvm_destroy_vcpu E),
     ho_vcpu_get_fd = Some kvm_vcpu_get_fd, ho_vcpu_exit = None,
     ho_map_mem = Some (kvm_map_mem E), ho_unmap_mem = Some (kvm_unmap_mem E),
     ho_run = Some (kvm_run E), ho_get_exit = Some kvm_get_exit,
     ho_get_regs = Some (kvm_get_regs E), ho_set_regs = Some (kvm_set_regs E),
     ho_get_sregs = Some (kvm_get_sregs E), ho_set_sregs = Some (kvm_set_sregs E),
     ho_irq_line = Some (kvm_irq_line E)\<rparr>"

definition zero_regs :: hv_regs where
  "zero_regs = \<lparr>rg_rax = 0, rg_rbx = 0, rg_rcx = 0, rg_rdx = 0, rg_rsi = 0, rg_rdi = 0, rg_rsp = 0, rg_rbp = 0, rg_r8 = 0, rg_r9 = 0, rg_r10 = 0, rg_r11 = 0, rg_r12 = 0, rg_r13 = 0, rg_r14 = 0, rg_r15 = 0, rg_rip = 0, rg_rflags = 0\<rparr>"

definition zero_segment :: hv_segment where
  "zero_segment = \<lparr>sg_selector = 0, sg_base = 0, sg_limit = 0, sg_ar = 0\<rparr>"

definition zero_sregs :: hv_sregs where
  "zero_sregs = \<lparr>sr_cs = zero_segment, sr_ds = zero_segment, sr_es = zero_segment, sr_fs = zero_segment, sr_gs = zero_segment, sr_ss = zero_segment, sr_ldt = zero_segment, sr_tr = zero_segment,
     sr_gdt = \<lparr>dt_base = 0, dt_limit = 0, dt_ar = 0\<rparr>, sr_idt = \<lparr>dt_base = 0, dt_limit = 0, dt_ar = 0\<rparr>,
     sr_cr0 = 0, sr_cr2 = 0, sr_cr3 = 0, sr_cr4 = 0, sr_cr8 = 0, sr_efer = 0, sr_apic_base = 0\<rparr>"

text \<open>The stubs of \<^verbatim>\<open>kvm_stub.c\<close> and \<^verbatim>\<open>hvf_stub.c\<close> are the same functions under two names.\<close>

definition stub_ops :: hv_ops where
  "stub_ops = \<lparr>ho_init = Some (\<lambda>s. Some (-1, s)), ho_cleanup = Some Some,
     ho_create_vm = Some (\<lambda>s. Some (0, s)), ho_destroy_vm = Some (\<lambda>vm s. Some s),
     ho_vm_get_fd = Some (\<lambda>vm s. Some (-1)),
     ho_create_vcpu = Some (\<lambda>vm index s. Some (0, s)), ho_destroy_vcpu = Some (\<lambda>vcpu s. Some s),
     ho_vcpu_get_fd = Some (\<lambda>vcpu s. Some (-1)), ho_vcpu_exit = Some (\<lambda>vcpu s. Some (0, s)),
     ho_map_mem = Some (\<lambda>vm slot s. Some (-1, s)), ho_unmap_mem = Some (\<lambda>vm slot s. Some (0, s)),
     ho_run = Some (\<lambda>vcpu s. Some (-1, s)), ho_get_exit = Some (\<lambda>vcpu ex s. Some (0, zero_exit, s)),
     ho_get_regs = Some (\<lambda>vcpu regs s. Some (0, zero_regs, s)), ho_set_regs = Some (\<lambda>vcpu regs s. Some (0, s)),
     ho_get_sregs = Some (\<lambda>vcpu sregs s. Some (0, zero_sregs, s)),
     ho_set_sregs = Some (\<lambda>vcpu sregs s. Some (0, s)),
     ho_irq_line = Some (\<lambda>vm irq level s. Some (0, s))\<rparr>"

definition kvm_stub_ops :: hv_ops where "kvm_stub_ops = stub_ops"

definition hvf_stub_ops :: hv_ops where "hvf_stub_ops = stub_ops"

text \<open>
  The tables of a Linux build with the stubs in place of the two Apple backends.
\<close>

fun linked :: "env \<Rightarrow> hv_linked" where
  "linked E Kvm_ops = kvm_ops E"
| "linked E Hvf_ops = hvf_stub_ops"
| "linked E Hvf_arm64_ops = hvf_stub_ops"

section \<open>The contract of the layer\<close>

lemma ioctl_check_io: "ioctl_check E fd req ws s = (ret, s') \<Longrightarrow> io_only s s'"
  by (auto simp: ioctl_check_def frame_intros split: prod.splits)

lemma kvm_init_table: "kvm_init E s = Some (ret, s') \<Longrightarrow> g_hv_ops s' = g_hv_ops s"
  by (auto simp: kvm_init_def syscall_def Let_def split: if_splits)

lemma kvm_map_mem_io: "kvm_map_mem E vm slot s = Some (ret, s') \<Longrightarrow> io_only s s'"
  by (auto simp: kvm_map_mem_def split: Option.bind_splits dest: ioctl_check_io)

lemma kvm_unmap_mem_io: "kvm_unmap_mem E vm n s = Some (ret, s') \<Longrightarrow> io_only s s'"
  by (auto simp: kvm_unmap_mem_def split: Option.bind_splits dest: ioctl_check_io)

lemma kvm_irq_line_io: "kvm_irq_line E vm irq level s = Some (ret, s') \<Longrightarrow> io_only s s'"
  by (auto simp: kvm_irq_line_def split: Option.bind_splits dest: ioctl_check_io)

lemma kvm_run_frame: "kvm_run E vcpu s = Some (ret, s') \<Longrightarrow> handler_frame s s'"
  by (auto simp: kvm_run_def split: Option.bind_splits prod.splits if_splits
      intro: handler_frame_trans [OF guest_runs_frame syscall_frame])

lemma kvm_get_exit_same: "kvm_get_exit vcpu ex s = Some (ret, ex', s') \<Longrightarrow> s' = s"
  by (auto simp: kvm_get_exit_def Let_def split: Option.bind_splits)

interpretation lk: hv_tables "linked E" for E
proof
  fix b f s ret s'
  show "ho_init (linked E b) = Some f \<Longrightarrow> f s = Some (ret, s') \<Longrightarrow> g_hv_ops s' = g_hv_ops s"
    by (cases b) (auto simp: kvm_ops_def hvf_stub_ops_def stub_ops_def dest: kvm_init_table)
next
  fix b g vm slot s ret s'
  show "ho_map_mem (linked E b) = Some g \<Longrightarrow> g vm slot s = Some (ret, s') \<Longrightarrow> io_only s s'"
    by (cases b) (auto simp: kvm_ops_def hvf_stub_ops_def stub_ops_def frame_intros dest: kvm_map_mem_io)
next
  fix b h vm n s ret s'
  show "ho_unmap_mem (linked E b) = Some h \<Longrightarrow> h vm n s = Some (ret, s') \<Longrightarrow> io_only s s'"
    by (cases b) (auto simp: kvm_ops_def hvf_stub_ops_def stub_ops_def frame_intros dest: kvm_unmap_mem_io)
next
  fix b k vm irq level s ret s'
  show "ho_irq_line (linked E b) = Some k \<Longrightarrow> k vm irq level s = Some (ret, s') \<Longrightarrow> io_only s s'"
    by (cases b) (auto simp: kvm_ops_def hvf_stub_ops_def stub_ops_def frame_intros dest: kvm_irq_line_io)
next
  fix b r vcpu s ret s'
  show "ho_run (linked E b) = Some r \<Longrightarrow> r vcpu s = Some (ret, s') \<Longrightarrow> handler_frame s s'"
    by (cases b) (auto simp: kvm_ops_def hvf_stub_ops_def stub_ops_def frame_intros dest: kvm_run_frame)
next
  fix b e vcpu ex s ret ex' s'
  show "ho_get_exit (linked E b) = Some e \<Longrightarrow> e vcpu ex s = Some (ret, ex', s') \<Longrightarrow> io_only s s'"
    by (cases b) (auto simp: kvm_ops_def hvf_stub_ops_def stub_ops_def frame_intros dest: kvm_get_exit_same)
qed

section \<open>Properties\<close>

text \<open>
  Selecting a backend. Initialisation returns zero or a negative code; when it returns zero
  the current table is the one for the requested or detected platform, otherwise none is current.
\<close>

theorem hv_init_selects:
  assumes "hv_init E (linked E) type s = Some (ret, s')"
  shows "g_hv_ops s' = (if ret = 0 then hv_select E (hv_detect E type) else None) \<and> ret \<le> 0"
  using assms by (rule lk.init_selects)

definition ex_kvm_env :: env where
  "ex_kvm_env = ok_env\<lparr>answer_of := (\<lambda>h c. case c of
      SYS_ioctl fd req ws \<Rightarrow> (if req = ''KVM_GET_API_VERSION'' then answer_ok 12 else answer_ok 7)
    | _ \<Rightarrow> answer_ok 3)\<rparr>"

lemma ex_kvm_init:
  "hv_init ex_kvm_env (linked ex_kvm_env) HV_TYPE_AUTO init_host = Some (0, init_host\<lparr>g_hv_ops := Some Kvm_ops,
     kvm_fd := 3, history := [SYS_ioctl 3 ''KVM_GET_API_VERSION'' [0], SYS_open ''/dev/kvm'' ''O_RDWR'']\<rparr>)"
  by (simp add: hv_init_def hv_detect_def ex_kvm_env_def ok_env_def kvm_ops_def kvm_init_def syscall_def
      init_host_def answer_ok_def KVM_API_VERSION_def Let_def)

theorem hv_init_selects_witness:
  "\<exists>s'. hv_init ex_kvm_env (linked ex_kvm_env) HV_TYPE_AUTO init_host = Some (0, s') \<and> g_hv_ops s' = Some Kvm_ops"
  using hv_init_selects [OF ex_kvm_init] ex_kvm_init
  by (simp add: hv_detect_def ex_kvm_env_def ok_env_def)

text \<open>
  What the kernel documents of its register calls: both succeed, and reading returns the words
  last set.
\<close>

definition kernel_keeps :: "env \<Rightarrow> int \<Rightarrow> string \<Rightarrow> string \<Rightarrow> bool" where
  "kernel_keeps E fd set_req get_req \<longleftrightarrow> (\<forall>h ws.
     a_ret (answer_of E h (SYS_ioctl fd set_req ws)) \<ge> 0
     \<and> a_ret (answer_of E (SYS_ioctl fd set_req ws # h) (SYS_ioctl fd get_req [])) \<ge> 0
     \<and> a_words (answer_of E (SYS_ioctl fd set_req ws # h) (SYS_ioctl fd get_req [])) = ws)"

lemma kernel_keepsD:
  assumes "kernel_keeps E fd set_req get_req"
  shows "\<exists>s1 s2 a. ioctl_check E fd set_req ws s = (0, s1) \<and> syscall E (SYS_ioctl fd get_req []) s1 = (a, s2)
     \<and> a_ret a \<ge> 0 \<and> a_words a = ws \<and> hv_vcpus s1 = hv_vcpus s"
  using assms by (auto simp: kernel_keeps_def ioctl_check_def syscall_def Let_def not_less)

text \<open>
  General registers survive the round trip through the kernel: after \<open>kvm_set_regs\<close>,
  \<open>kvm_get_regs\<close> returns the same eighteen registers.
\<close>

theorem kvm_regs_roundtrip:
  assumes "hv_vcpus s vcpu = Some c" and "kernel_keeps E (hc_fd c) ''KVM_SET_REGS'' ''KVM_GET_REGS''"
  shows "\<exists>s1 s2. kvm_set_regs E vcpu regs s = Some (0, s1) \<and> kvm_get_regs E vcpu old s1 = Some (0, regs, s2)"
proof -
  obtain s1 s2 a where "ioctl_check E (hc_fd c) ''KVM_SET_REGS'' (kvm_regs_words regs) s = (0, s1)"
    "syscall E (SYS_ioctl (hc_fd c) ''KVM_GET_REGS'' []) s1 = (a, s2)" "\<not> a_ret a < 0"
    "a_words a = kvm_regs_words regs" "hv_vcpus s1 = hv_vcpus s"
    using kernel_keepsD [OF assms(2), of "kvm_regs_words regs" s] by force
  then show ?thesis
    using assms(1) by (simp add: kvm_set_regs_def kvm_get_regs_def kvm_regs_words_def)
qed

definition ex_kernel :: env where
  "ex_kernel = ok_env\<lparr>answer_of := (\<lambda>h c. \<lparr>a_ret = 0, a_errno = 0,
     a_words = (case h of SYS_ioctl fd req ws # _ \<Rightarrow> ws | _ \<Rightarrow> []), a_bytes = []\<rparr>)\<rparr>"

definition ex_vcpu_host :: host where
  "ex_vcpu_host = init_host\<lparr>hv_vcpus := (\<lambda>_. None)(4 \<mapsto> zero_hv_vcpu\<lparr>hc_fd := 9\<rparr>)\<rparr>"

lemma ex_kernel_keeps: "kernel_keeps ex_kernel fd set_req get_req"
  by (simp add: kernel_keeps_def ex_kernel_def)

lemma ex_vcpu: "hv_vcpus ex_vcpu_host 4 = Some (zero_hv_vcpu\<lparr>hc_fd := 9\<rparr>)"
  by (simp add: ex_vcpu_host_def)

theorem kvm_regs_roundtrip_witness:
  "\<exists>s1 s2. kvm_set_regs ex_kernel 4 (zero_regs\<lparr>rg_rip := 0x100000, rg_rflags := 2\<rparr>) ex_vcpu_host = Some (0, s1)
     \<and> kvm_get_regs ex_kernel 4 zero_regs s1 = Some (0, zero_regs\<lparr>rg_rip := 0x100000, rg_rflags := 2\<rparr>, s2)"
  by (rule kvm_regs_roundtrip [OF ex_vcpu ex_kernel_keeps])

definition short_ar :: "hv_segment \<Rightarrow> hv_segment" where
  "short_ar g = g\<lparr>sg_ar := ucast (ucast (sg_ar g) :: u16)\<rparr>"

lemma segment_words:
  "\<lparr>sg_selector = sg_selector g, sg_base = sg_base g, sg_limit = sg_limit g, sg_ar = ucast (ucast (sg_ar g) :: u16)\<rparr> = short_ar g"
  by (cases g) (simp add: short_ar_def)

lemma dtable_words: "\<lparr>dt_base = dt_base t, dt_limit = dt_limit t, dt_ar = dt_ar t\<rparr> = t"
  by (cases t) simp



section \<open>Decoding exits\<close>

lemma load_block:
  "mem s b = Some bs \<Longrightarrow> unat off + n \<le> length bs \<Longrightarrow> load s (Ptr b off) n = Some (subrange bs (unat off) n)"
  by simp

lemma load_word_block:
  assumes "mem s b = Some bs" and "unat off + n \<le> length bs" and "subrange bs (unat off) n = le_bytes n (w :: 'a::len word)"
    and "LENGTH('a) \<le> 8 * n"
  shows "load_word s (Ptr b off) n = Some w"
  using assms by (simp add: load_word_def)

lemma decode_mmio:
  assumes "hv_vcpus s vcpu = Some c" and "hc_run c = Ptr b 0" and "mem s b = Some bs" and "72 \<le> length bs"
    and "subrange bs 8 4 = le_bytes 4 (6 :: u32)" and "subrange bs 16 8 = le_bytes 8 (addr :: u64)"
    and "subrange bs 32 4 = le_bytes 4 (len :: u32)" and "subrange bs 36 1 = le_bytes 1 (w :: u8)"
    and "unat len \<le> 8"
  shows "kvm_get_exit vcpu ex s = Some (0, zero_exit\<lparr>ex_reason := HV_EXIT_MMIO,
     ex_mmio := \<lparr>mmio_addr = addr, mmio_size = ucast len, mmio_is_write = uint w,
       mmio_data = (if w \<noteq> 0 then le_word (subrange bs 24 (unat len)) else 0)\<rparr>\<rparr>, s)"
proof -
  have "load_word s (Ptr b 8) 4 = Some (6 :: u32)" "load_word s (Ptr b 16) 8 = Some addr"
    "load_word s (Ptr b 32) 4 = Some len" "load_word s (Ptr b 36) 1 = Some w"
    using assms by (auto intro!: load_word_block)
  moreover have "load s (Ptr b 24) (unat len) = Some (subrange bs 24 (unat len))"
    using assms(3,4,9) by simp
  ultimately show ?thesis
    using assms(1,2,9) by (simp add: kvm_get_exit_def kvm_exit_mmio_def kvm_convert_exit_reason_def del: load.simps)
qed

text \<open>
  An MMIO exit is decoded exactly. From a run area that describes an access of at most eight
  bytes the backend reports the guest address, the length, the direction and, for a write, the
  bytes the guest stored.
\<close>

theorem kvm_get_exit_mmio:
  assumes "hv_vcpus s vcpu = Some c" and "hc_run c = Ptr b 0" and "mem s b = Some bs" and "72 \<le> length bs"
    and "subrange bs 8 4 = le_bytes 4 (6 :: u32)" and "subrange bs 16 8 = le_bytes 8 (addr :: u64)"
    and "subrange bs 32 4 = le_bytes 4 (len :: u32)" and "subrange bs 36 1 = le_bytes 1 (w :: u8)"
    and "unat len \<le> 8"
  shows "kvm_get_exit vcpu ex s = Some (0, zero_exit\<lparr>ex_reason := HV_EXIT_MMIO,
     ex_mmio := \<lparr>mmio_addr = addr, mmio_size = ucast len, mmio_is_write = uint w,
       mmio_data = (if w \<noteq> 0 then le_word (subrange bs 24 (unat len)) else 0)\<rparr>\<rparr>, s)"
  using assms by (rule decode_mmio)

definition ex_run_page :: "u8 list" where
  "ex_run_page = replicate 8 0 @ [6, 0, 0, 0] @ replicate 4 0 @ [0, 0, 0, 0x90, 0, 0, 0, 0]
     @ [0x41, 0, 0, 0, 0, 0, 0, 0] @ [1, 0, 0, 0] @ [1] @ replicate 35 0"

definition ex_run_host :: host where
  "ex_run_host = init_host\<lparr>mem := (\<lambda>_. None)(5 \<mapsto> ex_run_page),
     hv_vcpus := (\<lambda>_. None)(4 \<mapsto> zero_hv_vcpu\<lparr>hc_fd := 9, hc_run := Ptr 5 0\<rparr>)\<rparr>"

lemma ex_run_page:
  "72 \<le> length ex_run_page" "subrange ex_run_page 8 4 = le_bytes 4 (6 :: u32)"
  "subrange ex_run_page 16 8 = le_bytes 8 (0x90000000 :: u64)" "subrange ex_run_page 32 4 = le_bytes 4 (1 :: u32)"
  "subrange ex_run_page 36 1 = le_bytes 1 (1 :: u8)" "le_word (subrange ex_run_page 24 1) = (0x41 :: u64)"
  by code_simp+

theorem kvm_get_exit_mmio_witness:
  "kvm_get_exit 4 zero_exit ex_run_host = Some (0, zero_exit\<lparr>ex_reason := HV_EXIT_MMIO,
     ex_mmio := \<lparr>mmio_addr = 0x90000000, mmio_size = 1, mmio_is_write = 1, mmio_data = 0x41\<rparr>\<rparr>, ex_run_host)"
  using kvm_get_exit_mmio [OF _ _ _ ex_run_page(1-5), of ex_run_host 4 "zero_hv_vcpu\<lparr>hc_fd := 9, hc_run := Ptr 5 0\<rparr>" 5 zero_exit]
  by (simp add: ex_run_host_def ex_run_page(6) [simplified])

text \<open>
  The data of a port write is lost. For an exit on an OUT instruction the backend reports
  port and size but leaves the data zero, whatever the guest wrote: the copy is made for
  IN only.
\<close>

lemma decode_out:
  assumes "hv_vcpus s vcpu = Some c" and "hc_run c = Ptr b 0" and "mem s b = Some bs" and "72 \<le> length bs"
    and "subrange bs 8 4 = le_bytes 4 (2 :: u32)" and "subrange bs 16 2 = le_bytes 2 (dir :: u16)"
    and "subrange bs 18 2 = le_bytes 2 (sz :: u16)" and "subrange bs 20 2 = le_bytes 2 (port :: u16)"
    and "dir \<noteq> 0"
  shows "kvm_get_exit vcpu ex s = Some (0, zero_exit\<lparr>ex_reason := HV_EXIT_IO,
     ex_io := \<lparr>io_port = port, io_size = ucast sz, io_direction = HV_IO_OUT, io_data = 0\<rparr>\<rparr>, s)"
proof -
  have "load_word s (Ptr b 8) 4 = Some (2 :: u32)" "load_word s (Ptr b 16) 2 = Some dir"
    "load_word s (Ptr b 18) 2 = Some sz" "load_word s (Ptr b 20) 2 = Some port"
    using assms by (auto intro!: load_word_block)
  then show ?thesis
    using assms(1,2,9) by (simp add: kvm_get_exit_def kvm_exit_io_def kvm_convert_exit_reason_def)
qed

definition ex_out_page :: "u8 list" where
  "ex_out_page = replicate 8 0 @ [2, 0, 0, 0] @ replicate 4 0 @ [1, 0, 1, 0, 0xF8, 3, 1, 0]
     @ [72, 0, 0, 0, 0, 0, 0, 0] @ replicate 40 0 @ [0x48]"

definition ex_out_host :: host where
  "ex_out_host = init_host\<lparr>mem := (\<lambda>_. None)(5 \<mapsto> ex_out_page),
     hv_vcpus := (\<lambda>_. None)(4 \<mapsto> zero_hv_vcpu\<lparr>hc_fd := 9, hc_run := Ptr 5 0\<rparr>)\<rparr>"

lemma ex_out_page:
  "72 \<le> length ex_out_page" "subrange ex_out_page 8 4 = le_bytes 4 (2 :: u32)"
  "subrange ex_out_page 16 2 = le_bytes 2 (1 :: u16)" "subrange ex_out_page 18 2 = le_bytes 2 (1 :: u16)"
  "subrange ex_out_page 20 2 = le_bytes 2 (0x3F8 :: u16)"
  by code_simp+

section \<open>Life cycle of the handles\<close>

lemma fresh_heapD:
  "fresh_heap s \<Longrightarrow> next_ref s \<le> r \<Longrightarrow> hv_vms s r = None \<and> hv_vcpus s r = None \<and> mem s r = None \<and> r \<noteq> 0"
  by (auto simp: fresh_heap_def obj_live_def)

text \<open>
  The KVM machine handle leaks nothing. Whatever fails on the way, creation gives back every
  structure and closes the descriptor the kernel handed out; a handle it returns carries that
  descriptor, and destroying it frees the structure and closes the descriptor.
\<close>

theorem kvm_vm_lifecycle:
  assumes "fresh_heap s" and "fd = a_ret (answer_of E (history s) (SYS_ioctl (kvm_fd s) ''KVM_CREATE_VM'' [0]))"
  shows "\<exists>vm s1. kvm_create_vm E s = Some (vm, s1)
     \<and> (vm = 0 \<longrightarrow> hv_vms s1 = hv_vms s \<and> (0 \<le> fd \<longrightarrow> hd (history s1) = SYS_close fd))
     \<and> (vm \<noteq> 0 \<longrightarrow> (\<exists>v s2. hv_vms s1 vm = Some v \<and> hv_fd v = fd \<and> 0 \<le> fd \<and> 0 < hv_mmap_size v
          \<and> kvm_destroy_vm E vm s1 = Some s2 \<and> hv_vms s2 = hv_vms s \<and> hd (history s2) = SYS_close fd))"
  using fresh_heapD [OF assms(1), of "next_ref s"] assms(2)
  by (auto simp: kvm_create_vm_def kvm_destroy_vm_def syscall_def alloc_def free_obj_def obj_live_def Let_def
      fun_upd_idem)

theorem kvm_vm_lifecycle_witness:
  "\<exists>vm s1. kvm_create_vm ex_kvm_env init_host = Some (vm, s1)
     \<and> (vm = 0 \<longrightarrow> hv_vms s1 = hv_vms init_host \<and> (0 \<le> (7::int) \<longrightarrow> hd (history s1) = SYS_close 7))
     \<and> (vm \<noteq> 0 \<longrightarrow> (\<exists>v s2. hv_vms s1 vm = Some v \<and> hv_fd v = 7 \<and> 0 \<le> (7::int) \<and> 0 < hv_mmap_size v
          \<and> kvm_destroy_vm ex_kvm_env vm s1 = Some s2 \<and> hv_vms s2 = hv_vms init_host \<and> hd (history s2) = SYS_close 7))"
  by (rule kvm_vm_lifecycle) (simp_all add: fresh_heap_def obj_live_def init_host_def ex_kvm_env_def ok_env_def answer_ok_def)

lemma kvm_vcpu_life:
  assumes "fresh_heap s" and "hv_vms s vm = Some v"
    and "fd = a_ret (answer_of E (history s) (SYS_ioctl (hv_fd v) ''KVM_CREATE_VCPU'' [of_int index]))"
  shows "\<exists>vcpu s1. kvm_create_vcpu E vm index s = Some (vcpu, s1)
     \<and> (vcpu = 0 \<longrightarrow> hv_vcpus s1 = hv_vcpus s \<and> mem s1 = mem s \<and> (0 \<le> fd \<longrightarrow> hd (history s1) = SYS_close fd))
     \<and> (vcpu \<noteq> 0 \<longrightarrow> (\<exists>c s2. hv_vcpus s1 vcpu = Some c \<and> hc_fd c = fd \<and> 0 \<le> fd \<and> hc_vm c = vm
          \<and> load s1 (hc_run c) (nat (hv_mmap_size v)) \<noteq> None
          \<and> kvm_destroy_vcpu E vcpu s1 = Some s2 \<and> hv_vcpus s2 = hv_vcpus s \<and> mem s2 = mem s
          \<and> hd (history s2) = SYS_close fd))"
  using fresh_heapD [OF assms(1), of "next_ref s"] fresh_heapD [OF assms(1), of "Suc (Suc (next_ref s))"] assms(2,3)
  by (auto simp: kvm_create_vcpu_def kvm_destroy_vcpu_def mmap_def munmap_def syscall_def alloc_def free_obj_def
      obj_live_def Let_def fun_upd_idem)

text \<open>
  So does the KVM processor handle, run area included: creation either returns null with no
  structure, mapping or descriptor left, or a handle whose destruction unmaps the run area, closes
  the descriptor and frees the structure.
\<close>

theorem kvm_vcpu_lifecycle:
  assumes "fresh_heap s" and "hv_vms s vm = Some v"
    and "fd = a_ret (answer_of E (history s) (SYS_ioctl (hv_fd v) ''KVM_CREATE_VCPU'' [of_int index]))"
  shows "\<exists>vcpu s1. kvm_create_vcpu E vm index s = Some (vcpu, s1)
     \<and> (vcpu = 0 \<longrightarrow> hv_vcpus s1 = hv_vcpus s \<and> mem s1 = mem s \<and> (0 \<le> fd \<longrightarrow> hd (history s1) = SYS_close fd))
     \<and> (vcpu \<noteq> 0 \<longrightarrow> (\<exists>c s2. hv_vcpus s1 vcpu = Some c \<and> hc_fd c = fd \<and> 0 \<le> fd \<and> hc_vm c = vm
          \<and> load s1 (hc_run c) (nat (hv_mmap_size v)) \<noteq> None
          \<and> kvm_destroy_vcpu E vcpu s1 = Some s2 \<and> hv_vcpus s2 = hv_vcpus s \<and> mem s2 = mem s
          \<and> hd (history s2) = SYS_close fd))"
  using assms by (rule kvm_vcpu_life)

definition ex_vm_host :: host where
  "ex_vm_host = init_host\<lparr>hv_vms := (\<lambda>_. None)(1 \<mapsto> zero_hv_vm\<lparr>hv_fd := 7, hv_mmap_size := 72\<rparr>), next_ref := 2\<rparr>"

theorem kvm_vcpu_lifecycle_witness:
  "\<exists>vcpu s1. kvm_create_vcpu ex_kvm_env 1 0 ex_vm_host = Some (vcpu, s1)
     \<and> (vcpu = 0 \<longrightarrow> hv_vcpus s1 = hv_vcpus ex_vm_host \<and> mem s1 = mem ex_vm_host
          \<and> (0 \<le> (7::int) \<longrightarrow> hd (history s1) = SYS_close 7))
     \<and> (vcpu \<noteq> 0 \<longrightarrow> (\<exists>c s2. hv_vcpus s1 vcpu = Some c \<and> hc_fd c = 7 \<and> 0 \<le> (7::int) \<and> hc_vm c = 1
          \<and> load s1 (hc_run c) (nat (hv_mmap_size (zero_hv_vm\<lparr>hv_fd := 7, hv_mmap_size := 72\<rparr>))) \<noteq> None
          \<and> kvm_destroy_vcpu ex_kvm_env vcpu s1 = Some s2 \<and> hv_vcpus s2 = hv_vcpus ex_vm_host \<and> mem s2 = mem ex_vm_host
          \<and> hd (history s2) = SYS_close 7))"
  by (rule kvm_vcpu_lifecycle)
    (simp_all add: fresh_heap_def obj_live_def init_host_def ex_vm_host_def ex_kvm_env_def ok_env_def answer_ok_def)

end
