(* ===== verification/Vm_Memory.thy ===== *)
theory Vm_Memory
  imports Kvm Devices
begin

text \<open>
  The machine's guest memory and device registry: the part of \<^verbatim>\<open>src/vm.c\<close> that the devices and
  the processors call (\<open>vm_add_memory_region\<close>, \<open>vm_gpa_to_hva\<close>, \<open>vm_register_device\<close>,
  \<open>vm_find_device_at_gpa\<close>) and the setters of the configuration strings. The translation is the
  second provider of the guest memory contract \<open>region_table\<close>.
\<close>

section \<open>Operations\<close>

definition vm_add_memory_region :: "env \<Rightarrow> hv_linked \<Rightarrow> ref \<Rightarrow> u64 \<Rightarrow> u64 \<Rightarrow> host \<Rightarrow> (int \<times> host) option" where
  "vm_add_memory_region E ops vm gpa sz s =
     do {
       v \<leftarrow> vms s vm;
       case find (\<lambda>i. \<not> r_used (v_mem_regions v ! i)) [0..<VM_MAX_SLOTS] of
         None \<Rightarrow> Some (-1, s)
       | Some i \<Rightarrow>
           let (hva, s1) = calloc E sz s in
           if hva = NULL then Some (-1, s1)
           else
             let gpa' = PAGE_ALIGN_DOWN gpa in
             do {
               (ret, s2) \<leftarrow> hv_map_mem ops (v_hv_vm v) (of_nat i) gpa' hva sz s1;
               if ret < 0 then do { s3 \<leftarrow> free hva s2; Some (-1, s3) }
               else do {
                 v' \<leftarrow> vms s2 vm;
                 Some (0, set_vm vm (v'\<lparr>v_mem_regions := (v_mem_regions v')[i :=
                      \<lparr>r_gpa = gpa', r_hva = hva, r_size = sz, r_slot = of_nat i, r_used = True\<rparr>],
                    v_mem_size := v_mem_size v' + sz\<rparr>) s2) } } }"

text \<open>The first region in use that passes the test, and the pointer into it.\<close>

definition region_hit :: "vm_mem_region \<Rightarrow> u64 \<Rightarrow> u64 \<Rightarrow> bool" where
  "region_hit r gpa sz \<longleftrightarrow> r_used r \<and> gpa \<ge> r_gpa r \<and> gpa + sz \<le> r_gpa r + r_size r"

definition vm_gpa_to_hva :: "vm \<Rightarrow> u64 \<Rightarrow> u64 \<Rightarrow> ptr" where
  "vm_gpa_to_hva v gpa sz =
     (case find (\<lambda>i. region_hit (v_mem_regions v ! i) gpa sz) [0..<VM_MAX_SLOTS] of
        None \<Rightarrow> NULL
      | Some i \<Rightarrow> ptr_add (r_hva (v_mem_regions v ! i)) (gpa - r_gpa (v_mem_regions v ! i)))"

text \<open>The log line reads the device's name when information is logged.\<close>

definition vm_register_device :: "ref \<Rightarrow> ref \<Rightarrow> host \<Rightarrow> (int \<times> host) option" where
  "vm_register_device vm dev s =
     do {
       v \<leftarrow> vms s vm;
       if v_num_devices v \<ge> VM_MAX_DEVICES then Some (-1, s)
       else if log_level s \<ge> LOG_LEVEL_INFO \<and> devs s dev = None then None
       else Some (0, set_vm vm (v\<lparr>v_devices := (v_devices v)[v_num_devices v := dev],
                                   v_num_devices := v_num_devices v + 1\<rparr>) s) }"

fun vm_find_device :: "ref list \<Rightarrow> u64 \<Rightarrow> host \<Rightarrow> ref option" where
  "vm_find_device [] gpa s = Some 0"
| "vm_find_device (r # rs) gpa s =
     do { d \<leftarrow> devs s r;
          if gpa \<ge> d_gpa_start d \<and> gpa \<le> d_gpa_end d then Some r else vm_find_device rs gpa s }"

definition vm_find_device_at_gpa :: "vm \<Rightarrow> u64 \<Rightarrow> host \<Rightarrow> ref option" where
  "vm_find_device_at_gpa v gpa s = vm_find_device (take (v_num_devices v) (v_devices v)) gpa s"

text \<open>
  The setters free the old string and keep a copy of the new one; \<open>strdup\<close> of a null pointer
  is undefined.
\<close>

definition vm_set_string ::
    "env \<Rightarrow> (string option \<Rightarrow> vm \<Rightarrow> vm) \<Rightarrow> ref \<Rightarrow> string option \<Rightarrow> host \<Rightarrow> (int \<times> host) option" where
  "vm_set_string E upd vm path s =
     do {
       v \<leftarrow> vms s vm;
       p \<leftarrow> path;
       let (copy, s1) = strdup E p s;
       Some (if copy = None then -1 else 0, set_vm vm (upd copy v) s1) }"

definition vm_set_kernel :: "env \<Rightarrow> ref \<Rightarrow> string option \<Rightarrow> host \<Rightarrow> (int \<times> host) option" where
  "vm_set_kernel E = vm_set_string E (\<lambda>p v. v\<lparr>v_kernel_path := p\<rparr>)"

definition vm_set_initrd :: "env \<Rightarrow> ref \<Rightarrow> string option \<Rightarrow> host \<Rightarrow> (int \<times> host) option" where
  "vm_set_initrd E = vm_set_string E (\<lambda>p v. v\<lparr>v_initrd_path := p\<rparr>)"

definition vm_set_cmdline :: "env \<Rightarrow> ref \<Rightarrow> string option \<Rightarrow> host \<Rightarrow> (int \<times> host) option" where
  "vm_set_cmdline E = vm_set_string E (\<lambda>p v. v\<lparr>v_cmdline := p\<rparr>)"

section \<open>The regions of a machine\<close>

definition vm_table :: "vm \<Rightarrow> range_table" where
  "vm_table v i =
     (if i < VM_MAX_SLOTS \<and> r_used (v_mem_regions v ! i)
      then Some (r_gpa (v_mem_regions v ! i), r_hva (v_mem_regions v ! i), r_size (v_mem_regions v ! i)) else None)"

abbreviation vm_backed :: "vm \<Rightarrow> host \<Rightarrow> bool" where
  "vm_backed v s \<equiv> table_backed (vm_table v) s"

abbreviation vm_apart :: "vm \<Rightarrow> bool" where
  "vm_apart v \<equiv> table_apart (vm_table v)"

lemma vm_backedD:
  assumes "vm_backed v s" and "i < VM_MAX_SLOTS" and "r_used (v_mem_regions v ! i)"
  shows "range_backed s (r_gpa (v_mem_regions v ! i)) (r_hva (v_mem_regions v ! i)) (r_size (v_mem_regions v ! i))"
  using assms unfolding table_backed_def by (metis vm_table_def)

text \<open>On ranges that do not wrap the test of the code is containment.\<close>

lemma region_hit_iff:
  assumes "vm_backed v s" and "i < VM_MAX_SLOTS" and "no_wrap gpa (unat n)"
  shows "region_hit (v_mem_regions v ! i) gpa n \<longleftrightarrow> r_used (v_mem_regions v ! i)
     \<and> in_range (r_gpa (v_mem_regions v ! i)) (r_size (v_mem_regions v ! i)) gpa (unat n)"
  using vm_backedD [OF assms(1,2)] assms(3)
  by (auto simp: region_hit_def in_range_def range_backed_def word_le_nat_alt unat_no_wrap)

interpretation vmg: region_table vm_table vm_gpa_to_hva
proof
  fix c s gpa n
  assume bk: "vm_backed c s" and nw: "no_wrap gpa (unat n)" and nn: "vm_gpa_to_hva c gpa n \<noteq> NULL"
  obtain i where i: "find (\<lambda>i. region_hit (v_mem_regions c ! i) gpa n) [0..<VM_MAX_SLOTS] = Some i"
    using nn by (auto simp: vm_gpa_to_hva_def split: option.splits)
  then have "i < VM_MAX_SLOTS" "region_hit (v_mem_regions c ! i) gpa n" unfolding find_upt_Some by auto
  with region_hit_iff [OF bk _ nw] i show "\<exists>i base hva sz. vm_table c i = Some (base, hva, sz)
      \<and> in_range base sz gpa (unat n) \<and> vm_gpa_to_hva c gpa n = ptr_add hva (gpa - base)"
    by (intro exI [of _ i]) (simp add: vm_table_def vm_gpa_to_hva_def)
next
  fix c s i base hva sz g
  assume bk: "vm_backed c s" and ap: "vm_apart c" and t: "vm_table c i = Some (base, hva, sz)"
    and r: "in_range base sz g 1"
  have i: "i < VM_MAX_SLOTS" "r_used (v_mem_regions c ! i)" and eqs: "base = r_gpa (v_mem_regions c ! i)"
    "sz = r_size (v_mem_regions c ! i)" "hva = r_hva (v_mem_regions c ! i)"
    using t by (auto simp: vm_table_def split: if_splits)
  have nw: "no_wrap g (unat (1 :: u64))"
    using vm_backedD [OF bk i] r eqs by (auto simp: range_backed_def in_range_def no_wrap_def)
  have "\<not> region_hit (v_mem_regions c ! j) g 1" if "j < i" for j
  proof
    assume "region_hit (v_mem_regions c ! j) g 1"
    with region_hit_iff [OF bk _ nw, of j] that i have "vm_table c j = Some (r_gpa (v_mem_regions c ! j),
        r_hva (v_mem_regions c ! j), r_size (v_mem_regions c ! j))"
      and "in_range (r_gpa (v_mem_regions c ! j)) (r_size (v_mem_regions c ! j)) g 1"
      by (auto simp: vm_table_def)
    with table_apartD [OF ap t _ _ r] that show False by blast
  qed
  then have "find (\<lambda>i. region_hit (v_mem_regions c ! i) g 1) [0..<VM_MAX_SLOTS] = Some i"
    unfolding find_upt_Some using region_hit_iff [OF bk i(1) nw] i r eqs by auto
  then show "vm_gpa_to_hva c g 1 = ptr_add hva (g - base)" by (simp add: vm_gpa_to_hva_def eqs)
qed

lemma vm_find_device_eq: "vm_find_device rs gpa s = find_device rs gpa s"
  by (induction rs) (auto split: Option.bind_splits)

section \<open>Adding a region\<close>

text \<open>The invariant of the region table: thirty-two slots and the sum of the sizes in use.\<close>

definition vm_mem_wf :: "vm \<Rightarrow> bool" where
  "vm_mem_wf v \<longleftrightarrow> length (v_mem_regions v) = VM_MAX_SLOTS
     \<and> v_mem_size v = sum_list (map r_size (filter r_used (v_mem_regions v)))"

lemma sum_filter_update:
  assumes "i < length xs" and "\<not> P (xs ! i)" and "P x"
  shows "sum_list (map f (filter P (xs[i := x]))) = sum_list (map f (filter P xs)) + (f x :: 'a::ab_group_add)"
proof -
  have "xs = take i xs @ xs ! i # drop (Suc i) xs" using assms(1) by (rule id_take_nth_drop)
  then have "filter P xs = filter P (take i xs) @ filter P (drop (Suc i) xs)"
    using assms(2) by (metis filter.simps(2) filter_append)
  then show ?thesis using assms(1,3) by (simp add: upd_conv_take_nth_drop add.commute add.left_commute)
qed

lemma vm_mem_wf_add:
  assumes "vm_mem_wf v" and "i < VM_MAX_SLOTS" and "\<not> r_used (v_mem_regions v ! i)" and "r_used r"
  shows "vm_mem_wf (v\<lparr>v_mem_regions := (v_mem_regions v)[i := r], v_mem_size := v_mem_size v + r_size r\<rparr>)"
  using assms by (simp add: vm_mem_wf_def sum_filter_update)

lemma vm_table_add:
  assumes "vm_mem_wf v" and "i < VM_MAX_SLOTS" and "r_used r"
  shows "vm_table (v\<lparr>v_mem_regions := (v_mem_regions v)[i := r], v_mem_size := m\<rparr>)
     = (vm_table v)(i \<mapsto> (r_gpa r, r_hva r, r_size r))"
  using assms by (auto simp: vm_table_def vm_mem_wf_def nth_list_update fun_eq_iff)

lemma calloc_cases:
  assumes "fresh_heap s" and "calloc E sz s = (hva, s1)"
  shows "vms s1 = vms s \<and> g_hv_ops s1 = g_hv_ops s \<and> hv_vms s1 = hv_vms s
     \<and> (hva = NULL \<and> mem s1 = mem s
        \<or> hva = Ptr (next_ref s) 0 \<and> next_ref s \<noteq> 0 \<and> mem s1 = (mem s)(next_ref s \<mapsto> replicate (unat sz) 0))"
  using assms by (auto simp: calloc_def alloc_bytes_def alloc_def fresh_heap_def split: if_splits)

text \<open>A table stays backed when a fresh block is added and a range over it entered.\<close>

lemma table_backed_add:
  assumes "table_backed t s" and "fresh_heap s" and "no_wrap base (unat sz)"
    and "mem s' = (mem s)(next_ref s \<mapsto> replicate (unat sz) 0)"
  shows "table_backed (t(i \<mapsto> (base, Ptr (next_ref s) 0, sz))) s'"
proof -
  have keep: "load s' q n = load s q n" if "load s q n \<noteq> None" for q n
    using that assms(2,4) by (cases q) (auto simp: fresh_heap_def split: option.splits)
  have old: "range_backed s' b h z" if "t j = Some (b, h, z)" for j b h z
    using assms(1) that keep unfolding table_backed_def range_backed_def by fastforce
  have new: "range_backed s' base (Ptr (next_ref s) 0) sz"
    using assms(2-4) unat_u64_less [of sz] by (auto simp: range_backed_def no_wrap_def fresh_heap_def)
  show ?thesis using old new by (auto simp: table_backed_def)
qed

lemma table_apart_add:
  assumes "table_backed t s" and "table_apart t" and "fresh_heap s" and "t i = None"
    and "\<And>j b h z g. t j = Some (b, h, z) \<Longrightarrow> \<not> (in_range b z g 1 \<and> in_range base sz g 1)"
  shows "table_apart (t(i \<mapsto> (base, Ptr (next_ref s) 0, sz)))"
proof -
  have blk: "ptr_block h \<noteq> next_ref s" if "t j = Some (b, h, z)" for j b h z
  proof -
    have "load s h (unat z) \<noteq> None" using assms(1) that unfolding table_backed_def range_backed_def by blast
    then show ?thesis using assms(3) by (cases h) (auto simp: fresh_heap_def split: option.splits)
  qed
  show ?thesis
    unfolding table_apart_def
    using assms(2,5) blk unfolding table_apart_def by (auto split: if_splits; metis)
qed

context hv_tables
begin

text \<open>Over any backend that keeps the contract: either the region is entered, or nothing changed.\<close>

lemma add_region:
  assumes "vm_add_memory_region E ops vm gpa sz s = Some (ret, s')" and "vms s vm = Some v" and "fresh_heap s"
    and "vm_mem_wf v"
  shows "ret = -1 \<and> vms s' = vms s \<and> mem s' = mem s
     \<or> ret = 0 \<and> (\<exists>i. i < VM_MAX_SLOTS \<and> \<not> r_used (v_mem_regions v ! i)
          \<and> vms s' = (vms s)(vm \<mapsto> v\<lparr>v_mem_regions := (v_mem_regions v)[i :=
               \<lparr>r_gpa = PAGE_ALIGN_DOWN gpa, r_hva = Ptr (next_ref s) 0, r_size = sz, r_slot = of_nat i, r_used = True\<rparr>],
               v_mem_size := v_mem_size v + sz\<rparr>)
          \<and> mem s' = (mem s)(next_ref s \<mapsto> replicate (unat sz) 0))"
proof (cases "find (\<lambda>i. \<not> r_used (v_mem_regions v ! i)) [0..<VM_MAX_SLOTS]")
  case None
  with assms(1,2) show ?thesis by (auto simp: vm_add_memory_region_def)
next
  case (Some i)
  then have i: "i < VM_MAX_SLOTS" "\<not> r_used (v_mem_regions v ! i)" unfolding find_upt_Some by auto
  obtain hva s1 where c: "calloc E sz s = (hva, s1)" by fastforce
  note cc = calloc_cases [OF assms(3) c]
  show ?thesis
  proof (cases "hva = NULL")
    case True
    with assms(1,2) Some c cc show ?thesis by (auto simp: vm_add_memory_region_def)
  next
    case False
    with cc have hva: "hva = Ptr (next_ref s) 0" "mem s1 = (mem s)(next_ref s \<mapsto> replicate (unat sz) 0)"
      and s1: "vms s1 = vms s" and n: "next_ref s \<noteq> 0" by auto
    obtain r s2 where m: "hv_map_mem ops (v_hv_vm v) (of_nat i) (PAGE_ALIGN_DOWN gpa) hva sz s1 = Some (r, s2)"
      using assms(1,2) Some c False by (auto simp: vm_add_memory_region_def Let_def split: Option.bind_splits)
    note io = io_only_heaps [OF map_mem_io [OF m]]
    have "mem s (next_ref s) = None" using assms(3) by (simp add: fresh_heap_def)
    then show ?thesis
      using assms(1,2) Some c m hva s1 n i io
      by (auto simp: vm_add_memory_region_def Let_def fun_upd_idem split: if_splits)
  qed
qed

end

lemma add_region_defined:
  assumes "vms s vm = Some v" and "g_hv_ops s = Some Kvm_ops" and "hv_vms s (v_hv_vm v) \<noteq> None" and "fresh_heap s"
  shows "\<exists>ret s'. vm_add_memory_region E (linked E) vm gpa sz s = Some (ret, s')"
proof (cases "find (\<lambda>i. \<not> r_used (v_mem_regions v ! i)) [0..<VM_MAX_SLOTS]")
  case None
  with assms(1) show ?thesis by (simp add: vm_add_memory_region_def)
next
  case (Some i)
  obtain hva s1 where c: "calloc E sz s = (hva, s1)" by fastforce
  note cc = calloc_cases [OF assms(4) c]
  obtain r s2 where m: "hv_map_mem (linked E) (v_hv_vm v) (of_nat i) (PAGE_ALIGN_DOWN gpa) hva sz s1 = Some (r, s2)"
    using assms(2,3) cc by (fastforce simp: hv_map_mem_def cur_op_def kvm_ops_def kvm_map_mem_def)
  note io = io_only_heaps [OF lk.map_mem_io [OF m]]
  show ?thesis using assms(1) Some c m cc io by (auto simp: vm_add_memory_region_def Let_def)
qed

section \<open>A small machine\<close>

text \<open>A machine without memory, and one with a page at guest address 0x1000.\<close>

definition zero_region :: vm_mem_region where
  "zero_region = \<lparr>r_gpa = 0, r_hva = NULL, r_size = 0, r_slot = 0, r_used = False\<rparr>"

definition zero_vm :: vm where
  "zero_vm = \<lparr>v_hv_vm = 0, v_state = VM_STATE_STOPPED, v_mem_regions = replicate 32 zero_region, v_mem_size = 0,
     v_vcpus = replicate 8 0, v_num_vcpus = 0, v_devices = replicate 16 0, v_num_devices = 0,
     v_kernel_path = None, v_initrd_path = None, v_cmdline = None, v_irq_base = 0\<rparr>"

definition ex_bare_vm :: vm where
  "ex_bare_vm = zero_vm\<lparr>v_hv_vm := 1\<rparr>"

definition ex_machine :: host where
  "ex_machine = ex_vm_host\<lparr>g_hv_ops := Some Kvm_ops, vms := (\<lambda>_. None)(2 \<mapsto> ex_bare_vm), next_ref := 3\<rparr>"

definition ex_region :: vm_mem_region where
  "ex_region = \<lparr>r_gpa = 0x1000, r_hva = Ptr 3 0, r_size = 0x1000, r_slot = 0, r_used = True\<rparr>"

definition ex_vm :: vm where
  "ex_vm = zero_vm\<lparr>v_hv_vm := 1, v_mem_regions := (replicate 32 zero_region)[0 := ex_region], v_mem_size := 0x1000\<rparr>"

definition ex_vm_mem :: host where
  "ex_vm_mem = ex_machine\<lparr>vms := (\<lambda>_. None)(2 \<mapsto> ex_vm), mem := (\<lambda>_. None)(3 \<mapsto> replicate 0x1000 0), next_ref := 4\<rparr>"

lemma zero_regions: "i < 32 \<Longrightarrow> v_mem_regions zero_vm ! i = zero_region"
  by (simp add: zero_vm_def)

lemma ex_machine_table: "vm_table ex_bare_vm i = None"
  by (simp add: vm_table_def VM_MAX_SLOTS_def ex_bare_vm_def zero_regions) (simp add: zero_region_def)

lemma ex_machine_backed: "vm_backed ex_bare_vm s"
  by (simp add: table_backed_def ex_machine_table)

lemma ex_machine_fresh: "fresh_heap ex_machine"
  by (simp add: fresh_heap_def obj_live_def ex_machine_def ex_vm_host_def init_host_def)

lemma ex_machine_wf: "vm_mem_wf ex_bare_vm"
  by (simp add: vm_mem_wf_def ex_bare_vm_def zero_vm_def VM_MAX_SLOTS_def zero_region_def)

lemma ex_vm_table: "vm_table ex_vm i = (if i = 0 then Some (0x1000, Ptr 3 0, 0x1000) else None)"
  by (auto simp: vm_table_def ex_vm_def VM_MAX_SLOTS_def nth_list_update ex_region_def zero_region_def)

lemma ex_vm_backed: "vm_backed ex_vm ex_vm_mem"
  by (auto simp: table_backed_def ex_vm_table range_backed_def no_wrap_def ex_vm_mem_def split: if_splits)

lemma ex_vm_apart: "vm_apart ex_vm"
  by (simp add: table_apart_def ex_vm_table)

section \<open>Properties\<close>

text \<open>
  C6: adding guest memory. With KVM selected and a live machine handle the call returns. It
  returns 0 or -1; on -1 neither the machine nor memory has changed; on 0 exactly one slot more
  is in use, at the page-aligned address, backed by a fresh zeroed block of the requested size,
  every region stays backed, the recorded size grows by it, and the regions stay apart if the new
  range overlaps none.
\<close>

theorem vm_add_memory_region_correct:
  assumes "vms s vm = Some v" and "g_hv_ops s = Some Kvm_ops" and "hv_vms s (v_hv_vm v) \<noteq> None" and "fresh_heap s"
    and "vm_mem_wf v" and "vm_backed v s" and "no_wrap (PAGE_ALIGN_DOWN gpa) (unat sz)"
  shows "\<exists>ret s'. vm_add_memory_region E (linked E) vm gpa sz s = Some (ret, s')
     \<and> (ret = -1 \<and> vms s' = vms s \<and> mem s' = mem s
        \<or> ret = 0 \<and> (\<exists>v' i. vms s' = (vms s)(vm \<mapsto> v') \<and> vm_mem_wf v' \<and> vm_backed v' s'
             \<and> v_mem_size v' = v_mem_size v + sz \<and> vm_table v i = None
             \<and> vm_table v' = (vm_table v)(i \<mapsto> (PAGE_ALIGN_DOWN gpa, Ptr (next_ref s) 0, sz))
             \<and> mem s' = (mem s)(next_ref s \<mapsto> replicate (unat sz) 0)
             \<and> (vm_apart v \<longrightarrow> (\<forall>j b h z g. vm_table v j = Some (b, h, z) \<longrightarrow>
                   \<not> (in_range b z g 1 \<and> in_range (PAGE_ALIGN_DOWN gpa) sz g 1)) \<longrightarrow> vm_apart v')))"
proof -
  obtain ret s' where r: "vm_add_memory_region E (linked E) vm gpa sz s = Some (ret, s')"
    using add_region_defined [OF assms(1-4)] by blast
  from lk.add_region [OF r assms(1,4,5)] show ?thesis
  proof (elim disjE conjE exE)
    assume "ret = -1" "vms s' = vms s" "mem s' = mem s"
    with r show ?thesis by blast
  next
    fix i
    let ?r = "\<lparr>r_gpa = PAGE_ALIGN_DOWN gpa, r_hva = Ptr (next_ref s) 0, r_size = sz, r_slot = of_nat i, r_used = True\<rparr>"
    let ?v = "v\<lparr>v_mem_regions := (v_mem_regions v)[i := ?r], v_mem_size := v_mem_size v + sz\<rparr>"
    assume i: "i < VM_MAX_SLOTS" "\<not> r_used (v_mem_regions v ! i)" and *: "ret = 0" "vms s' = (vms s)(vm \<mapsto> ?v)"
      and mem: "mem s' = (mem s)(next_ref s \<mapsto> replicate (unat sz) 0)"
    have t: "vm_table ?v = (vm_table v)(i \<mapsto> (PAGE_ALIGN_DOWN gpa, Ptr (next_ref s) 0, sz))"
      using vm_table_add [OF assms(5) i(1), of ?r] by simp
    have ti: "vm_table v i = None" using i by (simp add: vm_table_def)
    have "vm_mem_wf ?v" using vm_mem_wf_add [OF assms(5) i, of ?r] by simp
    moreover have "vm_backed ?v s'" unfolding t by (rule table_backed_add [OF assms(6,4,7) mem])
    moreover have "vm_apart v \<longrightarrow> (\<forall>j b h z g. vm_table v j = Some (b, h, z) \<longrightarrow>
        \<not> (in_range b z g 1 \<and> in_range (PAGE_ALIGN_DOWN gpa) sz g 1)) \<longrightarrow> vm_apart ?v"
      unfolding t using table_apart_add [OF assms(6) _ assms(4) ti] by blast
    ultimately show ?thesis using r * mem t ti
      by (intro exI [of _ ret] exI [of _ s'] conjI disjI2 exI [of _ ?v] exI [of _ i]) simp_all
  qed
qed

theorem vm_add_memory_region_correct_witness:
  "\<exists>ret s'. vm_add_memory_region ok_env (linked ok_env) 2 0x1234 0x2000 ex_machine = Some (ret, s')
     \<and> (ret = -1 \<and> vms s' = vms ex_machine \<and> mem s' = mem ex_machine
        \<or> ret = 0 \<and> (\<exists>v' i. vms s' = (vms ex_machine)(2 \<mapsto> v') \<and> vm_mem_wf v' \<and> vm_backed v' s'
             \<and> v_mem_size v' = v_mem_size ex_bare_vm + 0x2000
             \<and> vm_table ex_bare_vm i = None
             \<and> vm_table v' = (vm_table ex_bare_vm)(i \<mapsto> (PAGE_ALIGN_DOWN 0x1234, Ptr (next_ref ex_machine) 0, 0x2000))
             \<and> mem s' = (mem ex_machine)(next_ref ex_machine \<mapsto> replicate (unat (0x2000 :: u64)) 0)
             \<and> (vm_apart ex_bare_vm \<longrightarrow> (\<forall>j b h z g. vm_table ex_bare_vm j = Some (b, h, z) \<longrightarrow>
                   \<not> (in_range b z g 1 \<and> in_range (PAGE_ALIGN_DOWN 0x1234) 0x2000 g 1)) \<longrightarrow> vm_apart v')))"
proof (rule vm_add_memory_region_correct [OF _ _ _ ex_machine_fresh ex_machine_wf ex_machine_backed])
  show "vms ex_machine 2 = Some ex_bare_vm" "g_hv_ops ex_machine = Some Kvm_ops"
    "hv_vms ex_machine (v_hv_vm ex_bare_vm) \<noteq> None"
    by (simp_all add: ex_machine_def ex_bare_vm_def ex_vm_host_def)
  show "no_wrap (PAGE_ALIGN_DOWN 0x1234) (unat (0x2000 :: u64))"
    by (simp add: no_wrap_def unat_PAGE_ALIGN_DOWN)
qed

lemma vm_gpa_to_hva_inside:
  assumes "vm_backed v s" and "vm_table v i = Some (base, hva, sz)" and "in_range base sz gpa (unat n)"
  shows "vm_gpa_to_hva v gpa n \<noteq> NULL"
proof -
  have i: "i < VM_MAX_SLOTS" "r_used (v_mem_regions v ! i)" and eqs: "base = r_gpa (v_mem_regions v ! i)"
    "sz = r_size (v_mem_regions v ! i)"
    using assms(2) by (auto simp: vm_table_def split: if_splits)
  have nw: "no_wrap gpa (unat n)"
    using vm_backedD [OF assms(1) i] assms(3) eqs by (auto simp: range_backed_def in_range_def no_wrap_def)
  have "region_hit (v_mem_regions v ! i) gpa n"
    using region_hit_iff [OF assms(1) i(1) nw] i assms(3) eqs by simp
  then obtain j where j: "find (\<lambda>i. region_hit (v_mem_regions v ! i) gpa n) [0..<VM_MAX_SLOTS] = Some j"
    using i(1) by (cases "find (\<lambda>i. region_hit (v_mem_regions v ! i) gpa n) [0..<VM_MAX_SLOTS]")
      (auto simp: find_None_iff)
  then have "j < VM_MAX_SLOTS" "r_used (v_mem_regions v ! j)"
    unfolding find_upt_Some by (auto simp: region_hit_def)
  from range_backed_not_NULL [OF vm_backedD [OF assms(1) this]] j show ?thesis
    by (simp add: vm_gpa_to_hva_def)
qed

text \<open>
  C5: translation by the machine is exact. A range that does not wrap is translated exactly
  when one region in use holds all of it, and then every byte of the pointer returned may be read.
\<close>

theorem vm_gpa_to_hva_exact:
  assumes "vm_backed v s" and "no_wrap gpa (unat n)"
  shows "(vm_gpa_to_hva v gpa n \<noteq> NULL \<longleftrightarrow>
       (\<exists>i < VM_MAX_SLOTS. r_used (v_mem_regions v ! i)
          \<and> in_range (r_gpa (v_mem_regions v ! i)) (r_size (v_mem_regions v ! i)) gpa (unat n)))
     \<and> (vm_gpa_to_hva v gpa n \<noteq> NULL \<longrightarrow> load s (vm_gpa_to_hva v gpa n) (unat n) \<noteq> None)"
proof
  have "vm_gpa_to_hva v gpa n \<noteq> NULL"
    if "i < VM_MAX_SLOTS" "r_used (v_mem_regions v ! i)"
      "in_range (r_gpa (v_mem_regions v ! i)) (r_size (v_mem_regions v ! i)) gpa (unat n)" for i
    using vm_gpa_to_hva_inside [OF assms(1), of i] that by (simp add: vm_table_def)
  moreover have "\<exists>i < VM_MAX_SLOTS. r_used (v_mem_regions v ! i)
      \<and> in_range (r_gpa (v_mem_regions v ! i)) (r_size (v_mem_regions v ! i)) gpa (unat n)"
    if "vm_gpa_to_hva v gpa n \<noteq> NULL"
    using vmg.translate_hit [OF assms that] by (auto simp: vm_table_def split: if_splits)
  ultimately show "vm_gpa_to_hva v gpa n \<noteq> NULL \<longleftrightarrow>
       (\<exists>i < VM_MAX_SLOTS. r_used (v_mem_regions v ! i)
          \<and> in_range (r_gpa (v_mem_regions v ! i)) (r_size (v_mem_regions v ! i)) gpa (unat n))" by blast
  show "vm_gpa_to_hva v gpa n \<noteq> NULL \<longrightarrow> load s (vm_gpa_to_hva v gpa n) (unat n) \<noteq> None"
    using vmg.translate_readable [OF assms] by blast
qed

theorem vm_gpa_to_hva_exact_witness:
  "vm_gpa_to_hva ex_vm 0x1FF0 16 \<noteq> NULL \<and> load ex_vm_mem (vm_gpa_to_hva ex_vm 0x1FF0 16) (unat (16 :: u64)) \<noteq> None"
proof -
  have "no_wrap 0x1FF0 (unat (16 :: u64))" by (simp add: no_wrap_def)
  moreover have "0 < VM_MAX_SLOTS \<and> r_used (v_mem_regions ex_vm ! 0)
      \<and> in_range (r_gpa (v_mem_regions ex_vm ! 0)) (r_size (v_mem_regions ex_vm ! 0)) 0x1FF0 (unat (16 :: u64))"
    by (simp add: VM_MAX_SLOTS_def ex_vm_def ex_region_def in_range_def)
  ultimately show ?thesis using vm_gpa_to_hva_exact [OF ex_vm_backed, of "0x1FF0" 16] by blast
qed

text \<open>
  C26: the bounds check of the machine's translation wraps around. For every guest address at or
  above the base of a region in use, even far beyond its end, the size that brings the sum to
  zero is accepted, and the pointer returned cannot be read at all.
\<close>

theorem vm_gpa_to_hva_wraps:
  assumes "vm_backed v s" and "vm_table v i = Some (base, Ptr b 0, sz)" and "mem s b = Some bs"
    and "length bs = unat sz" and "\<And>j. j < i \<Longrightarrow> vm_table v j = None" and "unat base + unat sz \<le> unat gpa"
    and "gpa \<noteq> 0"
  shows "vm_gpa_to_hva v gpa (- gpa) = Ptr b (gpa - base)
     \<and> load s (vm_gpa_to_hva v gpa (- gpa)) (unat (- gpa)) = None"
proof -
  have i: "i < VM_MAX_SLOTS" "r_used (v_mem_regions v ! i)" and eqs: "base = r_gpa (v_mem_regions v ! i)"
    "sz = r_size (v_mem_regions v ! i)" "Ptr b 0 = r_hva (v_mem_regions v ! i)"
    using assms(2) by (auto simp: vm_table_def split: if_splits)
  have "region_hit (v_mem_regions v ! i) gpa (- gpa)"
    using i assms(6) eqs by (auto simp: region_hit_def word_le_nat_alt)
  moreover have "\<not> region_hit (v_mem_regions v ! j) gpa (- gpa)" if "j < i" for j
    using assms(5) [OF that] i(1) that by (auto simp: region_hit_def vm_table_def split: if_splits)
  ultimately have "find (\<lambda>i. region_hit (v_mem_regions v ! i) gpa (- gpa)) [0..<VM_MAX_SLOTS] = Some i"
    unfolding find_upt_Some using i(1) by blast
  then have eq: "vm_gpa_to_hva v gpa (- gpa) = Ptr b (gpa - base)"
    by (simp add: vm_gpa_to_hva_def eqs(1) eqs(3) [symmetric])
  have "unat (gpa - base) = unat gpa - unat base"
    using assms(6) by (simp add: unat_sub word_le_nat_alt)
  moreover have "0 < unat (- gpa)" using assms(7) by (simp add: unat_gt_0)
  ultimately have "\<not> unat (gpa - base) + unat (- gpa) \<le> length bs" using assms(4,6) by linarith
  with eq assms(3) show ?thesis by simp
qed

theorem vm_gpa_to_hva_wraps_witness:
  "vm_gpa_to_hva ex_vm 0xFFFFFFFFFFFFFFF0 (- 0xFFFFFFFFFFFFFFF0) = Ptr 3 (0xFFFFFFFFFFFFFFF0 - 0x1000)
     \<and> load ex_vm_mem (vm_gpa_to_hva ex_vm 0xFFFFFFFFFFFFFFF0 (- 0xFFFFFFFFFFFFFFF0))
         (unat (- 0xFFFFFFFFFFFFFFF0 :: u64)) = None"
  by (rule vm_gpa_to_hva_wraps [OF ex_vm_backed, where i = 0 and sz = "0x1000" and bs = "replicate 0x1000 0"])
    (simp_all add: ex_vm_table ex_vm_mem_def)

lemma registered_snoc:
  assumes "vm_devs_wf v" and "v_num_devices v < VM_MAX_DEVICES"
  shows "registered (v\<lparr>v_devices := (v_devices v)[v_num_devices v := dev], v_num_devices := v_num_devices v + 1\<rparr>)
       = registered v @ [dev]
     \<and> vm_devs_wf (v\<lparr>v_devices := (v_devices v)[v_num_devices v := dev], v_num_devices := v_num_devices v + 1\<rparr>)"
  using assms by (simp add: registered_def vm_devs_wf_def take_Suc_conv_app_nth)

lemma find_device_snoc:
  assumes "devices_live s rs" and "\<forall>r \<in> set rs. \<not> covers s r gpa" and "covers s dev gpa"
  shows "find_device (rs @ [dev]) gpa s = Some dev"
  using assms by (induction rs) (auto simp: devices_live_def covers_def)

text \<open>
  Registering a device with the machine. It fails exactly when sixteen are registered and then
  changes nothing; otherwise the device is appended to the list, and a lookup of an address that
  it covers and no earlier device does finds it. The device structure itself is not changed: its
  machine pointer is not set.
\<close>

theorem vm_register_device_correct:
  assumes "vms s vm = Some v" and "vm_devs_wf v" and "devices_live s (registered v)" and "devs s dev = Some d"
  shows "(v_num_devices v = VM_MAX_DEVICES \<longrightarrow> vm_register_device vm dev s = Some (-1, s))
     \<and> (v_num_devices v \<noteq> VM_MAX_DEVICES \<longrightarrow> (\<exists>v' s'. vm_register_device vm dev s = Some (0, s')
          \<and> vms s' = (vms s)(vm \<mapsto> v') \<and> vm_devs_wf v' \<and> registered v' = registered v @ [dev] \<and> devs s' = devs s
          \<and> (\<forall>gpa. (\<forall>r \<in> set (registered v). \<not> covers s r gpa) \<longrightarrow> covers s dev gpa \<longrightarrow>
                vm_find_device_at_gpa v' gpa s' = Some dev)))"
proof (intro conjI impI)
  assume "v_num_devices v = VM_MAX_DEVICES"
  with assms(1) show "vm_register_device vm dev s = Some (-1, s)" by (simp add: vm_register_device_def)
next
  assume "v_num_devices v \<noteq> VM_MAX_DEVICES"
  with assms(2) have n: "v_num_devices v < VM_MAX_DEVICES" by (simp add: vm_devs_wf_def)
  let ?v = "v\<lparr>v_devices := (v_devices v)[v_num_devices v := dev], v_num_devices := v_num_devices v + 1\<rparr>"
  let ?s = "set_vm vm ?v s"
  have reg: "vm_register_device vm dev s = Some (0, ?s)"
    using assms(1,4) n by (simp add: vm_register_device_def)
  have "vm_find_device_at_gpa ?v gpa ?s = Some dev"
    if "\<forall>r \<in> set (registered v). \<not> covers s r gpa" "covers s dev gpa" for gpa
  proof -
    have "find_device (registered ?v) gpa ?s = find_device (registered v @ [dev]) gpa s"
      using registered_snoc [OF assms(2) n] find_device_cong [of ?s s] by simp
    then show ?thesis
      using find_device_snoc [OF assms(3)] that
      by (simp add: vm_find_device_at_gpa_def vm_find_device_eq registered_def)
  qed
  with reg registered_snoc [OF assms(2) n, of dev] show "\<exists>v' s'. vm_register_device vm dev s = Some (0, s')
          \<and> vms s' = (vms s)(vm \<mapsto> v') \<and> vm_devs_wf v' \<and> registered v' = registered v @ [dev] \<and> devs s' = devs s
          \<and> (\<forall>gpa. (\<forall>r \<in> set (registered v). \<not> covers s r gpa) \<longrightarrow> covers s dev gpa \<longrightarrow>
                vm_find_device_at_gpa v' gpa s' = Some dev)"
    by (intro exI [of _ ?v] exI [of _ ?s]) simp
qed

definition ex_dev_host :: host where
  "ex_dev_host = ex_machine\<lparr>devs := (\<lambda>_. None)(5 \<mapsto> zero_device\<lparr>d_gpa_start := 0x9000, d_gpa_end := 0x9FFF\<rparr>), next_ref := 6\<rparr>"

theorem vm_register_device_correct_witness:
  "\<exists>v' s'. vm_register_device 2 5 ex_dev_host = Some (0, s') \<and> vm_find_device_at_gpa v' 0x9004 s' = Some 5"
proof -
  have "vms ex_dev_host 2 = Some ex_bare_vm" "vm_devs_wf ex_bare_vm" "devices_live ex_dev_host (registered ex_bare_vm)"
    "devs ex_dev_host 5 = Some (zero_device\<lparr>d_gpa_start := 0x9000, d_gpa_end := 0x9FFF\<rparr>)"
    "v_num_devices ex_bare_vm \<noteq> VM_MAX_DEVICES" "registered ex_bare_vm = []" "covers ex_dev_host 5 0x9004"
    by (simp_all add: ex_dev_host_def ex_machine_def ex_bare_vm_def zero_vm_def vm_devs_wf_def VM_MAX_DEVICES_def
        registered_def devices_live_def covers_def)
  then show ?thesis
    using vm_register_device_correct [of ex_dev_host 2 ex_bare_vm 5] by auto
qed

end
