(* ===== verification/Virtio.thy ===== *)
theory Virtio
  imports Vm_Memory
begin

text \<open>
  The virtio framework, \<^verbatim>\<open>src/devices/virtio.c\<close>: device set-up, the split virtqueue in guest
  memory and the MMIO register interface. The rings are read and written as bytes at the offsets
  of the structures of \<^verbatim>\<open>include/virtio.h\<close>; a queue is passed by value and returned updated. The
  callbacks a driver installs are the parameter \<open>cbs\<close>; \<open>virtio_callbacks\<close> is their contract.
  The available ring refines a list of pending descriptor numbers, and taking from it is the
  locale \<open>work_queue\<close>.
\<close>

record virtio_cbs =
  cb_queue_notify :: "virtio_driver \<Rightarrow> ref \<Rightarrow> nat \<Rightarrow> host \<Rightarrow> (int \<times> host) option"
  cb_config_read :: "virtio_driver \<Rightarrow> ref \<Rightarrow> u64 \<Rightarrow> u8 list \<Rightarrow> u64 \<Rightarrow> host \<Rightarrow> (int \<times> u8 list \<times> host) option"
  cb_config_write :: "virtio_driver \<Rightarrow> ref \<Rightarrow> u64 \<Rightarrow> u8 list \<Rightarrow> u64 \<Rightarrow> host \<Rightarrow> (int \<times> host) option"

definition VIRTIO_MMIO_MAGIC_VALUE :: u32 where "VIRTIO_MMIO_MAGIC_VALUE = 0x74726976"

definition LOG_LEVEL_DEBUG :: int where "LOG_LEVEL_DEBUG = 4"

abbreviation set_vdev :: "ref \<Rightarrow> virtio_dev \<Rightarrow> host \<Rightarrow> host" where
  "set_vdev r vd s \<equiv> s\<lparr>vdevs := (vdevs s)(r \<mapsto> vd)\<rparr>"

section \<open>Set-up\<close>

definition zero_virtqueue :: virtqueue where
  "zero_virtqueue = \<lparr>q_dev = 0, q_index = 0, q_size = 0, q_desc_gpa = 0, q_avail_gpa = 0, q_used_gpa = 0,
     q_desc = NULL, q_avail = NULL, q_used = NULL, q_last_avail_idx = 0, q_last_used_idx = 0,
     q_ready = 0, q_priv = 0\<rparr>"

definition zero_virtio_dev :: virtio_dev where
  "zero_virtio_dev = \<lparr>vd_device_id = VIRTIO_ID_NET, vd_device_features = 0, vd_driver_features = 0,
     vd_device_status = 0, vd_queues = replicate 8 zero_virtqueue, vd_num_queues = 0, vd_queue_notify = None,
     vd_config_read = None, vd_config_write = None, vd_priv = 0\<rparr>"

text \<open>
  The whole structure is cleared, the embedded device included. The feature word is
  \<open>1U << VIRTIO_F_VERSION_1\<close>, a shift of a 32-bit one by 32.
\<close>

definition virtio_init :: "env \<Rightarrow> ref \<Rightarrow> virtio_device_id \<Rightarrow> host \<Rightarrow> (int \<times> host) option" where
  "virtio_init E r ident s =
     (if vdevs s r = None then None
      else Some (0, set_dev r zero_device (set_vdev r (zero_virtio_dev\<lparr>vd_device_id := ident,
                      vd_device_features := oversized_shift E\<rparr>) s)))"

definition virtqueue_setup :: "ref \<Rightarrow> u16 \<Rightarrow> host \<Rightarrow> (int \<times> virtqueue) option" where
  "virtqueue_setup dev index s =
     (if log_level s \<ge> LOG_LEVEL_DEBUG \<and> devs s dev = None then None
      else Some (0, zero_virtqueue\<lparr>q_dev := dev, q_index := index\<rparr>))"

definition virtqueue_cleanup :: "virtqueue \<Rightarrow> virtqueue" where
  "virtqueue_cleanup vq = vq\<lparr>q_ready := 0, q_desc := NULL, q_avail := NULL, q_used := NULL\<rparr>"

definition virtio_cleanup :: "ref \<Rightarrow> host \<Rightarrow> host option" where
  "virtio_cleanup r s =
     do { vd \<leftarrow> vdevs s r;
          if vd_num_queues vd > length (vd_queues vd) then None
          else Some (set_vdev r (vd\<lparr>vd_queues :=
            map virtqueue_cleanup (take (vd_num_queues vd) (vd_queues vd)) @ drop (vd_num_queues vd) (vd_queues vd)\<rparr>) s) }"

section \<open>The rings\<close>

definition desc_at :: "virtqueue \<Rightarrow> u16 \<Rightarrow> ptr" where
  "desc_at vq i = ptr_add (q_desc vq) (16 * ucast i)"

definition read_desc :: "host \<Rightarrow> ptr \<Rightarrow> vring_desc option" where
  "read_desc s p =
     do { addr \<leftarrow> load_word s p 8;
          len \<leftarrow> load_word s (ptr_add p 8) 4;
          flags \<leftarrow> load_word s (ptr_add p 12) 2;
          nxt \<leftarrow> load_word s (ptr_add p 14) 2;
          Some \<lparr>desc_addr = addr, desc_len = len, desc_flags = flags, desc_next = nxt\<rparr> }"

definition avail_idx :: "host \<Rightarrow> virtqueue \<Rightarrow> u16 option" where
  "avail_idx s vq = load_word s (ptr_add (q_avail vq) 2) 2"

definition avail_ring :: "host \<Rightarrow> virtqueue \<Rightarrow> u16 \<Rightarrow> u16 option" where
  "avail_ring s vq i = load_word s (ptr_add (q_avail vq) (4 + 2 * ucast (i mod q_size vq))) 2"

definition virtqueue_pop :: "virtqueue \<Rightarrow> host \<Rightarrow> (ptr \<times> virtqueue) option" where
  "virtqueue_pop vq s =
     (if q_ready vq = 0 \<or> q_desc vq = NULL \<or> q_avail vq = NULL then Some (NULL, vq)
      else do {
        idx \<leftarrow> avail_idx s vq;
        if q_last_avail_idx vq = idx then Some (NULL, vq)
        else if q_size vq = 0 then None
        else do {
          i \<leftarrow> avail_ring s vq (q_last_avail_idx vq);
          Some (desc_at vq i, vq\<lparr>q_last_avail_idx := q_last_avail_idx vq + 1\<rparr>) } })"

definition virtqueue_notify :: "env \<Rightarrow> virtqueue \<Rightarrow> host \<Rightarrow> host option" where
  "virtqueue_notify E vq s = do { (ret, s') \<leftarrow> device_assert_irq E (q_dev vq) s; Some s' }"

definition used_idx :: "host \<Rightarrow> virtqueue \<Rightarrow> u16 option" where
  "used_idx s vq = load_word s (ptr_add (q_used vq) 2) 2"

definition used_elem :: "virtqueue \<Rightarrow> u16 \<Rightarrow> ptr" where
  "used_elem vq i = ptr_add (q_used vq) (4 + 8 * ucast (i mod q_size vq))"

definition virtqueue_push :: "env \<Rightarrow> virtqueue \<Rightarrow> u32 \<Rightarrow> u32 \<Rightarrow> host \<Rightarrow> (virtqueue \<times> host) option" where
  "virtqueue_push E vq ident len s =
     (if q_ready vq = 0 \<or> q_used vq = NULL then Some (vq, s)
      else do {
        i \<leftarrow> used_idx s vq;
        if q_size vq = 0 then None
        else do {
          s1 \<leftarrow> store_word (used_elem vq i) 4 ident s;
          s2 \<leftarrow> store_word (ptr_add (used_elem vq i) 4) 4 len s1;
          j \<leftarrow> used_idx s2 vq;
          s3 \<leftarrow> store_word (ptr_add (q_used vq) 2) 2 (j + 1) s2;
          let vq' = vq\<lparr>q_last_used_idx := q_last_used_idx vq + 1\<rparr>;
          s4 \<leftarrow> virtqueue_notify E vq' s3;
          Some (vq', s4) } })"

section \<open>The register interface\<close>

text \<open>The queue whose size and readiness the registers show: the last one set up, or the first.\<close>

definition shown_queue :: "virtio_dev \<Rightarrow> virtqueue option" where
  "shown_queue vd =
     (let i = (if vd_num_queues vd > 0 then vd_num_queues vd - 1 else 0) in
      if i < length (vd_queues vd) then Some (vd_queues vd ! i) else None)"

definition virtio_mmio_read ::
    "virtio_cbs \<Rightarrow> ref \<Rightarrow> u64 \<Rightarrow> u8 list \<Rightarrow> u64 \<Rightarrow> host \<Rightarrow> (int \<times> u8 list \<times> host) option" where
  "virtio_mmio_read cbs r off data sz s =
     (if sz \<noteq> 4 then Some (-1, data, s)
      else do {
        vd \<leftarrow> vdevs s r;
        let reply = (\<lambda>val :: u32. do { data' \<leftarrow> put_buf data 0 (le_bytes 4 val); Some (0, data', s) });
        if off = 0x00 then reply VIRTIO_MMIO_MAGIC_VALUE
        else if off = 0x04 then reply 1
        else if off = 0x08 then reply (virtio_id_num (vd_device_id vd))
        else if off = 0x0C then reply 0
        else if off = 0x10 then reply (vd_device_features vd)
        else if off = 0x14 then reply 0
        else if off = 0x20 then reply 32
        else if off = 0x24 then do { vq \<leftarrow> shown_queue vd; reply (ucast (q_size vq)) }
        else if off = 0x30 then do { vq \<leftarrow> shown_queue vd; reply (of_int (q_ready vq)) }
        else if off = 0x38 then reply 0x01
        else if off = 0x40 then reply (ucast (vd_device_status vd))
        else (case vd_config_read vd of
                Some drv \<Rightarrow> if off \<ge> 0x100 then cb_config_read cbs drv r (off - 0x100) data sz s else reply 0
              | None \<Rightarrow> reply 0) })"

text \<open>The value is read before the size is checked; the queue index is masked to eight bits only.\<close>

definition virtio_mmio_write ::
    "env \<Rightarrow> virtio_cbs \<Rightarrow> ref \<Rightarrow> u64 \<Rightarrow> u8 list \<Rightarrow> u64 \<Rightarrow> host \<Rightarrow> (int \<times> host) option" where
  "virtio_mmio_write E cbs r off data sz s =
     (if length data < 4 then None
      else if sz \<noteq> 4 then Some (-1, s)
      else do {
        vd \<leftarrow> vdevs s r;
        let val = (le_word (take 4 data) :: u32);
        if off = 0x14 then Some (0, s)
        else if off = 0x18 then Some (0, set_vdev r (vd\<lparr>vd_driver_features := val\<rparr>) s)
        else if off \<in> {0x1C, 0x20, 0x24, 0x28, 0x30} then Some (0, s)
        else if off = 0x34 then
          (case vd_queue_notify vd of
             None \<Rightarrow> Some (0, s)
           | Some drv \<Rightarrow>
               let q = unat (val AND 0xFF) in
               if q < length (vd_queues vd) then do { (ret, s') \<leftarrow> cb_queue_notify cbs drv r q s; Some (0, s') }
               else None)
        else if off = 0x38 then do { (ret, s') \<leftarrow> device_deassert_irq E r s; Some (0, s') }
        else if off = 0x40 then Some (0, set_vdev r (vd\<lparr>vd_device_status := ucast val\<rparr>) s)
        else (case vd_config_write vd of
                Some drv \<Rightarrow> if off \<ge> 0x100 then cb_config_write cbs drv r (off - 0x100) data sz s else Some (0, s)
              | None \<Rightarrow> Some (0, s)) })"

section \<open>The contract of a driver's callbacks\<close>

locale virtio_callbacks =
  fixes cbs :: virtio_cbs
  assumes notify_frame: "cb_queue_notify cbs drv r q s = Some (ret, s') \<Longrightarrow> handler_frame s s'"
    and config_read_frame: "cb_config_read cbs drv r off data sz s = Some (ret, data', s') \<Longrightarrow>
      handler_frame s s' \<and> length data' = length data"
    and config_write_frame: "cb_config_write cbs drv r off data sz s = Some (ret, s') \<Longrightarrow> handler_frame s s'"
begin

lemma mmio_read_frame:
  assumes "virtio_mmio_read cbs r off data sz s = Some (ret, data', s')"
  shows "handler_frame s s' \<and> length data' = length data"
  using assms config_read_frame
  by (auto simp: virtio_mmio_read_def Let_def put_buf_def array_simps frame_intros
      split: if_splits Option.bind_splits option.splits)

lemma mmio_write_frame:
  assumes "virtio_mmio_write E cbs r off data sz s = Some (ret, s')"
  shows "handler_frame s s'"
proof -
  have set: "handler_frame s (set_vdev r vd s)" for vd by (simp add: handler_frame_def)
  show ?thesis
    using assms notify_frame config_write_frame
    by (auto simp: virtio_mmio_write_def Let_def frame_intros set
        split: if_splits Option.bind_splits option.splits
        dest: io_only_frame [OF device_deassert_irq_io])
qed

end

section \<open>The available ring as a list\<close>

text \<open>
  A queue is sound in a state when it is ready, has a size, and its three areas lie in live
  memory, the used ring apart from the other two.
\<close>

fun area :: "host \<Rightarrow> ptr \<Rightarrow> nat \<Rightarrow> bool" where
  "area s (Ptr b off) n \<longleftrightarrow> b \<noteq> 0 \<and> no_wrap off n \<and> load s (Ptr b off) n \<noteq> None"

definition avail_bytes :: "virtqueue \<Rightarrow> nat" where
  "avail_bytes vq = 4 + 2 * unat (q_size vq)"

definition used_bytes :: "virtqueue \<Rightarrow> nat" where
  "used_bytes vq = 4 + 8 * unat (q_size vq)"

definition vq_sound :: "host \<Rightarrow> virtqueue \<Rightarrow> bool" where
  "vq_sound s vq \<longleftrightarrow> q_ready vq \<noteq> 0 \<and> q_size vq \<noteq> 0 \<and> area s (q_avail vq) (avail_bytes vq)
     \<and> area s (q_used vq) (used_bytes vq) \<and> area s (q_desc vq) (16 * unat (q_size vq))"

definition pending :: "host \<Rightarrow> virtqueue \<Rightarrow> u16 list" where
  "pending s vq =
     map (\<lambda>k. the (avail_ring s vq (q_last_avail_idx vq + of_nat k)))
       [0..<unat (the (avail_idx s vq) - q_last_avail_idx vq)]"

lemma area_sub:
  assumes "area s p m" and "unat k + n \<le> m"
  shows "load s (ptr_add p k) n \<noteq> None"
proof (cases p)
  case (Ptr b off)
  with assms load_sub [of s b off m k n] show ?thesis
    by (simp add: no_wrap_def del: load.simps ptr_add.simps)
qed

lemma area_not_NULL: "area s p m \<Longrightarrow> ptr_add p k \<noteq> NULL \<and> p \<noteq> NULL"
  by (cases p) simp

lemma u16_mod_less: "(n :: u16) \<noteq> 0 \<Longrightarrow> unat i mod unat n < unat n"
  by (simp add: unat_gt_0)

lemma unat_u16_less: "unat (x :: u16) < 65536"
  using unsigned_less [of x] by simp

lemma ring_offset:
  fixes i n :: u16
  assumes "n \<noteq> 0" and "c \<le> 16" and "d \<le> 8"
  shows "unat (of_nat d + of_nat c * ucast (i mod n) :: u64) = d + c * (unat i mod unat n)"
proof -
  have m: "unat i mod unat n < 65536" using u16_mod_less [OF assms(1), of i] unat_u16_less [of n] by linarith
  then have "c * (unat i mod unat n) \<le> 16 * 65536"
    using assms(2) mult_le_mono by (metis less_imp_le)
  then have "d + c * (unat i mod unat n) < 2 ^ 64" using assms(3) by simp
  then show ?thesis
    using m assms(2) by (simp add: unat_word_ariths unat_mod unat_of_nat take_bit_nat_eq_self)
qed

lemma vq_soundD:
  assumes "vq_sound s vq"
  shows "avail_idx s vq \<noteq> None" "avail_ring s vq i \<noteq> None" "used_idx s vq \<noteq> None"
    "load s (used_elem vq i) 4 \<noteq> None" "load s (ptr_add (used_elem vq i) 4) 4 \<noteq> None"
    "q_desc vq \<noteq> NULL" "q_avail vq \<noteq> NULL" "q_used vq \<noteq> NULL" "desc_at vq i \<noteq> NULL"
proof -
  have av: "area s (q_avail vq) (avail_bytes vq)" and us: "area s (q_used vq) (used_bytes vq)"
    and de: "area s (q_desc vq) (16 * unat (q_size vq))" and sz: "q_size vq \<noteq> 0"
    using assms by (auto simp: vq_sound_def)
  note lt = u16_mod_less [OF sz, of i]
  show "avail_idx s vq \<noteq> None"
    using area_sub [OF av, of 2 2] sz by (simp add: avail_idx_def load_word_def avail_bytes_def)
  show "used_idx s vq \<noteq> None"
    using area_sub [OF us, of 2 2] sz by (simp add: used_idx_def load_word_def used_bytes_def)
  show "avail_ring s vq i \<noteq> None"
    using area_sub [OF av, of "4 + 2 * ucast (i mod q_size vq)" 2] ring_offset [OF sz, of 2 4 i] lt
    by (simp add: avail_ring_def load_word_def avail_bytes_def)
  show "load s (used_elem vq i) 4 \<noteq> None"
    using area_sub [OF us, of "4 + 8 * ucast (i mod q_size vq)" 4] ring_offset [OF sz, of 8 4 i] lt
    by (simp add: used_elem_def used_bytes_def)
  show "load s (ptr_add (used_elem vq i) 4) 4 \<noteq> None"
    using area_sub [OF us, of "8 + 8 * ucast (i mod q_size vq)" 4] ring_offset [OF sz, of 8 8 i] lt
    by (simp add: used_elem_def used_bytes_def ptr_add_add add.commute add.left_commute)
  show "q_desc vq \<noteq> NULL" "q_avail vq \<noteq> NULL" "q_used vq \<noteq> NULL" "desc_at vq i \<noteq> NULL"
    using area_not_NULL av us de by (auto simp: desc_at_def)
qed

text \<open>
  Work is taken from a queue in order: the contract of \<open>virtqueue_pop\<close> over the list of pending
  items, and what a consumer that keeps taking sees.
\<close>

locale work_queue =
  fixes sound :: "'s \<Rightarrow> 'q \<Rightarrow> bool" and items :: "'s \<Rightarrow> 'q \<Rightarrow> 'i list"
    and next_item :: "'q \<Rightarrow> 's \<Rightarrow> ('i option \<times> 'q) option"
  assumes take_none: "sound s q \<Longrightarrow> items s q = [] \<Longrightarrow> next_item q s = Some (None, q)"
    and take_some: "sound s q \<Longrightarrow> items s q = x # xs \<Longrightarrow>
      \<exists>q'. next_item q s = Some (Some x, q') \<and> items s q' = xs \<and> sound s q'"
begin

fun take_items :: "nat \<Rightarrow> 'q \<Rightarrow> 's \<Rightarrow> ('i list \<times> 'q) option" where
  "take_items 0 q s = Some ([], q)"
| "take_items (Suc n) q s =
     do { (i, q') \<leftarrow> next_item q s;
          case i of None \<Rightarrow> Some ([], q')
          | Some x \<Rightarrow> do { (xs, q'') \<leftarrow> take_items n q' s; Some (x # xs, q'') } }"

lemma take_items_all:
  assumes "sound s q" and "length (items s q) \<le> n"
  shows "\<exists>q'. take_items n q s = Some (items s q, q') \<and> items s q' = [] \<and> sound s q'"
  using assms
proof (induction n arbitrary: q)
  case (Suc n)
  show ?case
  proof (cases "items s q")
    case Nil
    with Suc.prems take_none show ?thesis by simp
  next
    case (Cons x xs)
    then obtain q' where "next_item q s = Some (Some x, q')" "items s q' = xs" "sound s q'"
      using take_some Suc.prems(1) by blast
    with Suc.IH [of q'] Suc.prems(2) Cons show ?thesis by auto
  qed
qed simp

end

definition pop_item :: "virtqueue \<Rightarrow> host \<Rightarrow> (ptr option \<times> virtqueue) option" where
  "pop_item vq s = map_option (\<lambda>(p, vq'). (if p = NULL then None else Some p, vq')) (virtqueue_pop vq s)"

definition pending_desc :: "host \<Rightarrow> virtqueue \<Rightarrow> ptr list" where
  "pending_desc s vq = map (desc_at vq) (pending s vq)"

lemma pending_Cons:
  assumes "the (avail_idx s vq) \<noteq> q_last_avail_idx vq"
  shows "pending s vq = the (avail_ring s vq (q_last_avail_idx vq)) # pending s (vq\<lparr>q_last_avail_idx := q_last_avail_idx vq + 1\<rparr>)"
proof -
  let ?d = "the (avail_idx s vq) - q_last_avail_idx vq"
  have d: "?d \<noteq> 0" using assms by simp
  have idx: "avail_idx s (vq\<lparr>q_last_avail_idx := q_last_avail_idx vq + 1\<rparr>) = avail_idx s vq"
    and ring: "avail_ring s (vq\<lparr>q_last_avail_idx := q_last_avail_idx vq + 1\<rparr>) = avail_ring s vq"
    by (simp_all add: avail_idx_def avail_ring_def [abs_def])
  obtain m where m: "unat ?d = Suc m" using d by (cases "unat ?d") (auto simp: unat_eq_0)
  have e: "the (avail_idx s vq) - (q_last_avail_idx vq + 1) = ?d - 1" by (simp add: diff_diff_eq)
  have "unat (the (avail_idx s vq) - (q_last_avail_idx vq + 1)) = m"
    unfolding e using unat_minus_one [OF d] m by simp
  then show ?thesis
    unfolding pending_def m map_upt_Suc by (simp add: idx ring add.assoc)
qed

lemma virtqueue_pop_pending:
  assumes "vq_sound s vq"
  shows "pending s vq = [] \<Longrightarrow> virtqueue_pop vq s = Some (NULL, vq)"
    and "pending s vq = d # ds \<Longrightarrow> \<exists>vq'. virtqueue_pop vq s = Some (desc_at vq d, vq') \<and> pending s vq' = ds
      \<and> vq' = vq\<lparr>q_last_avail_idx := q_last_avail_idx vq + 1\<rparr>"
proof -
  note d = vq_soundD [OF assms]
  obtain idx where idx: "avail_idx s vq = Some idx" using d(1) by blast
  { assume "pending s vq = []"
    then have "idx = q_last_avail_idx vq" using idx by (simp add: pending_def unat_eq_0)
    then show "virtqueue_pop vq s = Some (NULL, vq)" using idx by (simp add: virtqueue_pop_def) }
  { assume p: "pending s vq = d # ds"
    then have ne: "the (avail_idx s vq) \<noteq> q_last_avail_idx vq" by (auto simp: pending_def)
    with pending_Cons [OF ne] p idx d(2) [of "q_last_avail_idx vq"] assms
    show "\<exists>vq'. virtqueue_pop vq s = Some (desc_at vq d, vq') \<and> pending s vq' = ds
      \<and> vq' = vq\<lparr>q_last_avail_idx := q_last_avail_idx vq + 1\<rparr>"
      using d(6,7) by (auto simp: virtqueue_pop_def vq_sound_def) }
qed

lemma vq_sound_advance: "vq_sound s (vq\<lparr>q_last_avail_idx := i\<rparr>) = vq_sound s vq"
  by (simp add: vq_sound_def avail_bytes_def used_bytes_def)

interpretation vqw: work_queue vq_sound pending_desc pop_item
proof
  fix s q
  assume "vq_sound s q" "pending_desc s q = []"
  with virtqueue_pop_pending(1) show "pop_item q s = Some (None, q)"
    by (simp add: pop_item_def pending_desc_def)
next
  fix s q x xs
  assume a: "vq_sound s q" "pending_desc s q = x # xs"
  then obtain d ds where p: "pending s q = d # ds" "x = desc_at q d" "xs = map (desc_at q) ds"
    by (auto simp: pending_desc_def)
  let ?q = "q\<lparr>q_last_avail_idx := q_last_avail_idx q + 1\<rparr>"
  have "desc_at ?q = desc_at q" by (simp add: desc_at_def [abs_def])
  then show "\<exists>q'. pop_item q s = Some (Some x, q') \<and> pending_desc s q' = xs \<and> vq_sound s q'"
    using virtqueue_pop_pending(2) [OF a(1) p(1)] p(2,3) vq_soundD(9) [OF a(1)] a(1)
    by (intro exI [of _ ?q]) (auto simp: pop_item_def pending_desc_def vq_sound_advance)
qed

section \<open>The used ring\<close>

lemma area_offset:
  assumes "area s (Ptr b off) m" and "unat k + n \<le> m"
  shows "unat (off + k) = unat off + unat k"
  using assms by (simp add: no_wrap_def unat_word_ariths)

lemma area_separate:
  assumes "area s p m" and "unat k + n \<le> m" and "unat j + l \<le> m" and "unat k + n \<le> unat j \<or> unat j + l \<le> unat k"
  shows "separate (ptr_add p k) n (ptr_add p j) l"
proof (cases p)
  case (Ptr b off)
  with assms area_offset [of s b off m k n] area_offset [of s b off m j l] show ?thesis by auto
qed

lemma area_separate_out:
  assumes "area s p m" and "unat k + n \<le> m" and "separate p m q l"
  shows "separate (ptr_add p k) n q l"
proof (cases p; cases q)
  fix b off c i
  assume "p = Ptr b off" "q = Ptr c i"
  with assms area_offset [of s b off m k n] show ?thesis by auto
qed

lemma area_frame: "handler_frame s s' \<Longrightarrow> area s' p m = area s p m"
  using frame_keeps_readable [of s s'] by (cases p) (simp del: load.simps)

lemma vq_sound_frame: "handler_frame s s' \<Longrightarrow> vq_sound s' vq = vq_sound s vq"
  by (simp add: vq_sound_def area_frame)

text \<open>A store of a word where a read is defined: read back, nothing else changed.\<close>

lemma store_word_ok:
  assumes "load s p n \<noteq> None" and "LENGTH('a) \<le> 8 * n"
  shows "\<exists>s'. store_word p n (w :: 'a::len word) s = Some s' \<and> load_word s' p n = Some w \<and> handler_frame s s'
     \<and> devs s' = devs s \<and> stdout_bytes s' = stdout_bytes s
     \<and> (\<forall>q m. separate p n q m \<longrightarrow> load s' q m = load s q m)"
proof -
  obtain s' where s': "store_word p n w s = Some s'"
    using hm.wr_defined [of p "le_bytes n w" s] assms(1) by (auto simp: store_word_def)
  then have st: "store p (le_bytes n w) s = Some s'" by (simp add: store_word_def)
  show ?thesis
    using s' load_word_store_word [OF s' assms(2)] store_handler_frame [OF st] hm.rd_wr_other [OF st]
      store_fields [OF st] by auto
qed

lemma load_word_cong: "load s' p n = load s p n \<Longrightarrow> load_word s' p n = load_word s p n"
  by (simp add: load_word_def)

text \<open>
  The parts of the used ring: the index at offset 2, and the identifier and length of each entry.
  They are apart, and so are distinct entries.
\<close>

lemma used_elem_offsets:
  assumes "vq_sound s vq"
  shows "unat (4 + 8 * ucast (i mod q_size vq) :: u64) = 4 + 8 * (unat i mod unat (q_size vq))"
    "unat (8 + 8 * ucast (i mod q_size vq) :: u64) = 8 + 8 * (unat i mod unat (q_size vq))"
    "ptr_add (used_elem vq i) 4 = ptr_add (q_used vq) (8 + 8 * ucast (i mod q_size vq))"
    "12 + 8 * (unat i mod unat (q_size vq)) \<le> used_bytes vq"
proof -
  have sz: "q_size vq \<noteq> 0" using assms by (simp add: vq_sound_def)
  show "unat (4 + 8 * ucast (i mod q_size vq) :: u64) = 4 + 8 * (unat i mod unat (q_size vq))"
    using ring_offset [OF sz, of 8 4 i] by simp
  show "unat (8 + 8 * ucast (i mod q_size vq) :: u64) = 8 + 8 * (unat i mod unat (q_size vq))"
    using ring_offset [OF sz, of 8 8 i] by simp
  show "ptr_add (used_elem vq i) 4 = ptr_add (q_used vq) (8 + 8 * ucast (i mod q_size vq))"
    by (simp add: used_elem_def ptr_add_add add.commute add.left_commute)
  show "12 + 8 * (unat i mod unat (q_size vq)) \<le> used_bytes vq"
    using u16_mod_less [OF sz, of i] by (simp add: used_bytes_def)
qed

lemma used_parts:
  assumes "vq_sound s vq"
  shows "separate (used_elem vq i) 4 (ptr_add (q_used vq) 2) 2"
    "separate (ptr_add (used_elem vq i) 4) 4 (ptr_add (q_used vq) 2) 2"
    "separate (ptr_add (q_used vq) 2) 2 (used_elem vq i) 4"
    "separate (ptr_add (q_used vq) 2) 2 (ptr_add (used_elem vq i) 4) 4"
    "separate (ptr_add (used_elem vq i) 4) 4 (used_elem vq i) 4"
proof -
  have us: "area s (q_used vq) (used_bytes vq)" using assms by (simp add: vq_sound_def)
  note o = used_elem_offsets [OF assms, of i]
  show "separate (used_elem vq i) 4 (ptr_add (q_used vq) 2) 2"
    "separate (ptr_add (q_used vq) 2) 2 (used_elem vq i) 4"
    unfolding used_elem_def by (rule area_separate [OF us]; use o in simp)+
  show "separate (ptr_add (used_elem vq i) 4) 4 (ptr_add (q_used vq) 2) 2"
    "separate (ptr_add (q_used vq) 2) 2 (ptr_add (used_elem vq i) 4) 4"
    unfolding o(3) by (rule area_separate [OF us]; use o in simp)+
  show "separate (ptr_add (used_elem vq i) 4) 4 (used_elem vq i) 4"
    unfolding o(3) unfolding used_elem_def by (rule area_separate [OF us]; use o in simp)
qed

lemma used_elems_apart:
  assumes "vq_sound s vq" and "unat i mod unat (q_size vq) \<noteq> unat j mod unat (q_size vq)"
  shows "separate (used_elem vq i) 4 (used_elem vq j) 8" "separate (ptr_add (used_elem vq i) 4) 4 (used_elem vq j) 8"
    "separate (ptr_add (q_used vq) 2) 2 (used_elem vq j) 8"
proof -
  have us: "area s (q_used vq) (used_bytes vq)" using assms(1) by (simp add: vq_sound_def)
  note o = used_elem_offsets [OF assms(1), of i] and p = used_elem_offsets [OF assms(1), of j]
  have d: "unat i mod unat (q_size vq) < unat j mod unat (q_size vq)
      \<or> unat j mod unat (q_size vq) < unat i mod unat (q_size vq)" using assms(2) by linarith
  show "separate (used_elem vq i) 4 (used_elem vq j) 8"
    unfolding used_elem_def by (rule area_separate [OF us]; use o p d in auto)
  show "separate (ptr_add (used_elem vq i) 4) 4 (used_elem vq j) 8"
    unfolding o(3) unfolding used_elem_def by (rule area_separate [OF us]; use o p d in auto)
  show "separate (ptr_add (q_used vq) 2) 2 (used_elem vq j) 8"
    unfolding used_elem_def by (rule area_separate [OF us]; use p in simp)
qed

lemma notify_ok:
  assumes "devs s (q_dev vq) \<noteq> None"
  shows "\<exists>s'. virtqueue_notify E vq s = Some s' \<and> io_only s s'"
proof -
  obtain ret s' where "device_assert_irq E (q_dev vq) s = Some (ret, s')"
    using assms by (fastforce simp: device_assert_irq_def split: prod.splits)
  then show ?thesis using device_assert_irq_io by (auto simp: virtqueue_notify_def)
qed

lemma load_io_only: "io_only s s' \<Longrightarrow> load s' q n = load s q n"
  using load_mem_cong io_only_heaps(5) by blast

text \<open>A change of state that, as far as memory goes, is confined to the used ring.\<close>

definition used_only :: "virtqueue \<Rightarrow> host \<Rightarrow> host \<Rightarrow> bool" where
  "used_only vq s s' \<longleftrightarrow> handler_frame s s' \<and> stdout_bytes s' = stdout_bytes s
     \<and> (\<forall>q n. separate (q_used vq) (used_bytes vq) q n \<longrightarrow> load s' q n = load s q n)"

lemma used_only_trans: "used_only vq s s' \<Longrightarrow> used_only vq s' s'' \<Longrightarrow> used_only vq s s''"
  using handler_frame_trans by (auto simp: used_only_def)

lemma io_used_only: "io_only s s' \<Longrightarrow> used_only vq s s'"
  by (simp add: used_only_def io_only_frame io_only_heaps(7) load_io_only)

lemma used_only_sound: "used_only vq s s' \<Longrightarrow> vq_sound s' vq = vq_sound s vq"
  by (simp add: used_only_def vq_sound_frame)

lemma used_store:
  assumes "vq_sound s vq" and "unat k + n \<le> used_bytes vq" and "LENGTH('a) \<le> 8 * n"
  shows "\<exists>s'. store_word (ptr_add (q_used vq) k) n (w :: 'a::len word) s = Some s' \<and> used_only vq s s'
     \<and> load_word s' (ptr_add (q_used vq) k) n = Some w
     \<and> (\<forall>q m. separate (ptr_add (q_used vq) k) n q m \<longrightarrow> load s' q m = load s q m)"
proof -
  have us: "area s (q_used vq) (used_bytes vq)" using assms(1) by (simp add: vq_sound_def)
  from store_word_ok [OF area_sub [OF us assms(2)] assms(3), of w] area_separate_out [OF us assms(2)]
  show ?thesis by (auto simp: used_only_def)
qed

lemma used_elem_store:
  assumes "vq_sound s vq"
  shows "\<exists>s'. store_word (used_elem vq i) 4 (ident :: u32) s = Some s' \<and> used_only vq s s'
       \<and> load_word s' (used_elem vq i) 4 = Some ident
       \<and> (\<forall>q m. separate (used_elem vq i) 4 q m \<longrightarrow> load s' q m = load s q m)"
    and "\<exists>s'. store_word (ptr_add (used_elem vq i) 4) 4 (len :: u32) s = Some s' \<and> used_only vq s s'
       \<and> load_word s' (ptr_add (used_elem vq i) 4) 4 = Some len
       \<and> (\<forall>q m. separate (ptr_add (used_elem vq i) 4) 4 q m \<longrightarrow> load s' q m = load s q m)"
  using used_store [OF assms, of "4 + 8 * ucast (i mod q_size vq)" 4 ident]
    used_store [OF assms, of "8 + 8 * ucast (i mod q_size vq)" 4 len] used_elem_offsets [OF assms, of i]
  by (auto simp: used_elem_def)

lemma used_idx_store:
  assumes "vq_sound s vq"
  shows "\<exists>s'. store_word (ptr_add (q_used vq) 2) 2 (i :: u16) s = Some s' \<and> used_only vq s s' \<and> used_idx s' vq = Some i
     \<and> (\<forall>q m. separate (ptr_add (q_used vq) 2) 2 q m \<longrightarrow> load s' q m = load s q m)"
  using used_store [OF assms, of 2 2 i] by (simp add: used_idx_def used_bytes_def)

text \<open>
  A push on a sound queue: the entry under the index, the index one further, every other entry
  and all other memory as before.
\<close>

lemma virtqueue_push_ok:
  assumes sound: "vq_sound s vq" and idx: "used_idx s vq = Some i" and dev: "devs s (q_dev vq) \<noteq> None"
  shows "\<exists>s'. virtqueue_push E vq ident len s = Some (vq\<lparr>q_last_used_idx := q_last_used_idx vq + 1\<rparr>, s')
     \<and> used_only vq s s' \<and> used_idx s' vq = Some (i + 1) \<and> load_word s' (used_elem vq i) 4 = Some ident
     \<and> load_word s' (ptr_add (used_elem vq i) 4) 4 = Some len
     \<and> (\<forall>j. unat i mod unat (q_size vq) \<noteq> unat j mod unat (q_size vq) \<longrightarrow>
           load s' (used_elem vq j) 8 = load s (used_elem vq j) 8)"
proof -
  note sp = used_parts [OF sound, of i]
  obtain s1 where s1: "store_word (used_elem vq i) 4 ident s = Some s1" "used_only vq s s1"
      "load_word s1 (used_elem vq i) 4 = Some ident"
    and f1: "\<And>q m. separate (used_elem vq i) 4 q m \<Longrightarrow> load s1 q m = load s q m"
    using used_elem_store(1) [OF sound, of i ident] by auto
  obtain s2 where s2: "store_word (ptr_add (used_elem vq i) 4) 4 len s1 = Some s2" "used_only vq s1 s2"
      "load_word s2 (ptr_add (used_elem vq i) 4) 4 = Some len"
    and f2: "\<And>q m. separate (ptr_add (used_elem vq i) 4) 4 q m \<Longrightarrow> load s2 q m = load s1 q m"
    using used_elem_store(2) [of s1 vq i len] sound used_only_sound [OF s1(2)] by auto
  have j: "used_idx s2 vq = Some i"
    using idx f1 [OF sp(1)] f2 [OF sp(2)] by (simp add: used_idx_def load_word_def)
  obtain s3 where s3: "store_word (ptr_add (q_used vq) 2) 2 (i + 1) s2 = Some s3" "used_only vq s2 s3"
      "used_idx s3 vq = Some (i + 1)"
    and f3: "\<And>q m. separate (ptr_add (q_used vq) 2) 2 q m \<Longrightarrow> load s3 q m = load s2 q m"
    using used_idx_store [of s2 vq "i + 1"] sound used_only_sound [OF s1(2)] used_only_sound [OF s2(2)] by auto
  have u3: "used_only vq s s3" using s1(2) s2(2) s3(2) used_only_trans by blast
  then have "devs s3 (q_dev (vq\<lparr>q_last_used_idx := q_last_used_idx vq + 1\<rparr>)) \<noteq> None"
    using dev by (simp add: used_only_def handler_frame_def)
  then obtain s4 where s4: "virtqueue_notify E (vq\<lparr>q_last_used_idx := q_last_used_idx vq + 1\<rparr>) s3 = Some s4"
    and io: "io_only s3 s4" using notify_ok by blast
  have "virtqueue_push E vq ident len s = Some (vq\<lparr>q_last_used_idx := q_last_used_idx vq + 1\<rparr>, s4)"
    using sound vq_soundD(8) [OF sound] idx s1(1) s2(1) j s3(1) s4 by (simp add: virtqueue_push_def vq_sound_def)
  moreover have "used_only vq s s4" using used_only_trans [OF u3 io_used_only [OF io]] .
  moreover have "load s4 (used_elem vq j) 8 = load s (used_elem vq j) 8"
    if "unat i mod unat (q_size vq) \<noteq> unat j mod unat (q_size vq)" for j :: u16
    using used_elems_apart [OF sound that] f1 f2 f3 load_io_only [OF io] by simp
  ultimately show ?thesis
    using s1(3) s2(3) s3(3) f2 [OF sp(5)] f3 [OF sp(3)] f3 [OF sp(4)] load_io_only [OF io]
    by (intro exI [of _ s4]) (simp add: used_idx_def load_word_def)
qed

section \<open>A small queue\<close>

text \<open>
  Four descriptors at offset 0 of a block, the available ring at 64 with two entries, the used
  ring at 80.
\<close>

definition ex_ring :: "u8 list" where
  "ex_ring = [0x00, 0x10, 0, 0, 0, 0, 0, 0, 2, 0, 0, 0, 0, 0, 0, 0]
     @ [0x04, 0x10, 0, 0, 0, 0, 0, 0, 3, 0, 0, 0, 0, 0, 0, 0] @ replicate 32 0
     @ [0, 0, 2, 0, 1, 0, 0, 0, 0, 0, 0, 0] @ replicate 4 0 @ replicate 36 0"

definition ex_queue :: virtqueue where
  "ex_queue = zero_virtqueue\<lparr>q_dev := 5, q_size := 4, q_ready := 1, q_desc := Ptr 7 0, q_avail := Ptr 7 64, q_used := Ptr 7 80\<rparr>"

definition ex_queue_host :: host where
  "ex_queue_host = ex_vm_mem\<lparr>mem := (mem ex_vm_mem)(7 \<mapsto> ex_ring),
     devs := (\<lambda>_. None)(5 \<mapsto> zero_device\<lparr>d_vm := 2, d_irq_fd := 9\<rparr>), next_ref := 8\<rparr>"

lemma length_ex_ring: "length ex_ring = 116"
  by (simp add: ex_ring_def)

lemma ex_queue_mem: "mem ex_queue_host 7 = Some ex_ring"
  by (simp add: ex_queue_host_def)

lemma ex_queue_sound: "vq_sound ex_queue_host ex_queue"
  by (simp add: vq_sound_def ex_queue_def avail_bytes_def used_bytes_def no_wrap_def ex_queue_mem length_ex_ring)

lemma ex_ring_reads:
  "le_word (subrange ex_ring 66 2) = (2 :: u16)" "le_word (subrange ex_ring 68 2) = (1 :: u16)"
  "le_word (subrange ex_ring 70 2) = (0 :: u16)" "le_word (subrange ex_ring 82 2) = (0 :: u16)"
  by code_simp+

lemma ex_pending: "pending ex_queue_host ex_queue = [1, 0]"
  by (simp add: pending_def avail_idx_def avail_ring_def ex_queue_def zero_virtqueue_def load_word_def ex_queue_mem length_ex_ring
      ex_ring_reads upt_rec [of 0] upt_rec [of "Suc 0"])

lemma ex_used_idx: "used_idx ex_queue_host ex_queue = Some 0"
  by (simp add: used_idx_def ex_queue_def load_word_def ex_queue_mem length_ex_ring ex_ring_reads)

section \<open>Properties\<close>

text \<open>
  C18: \<open>virtqueue_pop\<close> refines taking from the list of pending descriptors. On a sound queue it
  returns null and changes nothing when nothing is pending; otherwise it returns the address of
  the first pending descriptor, the rest stay pending in order, and the queue stays sound.
\<close>

theorem virtqueue_pop_refines:
  assumes "vq_sound s vq"
  shows "virtqueue_pop vq s = (case pending s vq of
       [] \<Rightarrow> Some (NULL, vq)
     | d # ds \<Rightarrow> Some (desc_at vq d, vq\<lparr>q_last_avail_idx := q_last_avail_idx vq + 1\<rparr>))
     \<and> pending s (vq\<lparr>q_last_avail_idx := q_last_avail_idx vq + of_nat (length (pending s vq))\<rparr>) = []
     \<and> (\<forall>d ds. pending s vq = d # ds \<longrightarrow> desc_at vq d \<noteq> NULL
          \<and> pending s (vq\<lparr>q_last_avail_idx := q_last_avail_idx vq + 1\<rparr>) = ds
          \<and> vq_sound s (vq\<lparr>q_last_avail_idx := q_last_avail_idx vq + 1\<rparr>))"
proof (intro conjI)
  show "virtqueue_pop vq s = (case pending s vq of [] \<Rightarrow> Some (NULL, vq)
     | d # ds \<Rightarrow> Some (desc_at vq d, vq\<lparr>q_last_avail_idx := q_last_avail_idx vq + 1\<rparr>))"
    using virtqueue_pop_pending [OF assms] by (auto split: list.split)
  show "pending s (vq\<lparr>q_last_avail_idx := q_last_avail_idx vq + of_nat (length (pending s vq))\<rparr>) = []"
    by (simp add: pending_def avail_idx_def)
  show "\<forall>d ds. pending s vq = d # ds \<longrightarrow> desc_at vq d \<noteq> NULL
          \<and> pending s (vq\<lparr>q_last_avail_idx := q_last_avail_idx vq + 1\<rparr>) = ds
          \<and> vq_sound s (vq\<lparr>q_last_avail_idx := q_last_avail_idx vq + 1\<rparr>)"
    using virtqueue_pop_pending(2) [OF assms] vq_soundD(9) [OF assms] assms by (auto simp: vq_sound_advance)
qed

theorem virtqueue_pop_refines_witness:
  "virtqueue_pop ex_queue ex_queue_host = Some (Ptr 7 16, ex_queue\<lparr>q_last_avail_idx := 1\<rparr>)
     \<and> pending ex_queue_host (ex_queue\<lparr>q_last_avail_idx := 1\<rparr>) = [0]"
  using virtqueue_pop_refines [OF ex_queue_sound] ex_pending
  by (auto simp: desc_at_def ex_queue_def zero_virtqueue_def)





end
