(* ===== verification/Virtio_Console.thy ===== *)
theory Virtio_Console
  imports Virtio
begin

text \<open>
  The virtio console, \<^verbatim>\<open>src/devices/virtio-console.c\<close>. The notification handler takes
  descriptors from the queue until none is left and writes each buffer to standard output; the
  loop is a partial function, and the main theorem shows that it ends and what it writes.
\<close>

section \<open>Configuration space\<close>

definition virtio_console_config_read :: "ref \<Rightarrow> u64 \<Rightarrow> u8 list \<Rightarrow> u64 \<Rightarrow> host \<Rightarrow> (int \<times> u8 list \<times> host) option" where
  "virtio_console_config_read r off data sz s =
     do {
       vd \<leftarrow> vdevs s r;
       data' \<leftarrow>
         (if off = 0x00 then do { c \<leftarrow> consoles s (vd_priv vd); put_buf data 0 (le_bytes 2 (con_cols c)) }
          else if off = 0x02 then do { c \<leftarrow> consoles s (vd_priv vd); put_buf data 0 (le_bytes 2 (con_rows c)) }
          else if off = 0x04 then do { c \<leftarrow> consoles s (vd_priv vd); put_buf data 0 (le_bytes 4 (con_max_nr_ports c)) }
          else if off = 0x10 then do { c \<leftarrow> consoles s (vd_priv vd); put_buf data 0 (le_bytes 4 (con_emerg_wr c)) }
          else put_buf data 0 (replicate (unat sz) 0));
       Some (0, data', s) }"

definition virtio_console_config_write :: "ref \<Rightarrow> u64 \<Rightarrow> u8 list \<Rightarrow> u64 \<Rightarrow> host \<Rightarrow> (int \<times> host) option" where
  "virtio_console_config_write r off data sz s =
     do {
       vd \<leftarrow> vdevs s r;
       if off = 0x00 \<or> off = 0x02 then
         (if length data < 2 then None
          else do {
            c \<leftarrow> consoles s (vd_priv vd);
            let w = (le_word (take 2 data) :: u16);
            Some (0, s\<lparr>consoles := (consoles s)(vd_priv vd \<mapsto>
                        (if off = 0x00 then c\<lparr>con_cols := w\<rparr> else c\<lparr>con_rows := w\<rparr>))\<rparr>) })
       else Some (0, s) }"

section \<open>Queue notification\<close>

fun ptr_diff :: "ptr \<Rightarrow> ptr \<Rightarrow> u64" where
  "ptr_diff (Ptr b i) (Ptr c j) = i - j"

text \<open>The loop of the handler; \<open>vm\<close> is the machine pointer of the device.\<close>

partial_function (option) console_loop :: "env \<Rightarrow> ref \<Rightarrow> virtqueue \<Rightarrow> host \<Rightarrow> (virtqueue \<times> host) option" where
  "console_loop E vm vq s =
     do {
       (p, vq1) \<leftarrow> virtqueue_pop vq s;
       if p = NULL then Some (vq1, s)
       else do {
         d \<leftarrow> read_desc s p;
         v \<leftarrow> vms s vm;
         let hva = vm_gpa_to_hva v (desc_addr d) (ucast (desc_len d));
         if hva = NULL then console_loop E vm vq1 s
         else do {
           bs \<leftarrow> load s hva (unat (desc_len d));
           let s1 = foldl (\<lambda>s b. putchar b s) s bs;
           (vq2, s2) \<leftarrow> virtqueue_push E vq1 (ucast (ptr_diff p (q_desc vq1) div 16)) (desc_len d) s1;
           console_loop E vm vq2 s2 } } }"

definition virtio_console_queue_notify :: "env \<Rightarrow> ref \<Rightarrow> nat \<Rightarrow> host \<Rightarrow> (int \<times> host) option" where
  "virtio_console_queue_notify E r q s =
     do {
       vd \<leftarrow> vdevs s r;
       d \<leftarrow> devs s r;
       (vq', s') \<leftarrow> console_loop E (d_vm d) (vd_queues vd ! q) s;
       Some (0, set_vdev r (vd\<lparr>vd_queues := (vd_queues vd)[q := vq']\<rparr>) s') }"

section \<open>Device operations\<close>

definition virtio_console_read :: "virtio_cbs \<Rightarrow> ref \<Rightarrow> u64 \<Rightarrow> u8 list \<Rightarrow> u64 \<Rightarrow> host \<Rightarrow> (int \<times> u8 list \<times> host) option" where
  "virtio_console_read cbs dev off data sz s = virtio_mmio_read cbs dev off data sz s"

definition virtio_console_write :: "env \<Rightarrow> virtio_cbs \<Rightarrow> ref \<Rightarrow> u64 \<Rightarrow> u8 list \<Rightarrow> u64 \<Rightarrow> host \<Rightarrow> (int \<times> host) option" where
  "virtio_console_write E cbs dev off data sz s = virtio_mmio_write E cbs dev off data sz s"

definition virtio_console_destroy :: "ref \<Rightarrow> host \<Rightarrow> host option" where
  "virtio_console_destroy dev s =
     do { s1 \<leftarrow> virtio_cleanup dev s;
          vd \<leftarrow> vdevs s1 dev;
          s2 \<leftarrow> free_obj (vd_priv vd) s1;
          free_obj dev s2 }"

definition virtio_console_ops :: "env \<Rightarrow> virtio_cbs \<Rightarrow> device_ops" where
  "virtio_console_ops E cbs = \<lparr>do_name = ''virtio-console'', do_read = Some (virtio_console_read cbs),
     do_write = Some (virtio_console_write E cbs), do_destroy = Some virtio_console_destroy\<rparr>"

section \<open>Creation\<close>

definition VIRTIO_CONSOLE_GPA :: u64 where "VIRTIO_CONSOLE_GPA = 0xa000000"
definition VIRTIO_CONSOLE_SIZE :: u64 where "VIRTIO_CONSOLE_SIZE = 0x1000"

definition console_config_init :: virtio_console_state where
  "console_config_init = \<lparr>con_cols = 80, con_rows = 25, con_max_nr_ports = 1, con_emerg_wr = 0\<rparr>"

text \<open>The embedded device after set-up: what \<open>virtio_init\<close> cleared and the fields set since.\<close>

definition virtio_device_fields :: "device_ops_id \<Rightarrow> string option \<Rightarrow> ref \<Rightarrow> u64 \<Rightarrow> u64 \<Rightarrow> device \<Rightarrow> device" where
  "virtio_device_fields t name self gpa sz d =
     d\<lparr>d_ops := Some t, d_name := name, d_data := self, d_gpa_start := gpa, d_gpa_end := gpa + sz - 1, d_size := sz\<rparr>"

definition virtio_console_create :: "env \<Rightarrow> host \<Rightarrow> (ref \<times> host) option" where
  "virtio_console_create E s =
     (let (vdev, s1) = alloc E s in
      if vdev = 0 then Some (0, s1)
      else
        let (p, s2) = alloc E (set_dev vdev zero_device (set_vdev vdev zero_virtio_dev s1)) in
        if p = 0 then do { s3 \<leftarrow> free_obj vdev s2; Some (0, s3) }
        else do {
          (ret, s3) \<leftarrow> virtio_init E vdev VIRTIO_ID_CONSOLE
            (s2\<lparr>consoles := (consoles s2)(p \<mapsto> console_config_init)\<rparr>);
          vd \<leftarrow> vdevs s3 vdev;
          let s4 = set_vdev vdev (vd\<lparr>vd_priv := p, vd_config_read := Some Drv_console,
                     vd_config_write := Some Drv_console, vd_queue_notify := Some Drv_console\<rparr>) s3;
          let (nm, s5) = strdup E ''virtio-console'' s4;
          d \<leftarrow> devs s5 vdev;
          Some (vdev, set_dev vdev (virtio_device_fields Virtio_console_ops nm vdev VIRTIO_CONSOLE_GPA
                         VIRTIO_CONSOLE_SIZE d) s5) })"

section \<open>What the loop writes\<close>

text \<open>
  The buffer of a descriptor, as the machine translates it, and the output due for a list of
  descriptors: the buffers that are mapped, in order.
\<close>

definition desc_buffer :: "host \<Rightarrow> vm \<Rightarrow> virtqueue \<Rightarrow> u16 \<Rightarrow> u8 list" where
  "desc_buffer s v vq i =
     (case read_desc s (desc_at vq i) of
        None \<Rightarrow> []
      | Some d \<Rightarrow>
          let hva = vm_gpa_to_hva v (desc_addr d) (ucast (desc_len d)) in
          if hva = NULL then [] else (case load s hva (unat (desc_len d)) of None \<Rightarrow> [] | Some bs \<Rightarrow> bs))"

definition due_output :: "host \<Rightarrow> vm \<Rightarrow> virtqueue \<Rightarrow> u16 list \<Rightarrow> u8 list" where
  "due_output s v vq ds = concat (map (desc_buffer s v vq) ds)"

text \<open>
  A descriptor the handler can serve: inside the table, and its buffer unmapped, or readable and
  apart from the used ring.
\<close>

definition servable :: "host \<Rightarrow> vm \<Rightarrow> virtqueue \<Rightarrow> u16 \<Rightarrow> bool" where
  "servable s v vq i \<longleftrightarrow> i < q_size vq \<and>
     (\<forall>d. read_desc s (desc_at vq i) = Some d \<longrightarrow>
        (let hva = vm_gpa_to_hva v (desc_addr d) (ucast (desc_len d)) in
         hva = NULL \<or> (load s hva (unat (desc_len d)) \<noteq> None
                       \<and> separate (q_used vq) (used_bytes vq) hva (unat (desc_len d)))))"

definition queue_ready :: "host \<Rightarrow> ref \<Rightarrow> vm \<Rightarrow> virtqueue \<Rightarrow> bool" where
  "queue_ready s vm v vq \<longleftrightarrow> vq_sound s vq \<and> vms s vm = Some v \<and> devs s (q_dev vq) \<noteq> None
     \<and> separate (q_used vq) (used_bytes vq) (q_avail vq) (avail_bytes vq)
     \<and> separate (q_used vq) (used_bytes vq) (q_desc vq) (16 * unat (q_size vq))
     \<and> (\<forall>i \<in> set (pending s vq). servable s v vq i)"

text \<open>Output and a push: memory outside the used ring stays.\<close>

definition ring_frame :: "virtqueue \<Rightarrow> host \<Rightarrow> host \<Rightarrow> bool" where
  "ring_frame vq s s' \<longleftrightarrow> handler_frame s s'
     \<and> (\<forall>q n. separate (q_used vq) (used_bytes vq) q n \<longrightarrow> load s' q n = load s q n)"

lemma same_mem_ring_frame: "mem s' = mem s \<Longrightarrow> handler_frame s s' \<Longrightarrow> ring_frame vq s s'"
  using load_mem_cong [of s' s] unfolding ring_frame_def by blast

lemma separate_sub:
  assumes "separate p m q l" and "area s q l" and "unat k + n \<le> l"
  shows "separate p m (ptr_add q k) n"
proof (cases p; cases q)
  fix b i c j
  assume "p = Ptr b i" "q = Ptr c j"
  with assms area_offset [of s c j l k n] show ?thesis by auto
qed

lemma desc_at_offset: "unat (16 * ucast (i :: u16) :: u64) = 16 * unat i"
proof -
  have "16 * unat i < 2 ^ 64" using unat_u16_less [of i] by simp
  then show ?thesis by (simp add: unat_word_ariths)
qed

lemma read_desc_frame:
  assumes "ring_frame vq s s'" and "separate (q_used vq) (used_bytes vq) (q_desc vq) (16 * unat (q_size vq))"
    and "area s (q_desc vq) (16 * unat (q_size vq))" and "i < q_size vq"
  shows "read_desc s' (desc_at vq i) = read_desc s (desc_at vq i)"
proof -
  have i: "16 * unat i + 16 \<le> 16 * unat (q_size vq)" using assms(4) by (simp add: word_less_nat_alt)
  have "load s' (ptr_add (desc_at vq i) k) n = load s (ptr_add (desc_at vq i) k) n" if "unat k + n \<le> 16" for k n
  proof -
    have "unat (16 * ucast i + k :: u64) = 16 * unat i + unat k"
    proof -
      have "unat (16 * ucast i :: u64) + unat k < 2 ^ 64"
        using desc_at_offset [of i] unat_u16_less [of i] that by simp
      then show ?thesis by (simp add: unat_word_ariths(1) desc_at_offset)
    qed
    then have "separate (q_used vq) (used_bytes vq) (ptr_add (q_desc vq) (16 * ucast i + k)) n"
      using separate_sub [OF assms(2,3)] i that by simp
    then show ?thesis using assms(1) by (simp add: ring_frame_def desc_at_def ptr_add_add)
  qed
  from this [of 0 8] this [of 8 4] this [of 12 2] this [of 14 2] show ?thesis
    by (cases "desc_at vq i") (simp add: read_desc_def load_word_def del: load.simps)
qed

lemma pending_frame:
  assumes "ring_frame vq s s'" and "vq_sound s vq"
    and "separate (q_used vq) (used_bytes vq) (q_avail vq) (avail_bytes vq)"
  shows "pending s' vq = pending s vq"
proof -
  have av: "area s (q_avail vq) (avail_bytes vq)" and sz: "q_size vq \<noteq> 0" using assms(2) by (auto simp: vq_sound_def)
  have same: "load s' (ptr_add (q_avail vq) k) n = load s (ptr_add (q_avail vq) k) n"
    if "unat k + n \<le> avail_bytes vq" for k n
    using separate_sub [OF assms(3) av that] assms(1) by (simp add: ring_frame_def)
  have "avail_idx s' vq = avail_idx s vq"
    using same [of 2 2] by (simp add: avail_idx_def load_word_def avail_bytes_def)
  moreover have "avail_ring s' vq i = avail_ring s vq i" for i
    using same [of "4 + 2 * ucast (i mod q_size vq)" 2] ring_offset [OF sz, of 2 4 i] u16_mod_less [OF sz, of i]
    by (simp add: avail_ring_def load_word_def avail_bytes_def)
  ultimately show ?thesis by (simp add: pending_def)
qed

lemma foldl_putchar:
  "stdout_bytes (foldl (\<lambda>s b. putchar b s) s bs) = stdout_bytes s @ bs
   \<and> mem (foldl (\<lambda>s b. putchar b s) s bs) = mem s \<and> handler_frame s (foldl (\<lambda>s b. putchar b s) s bs)"
proof (induction bs arbitrary: s)
  case (Cons b bs)
  have "stdout_bytes (putchar b s) = stdout_bytes s @ [b]" "mem (putchar b s) = mem s" by (simp_all add: putchar_def)
  with Cons.IH [of "putchar b s"] show ?case by (auto intro: handler_frame_trans [OF putchar_frame])
qed (simp add: frame_intros)

lemma ring_frame_queue:
  assumes "queue_ready s vm v vq" and "ring_frame vq s s'"
    and "vq' = vq\<lparr>q_last_avail_idx := a, q_last_used_idx := u\<rparr>" and "set (pending s vq') \<subseteq> set (pending s vq)"
  shows "queue_ready s' vm v vq'" and "pending s' vq' = pending s vq'"
    and "i \<in> set (pending s vq) \<Longrightarrow> desc_buffer s' v vq' i = desc_buffer s v vq i"
proof -
  have eqs: "q_used vq' = q_used vq" "used_bytes vq' = used_bytes vq" "q_avail vq' = q_avail vq" "q_dev vq' = q_dev vq"
    "avail_bytes vq' = avail_bytes vq" "q_desc vq' = q_desc vq" "q_size vq' = q_size vq" "desc_at vq' = desc_at vq"
    using assms(3) by (simp_all add: used_bytes_def avail_bytes_def desc_at_def [abs_def])
  have snd: "vq_sound s vq'" using assms(1,3) by (simp add: queue_ready_def vq_sound_def used_bytes_def avail_bytes_def)
  have rf: "ring_frame vq' s s'" using assms(2) by (simp add: ring_frame_def eqs)
  show pend: "pending s' vq' = pending s vq'"
    using pending_frame [OF rf snd] assms(1) by (simp add: queue_ready_def eqs)
  have rd: "read_desc s' (desc_at vq j) = read_desc s (desc_at vq j)" if "servable s v vq j" for j
    using read_desc_frame [OF assms(2)] assms(1) that by (simp add: queue_ready_def servable_def vq_sound_def)
  have sv: "servable s' v vq' j \<and> desc_buffer s' v vq' j = desc_buffer s v vq j" if j: "servable s v vq j" for j
  proof -
    have ld: "load s' hva n = load s hva n" if "separate (q_used vq) (used_bytes vq) hva n" for hva n
      using assms(2) that by (simp add: ring_frame_def)
    show ?thesis
      using j rd [OF j] ld unfolding servable_def desc_buffer_def eqs
      by (cases "read_desc s (desc_at vq j)") (auto simp: Let_def)
  qed
  show "queue_ready s' vm v vq'"
    using assms(1,2,4) vq_sound_frame [of s s' vq'] snd sv pend
    by (auto simp: queue_ready_def eqs ring_frame_def handler_frame_def)
  show "i \<in> set (pending s vq) \<Longrightarrow> desc_buffer s' v vq' i = desc_buffer s v vq i"
    using sv assms(1) by (simp add: queue_ready_def)
qed

lemma read_desc_defined:
  assumes "area s (q_desc vq) (16 * unat (q_size vq))" and "i < q_size vq"
  shows "\<exists>d. read_desc s (desc_at vq i) = Some d"
proof -
  have i: "16 * unat i + 16 \<le> 16 * unat (q_size vq)" using assms(2) by (simp add: word_less_nat_alt)
  have "load s (ptr_add (desc_at vq i) k) n \<noteq> None" if "unat k + n \<le> 16" for k n
  proof -
    have "unat (16 * ucast i :: u64) + unat k < 2 ^ 64"
      using desc_at_offset [of i] unat_u16_less [of i] that by simp
    then have "unat (16 * ucast i + k :: u64) = 16 * unat i + unat k" by (simp add: unat_word_ariths(1) desc_at_offset)
    then show ?thesis using area_sub [OF assms(1), of "16 * ucast i + k" n] i that
      by (simp add: desc_at_def ptr_add_add)
  qed
  from this [of 0 8] this [of 8 4] this [of 12 2] this [of 14 2] show ?thesis
    by (cases "desc_at vq i") (auto simp: read_desc_def load_word_def simp del: load.simps)
qed

lemma used_only_ring: "used_only vq s s' \<Longrightarrow> ring_frame vq s s'"
  by (simp add: used_only_def ring_frame_def)

text \<open>One turn of the loop serves the first pending buffer \<open>i\<close> and leaves the others \<open>ds\<close> as they were.\<close>

definition console_advances :: "env \<Rightarrow> ref \<Rightarrow> vm \<Rightarrow> virtqueue \<Rightarrow> host \<Rightarrow> u16 \<Rightarrow> u16 list \<Rightarrow> bool" where
  "console_advances E vm v vq s i ds \<longleftrightarrow>
     (\<exists>vq' s'. console_loop E vm vq s = console_loop E vm vq' s' \<and> queue_ready s' vm v vq' \<and> pending s' vq' = ds
        \<and> stdout_bytes s' = stdout_bytes s @ desc_buffer s v vq i
        \<and> (\<forall>j \<in> set ds. desc_buffer s' v vq' j = desc_buffer s v vq j))"

lemma console_popped:
  assumes "queue_ready s vm v vq" and "pending s vq = i # ds"
  shows "vms s vm = Some v" and "vq_sound s vq" and "servable s v vq i" and "desc_at vq i \<noteq> NULL"
    and "virtqueue_pop vq s = Some (desc_at vq i, vq\<lparr>q_last_avail_idx := q_last_avail_idx vq + 1\<rparr>)"
    and "pending s (vq\<lparr>q_last_avail_idx := q_last_avail_idx vq + 1\<rparr>) = ds"
proof -
  show snd: "vq_sound s vq" and "vms s vm = Some v" and "servable s v vq i" using assms by (auto simp: queue_ready_def)
  show "desc_at vq i \<noteq> NULL" by (rule vq_soundD(9) [OF snd])
  show "virtqueue_pop vq s = Some (desc_at vq i, vq\<lparr>q_last_avail_idx := q_last_avail_idx vq + 1\<rparr>)"
    "pending s (vq\<lparr>q_last_avail_idx := q_last_avail_idx vq + 1\<rparr>) = ds"
    using virtqueue_pop_pending(2) [OF snd assms(2)] by auto
qed

lemma console_skips:
  assumes ready: "queue_ready s vm v vq" and pend: "pending s vq = i # ds"
    and d: "read_desc s (desc_at vq i) = Some d" and "vm_gpa_to_hva v (desc_addr d) (ucast (desc_len d)) = NULL"
  shows "console_advances E vm v vq s i ds"
proof -
  note pop = console_popped [OF ready pend]
  let ?vq1 = "vq\<lparr>q_last_avail_idx := q_last_avail_idx vq + 1\<rparr>"
  have "console_loop E vm vq s = console_loop E vm ?vq1 s"
    using pop d assms(4) by (subst console_loop.simps) simp
  moreover have eq: "?vq1 = vq\<lparr>q_last_avail_idx := q_last_avail_idx vq + 1, q_last_used_idx := q_last_used_idx vq\<rparr>"
    by simp
  moreover have "ring_frame vq s s" by (simp add: ring_frame_def frame_intros)
  moreover have "set ds \<subseteq> set (pending s vq)" using pend by auto
  ultimately show ?thesis
    using ring_frame_queue [OF ready _ eq, of s] pop(6) d assms(4) unfolding console_advances_def
    by (intro exI [of _ ?vq1] exI [of _ s]) (auto simp: desc_buffer_def)
qed

lemma console_serves:
  assumes ready: "queue_ready s vm v vq" and pend: "pending s vq = i # ds"
    and d: "read_desc s (desc_at vq i) = Some d" and ok: "vm_gpa_to_hva v (desc_addr d) (ucast (desc_len d)) \<noteq> NULL"
  shows "console_advances E vm v vq s i ds"
proof -
  note pop = console_popped [OF ready pend]
  let ?vq1 = "vq\<lparr>q_last_avail_idx := q_last_avail_idx vq + 1\<rparr>"
  obtain bs where bs: "load s (vm_gpa_to_hva v (desc_addr d) (ucast (desc_len d))) (unat (desc_len d)) = Some bs"
    using pop(3) d ok by (auto simp: servable_def Let_def)
  define s1 where "s1 = foldl (\<lambda>s b. putchar b s) s bs"
  have s1: "stdout_bytes s1 = stdout_bytes s @ bs" "handler_frame s s1" "\<And>q n. load s1 q n = load s q n"
    using foldl_putchar [of s bs] load_mem_cong [of s1 s] unfolding s1_def by auto
  have snd1: "vq_sound s1 ?vq1" using pop(2) vq_sound_frame [OF s1(2)] by (simp add: vq_sound_advance)
  then obtain u where u: "used_idx s1 ?vq1 = Some u" using vq_soundD(3) by blast
  have "devs s1 (q_dev ?vq1) \<noteq> None" using ready s1(2) by (simp add: queue_ready_def handler_frame_def)
  from virtqueue_push_ok [OF snd1 u this, of E] obtain s2 where
    push: "virtqueue_push E ?vq1 (ucast (ptr_diff (desc_at vq i) (q_desc ?vq1) div 16)) (desc_len d) s1
       = Some (?vq1\<lparr>q_last_used_idx := q_last_used_idx ?vq1 + 1\<rparr>, s2)" and s2: "used_only ?vq1 s1 s2" by blast
  let ?vq2 = "?vq1\<lparr>q_last_used_idx := q_last_used_idx ?vq1 + 1\<rparr>"
  have "console_loop E vm vq s = console_loop E vm ?vq2 s2"
    using pop d ok bs push by (subst console_loop.simps) (simp add: s1_def)
  moreover have rf: "ring_frame vq s s2"
    using s1 s2 handler_frame_trans by (auto simp: used_only_def ring_frame_def used_bytes_def)
  moreover have eq: "?vq2 = vq\<lparr>q_last_avail_idx := q_last_avail_idx vq + 1, q_last_used_idx := q_last_used_idx vq + 1\<rparr>"
    by simp
  moreover have "pending s ?vq2 = ds" using pop(6) by (simp add: pending_def avail_idx_def avail_ring_def)
  moreover have "stdout_bytes s2 = stdout_bytes s @ desc_buffer s v vq i"
    using s1 s2 d bs ok by (simp add: used_only_def desc_buffer_def Let_def)
  moreover have "set ds \<subseteq> set (pending s vq)" using pend by auto
  ultimately show ?thesis
    using ring_frame_queue [OF ready rf eq] unfolding console_advances_def
    by (intro exI [of _ ?vq2] exI [of _ s2]) auto
qed

lemma console_loop_step:
  assumes "queue_ready s vm v vq" and "pending s vq = i # ds"
  shows "console_advances E vm v vq s i ds"
proof -
  obtain d where "read_desc s (desc_at vq i) = Some d"
    using read_desc_defined [of s vq i] console_popped(2,3) [OF assms] by (auto simp: vq_sound_def servable_def)
  then show ?thesis
    using console_skips [OF assms, of d] console_serves [OF assms, of d]
    by (cases "vm_gpa_to_hva v (desc_addr d) (ucast (desc_len d)) = NULL") simp_all
qed

lemma console_loop_done:
  assumes "queue_ready s vm v vq" and "pending s vq = []"
  shows "console_loop E vm vq s = Some (vq, s)"
  using virtqueue_pop_pending(1) [of s vq] assms by (subst console_loop.simps) (simp add: queue_ready_def)

lemma console_loop_ends:
  assumes "queue_ready s vm v vq"
  shows "\<exists>vq' s'. console_loop E vm vq s = Some (vq', s') \<and> queue_ready s' vm v vq' \<and> pending s' vq' = []
     \<and> stdout_bytes s' = stdout_bytes s @ due_output s v vq (pending s vq)"
  using assms
proof (induction "pending s vq" arbitrary: s vq)
  case Nil
  then show ?case using console_loop_done [of s vm v vq E] by (auto simp: due_output_def)
next
  case (Cons i ds)
  obtain vq1 s1 where step: "console_loop E vm vq s = console_loop E vm vq1 s1" "queue_ready s1 vm v vq1"
      "pending s1 vq1 = ds" "stdout_bytes s1 = stdout_bytes s @ desc_buffer s v vq i"
    and same: "\<forall>j \<in> set ds. desc_buffer s1 v vq1 j = desc_buffer s v vq j"
    using console_loop_step [OF Cons.prems Cons.hyps(2) [symmetric]] unfolding console_advances_def by blast
  have "due_output s1 v vq1 ds = due_output s v vq ds"
    using same by (simp add: due_output_def cong: map_cong)
  moreover have "due_output s v vq (pending s vq) = desc_buffer s v vq i @ due_output s v vq ds"
    using Cons.hyps(2) [symmetric] by (simp add: due_output_def)
  ultimately show ?case
    using Cons.hyps(1) [OF step(3) [symmetric] step(2)] step by auto
qed

section \<open>Properties\<close>

text \<open>
  C3: the console handler ends and writes the guest's buffers. For a sound queue whose used ring
  does not overlap the other rings or the pending buffers, a notification returns 0, adds to
  standard output exactly the bytes of the pending buffers that are mapped, in the order of the
  available ring, and leaves nothing pending.
\<close>

theorem virtio_console_notify_writes:
  assumes "vdevs s r = Some vd" and "devs s r = Some d" and "q < length (vd_queues vd)"
    and "queue_ready s (d_vm d) v (vd_queues vd ! q)"
  shows "\<exists>s' vq'. virtio_console_queue_notify E r q s = Some (0, s')
     \<and> stdout_bytes s' = stdout_bytes s @ due_output s v (vd_queues vd ! q) (pending s (vd_queues vd ! q))
     \<and> vdevs s' r = Some (vd\<lparr>vd_queues := (vd_queues vd)[q := vq']\<rparr>) \<and> pending s' vq' = [] \<and> vq_sound s' vq'"
proof -
  obtain vq' s1 where l: "console_loop E (d_vm d) (vd_queues vd ! q) s = Some (vq', s1)" "queue_ready s1 (d_vm d) v vq'"
    "pending s1 vq' = []"
    "stdout_bytes s1 = stdout_bytes s @ due_output s v (vd_queues vd ! q) (pending s (vd_queues vd ! q))"
    using console_loop_ends [OF assms(4)] by blast
  let ?s = "set_vdev r (vd\<lparr>vd_queues := (vd_queues vd)[q := vq']\<rparr>) s1"
  have "ring_frame vq' s1 ?s" by (rule same_mem_ring_frame) (simp_all add: handler_frame_def)
  from ring_frame_queue(1,2) [OF l(2) this, where vq' = vq' and a = "q_last_avail_idx vq'" and u = "q_last_used_idx vq'"] l
  show ?thesis using assms(1,2)
    by (intro exI [of _ ?s] exI [of _ vq']) (simp add: virtio_console_queue_notify_def queue_ready_def)
qed

definition ex_con_host :: host where
  "ex_con_host = ex_queue_host\<lparr>vdevs := (\<lambda>_. None)(5 \<mapsto> zero_virtio_dev\<lparr>vd_queues := (replicate 8 zero_virtqueue)[0 := ex_queue],
     vd_queue_notify := Some Drv_console\<rparr>)\<rparr>"

lemma ex_desc_reads:
  "le_word (subrange ex_ring 0 8) = (0x1000 :: u64)" "le_word (subrange ex_ring 8 4) = (2 :: u32)"
  "le_word (subrange ex_ring 16 8) = (0x1004 :: u64)" "le_word (subrange ex_ring 24 4) = (3 :: u32)"
  by code_simp+

lemma ex_con_mem: "mem ex_con_host 7 = Some ex_ring" "mem ex_con_host 3 = Some (replicate 0x1000 0)"
  by (simp_all add: ex_con_host_def ex_queue_host_def ex_vm_mem_def)

lemma ex_vm_translate: "vm_gpa_to_hva ex_vm 0x1000 2 = Ptr 3 0" "vm_gpa_to_hva ex_vm 0x1004 3 = Ptr 3 4"
proof -
  have r: "v_mem_regions ex_vm ! 0 = ex_region" by (simp add: ex_vm_def)
  have "find (\<lambda>i. region_hit (v_mem_regions ex_vm ! i) 0x1000 2) [0..<VM_MAX_SLOTS] = Some 0"
    "find (\<lambda>i. region_hit (v_mem_regions ex_vm ! i) 0x1004 3) [0..<VM_MAX_SLOTS] = Some 0"
    unfolding find_upt_Some by (simp_all add: r region_hit_def ex_region_def VM_MAX_SLOTS_def)
  then show "vm_gpa_to_hva ex_vm 0x1000 2 = Ptr 3 0" "vm_gpa_to_hva ex_vm 0x1004 3 = Ptr 3 4"
    by (simp_all add: vm_gpa_to_hva_def r ex_region_def)
qed

lemma ex_con_servable: "servable ex_con_host ex_vm ex_queue 0" "servable ex_con_host ex_vm ex_queue 1"
  by (auto simp: servable_def desc_at_def ex_queue_def zero_virtqueue_def read_desc_def load_word_def ex_con_mem length_ex_ring
      ex_desc_reads ex_vm_translate used_bytes_def split: Option.bind_splits)

lemma ex_con_ready: "queue_ready ex_con_host 2 ex_vm ex_queue"
proof -
  have f: "ring_frame ex_queue ex_queue_host ex_con_host"
    by (rule same_mem_ring_frame) (simp_all add: handler_frame_def ex_con_host_def)
  have "separate (q_used ex_queue) (used_bytes ex_queue) (q_avail ex_queue) (avail_bytes ex_queue)"
    by (simp add: ex_queue_def used_bytes_def avail_bytes_def)
  moreover from pending_frame [OF f ex_queue_sound this] have "pending ex_con_host ex_queue = [1, 0]"
    using ex_pending by simp
  moreover have "vq_sound ex_con_host ex_queue"
    using ex_queue_sound vq_sound_frame f by (auto simp: ring_frame_def)
  moreover have "vms ex_con_host 2 = Some ex_vm" "devs ex_con_host (q_dev ex_queue) \<noteq> None"
    by (simp_all add: ex_con_host_def ex_queue_host_def ex_vm_mem_def ex_queue_def)
  moreover have "separate (q_used ex_queue) (used_bytes ex_queue) (q_desc ex_queue) (16 * unat (q_size ex_queue))"
    by (simp add: ex_queue_def used_bytes_def)
  ultimately show ?thesis using ex_con_servable by (simp add: queue_ready_def)
qed

theorem virtio_console_notify_writes_witness:
  "\<exists>s'. virtio_console_queue_notify ok_env 5 0 ex_con_host = Some (0, s')
     \<and> stdout_bytes s' = stdout_bytes ex_con_host @ due_output ex_con_host ex_vm ex_queue (pending ex_con_host ex_queue)"
proof -
  let ?vd = "zero_virtio_dev\<lparr>vd_queues := (replicate 8 zero_virtqueue)[0 := ex_queue], vd_queue_notify := Some Drv_console\<rparr>"
  have "vdevs ex_con_host 5 = Some ?vd" "devs ex_con_host 5 = Some (zero_device\<lparr>d_vm := 2, d_irq_fd := 9\<rparr>)"
    "0 < length (vd_queues ?vd)" "vd_queues ?vd ! 0 = ex_queue"
    by (simp_all add: ex_con_host_def ex_queue_host_def)
  from virtio_console_notify_writes [OF this(1-3), of ex_vm ok_env] this(4) ex_con_ready show ?thesis by auto
qed

end
