(* ===== verification/Virtio_Blk.thy ===== *)
theory Virtio_Blk
  imports Virtio_Console
begin

text \<open>
  The virtio block device, \<^verbatim>\<open>src/devices/virtio-block.c\<close>. A notification serves one request: a
  chain of three descriptors for the header, the data and the status byte. The properties say what
  reaches the disk and the guest, and what the configuration space shows.
\<close>

section \<open>Configuration space\<close>

text \<open>The bytes of the packed \<open>struct virtio_blk_config\<close>.\<close>

definition blk_config_bytes :: "virtio_blk_state \<Rightarrow> u8 list" where
  "blk_config_bytes b = le_bytes 8 (blk_capacity b) @ le_bytes 4 (blk_size_max b) @ le_bytes 4 (blk_seg_max b)
     @ le_bytes 2 (blk_cylinders b) @ [blk_heads b, blk_sectors b] @ le_bytes 4 (blk_cfg_blk_size b)"

text \<open>The copy of the geometry must stay inside the configuration structure.\<close>

definition virtio_blk_config_read :: "ref \<Rightarrow> u64 \<Rightarrow> u8 list \<Rightarrow> u64 \<Rightarrow> host \<Rightarrow> (int \<times> u8 list \<times> host) option" where
  "virtio_blk_config_read r off data sz s =
     do {
       vd \<leftarrow> vdevs s r;
       b \<leftarrow> blks s (vd_priv vd);
       data' \<leftarrow>
         (if off = 0x00 then put_buf data 0 (le_bytes 4 (ucast (blk_capacity b AND 0xFFFFFFFF) :: u32))
          else if off = 0x04 then put_buf data 0 (le_bytes 4 (ucast (drop_bit 32 (blk_capacity b) AND 0xFFFFFFFF) :: u32))
          else if off = 0x08 then put_buf data 0 (le_bytes 4 (blk_size_max b))
          else if off = 0x0C then put_buf data 0 (le_bytes 4 (blk_seg_max b))
          else if off = 0x10 then
            (if unat off + unat sz \<le> length (blk_config_bytes b)
             then put_buf data 0 (subrange (blk_config_bytes b) (unat off) (unat sz)) else None)
          else if off = 0x18 then put_buf data 0 (le_bytes 4 (blk_cfg_blk_size b))
          else put_buf data 0 (replicate (unat sz) 0));
       Some (0, data', s) }"

section \<open>Queue notification\<close>

definition put_vq :: "ref \<Rightarrow> nat \<Rightarrow> virtqueue \<Rightarrow> host \<Rightarrow> host option" where
  "put_vq r q vq s = do { vd \<leftarrow> vdevs s r; Some (set_vdev r (vd\<lparr>vd_queues := (vd_queues vd)[q := vq]\<rparr>) s) }"

definition VIRTIO_BLK_T_IN :: u32 where "VIRTIO_BLK_T_IN = 0"
definition VIRTIO_BLK_T_OUT :: u32 where "VIRTIO_BLK_T_OUT = 1"
definition VIRTIO_BLK_T_FLUSH :: u32 where "VIRTIO_BLK_T_FLUSH = 4"
definition VIRTIO_BLK_S_OK :: u8 where "VIRTIO_BLK_S_OK = 0"
definition VIRTIO_BLK_S_IOERR :: u8 where "VIRTIO_BLK_S_IOERR = 1"
definition VIRTIO_BLK_S_UNSUPP :: u8 where "VIRTIO_BLK_S_UNSUPP = 2"

text \<open>
  A request as the handler assembles it. The length is the one of the descriptor the local
  variable last pointed to: the status descriptor.
\<close>

record blk_request =
  rq_type :: u32
  rq_sector :: u64
  rq_data :: ptr
  rq_status :: ptr
  rq_len :: u32

text \<open>The copy of the request header from guest memory: its type and sector.\<close>

definition blk_req_at :: "host \<Rightarrow> ptr \<Rightarrow> (u32 \<times> u64) option" where
  "blk_req_at s p =
     do { ty \<leftarrow> load_word s p 4;
          ioprio \<leftarrow> load_word s (ptr_add p 4) 4 :: u32 option;
          sector \<leftarrow> load_word s (ptr_add p 8) 8;
          Some (ty, sector) }"

text \<open>Walking the chain: \<open>Some None\<close> is an error return of the handler.\<close>

definition blk_chain :: "ref \<Rightarrow> virtqueue \<Rightarrow> ptr \<Rightarrow> host \<Rightarrow> blk_request option option" where
  "blk_chain vm vq p s =
     do {
       d0 \<leftarrow> read_desc s p;
       v \<leftarrow> vms s vm;
       let req_hva = vm_gpa_to_hva v (desc_addr d0) 16;
       if req_hva = NULL then Some None
       else do {
         (ty, sector) \<leftarrow> blk_req_at s req_hva;
         if desc_flags d0 AND VRING_DESC_F_NEXT = 0 then Some None
         else do {
           d1 \<leftarrow> read_desc s (desc_at vq (desc_next d0));
           let data_hva = vm_gpa_to_hva v (desc_addr d1) (ucast (desc_len d1));
           if data_hva = NULL then Some None
           else if desc_flags d1 AND VRING_DESC_F_NEXT = 0 then Some None
           else do {
             d2 \<leftarrow> read_desc s (desc_at vq (desc_next d1));
             let status_hva = vm_gpa_to_hva v (desc_addr d2) 1;
             if status_hva = NULL then Some None
             else Some (Some \<lparr>rq_type = ty, rq_sector = sector, rq_data = data_hva, rq_status = status_hva,
                              rq_len = desc_len d2\<rparr>) } } } }"

text \<open>The transfer: the status byte and the state after the disk was read or written.\<close>

definition blk_transfer :: "env \<Rightarrow> virtio_blk_state \<Rightarrow> blk_request \<Rightarrow> host \<Rightarrow> (u8 \<times> host) option" where
  "blk_transfer E b rq s =
     (let pos = rq_sector rq * ucast (blk_blk_size b) in
      if rq_type rq = VIRTIO_BLK_T_IN then
        let (a, s1) = syscall E (SYS_pread (blk_disk_fd b) (unat (rq_len rq)) pos) s in
        if a_ret a < 0 then Some (VIRTIO_BLK_S_IOERR, s1)
        else do { s2 \<leftarrow> store (rq_data rq) (take (unat (rq_len rq)) (take (nat (a_ret a)) (a_bytes a))) s1;
                  Some (VIRTIO_BLK_S_OK, s2) }
      else if rq_type rq = VIRTIO_BLK_T_OUT then
        do { bs \<leftarrow> load s (rq_data rq) (unat (rq_len rq));
             let (a, s1) = syscall E (SYS_pwrite (blk_disk_fd b) bs pos) s;
             Some (if a_ret a < 0 then VIRTIO_BLK_S_IOERR else VIRTIO_BLK_S_OK, s1) }
      else if rq_type rq = VIRTIO_BLK_T_FLUSH then Some (VIRTIO_BLK_S_OK, s)
      else Some (VIRTIO_BLK_S_UNSUPP, s))"

definition virtio_blk_queue_notify :: "env \<Rightarrow> ref \<Rightarrow> nat \<Rightarrow> host \<Rightarrow> (int \<times> host) option" where
  "virtio_blk_queue_notify E r q s =
     do {
       vd \<leftarrow> vdevs s r;
       d \<leftarrow> devs s r;
       (p, vq) \<leftarrow> virtqueue_pop (vd_queues vd ! q) s;
       if p = NULL then do { s' \<leftarrow> put_vq r q vq s; Some (0, s') }
       else do {
         c \<leftarrow> blk_chain (d_vm d) vq p s;
         case c of
           None \<Rightarrow> do { s' \<leftarrow> put_vq r q vq s; Some (-1, s') }
         | Some rq \<Rightarrow>
             do {
               b \<leftarrow> blks s (vd_priv vd);
               (status, s1) \<leftarrow> blk_transfer E b rq s;
               s2 \<leftarrow> store (rq_status rq) [status] s1;
               (vq', s3) \<leftarrow> virtqueue_push E vq 0 1 s2;
               s4 \<leftarrow> put_vq r q vq' s3;
               Some (0, s4) } } }"

section \<open>Device operations\<close>

definition virtio_blk_read :: "virtio_cbs \<Rightarrow> ref \<Rightarrow> u64 \<Rightarrow> u8 list \<Rightarrow> u64 \<Rightarrow> host \<Rightarrow> (int \<times> u8 list \<times> host) option" where
  "virtio_blk_read cbs dev off data sz s = virtio_mmio_read cbs dev off data sz s"

definition virtio_blk_write :: "env \<Rightarrow> virtio_cbs \<Rightarrow> ref \<Rightarrow> u64 \<Rightarrow> u8 list \<Rightarrow> u64 \<Rightarrow> host \<Rightarrow> (int \<times> host) option" where
  "virtio_blk_write E cbs dev off data sz s = virtio_mmio_write E cbs dev off data sz s"

definition virtio_blk_destroy :: "env \<Rightarrow> ref \<Rightarrow> host \<Rightarrow> host option" where
  "virtio_blk_destroy E dev s =
     do {
       vd \<leftarrow> vdevs s dev;
       s1 \<leftarrow> (if vd_priv vd = 0 then Some s
              else do { b \<leftarrow> blks s (vd_priv vd);
                        Some (if blk_disk_fd b \<ge> 0 then snd (syscall E (SYS_close (blk_disk_fd b)) s) else s) });
       s2 \<leftarrow> virtio_cleanup dev s1;
       s3 \<leftarrow> free_obj (vd_priv vd) s2;
       free_obj dev s3 }"

definition virtio_blk_ops :: "env \<Rightarrow> virtio_cbs \<Rightarrow> device_ops" where
  "virtio_blk_ops E cbs = \<lparr>do_name = ''virtio-block'', do_read = Some (virtio_blk_read cbs),
     do_write = Some (virtio_blk_write E cbs), do_destroy = Some (virtio_blk_destroy E)\<rparr>"

section \<open>Creation\<close>

definition VIRTIO_BLOCK_GPA :: u64 where "VIRTIO_BLOCK_GPA = 0xa001000"
definition VIRTIO_BLOCK_SIZE :: u64 where "VIRTIO_BLOCK_SIZE = 0x1000"

definition zero_blk :: virtio_blk_state where
  "zero_blk = \<lparr>blk_capacity = 0, blk_size_max = 0, blk_seg_max = 0, blk_cylinders = 0, blk_heads = 0, blk_sectors = 0,
     blk_cfg_blk_size = 0, blk_disk_fd = 0, blk_disk_size = 0, blk_blk_size = 0\<rparr>"

definition blk_config_init :: "int \<Rightarrow> u64 \<Rightarrow> virtio_blk_state" where
  "blk_config_init fd disk_size = zero_blk\<lparr>blk_disk_fd := fd, blk_disk_size := disk_size, blk_blk_size := 512,
     blk_capacity := disk_size div 512, blk_size_max := 65535, blk_seg_max := 128, blk_cfg_blk_size := 512\<rparr>"

text \<open>Opening the image: read-write, else read-only.\<close>

definition open_disk :: "env \<Rightarrow> string \<Rightarrow> host \<Rightarrow> int \<times> host" where
  "open_disk E path s =
     (let (a, s1) = syscall E (SYS_open path ''O_RDWR'') s in
      if a_ret a < 0 then (let (b, s2) = syscall E (SYS_open path ''O_RDONLY'') s1 in (a_ret b, s2))
      else (a_ret a, s1))"

definition free_two :: "ref \<Rightarrow> ref \<Rightarrow> host \<Rightarrow> (ref \<times> host) option" where
  "free_two p vdev s = do { s1 \<leftarrow> free_obj p s; s2 \<leftarrow> free_obj vdev s1; Some (0, s2) }"

definition virtio_blk_create :: "env \<Rightarrow> string \<Rightarrow> host \<Rightarrow> (ref \<times> host) option" where
  "virtio_blk_create E disk_path s =
     (let (vdev, s1) = alloc E s in
      if vdev = 0 then Some (0, s1)
      else
        let (p, s2) = alloc E (set_dev vdev zero_device (set_vdev vdev zero_virtio_dev s1)) in
        if p = 0 then do { s3 \<leftarrow> free_obj vdev s2; Some (0, s3) }
        else
          let (fd, s3) = open_disk E disk_path (s2\<lparr>blks := (blks s2)(p \<mapsto> zero_blk)\<rparr>) in
          if fd < 0 then free_two p vdev s3
          else
            let (st, s4) = syscall E (SYS_fstat fd) s3 in
            if a_ret st < 0 then free_two p vdev (snd (syscall E (SYS_close fd) s4))
            else do {
              let disk_size = (if a_words st = [] then 0 else hd (a_words st));
              (ret, s5) \<leftarrow> virtio_init E vdev VIRTIO_ID_BLOCK (s4\<lparr>blks := (blks s4)(p \<mapsto> blk_config_init fd disk_size)\<rparr>);
              vd \<leftarrow> vdevs s5 vdev;
              let s6 = set_vdev vdev (vd\<lparr>vd_priv := p, vd_config_read := Some Drv_blk,
                         vd_config_write := None, vd_queue_notify := Some Drv_blk\<rparr>) s5;
              let (nm, s7) = strdup E ''virtio-block'' s6;
              d \<leftarrow> devs s7 vdev;
              Some (vdev, set_dev vdev (virtio_device_fields Virtio_blk_ops nm vdev VIRTIO_BLOCK_GPA
                             VIRTIO_BLOCK_SIZE d) s7) })"

section \<open>Serving a request\<close>

text \<open>
  A complete chain: three descriptors linked by their \<open>next\<close> fields, whose header, data and
  status addresses the machine translates.
\<close>

definition chain_ok :: "host \<Rightarrow> vm \<Rightarrow> virtqueue \<Rightarrow> u16 \<Rightarrow> vring_desc \<Rightarrow> vring_desc \<Rightarrow> vring_desc \<Rightarrow> bool" where
  "chain_ok s v vq i d0 d1 d2 \<longleftrightarrow> read_desc s (desc_at vq i) = Some d0 \<and> desc_flags d0 AND VRING_DESC_F_NEXT \<noteq> 0
     \<and> read_desc s (desc_at vq (desc_next d0)) = Some d1 \<and> desc_flags d1 AND VRING_DESC_F_NEXT \<noteq> 0
     \<and> read_desc s (desc_at vq (desc_next d1)) = Some d2
     \<and> vm_gpa_to_hva v (desc_addr d0) 16 \<noteq> NULL \<and> vm_gpa_to_hva v (desc_addr d1) (ucast (desc_len d1)) \<noteq> NULL
     \<and> vm_gpa_to_hva v (desc_addr d2) 1 \<noteq> NULL"

definition header_is :: "host \<Rightarrow> ptr \<Rightarrow> u32 \<Rightarrow> u64 \<Rightarrow> bool" where
  "header_is s p ty sector \<longleftrightarrow> load_word s p 4 = Some ty \<and> load s (ptr_add p 4) 4 \<noteq> None
     \<and> load_word s (ptr_add p 8) 8 = Some sector"

lemma blk_chain_ok:
  assumes "chain_ok s v vq i d0 d1 d2" and "vms s vm = Some v"
    and "header_is s (vm_gpa_to_hva v (desc_addr d0) 16) ty sector"
  shows "blk_chain vm vq (desc_at vq i) s = Some (Some \<lparr>rq_type = ty, rq_sector = sector,
     rq_data = vm_gpa_to_hva v (desc_addr d1) (ucast (desc_len d1)), rq_status = vm_gpa_to_hva v (desc_addr d2) 1,
     rq_len = desc_len d2\<rparr>)"
  using assms by (auto simp: blk_chain_def blk_req_at_def chain_ok_def header_is_def load_word_def)

lemma push_history:
  "virtqueue_push E vq ident len s = Some (vq', s') \<Longrightarrow> set (history s) \<subseteq> set (history s')"
  by (auto simp: virtqueue_push_def virtqueue_notify_def device_assert_irq_def store_word_def Let_def syscall_def
      dest!: store_fields(2) split: if_splits Option.bind_splits)

lemma store_one:
  assumes "load s p (length xs) \<noteq> None"
  shows "\<exists>s'. store p xs s = Some s' \<and> load s' p (length xs) = Some xs \<and> handler_frame s s' \<and> history s' = history s
     \<and> (\<forall>q n. separate p (length xs) q n \<longrightarrow> load s' q n = load s q n) \<and> vdevs s' = vdevs s"
proof -
  obtain s' where "store p xs s = Some s'" using assms hm.wr_defined [of p xs s] by auto
  then show ?thesis
    using hm.rd_wr_same hm.rd_wr_other store_handler_frame store_fields(2,4) by metis
qed

lemma push_vdevs: "virtqueue_push E vq ident len s = Some (vq', s') \<Longrightarrow> vdevs s' = vdevs s"
  by (auto simp: virtqueue_push_def virtqueue_notify_def store_word_def Let_def
      dest!: store_fields(4) dest: device_assert_irq_io [THEN io_only_heaps(4)] split: if_splits Option.bind_splits)

text \<open>After the transfer: the status byte is stored and the request completed.\<close>

lemma blk_complete:
  assumes sound: "vq_sound s vq" and dev: "devs s (q_dev vq) \<noteq> None" and st: "load s p 1 \<noteq> None"
    and vd: "vdevs s r = Some vd"
  shows "\<exists>s2 vq' s3 s4. store p [status] s = Some s2 \<and> virtqueue_push E vq 0 1 s2 = Some (vq', s3)
     \<and> put_vq r q vq' s3 = Some s4 \<and> set (history s) \<subseteq> set (history s4)
     \<and> (separate (q_used vq) (used_bytes vq) p 1 \<longrightarrow> load s4 p 1 = Some [status])
     \<and> (\<forall>d n. separate (q_used vq) (used_bytes vq) d n \<longrightarrow> separate p 1 d n \<longrightarrow> load s4 d n = load s d n)"
proof -
  obtain s2 where s2: "store p [status] s = Some s2" "load s2 p 1 = Some [status]" "handler_frame s s2"
      "history s2 = history s" "vdevs s2 = vdevs s"
    and f2: "\<And>q n. separate p 1 q n \<Longrightarrow> load s2 q n = load s q n"
    using store_one [of s p "[status]"] st by auto
  have sound2: "vq_sound s2 vq" using sound vq_sound_frame [OF s2(3)] by simp
  then obtain u where u: "used_idx s2 vq = Some u" using vq_soundD(3) by blast
  have "devs s2 (q_dev vq) \<noteq> None" using dev s2(3) by (simp add: handler_frame_def)
  from virtqueue_push_ok [OF sound2 u this, of E 0 1] obtain vq' s3 where
    push: "virtqueue_push E vq 0 1 s2 = Some (vq', s3)" and uo: "used_only vq s2 s3" by blast
  let ?s4 = "set_vdev r (vd\<lparr>vd_queues := (vd_queues vd)[q := vq']\<rparr>) s3"
  have "put_vq r q vq' s3 = Some ?s4" using push_vdevs [OF push] s2(5) vd by (simp add: put_vq_def)
  moreover have "load ?s4 d n = load s3 d n" for d n by (rule load_mem_cong) simp
  ultimately show ?thesis
    using s2 push uo push_history [OF push] f2 by (auto simp: used_only_def)
qed

text \<open>A read from the disk: one call, the bytes delivered stored at the data address.\<close>

lemma blk_transfer_in:
  assumes "load s data (unat n) \<noteq> None" and "call = SYS_pread (blk_disk_fd b) (unat n) (sector * ucast (blk_blk_size b))"
    and "a = answer_of E (history s) call" and "bs = take (unat n) (take (nat (a_ret a)) (a_bytes a))"
  shows "\<exists>st s2. blk_transfer E b \<lparr>rq_type = VIRTIO_BLK_T_IN, rq_sector = sector, rq_data = data, rq_status = status, rq_len = n\<rparr> s
       = Some (st, s2)
     \<and> st = (if a_ret a < 0 then VIRTIO_BLK_S_IOERR else VIRTIO_BLK_S_OK)
     \<and> handler_frame s s2 \<and> history s2 = call # history s \<and> vdevs s2 = vdevs s
     \<and> load s2 data (length bs) = (if a_ret a < 0 then load s data (length bs) else Some bs)"
proof -
  obtain s1 where sys: "syscall E call s = (a, s1)"
    using assms(3) syscall_parts(1) [of E call s] by (metis surj_pair)
  note io = syscall_io_only [OF sys] and hist = syscall_parts(2) [OF sys]
  have "length bs \<le> unat n" using assms(4) by simp
  with assms(1) have "load s data (length bs) \<noteq> None" by (cases data) (auto split: option.splits if_splits)
  then have "load s1 data (length bs) \<noteq> None" using load_io_only [OF io] by simp
  from store_one [OF this] obtain s2 where s2: "store data bs s1 = Some s2" "load s2 data (length bs) = Some bs"
    "handler_frame s1 s2" "history s2 = history s1" "vdevs s2 = vdevs s1" by blast
  show ?thesis
  proof (cases "a_ret a < 0")
    case True
    with sys hist io_only_frame [OF io] io_only_heaps(4) [OF io] load_io_only [OF io] assms(2) show ?thesis
      by (intro exI [of _ VIRTIO_BLK_S_IOERR] exI [of _ s1]) (simp add: blk_transfer_def)
  next
    case False
    with sys hist handler_frame_trans [OF io_only_frame [OF io] s2(3)] io_only_heaps(4) [OF io] s2 assms(2,4) show ?thesis
      by (intro exI [of _ VIRTIO_BLK_S_OK] exI [of _ s2]) (simp add: blk_transfer_def)
  qed
qed

section \<open>Properties\<close>

text \<open>
  C20: serving a read request. For a complete chain the handler returns 0, has asked the disk for
  as many bytes as the status descriptor (not the data descriptor) is long, at the byte position
  of the sector, has placed the bytes the disk delivered at the guest's data address, and has
  stored status 0, or 1 and no data when the disk failed.
\<close>

theorem virtio_blk_read_request:
  assumes "vdevs s r = Some vd" and "devs s r = Some d" and "blks s (vd_priv vd) = Some b" and "vms s (d_vm d) = Some v"
    and "vq_sound s (vd_queues vd ! q)" and "devs s (q_dev (vd_queues vd ! q)) \<noteq> None"
    and "pending s (vd_queues vd ! q) = i # is" and "chain_ok s v (vd_queues vd ! q) i d0 d1 d2"
    and "header_is s (vm_gpa_to_hva v (desc_addr d0) 16) VIRTIO_BLK_T_IN sector"
    and "data = vm_gpa_to_hva v (desc_addr d1) (ucast (desc_len d1))" and "status = vm_gpa_to_hva v (desc_addr d2) 1"
    and "load s data (unat (desc_len d2)) \<noteq> None" and "load s status 1 \<noteq> None"
    and "call = SYS_pread (blk_disk_fd b) (unat (desc_len d2)) (sector * ucast (blk_blk_size b))"
    and "a = answer_of E (history s) call" and "bs = take (unat (desc_len d2)) (take (nat (a_ret a)) (a_bytes a))"
    and "separate (q_used (vd_queues vd ! q)) (used_bytes (vd_queues vd ! q)) status 1"
    and "separate (q_used (vd_queues vd ! q)) (used_bytes (vd_queues vd ! q)) data (length bs)"
    and "separate status 1 data (length bs)"
  shows "\<exists>s'. virtio_blk_queue_notify E r q s = Some (0, s') \<and> call \<in> set (history s')
     \<and> load s' status 1 = Some [if a_ret a < 0 then VIRTIO_BLK_S_IOERR else VIRTIO_BLK_S_OK]
     \<and> load s' data (length bs) = (if a_ret a < 0 then load s data (length bs) else Some bs)"
proof -
  let ?vq = "vd_queues vd ! q" and ?vq1 = "(vd_queues vd ! q)\<lparr>q_last_avail_idx := q_last_avail_idx (vd_queues vd ! q) + 1\<rparr>"
  have eqs: "desc_at ?vq1 = desc_at ?vq" "q_used ?vq1 = q_used ?vq" "used_bytes ?vq1 = used_bytes ?vq" "q_dev ?vq1 = q_dev ?vq"
    by (simp_all add: desc_at_def [abs_def] used_bytes_def)
  have pop: "virtqueue_pop ?vq s = Some (desc_at ?vq1 i, ?vq1)"
    using virtqueue_pop_pending(2) [OF assms(5,7)] eqs by auto
  have nn: "desc_at ?vq1 i \<noteq> NULL" using vq_soundD(9) [OF assms(5)] eqs by simp
  have "chain_ok s v ?vq1 i d0 d1 d2" using assms(8) by (simp add: chain_ok_def eqs)
  note ch = blk_chain_ok [OF this assms(4,9), folded assms(10,11)]
  let ?rq = "\<lparr>rq_type = VIRTIO_BLK_T_IN, rq_sector = sector, rq_data = data, rq_status = status, rq_len = desc_len d2\<rparr>"
  obtain st s2 where tr: "blk_transfer E b ?rq s = Some (st, s2)" and st: "st = (if a_ret a < 0 then VIRTIO_BLK_S_IOERR else VIRTIO_BLK_S_OK)"
    and fr: "handler_frame s s2" and hist: "history s2 = call # history s" and vds: "vdevs s2 = vdevs s"
    and ld: "load s2 data (length bs) = (if a_ret a < 0 then load s data (length bs) else Some bs)"
    using blk_transfer_in [OF assms(12,14-16)] by blast
  have "vq_sound s2 ?vq1" using assms(5) vq_sound_frame [OF fr] by (simp add: vq_sound_advance)
  moreover have "devs s2 (q_dev ?vq1) \<noteq> None" using assms(6) fr by (simp add: handler_frame_def)
  moreover have "load s2 status 1 \<noteq> None" using assms(13) frame_keeps_readable [OF fr] by simp
  moreover have "vdevs s2 r = Some vd" using assms(1) vds by simp
  ultimately obtain s3 vq' s4 s5 where "store status [st] s2 = Some s3" "virtqueue_push E ?vq1 0 1 s3 = Some (vq', s4)"
    "put_vq r q vq' s4 = Some s5" "set (history s2) \<subseteq> set (history s5)" "load s5 status 1 = Some [st]"
    "load s5 data (length bs) = load s2 data (length bs)"
    using blk_complete [of s2 ?vq1 status r vd st E q] assms(17-19) unfolding eqs by blast
  then show ?thesis
    using assms(1-3) pop nn ch tr st ld hist
    by (intro exI [of _ s5]) (auto simp: virtio_blk_queue_notify_def)
qed

text \<open>A device with one request pending: read sector 0 into guest address 0x1100, status at 0x1400.\<close>

definition ex_blk_ring :: "u8 list" where
  "ex_blk_ring = [0x00, 0x10, 0, 0, 0, 0, 0, 0, 16, 0, 0, 0, 1, 0, 1, 0]
     @ [0x00, 0x11, 0, 0, 0, 0, 0, 0, 0, 2, 0, 0, 3, 0, 2, 0]
     @ [0x00, 0x14, 0, 0, 0, 0, 0, 0, 1, 0, 0, 0, 2, 0, 0, 0] @ replicate 16 0
     @ [0, 0, 1, 0, 0, 0, 0, 0, 0, 0, 0, 0] @ replicate 4 0 @ replicate 36 0"

definition ex_blk_dev :: virtio_dev where
  "ex_blk_dev = zero_virtio_dev\<lparr>vd_queues := (replicate 8 zero_virtqueue)[0 := ex_queue], vd_priv := 6,
     vd_queue_notify := Some Drv_blk\<rparr>"

definition ex_blk_host :: host where
  "ex_blk_host = ex_queue_host\<lparr>mem := (mem ex_vm_mem)(7 \<mapsto> ex_blk_ring), vdevs := (\<lambda>_. None)(5 \<mapsto> ex_blk_dev),
     blks := (\<lambda>_. None)(6 \<mapsto> blk_config_init 4 1024)\<rparr>"

definition ex_disk_env :: env where
  "ex_disk_env = ok_env\<lparr>answer_of := (\<lambda>h c. case c of
      SYS_pread fd n off \<Rightarrow> \<lparr>a_ret = 1, a_errno = 0, a_words = [], a_bytes = [0xAB]\<rparr> | _ \<Rightarrow> answer_ok 8)\<rparr>"

lemma ex_blk_mem: "mem ex_blk_host 7 = Some ex_blk_ring" "mem ex_blk_host 3 = Some (replicate 0x1000 0)"
  by (simp_all add: ex_blk_host_def ex_vm_mem_def)

lemma length_ex_blk_ring: "length ex_blk_ring = 116"
  by (simp add: ex_blk_ring_def)

lemma ex_blk_reads:
  "le_word (subrange ex_blk_ring 0 8) = (0x1000 :: u64)" "le_word (subrange ex_blk_ring 8 4) = (16 :: u32)"
  "le_word (subrange ex_blk_ring 12 2) = (1 :: u16)" "le_word (subrange ex_blk_ring 14 2) = (1 :: u16)"
  "le_word (subrange ex_blk_ring 16 8) = (0x1100 :: u64)" "le_word (subrange ex_blk_ring 24 4) = (512 :: u32)"
  "le_word (subrange ex_blk_ring 28 2) = (3 :: u16)" "le_word (subrange ex_blk_ring 30 2) = (2 :: u16)"
  "le_word (subrange ex_blk_ring 32 8) = (0x1400 :: u64)" "le_word (subrange ex_blk_ring 40 4) = (1 :: u32)"
  "le_word (subrange ex_blk_ring 44 2) = (2 :: u16)" "le_word (subrange ex_blk_ring 46 2) = (0 :: u16)"
  "le_word (subrange ex_blk_ring 66 2) = (1 :: u16)" "le_word (subrange ex_blk_ring 68 2) = (0 :: u16)"
  by code_simp+

definition ex_d0 :: vring_desc where "ex_d0 = \<lparr>desc_addr = 0x1000, desc_len = 16, desc_flags = 1, desc_next = 1\<rparr>"
definition ex_d1 :: vring_desc where "ex_d1 = \<lparr>desc_addr = 0x1100, desc_len = 512, desc_flags = 3, desc_next = 2\<rparr>"
definition ex_d2 :: vring_desc where "ex_d2 = \<lparr>desc_addr = 0x1400, desc_len = 1, desc_flags = 2, desc_next = 0\<rparr>"

lemma ex_blk_descs:
  "read_desc ex_blk_host (Ptr 7 0) = Some ex_d0" "read_desc ex_blk_host (Ptr 7 16) = Some ex_d1"
  "read_desc ex_blk_host (Ptr 7 32) = Some ex_d2"
  by (simp_all add: read_desc_def load_word_def ex_blk_mem length_ex_blk_ring ex_blk_reads ex_d0_def ex_d1_def ex_d2_def)

lemma ex_vm_translate_page:
  assumes "0x1000 \<le> gpa" and "gpa + n \<le> 0x2000"
  shows "vm_gpa_to_hva ex_vm gpa n = Ptr 3 (gpa - 0x1000)"
proof -
  have r: "v_mem_regions ex_vm ! 0 = ex_region" by (simp add: ex_vm_def)
  have "find (\<lambda>i. region_hit (v_mem_regions ex_vm ! i) gpa n) [0..<VM_MAX_SLOTS] = Some 0"
    unfolding find_upt_Some using assms by (simp add: r region_hit_def ex_region_def VM_MAX_SLOTS_def)
  then show ?thesis by (simp add: vm_gpa_to_hva_def r ex_region_def)
qed

lemma ex_blk_hvas:
  "vm_gpa_to_hva ex_vm (desc_addr ex_d0) 16 = Ptr 3 0"
  "vm_gpa_to_hva ex_vm (desc_addr ex_d1) (ucast (desc_len ex_d1)) = Ptr 3 0x100"
  "vm_gpa_to_hva ex_vm (desc_addr ex_d2) 1 = Ptr 3 0x400"
  by (simp_all add: ex_d0_def ex_d1_def ex_d2_def ex_vm_translate_page)

lemma ex_blk_sound: "vq_sound ex_blk_host ex_queue"
  by (simp add: vq_sound_def ex_queue_def avail_bytes_def used_bytes_def no_wrap_def ex_blk_mem length_ex_blk_ring)

lemma ex_blk_pending: "pending ex_blk_host ex_queue = [0]"
  by (simp add: pending_def avail_idx_def avail_ring_def ex_queue_def zero_virtqueue_def load_word_def ex_blk_mem
      length_ex_blk_ring ex_blk_reads)

lemma ex_blk_chain: "chain_ok ex_blk_host ex_vm ex_queue 0 ex_d0 ex_d1 ex_d2"
proof -
  have "desc_at ex_queue 0 = Ptr 7 0" "desc_at ex_queue (desc_next ex_d0) = Ptr 7 16" "desc_at ex_queue (desc_next ex_d1) = Ptr 7 32"
    by (simp_all add: desc_at_def ex_queue_def ex_d0_def ex_d1_def)
  then show ?thesis
    using ex_blk_descs ex_blk_hvas by (simp add: chain_ok_def) (simp add: ex_d0_def ex_d1_def VRING_DESC_F_NEXT_def)
qed

lemma zero_word: "le_word (replicate n 0) = (0 :: 'a::len word)"
  by (induction n) simp_all

lemma ex_blk_header: "header_is ex_blk_host (vm_gpa_to_hva ex_vm (desc_addr ex_d0) 16) VIRTIO_BLK_T_IN 0"
  by (simp add: header_is_def ex_blk_hvas load_word_def ex_blk_mem subrange_def VIRTIO_BLK_T_IN_def zero_word)

theorem virtio_blk_read_request_witness:
  "\<exists>s'. virtio_blk_queue_notify ex_disk_env 5 0 ex_blk_host = Some (0, s') \<and> SYS_pread 4 1 0 \<in> set (history s')
     \<and> load s' (Ptr 3 0x400) 1 = Some [0] \<and> load s' (Ptr 3 0x100) 1 = Some [0xAB]"
proof -
  have q: "vd_queues ex_blk_dev ! 0 = ex_queue" by (simp add: ex_blk_dev_def)
  have h: "vdevs ex_blk_host 5 = Some ex_blk_dev" "devs ex_blk_host 5 = Some (zero_device\<lparr>d_vm := 2, d_irq_fd := 9\<rparr>)"
    "blks ex_blk_host (vd_priv ex_blk_dev) = Some (blk_config_init 4 1024)"
    "vms ex_blk_host (d_vm (zero_device\<lparr>d_vm := 2, d_irq_fd := 9\<rparr>)) = Some ex_vm"
    "devs ex_blk_host (q_dev (vd_queues ex_blk_dev ! 0)) \<noteq> None"
    by (simp_all add: ex_blk_host_def ex_queue_host_def ex_blk_dev_def ex_vm_mem_def) (simp add: ex_queue_def)
  have l: "load ex_blk_host (Ptr 3 0x100) (unat (desc_len ex_d2)) \<noteq> None" "load ex_blk_host (Ptr 3 0x400) 1 \<noteq> None"
    by (simp_all add: ex_blk_mem ex_d2_def)
  have sep: "separate (q_used ex_queue) (used_bytes ex_queue) (Ptr 3 x) n" for x n by (simp add: ex_queue_def)
  note req = virtio_blk_read_request [OF h(1-4) _ h(5), unfolded q, OF ex_blk_sound ex_blk_pending ex_blk_chain ex_blk_header
      ex_blk_hvas(2) [symmetric] ex_blk_hvas(3) [symmetric] l refl refl refl sep sep]
  from req [of ex_disk_env] show ?thesis
    by (simp add: ex_disk_env_def ex_d2_def blk_config_init_def zero_blk_def VIRTIO_BLK_S_OK_def del: load.simps)
qed

text \<open>
  The guest sees the capacity of its disk: the two halves it reads at offsets 0x100 and 0x104
  of the register page are those of the image size divided by 512.
\<close>

theorem virtio_blk_capacity:
  assumes "vdevs s r = Some vd" and "vd_config_read vd = Some Drv_blk"
    and "blks s (vd_priv vd) = Some (blk_config_init fd disk_size)"
    and "cb_config_read cbs Drv_blk = virtio_blk_config_read" and "length data = 8"
  shows "\<exists>lo hi. virtio_mmio_read cbs r 0x100 data 4 s = Some (0, le_bytes 4 lo @ drop 4 data, s)
     \<and> virtio_mmio_read cbs r 0x104 data 4 s = Some (0, le_bytes 4 hi @ drop 4 data, s)
     \<and> push_bit 32 (ucast (hi :: u32)) + ucast (lo :: u32) = disk_size div 512"
proof (intro exI conjI)
  let ?c = "disk_size div 512"
  show "virtio_mmio_read cbs r 0x100 data 4 s = Some (0, le_bytes 4 (ucast (?c AND 0xFFFFFFFF) :: u32) @ drop 4 data, s)"
    "virtio_mmio_read cbs r 0x104 data 4 s = Some (0, le_bytes 4 (ucast (drop_bit 32 ?c AND 0xFFFFFFFF) :: u32) @ drop 4 data, s)"
    using assms by (simp_all add: virtio_mmio_read_def virtio_blk_config_read_def blk_config_init_def put_buf_def splice_def)
  have m: "(0xFFFFFFFF :: u64) = mask 32" by (simp add: mask_eq_exp_minus_1)
  have "push_bit 32 (ucast (ucast (drop_bit 32 ?c AND mask 32) :: u32)) OR ucast (ucast (?c AND mask 32) :: u32) = ?c"
    by (rule bit_word_eqI) (auto simp: bit_or_iff bit_push_bit_iff bit_ucast_iff bit_and_iff bit_mask_iff bit_drop_bit_eq)
  moreover have "push_bit 32 (ucast (ucast (drop_bit 32 ?c AND mask 32) :: u32)) AND ucast (ucast (?c AND mask 32) :: u32) = (0 :: u64)"
    by (rule bit_word_eqI) (auto simp: bit_push_bit_iff bit_ucast_iff bit_and_iff)
  ultimately show "push_bit 32 (ucast (ucast (drop_bit 32 ?c AND 0xFFFFFFFF) :: u32)) + ucast (ucast (?c AND 0xFFFFFFFF) :: u32) = ?c"
    unfolding m by (simp add: disjunctive_add_eq_or)
qed

definition ex_blk_cbs :: virtio_cbs where
  "ex_blk_cbs = \<lparr>cb_queue_notify = (\<lambda>_. virtio_blk_queue_notify ok_env), cb_config_read = (\<lambda>_. virtio_blk_config_read),
     cb_config_write = (\<lambda>_ _ _ _ _ s. Some (0, s))\<rparr>"

theorem virtio_blk_capacity_witness:
  "\<exists>lo hi. virtio_mmio_read ex_blk_cbs 5 0x100 (replicate 8 0) 4 (ex_blk_host\<lparr>vdevs := [5 \<mapsto> ex_blk_dev\<lparr>vd_config_read := Some Drv_blk\<rparr>]\<rparr>)
       = Some (0, le_bytes 4 lo @ drop 4 (replicate 8 0), ex_blk_host\<lparr>vdevs := [5 \<mapsto> ex_blk_dev\<lparr>vd_config_read := Some Drv_blk\<rparr>]\<rparr>)
     \<and> virtio_mmio_read ex_blk_cbs 5 0x104 (replicate 8 0) 4 (ex_blk_host\<lparr>vdevs := [5 \<mapsto> ex_blk_dev\<lparr>vd_config_read := Some Drv_blk\<rparr>]\<rparr>)
       = Some (0, le_bytes 4 hi @ drop 4 (replicate 8 0), ex_blk_host\<lparr>vdevs := [5 \<mapsto> ex_blk_dev\<lparr>vd_config_read := Some Drv_blk\<rparr>]\<rparr>)
     \<and> push_bit 32 (ucast (hi :: u32)) + ucast (lo :: u32) = (1024 :: u64) div 512"
  by (rule virtio_blk_capacity [where vd = "ex_blk_dev\<lparr>vd_config_read := Some Drv_blk\<rparr>" and fd = 4])
    (simp_all add: ex_blk_host_def ex_blk_dev_def ex_blk_cbs_def)

end
