(* ===== verification/Virtio_Net.thy ===== *)
theory Virtio_Net
  imports Virtio_Blk
begin

text \<open>
  The virtio network device, \<^verbatim>\<open>src/devices/virtio-net.c\<close>, over a TAP interface. Queue 0 receives
  and queue 1 transmits; each notification handles one packet, a header descriptor followed by a
  data descriptor.
\<close>

section \<open>The TAP interface\<close>

definition IFNAMSIZ :: nat where "IFNAMSIZ = 16"

text \<open>The interface name is cut to fifteen characters; the request carries its bytes and the flags.\<close>

definition open_tap :: "env \<Rightarrow> string option \<Rightarrow> host \<Rightarrow> int \<times> host" where
  "open_tap E ifname s =
     (let (a, s1) = syscall E (SYS_open ''/dev/net/tun'' ''O_RDWR'') s in
      if a_ret a < 0 then (-1, s1)
      else
        let name = (case ifname of None \<Rightarrow> [] | Some n \<Rightarrow> take (IFNAMSIZ - 1) n);
            (b, s2) = syscall E (SYS_ioctl (a_ret a) ''TUNSETIFF'' ((case os_of E of Linux \<Rightarrow> 0x1002 | MacOS \<Rightarrow> 0x1001) # map of_char name)) s1 in
        if a_ret b < 0 then (-1, snd (syscall E (SYS_close (a_ret a)) s2))
        else (a_ret a, s2))"

section \<open>Configuration space\<close>

definition virtio_net_config_read :: "ref \<Rightarrow> u64 \<Rightarrow> u8 list \<Rightarrow> u64 \<Rightarrow> host \<Rightarrow> (int \<times> u8 list \<times> host) option" where
  "virtio_net_config_read r off data sz s =
     do {
       vd \<leftarrow> vdevs s r;
       n \<leftarrow> nets s (vd_priv vd);
       data' \<leftarrow>
         (if off = 0x00 then (if sz \<le> 6 then put_buf data 0 (take (unat sz) (net_mac n)) else Some data)
          else if off = 0x06 then put_buf data 0 (le_bytes 2 (net_status n))
          else if off = 0x08 then put_buf data 0 (le_bytes 2 (net_max_virtqueue_pairs n))
          else put_buf data 0 (replicate (unat sz) 0));
       Some (0, data', s) }"

definition virtio_net_config_write :: "ref \<Rightarrow> u64 \<Rightarrow> u8 list \<Rightarrow> u64 \<Rightarrow> host \<Rightarrow> (int \<times> host) option" where
  "virtio_net_config_write r off data sz s =
     do {
       vd \<leftarrow> vdevs s r;
       n \<leftarrow> nets s (vd_priv vd);
       if off = 0x00 then
         (if sz \<le> 6
          then (if length data < unat sz then None
                else do { mac \<leftarrow> put_buf (net_mac n) 0 (take (unat sz) data);
                          Some (0, s\<lparr>nets := (nets s)(vd_priv vd \<mapsto> n\<lparr>net_mac := mac\<rparr>)\<rparr>) })
          else Some (0, s))
       else if off = 0x06 then
         (if length data < 2 then None
          else Some (0, s\<lparr>nets := (nets s)(vd_priv vd \<mapsto> n\<lparr>net_status := le_word (take 2 data)\<rparr>)\<rparr>))
       else Some (0, s) }"

section \<open>Packets\<close>

text \<open>
  The two handlers share the walk of the chain: the header, cleared on the receive path, then
  the data descriptor. \<open>Some None\<close> is an error return. The size of the header structure is 10.
\<close>

definition net_chain :: "bool \<Rightarrow> ref \<Rightarrow> virtqueue \<Rightarrow> ptr \<Rightarrow> host \<Rightarrow> ((ptr \<times> u32) option \<times> host) option" where
  "net_chain clear vm vq p s =
     do {
       d0 \<leftarrow> read_desc s p;
       v \<leftarrow> vms s vm;
       let hdr = vm_gpa_to_hva v (desc_addr d0) 10;
       if hdr = NULL then Some (None, s)
       else do {
         s1 \<leftarrow> (if clear then store hdr (replicate 10 0) s else Some s);
         d0' \<leftarrow> read_desc s1 p;
         if desc_flags d0' AND VRING_DESC_F_NEXT = 0 then Some (None, s1)
         else do {
           d1 \<leftarrow> read_desc s1 (desc_at vq (desc_next d0'));
           let data = vm_gpa_to_hva v (desc_addr d1) (ucast (desc_len d1));
           if data = NULL then Some (None, s1) else Some (Some (data, desc_len d1), s1) } } }"

definition virtio_net_handle_rx :: "env \<Rightarrow> ref \<Rightarrow> nat \<Rightarrow> host \<Rightarrow> (int \<times> host) option" where
  "virtio_net_handle_rx E r q s =
     do {
       vd \<leftarrow> vdevs s r;
       d \<leftarrow> devs s r;
       (p, vq) \<leftarrow> virtqueue_pop (vd_queues vd ! q) s;
       if p = NULL then do { s' \<leftarrow> put_vq r q vq s; Some (0, s') }
       else do {
         (c, s1) \<leftarrow> net_chain True (d_vm d) vq p s;
         case c of
           None \<Rightarrow> do { s' \<leftarrow> put_vq r q vq s1; Some (-1, s') }
         | Some (data, len) \<Rightarrow>
             do {
               n \<leftarrow> nets s1 (vd_priv vd);
               let (a, s2) = syscall E (SYS_read (net_tap_fd n) (unat len)) s1;
               if a_ret a < 0 then do { s' \<leftarrow> put_vq r q vq s2; Some (-1, s') }
               else do {
                 s3 \<leftarrow> store data (take (unat len) (take (nat (a_ret a)) (a_bytes a))) s2;
                 (vq', s4) \<leftarrow> virtqueue_push E vq 0 (of_int (10 + a_ret a)) s3;
                 s5 \<leftarrow> put_vq r q vq' s4;
                 Some (0, s5) } } } }"

definition virtio_net_handle_tx :: "env \<Rightarrow> ref \<Rightarrow> nat \<Rightarrow> host \<Rightarrow> (int \<times> host) option" where
  "virtio_net_handle_tx E r q s =
     do {
       vd \<leftarrow> vdevs s r;
       d \<leftarrow> devs s r;
       (p, vq) \<leftarrow> virtqueue_pop (vd_queues vd ! q) s;
       if p = NULL then do { s' \<leftarrow> put_vq r q vq s; Some (0, s') }
       else do {
         (c, s1) \<leftarrow> net_chain False (d_vm d) vq p s;
         case c of
           None \<Rightarrow> do { s' \<leftarrow> put_vq r q vq s1; Some (-1, s') }
         | Some (data, len) \<Rightarrow>
             do {
               n \<leftarrow> nets s1 (vd_priv vd);
               bs \<leftarrow> load s1 data (unat len);
               let (a, s2) = syscall E (SYS_write (net_tap_fd n) bs) s1;
               if a_ret a < 0 then do { s' \<leftarrow> put_vq r q vq s2; Some (-1, s') }
               else do {
                 (vq', s3) \<leftarrow> virtqueue_push E vq 0 0 s2;
                 s4 \<leftarrow> put_vq r q vq' s3;
                 Some (0, s4) } } } }"

definition virtio_net_queue_notify :: "env \<Rightarrow> ref \<Rightarrow> nat \<Rightarrow> host \<Rightarrow> (int \<times> host) option" where
  "virtio_net_queue_notify E r q s =
     do {
       vd \<leftarrow> vdevs s r;
       if q_index (vd_queues vd ! q) = 0 then virtio_net_handle_rx E r q s
       else if q_index (vd_queues vd ! q) = 1 then virtio_net_handle_tx E r q s
       else Some (0, s) }"

section \<open>Device operations\<close>

definition virtio_net_read :: "virtio_cbs \<Rightarrow> ref \<Rightarrow> u64 \<Rightarrow> u8 list \<Rightarrow> u64 \<Rightarrow> host \<Rightarrow> (int \<times> u8 list \<times> host) option" where
  "virtio_net_read cbs dev off data sz s = virtio_mmio_read cbs dev off data sz s"

definition virtio_net_write :: "env \<Rightarrow> virtio_cbs \<Rightarrow> ref \<Rightarrow> u64 \<Rightarrow> u8 list \<Rightarrow> u64 \<Rightarrow> host \<Rightarrow> (int \<times> host) option" where
  "virtio_net_write E cbs dev off data sz s = virtio_mmio_write E cbs dev off data sz s"

definition virtio_net_destroy :: "env \<Rightarrow> ref \<Rightarrow> host \<Rightarrow> host option" where
  "virtio_net_destroy E dev s =
     do {
       vd \<leftarrow> vdevs s dev;
       s1 \<leftarrow> (if vd_priv vd = 0 then Some s
              else do { n \<leftarrow> nets s (vd_priv vd);
                        Some (if net_tap_fd n \<ge> 0 then snd (syscall E (SYS_close (net_tap_fd n)) s) else s) });
       s2 \<leftarrow> virtio_cleanup dev s1;
       s3 \<leftarrow> free_obj (vd_priv vd) s2;
       free_obj dev s3 }"

definition virtio_net_ops :: "env \<Rightarrow> virtio_cbs \<Rightarrow> device_ops" where
  "virtio_net_ops E cbs = \<lparr>do_name = ''virtio-net'', do_read = Some (virtio_net_read cbs),
     do_write = Some (virtio_net_write E cbs), do_destroy = Some (virtio_net_destroy E)\<rparr>"

section \<open>Creation\<close>

definition VIRTIO_NET_GPA :: u64 where "VIRTIO_NET_GPA = 0xa002000"
definition VIRTIO_NET_SIZE :: u64 where "VIRTIO_NET_SIZE = 0x1000"

definition zero_net :: virtio_net_state where
  "zero_net = \<lparr>net_mac = replicate 6 0, net_status = 0, net_max_virtqueue_pairs = 0, net_tap_fd = 0\<rparr>"

definition net_config_init :: "int \<Rightarrow> virtio_net_state" where
  "net_config_init fd = \<lparr>net_mac = [0x02, 0, 0, 0, 0, 0x01], net_status = 0x01, net_max_virtqueue_pairs = 1, net_tap_fd = fd\<rparr>"

definition virtio_net_create :: "env \<Rightarrow> string option \<Rightarrow> host \<Rightarrow> (ref \<times> host) option" where
  "virtio_net_create E tap_name s =
     (let (vdev, s1) = alloc E s in
      if vdev = 0 then Some (0, s1)
      else
        let (p, s2) = alloc E (set_dev vdev zero_device (set_vdev vdev zero_virtio_dev s1)) in
        if p = 0 then do { s3 \<leftarrow> free_obj vdev s2; Some (0, s3) }
        else
          let (fd, s3) = open_tap E tap_name (s2\<lparr>nets := (nets s2)(p \<mapsto> zero_net)\<rparr>) in
          if fd < 0 then free_two p vdev s3
          else do {
            let s4 = snd (syscall E (SYS_fcntl fd ''F_SETFL O_NONBLOCK'') (snd (syscall E (SYS_fcntl fd ''F_GETFL'') s3)));
            (ret, s5) \<leftarrow> virtio_init E vdev VIRTIO_ID_NET (s4\<lparr>nets := (nets s4)(p \<mapsto> net_config_init fd)\<rparr>);
            vd \<leftarrow> vdevs s5 vdev;
            let s6 = set_vdev vdev (vd\<lparr>vd_priv := p, vd_config_read := Some Drv_net,
                       vd_config_write := Some Drv_net, vd_queue_notify := Some Drv_net\<rparr>) s5;
            let (nm, s7) = strdup E ''virtio-net'' s6;
            d \<leftarrow> devs s7 vdev;
            Some (vdev, set_dev vdev (virtio_device_fields Virtio_net_ops nm vdev VIRTIO_NET_GPA VIRTIO_NET_SIZE d) s7) })"

section \<open>Properties\<close>

lemma net_chain_tx:
  assumes "read_desc s (desc_at vq i) = Some d0" and "desc_flags d0 AND VRING_DESC_F_NEXT \<noteq> 0"
    and "read_desc s (desc_at vq (desc_next d0)) = Some d1" and "vms s vm = Some v"
    and "vm_gpa_to_hva v (desc_addr d0) 10 \<noteq> NULL" and "vm_gpa_to_hva v (desc_addr d1) (ucast (desc_len d1)) \<noteq> NULL"
  shows "net_chain False vm vq (desc_at vq i) s = Some (Some (vm_gpa_to_hva v (desc_addr d1) (ucast (desc_len d1)), desc_len d1), s)"
  using assms by (simp add: net_chain_def)

text \<open>
  Transmission sends the guest's packet. For a pending chain of a header and a data
  descriptor on queue 1 the handler writes exactly the bytes of the data buffer to the TAP device
  in one call, and returns 0, or -1 when that call failed.
\<close>

theorem virtio_net_transmits:
  assumes "vdevs s r = Some vd" and "devs s r = Some d" and "nets s (vd_priv vd) = Some n" and "vms s (d_vm d) = Some v"
    and "q_index (vd_queues vd ! q) = 1"
    and "vq_sound s (vd_queues vd ! q)" and "devs s (q_dev (vd_queues vd ! q)) \<noteq> None"
    and "pending s (vd_queues vd ! q) = i # is"
    and "read_desc s (desc_at (vd_queues vd ! q) i) = Some d0" and "desc_flags d0 AND VRING_DESC_F_NEXT \<noteq> 0"
    and "read_desc s (desc_at (vd_queues vd ! q) (desc_next d0)) = Some d1"
    and "vm_gpa_to_hva v (desc_addr d0) 10 \<noteq> NULL" and "vm_gpa_to_hva v (desc_addr d1) (ucast (desc_len d1)) \<noteq> NULL"
    and "load s (vm_gpa_to_hva v (desc_addr d1) (ucast (desc_len d1))) (unat (desc_len d1)) = Some bs"
  shows "\<exists>s'. virtio_net_queue_notify E r q s =
       Some (if a_ret (answer_of E (history s) (SYS_write (net_tap_fd n) bs)) < 0 then -1 else 0, s')
     \<and> SYS_write (net_tap_fd n) bs \<in> set (history s')"
proof -
  let ?vq = "vd_queues vd ! q" and ?vq1 = "(vd_queues vd ! q)\<lparr>q_last_avail_idx := q_last_avail_idx (vd_queues vd ! q) + 1\<rparr>"
  let ?c = "SYS_write (net_tap_fd n) bs"
  have eqs: "desc_at ?vq1 = desc_at ?vq" "q_dev ?vq1 = q_dev ?vq" by (simp_all add: desc_at_def [abs_def])
  have pop: "virtqueue_pop ?vq s = Some (desc_at ?vq1 i, ?vq1)"
    using virtqueue_pop_pending(2) [OF assms(6,8)] eqs by auto
  have nn: "desc_at ?vq1 i \<noteq> NULL" using vq_soundD(9) [OF assms(6)] eqs by simp
  have ch: "net_chain False (d_vm d) ?vq1 (desc_at ?vq1 i) s
      = Some (Some (vm_gpa_to_hva v (desc_addr d1) (ucast (desc_len d1)), desc_len d1), s)"
    by (rule net_chain_tx) (use assms(4,9-13) eqs in simp_all)
  obtain a s2 where sys: "syscall E ?c s = (a, s2)" by fastforce
  note io = syscall_io_only [OF sys] and hist = syscall_parts(1,2,6) [OF sys]
  have snd: "vq_sound s2 ?vq1" using assms(6) vq_sound_frame [OF io_only_frame [OF io]] by (simp add: vq_sound_advance)
  then obtain u where u: "used_idx s2 ?vq1 = Some u" using vq_soundD(3) by blast
  have "devs s2 (q_dev ?vq1) \<noteq> None" using assms(7) io_only_heaps(1) [OF io] by simp
  from virtqueue_push_ok [OF snd u this, of E 0 0] obtain vq' s3 where push: "virtqueue_push E ?vq1 0 0 s2 = Some (vq', s3)"
    by blast
  have "\<exists>s'. virtio_net_handle_tx E r q s = Some (if a_ret a < 0 then -1 else 0, s') \<and> ?c \<in> set (history s')"
    using assms(1-3,14) pop nn ch sys push hist push_vdevs [OF push] push_history [OF push]
    by (cases "a_ret a < 0") (auto simp: virtio_net_handle_tx_def put_vq_def)
  then show ?thesis using assms(1,5) hist(1) by (simp add: virtio_net_queue_notify_def)
qed

definition ex_net_host :: host where
  "ex_net_host = ex_blk_host\<lparr>vdevs := (\<lambda>_. None)(5 \<mapsto> ex_blk_dev\<lparr>vd_queues := (replicate 8 zero_virtqueue)[1 := ex_queue\<lparr>q_index := 1\<rparr>]\<rparr>),
     nets := (\<lambda>_. None)(6 \<mapsto> net_config_init 11)\<rparr>"

theorem virtio_net_transmits_witness:
  "\<exists>s'. virtio_net_queue_notify ok_env 5 1 ex_net_host = Some (0, s') \<and> SYS_write 11 (replicate 512 0) \<in> set (history s')"
proof -
  let ?vd = "ex_blk_dev\<lparr>vd_queues := (replicate 8 zero_virtqueue)[1 := ex_queue\<lparr>q_index := 1\<rparr>]\<rparr>"
  let ?vq = "ex_queue\<lparr>q_index := 1\<rparr>"
  have q: "vd_queues ?vd ! 1 = ?vq" by simp
  have m: "mem ex_net_host = mem ex_blk_host" by (simp add: ex_net_host_def)
  note ld = load_mem_cong [OF m]
  have sound: "vq_sound ex_net_host ?vq"
    using ex_blk_sound by (simp add: vq_sound_def ex_queue_def avail_bytes_def used_bytes_def m)
  have pend: "pending ex_net_host ?vq = [0]"
    using ex_blk_pending by (simp add: pending_def avail_idx_def avail_ring_def load_word_def ld)
  have at: "desc_at ?vq 0 = Ptr 7 0" "desc_at ?vq (desc_next ex_d0) = Ptr 7 16"
    by (simp_all add: desc_at_def ex_queue_def ex_d0_def)
  have "read_desc ex_net_host p = read_desc ex_blk_host p" for p by (simp add: read_desc_def load_word_def ld)
  then have rd: "read_desc ex_net_host (desc_at ?vq 0) = Some ex_d0" "read_desc ex_net_host (desc_at ?vq (desc_next ex_d0)) = Some ex_d1"
    using ex_blk_descs at by simp_all
  have hva: "vm_gpa_to_hva ex_vm (desc_addr ex_d0) 10 \<noteq> NULL" "vm_gpa_to_hva ex_vm (desc_addr ex_d1) (ucast (desc_len ex_d1)) \<noteq> NULL"
    "load ex_net_host (vm_gpa_to_hva ex_vm (desc_addr ex_d1) (ucast (desc_len ex_d1))) (unat (desc_len ex_d1)) = Some (replicate 512 0)"
    unfolding ex_blk_hvas by (simp_all add: m ex_blk_mem ex_d0_def ex_d1_def ex_vm_translate_page subrange_def)
  have h: "vdevs ex_net_host 5 = Some ?vd" "devs ex_net_host 5 = Some (zero_device\<lparr>d_vm := 2, d_irq_fd := 9\<rparr>)"
    "nets ex_net_host (vd_priv ?vd) = Some (net_config_init 11)"
    "vms ex_net_host (d_vm (zero_device\<lparr>d_vm := 2, d_irq_fd := 9\<rparr>)) = Some ex_vm" "q_index ?vq = 1"
    "devs ex_net_host (q_dev ?vq) \<noteq> None" "desc_flags ex_d0 AND VRING_DESC_F_NEXT \<noteq> 0"
    by (simp_all add: ex_net_host_def ex_blk_host_def ex_queue_host_def ex_blk_dev_def ex_vm_mem_def ex_queue_def ex_d0_def
        VRING_DESC_F_NEXT_def)
  from virtio_net_transmits [OF h(1-4), of 1, unfolded q, OF h(5) sound h(6) pend rd(1) h(7) rd(2) hva, of ok_env]
  show ?thesis by (simp add: ok_env_def answer_ok_def net_config_init_def)
qed

end
