(* ===== verification/Ctext.thy ===== *)
theory Ctext
  imports Prelude
begin

text \<open>
  The conversions between text and numbers of the C library that the program uses: the number
  formats of \<open>scanf\<close>, \<open>atoi\<close>, \<open>strtoull\<close> with base 16, and the number formats of \<open>printf\<close>. A
  string is a list of characters without the final zero. A conversion whose result does not fit
  its type is undefined in C, except in \<open>strtoull\<close>, and is \<^const>\<open>None\<close> here. The locale
  \<open>number_format\<close> states when reading undoes printing; it is interpreted for both bases.
\<close>

section \<open>Digits\<close>

definition is_space :: "char \<Rightarrow> bool" where
  "is_space c \<longleftrightarrow> of_char c \<in> {9, 10, 11, 12, 13, 32 :: nat}"

definition digit_value :: "nat \<Rightarrow> char \<Rightarrow> nat option" where
  "digit_value base c =
     (let n = (of_char c :: nat);
          d = (if 48 \<le> n \<and> n \<le> 57 then n - 48
               else if 97 \<le> n \<and> n \<le> 102 then n - 87
               else if 65 \<le> n \<and> n \<le> 70 then n - 55 else 16)
      in if d < base \<and> d < 16 then Some d else None)"

text \<open>The longest run of digits: the value with \<open>acc\<close> in front, and the rest.\<close>

fun digits_from :: "nat \<Rightarrow> nat \<Rightarrow> string \<Rightarrow> nat \<times> string" where
  "digits_from base acc [] = (acc, [])"
| "digits_from base acc (c # cs) =
     (case digit_value base c of None \<Rightarrow> (acc, c # cs) | Some d \<Rightarrow> digits_from base (acc * base + d) cs)"

definition read_nat :: "nat \<Rightarrow> string \<Rightarrow> (nat \<times> string) option" where
  "read_nat base cs =
     (case cs of [] \<Rightarrow> None
      | c # _ \<Rightarrow> if digit_value base c = None then None else Some (digits_from base 0 cs))"

text \<open>An optional sign.\<close>

fun read_sign :: "string \<Rightarrow> bool \<times> string" where
  "read_sign [] = (False, [])"
| "read_sign (c # cs) = (if c = CHR ''-'' then (True, cs) else if c = CHR ''+'' then (False, cs) else (False, c # cs))"

text \<open>
  The prefix of a hexadecimal number. In \<open>scanf\<close> it belongs to the number even when no digit
  follows, and the conversion then fails.
\<close>

fun read_prefix :: "string \<Rightarrow> string" where
  "read_prefix (c # x # cs) =
     (if c = CHR ''0'' \<and> (x = CHR ''x'' \<or> x = CHR ''X'') then cs else c # x # cs)"
| "read_prefix cs = cs"

definition scan_int :: "nat \<Rightarrow> string \<Rightarrow> (int \<times> string) option" where
  "scan_int base str =
     (let (neg, cs) = read_sign (dropWhile is_space str);
          ds = (if base = 16 then read_prefix cs else cs) in
      case read_nat base ds of None \<Rightarrow> None
      | Some (n, rest) \<Rightarrow> Some (if neg then - int n else int n, rest))"

section \<open>Conversions\<close>

definition fits_int :: "int \<Rightarrow> bool" where
  "fits_int i \<longleftrightarrow> - (2 ^ 31) \<le> i \<and> i < 2 ^ 31"

definition atoi :: "string \<Rightarrow> int option" where
  "atoi str =
     (case scan_int 10 str of None \<Rightarrow> Some 0 | Some (i, rest) \<Rightarrow> if fits_int i then Some i else None)"

text \<open>
  \<open>strtoull\<close> with base 16: without digits 0, beyond the range the largest value, a minus sign
  negates in the unsigned type.
\<close>

definition strtoull16 :: "string \<Rightarrow> u64" where
  "strtoull16 str =
     (case scan_int 16 str of None \<Rightarrow> 0
      | Some (i, rest) \<Rightarrow> if \<bar>i\<bar> < 2 ^ 64 then of_int i else - 1)"

section \<open>Printing\<close>

definition digit_char :: "nat \<Rightarrow> char" where
  "digit_char d = char_of (if d < 10 then d + 48 else d + 87)"

fun show_nat :: "nat \<Rightarrow> nat \<Rightarrow> string" where
  "show_nat base n =
     (if base < 2 \<or> n < base then [digit_char n]
      else show_nat base (n div base) @ [digit_char (n mod base)])"

declare show_nat.simps [simp del]

definition pad_zero :: "nat \<Rightarrow> string \<Rightarrow> string" where
  "pad_zero w str = replicate (w - length str) (CHR ''0'') @ str"

text \<open>\<open>%d\<close>, and \<open>%0wx\<close>, which prints the bits of the \<open>int\<close> as an unsigned number.\<close>

definition show_int :: "int \<Rightarrow> string" where
  "show_int i = (if i < 0 then CHR ''-'' # show_nat 10 (nat (- i)) else show_nat 10 (nat i))"

definition show_hex :: "nat \<Rightarrow> int \<Rightarrow> string" where
  "show_hex w i = pad_zero w (show_nat 16 (nat (i mod 2 ^ 32)))"

section \<open>Reading undoes printing\<close>

lemma digit_char_zero: "digit_char 0 = CHR ''0''"
  by (simp add: digit_char_def char_of_eq_iff)

lemma digit_value_char: "d < base \<Longrightarrow> base \<le> 16 \<Longrightarrow> digit_value base (digit_char d) = Some d"
  by (simp add: digit_value_def digit_char_def)

lemma digit_no_sign:
  "is_space c \<Longrightarrow> digit_value base c = None" "digit_value base (CHR ''-'') = None" "digit_value base (CHR ''+'') = None"
  "digit_value base (CHR ''x'') = None" "digit_value base (CHR ''X'') = None"
  "digit_value base (CHR '':'') = None" "digit_value base (CHR ''.'') = None"
  by (auto simp: digit_value_def is_space_def)

locale number_format =
  fixes base :: nat
  assumes base_range: "2 \<le> base" "base \<le> 16"
    and digit_char_value: "d < base \<Longrightarrow> digit_value base (digit_char d) = Some d"
begin

lemma zero_digit: "digit_value base (CHR ''0'') = Some 0"
  using base_range digit_char_value [of 0] by (simp add: digit_char_zero)

lemma digits_show:
  "digits_from base acc (show_nat base n @ rest) = digits_from base (acc * base ^ length (show_nat base n) + n) rest"
proof (induction n arbitrary: acc rest rule: less_induct)
  case (less n)
  show ?case
  proof (cases "n < base")
    case True
    then show ?thesis
      by (subst (1 2) show_nat.simps) (simp add: digit_char_value)
  next
    case False
    then have "0 < base" "n div base < n" "n mod base < base"
      using base_range by (auto simp: div_less_dividend)
    moreover have s: "show_nat base n = show_nat base (n div base) @ [digit_char (n mod base)]"
      using False base_range by (subst show_nat.simps) simp
    moreover have "(acc * base ^ k + n div base) * base + n mod base = acc * base ^ Suc k + n" for k
      by (simp add: algebra_simps)
    ultimately show ?thesis
      using less.IH [of "n div base"] by (simp add: digit_char_value)
  qed
qed

lemma digits_zeros: "digits_from base 0 (replicate k (CHR ''0'') @ rest) = digits_from base 0 rest"
  by (induction k) (simp_all add: zero_digit)

lemma digits_stop:
  "rest = [] \<or> digit_value base (hd rest) = None \<Longrightarrow> digits_from base acc rest = (acc, rest)"
  by (cases rest) auto

lemma show_nat_hd: "\<exists>d. d < base \<and> hd (show_nat base n) = digit_char d \<and> show_nat base n \<noteq> []"
proof (induction n rule: less_induct)
  case (less n)
  show ?case
  proof (cases "n < base")
    case True
    then show ?thesis by (subst (1 2) show_nat.simps) auto
  next
    case False
    then have "n div base < n" using base_range by (auto simp: div_less_dividend)
    moreover have "show_nat base n = show_nat base (n div base) @ [digit_char (n mod base)]"
      using False base_range by (subst show_nat.simps) simp
    ultimately show ?thesis
      using less [of "n div base"] by auto
  qed
qed

lemma pad_hd: "\<exists>d. d < base \<and> hd (pad_zero w (show_nat base n)) = digit_char d \<and> pad_zero w (show_nat base n) \<noteq> []"
proof (cases "w - length (show_nat base n)")
  case 0
  then show ?thesis using show_nat_hd [of n] by (simp add: pad_zero_def)
next
  case (Suc k)
  have "hd (pad_zero w (show_nat base n)) = digit_char 0"
    unfolding pad_zero_def Suc by (simp add: digit_char_zero)
  moreover have "pad_zero w (show_nat base n) \<noteq> []" unfolding pad_zero_def Suc by simp
  moreover have "0 < base" using base_range by simp
  ultimately show ?thesis by blast
qed

lemma read_show:
  assumes "rest = [] \<or> digit_value base (hd rest) = None"
  shows "read_nat base (pad_zero w (show_nat base n) @ rest) = Some (n, rest)"
proof -
  obtain d c cs where d: "d < base" "c = digit_char d" "pad_zero w (show_nat base n) = c # cs"
    using pad_hd [of w n] by (cases "pad_zero w (show_nat base n)") auto
  have "digits_from base 0 (pad_zero w (show_nat base n) @ rest) = (n, rest)"
    using digits_stop [OF assms] by (simp add: pad_zero_def digits_zeros digits_show)
  then show ?thesis
    using d digit_char_value [of d] by (simp add: read_nat_def)
qed

lemma show_nat_digits: "c \<in> set (show_nat base n) \<Longrightarrow> digit_value base c \<noteq> None"
proof (induction n rule: less_induct)
  case (less n)
  show ?case
  proof (cases "n < base")
    case True
    with less.prems show ?thesis by (subst (asm) show_nat.simps) (auto simp: digit_char_value)
  next
    case False
    then have "n div base < n" "n mod base < base" using base_range by (auto simp: div_less_dividend)
    moreover have "show_nat base n = show_nat base (n div base) @ [digit_char (n mod base)]"
      using False base_range by (subst show_nat.simps) simp
    ultimately show ?thesis using less by (auto simp: digit_char_value)
  qed
qed

lemma pad_digits: "c \<in> set (pad_zero w (show_nat base n)) \<Longrightarrow> digit_value base c \<noteq> None"
  using show_nat_digits zero_digit by (auto simp: pad_zero_def)

lemma show_nat_plain:
  "dropWhile is_space (pad_zero w (show_nat base n) @ rest) = pad_zero w (show_nat base n) @ rest"
  "read_sign (pad_zero w (show_nat base n) @ rest) = (False, pad_zero w (show_nat base n) @ rest)"
proof -
  obtain c cs where c: "pad_zero w (show_nat base n) = c # cs"
    using pad_hd [of w n] by (cases "pad_zero w (show_nat base n)") auto
  then have "digit_value base c \<noteq> None" using pad_digits [of c w n] by simp
  then have "\<not> is_space c" "c \<noteq> CHR ''-''" "c \<noteq> CHR ''+''" by (auto simp: digit_no_sign)
  with c show "dropWhile is_space (pad_zero w (show_nat base n) @ rest) = pad_zero w (show_nat base n) @ rest"
    "read_sign (pad_zero w (show_nat base n) @ rest) = (False, pad_zero w (show_nat base n) @ rest)"
    by auto
qed

end

interpretation dec: number_format 10
proof
  fix d :: nat
  assume "d < 10"
  then show "digit_value 10 (digit_char d) = Some d" by (simp add: digit_value_char)
qed simp_all

interpretation hex: number_format 16
proof
  fix d :: nat
  assume "d < 16"
  then show "digit_value 16 (digit_char d) = Some d" by (simp add: digit_value_char)
qed simp_all

text \<open>What the formats of \<open>printf\<close> wrote, the formats of \<open>scanf\<close> read back.\<close>

lemma scan_show_hex:
  assumes "2 \<le> w" and "rest = [] \<or> digit_value 16 (hd rest) = None"
  shows "scan_int 16 (show_hex w i @ rest) = Some (i mod 2 ^ 32, rest)"
proof -
  let ?n = "nat (i mod 2 ^ 32)"
  have "2 \<le> length (pad_zero w (show_nat 16 ?n))" using assms(1) by (simp add: pad_zero_def)
  then obtain c x cs where c: "pad_zero w (show_nat 16 ?n) = c # x # cs"
    by (metis One_nat_def Suc_1 Suc_le_length_iff)
  then have "digit_value 16 x \<noteq> None" using hex.pad_digits [of x w ?n] by simp
  then have "read_prefix (pad_zero w (show_nat 16 ?n) @ rest) = pad_zero w (show_nat 16 ?n) @ rest"
    using c by (auto simp: digit_no_sign)
  then show ?thesis
    using hex.read_show [OF assms(2), of w ?n]
    by (simp add: scan_int_def show_hex_def hex.show_nat_plain)
qed

lemma pad_none: "pad_zero 0 str = str"
  by (simp add: pad_zero_def)

lemma scan_show_int:
  assumes "rest = [] \<or> digit_value 10 (hd rest) = None"
  shows "scan_int 10 (show_int i @ rest) = Some (i, rest)"
proof (cases "i < 0")
  case True
  then show ?thesis
    using dec.read_show [OF assms, of 0 "nat (- i)"]
    by (simp add: scan_int_def show_int_def pad_none is_space_def)
next
  case False
  then show ?thesis
    using dec.read_show [OF assms, of 0 "nat i"] dec.show_nat_plain [of 0 "nat i" rest]
    by (simp add: scan_int_def show_int_def pad_none)
qed

end
