(* ===== verification/Vfio.thy ===== *)
theory Vfio
  imports Devices Ctext
begin

text \<open>
  Device passthrough, \<^verbatim>\<open>src/vfio.c\<close> with the structures of \<^verbatim>\<open>include/vfio.h\<close>: the container, opening
  and closing a device, its regions, interrupts and configuration space, the handlers behind the
  device framework and the registration with a machine. The VFIO driver of the kernel is the
  environment: an ioctl passes the fields of its structure as words, in order, and the words of
  the answer are the fields the kernel wrote back.
\<close>

abbreviation set_vfio :: "ref \<Rightarrow> vfio_dev \<Rightarrow> host \<Rightarrow> host" where
  "set_vfio r vf s \<equiv> s\<lparr>vfios := (vfios s)(r \<mapsto> vf)\<rparr>"

text \<open>A field of a structure after a call: what the kernel wrote, or what was there.\<close>

definition out_word :: "answer \<Rightarrow> nat \<Rightarrow> u64 \<Rightarrow> u64" where
  "out_word a i old = (if i < length (a_words a) then a_words a ! i else old)"

section \<open>Container\<close>

definition VFIO_API_VERSION :: int where "VFIO_API_VERSION = 0"
definition VFIO_TYPE1_IOMMU :: u64 where "VFIO_TYPE1_IOMMU = 1"
definition VFIO_GROUP_FLAGS_VIABLE :: u32 where "VFIO_GROUP_FLAGS_VIABLE = 1"
definition VFIO_REGION_INFO_FLAG_MMAP :: u32 where "VFIO_REGION_INFO_FLAG_MMAP = 4"
definition VFIO_PCI_INTX_IRQ_INDEX :: u32 where "VFIO_PCI_INTX_IRQ_INDEX = 0"
definition VFIO_PCI_MSIX_IRQ_INDEX :: u32 where "VFIO_PCI_MSIX_IRQ_INDEX = 2"
definition VFIO_IRQ_SET_ACTION_TRIGGER :: u32 where "VFIO_IRQ_SET_ACTION_TRIGGER = 1"
definition VFIO_IRQ_SET_DATA_NONE :: u32 where "VFIO_IRQ_SET_DATA_NONE = 0"
definition VFIO_IRQ_SET_DATA_EVENTFD :: u32 where "VFIO_IRQ_SET_DATA_EVENTFD = 2"
definition PCI_VENDOR_ID :: u32 where "PCI_VENDOR_ID = 0"
definition PCI_DEVICE_ID :: u32 where "PCI_DEVICE_ID = 2"

definition vfio_container_create :: "env \<Rightarrow> host \<Rightarrow> ref \<times> host" where
  "vfio_container_create E s =
     (let (fd, s1) = syscall E (SYS_open ''/dev/vfio/vfio'' ''O_RDWR'') s in
      if a_ret fd < 0 then (0, s1)
      else
        let (ver, s2) = syscall E (SYS_ioctl (a_ret fd) ''VFIO_GET_API_VERSION'' [0]) s1 in
        if a_ret ver \<noteq> VFIO_API_VERSION then (0, snd (syscall E (SYS_close (a_ret fd)) s2))
        else
          let (ext, s3) = syscall E (SYS_ioctl (a_ret fd) ''VFIO_CHECK_EXTENSION'' [VFIO_TYPE1_IOMMU]) s2 in
          if a_ret ext = 0 then (0, snd (syscall E (SYS_close (a_ret fd)) s3))
          else
            let (c, s4) = alloc E s3 in
            if c = 0 then (0, snd (syscall E (SYS_close (a_ret fd)) s4))
            else (c, s4\<lparr>vconts := (vconts s4)(c \<mapsto> \<lparr>vc_fd = a_ret fd\<rparr>)\<rparr>))"

definition vfio_container_destroy :: "env \<Rightarrow> ref \<Rightarrow> host \<Rightarrow> host option" where
  "vfio_container_destroy E cont s =
     (if cont = 0 then Some s
      else do {
        c \<leftarrow> vconts s cont;
        free_obj cont (if vc_fd c \<ge> 0 then snd (syscall E (SYS_close (vc_fd c)) s) else s) })"

section \<open>Addresses of devices\<close>

text \<open>
  The two formats of \<open>sscanf\<close>: numbers separated by given characters. The list holds the values
  converted before the first mismatch, with the bits of a hexadecimal number read as an \<open>int\<close>;
  a number that does not fit its type is undefined.
\<close>

fun scan_fields :: "(nat \<times> char option) list \<Rightarrow> string \<Rightarrow> int list option" where
  "scan_fields [] str = Some []"
| "scan_fields ((base, sep) # fs) str =
     (case scan_int base str of
        None \<Rightarrow> Some []
      | Some (i, rest) \<Rightarrow>
          do {
            v \<leftarrow> (if base = 16 then (if \<bar>i\<bar> < 2 ^ 32 then Some (sint (of_int i :: u32)) else None)
                  else if fits_int i then Some i else None);
            vs \<leftarrow> (case sep of
                    None \<Rightarrow> scan_fields fs rest
                  | Some c \<Rightarrow> (case rest of [] \<Rightarrow> Some [] | x # xs \<Rightarrow> if x = c then scan_fields fs xs else Some []));
            Some (v # vs) })"

definition bdf_long :: "(nat \<times> char option) list" where
  "bdf_long = [(16, Some (CHR '':'')), (16, Some (CHR '':'')), (16, Some (CHR ''.'')), (10, None)]"

definition bdf_short :: "(nat \<times> char option) list" where
  "bdf_short = [(16, Some (CHR '':'')), (16, Some (CHR ''.'')), (10, None)]"

text \<open>The result: domain, bus, slot and function, or the error return.\<close>

definition parse_bdf :: "string \<Rightarrow> (int \<times> int \<times> int \<times> int) option option" where
  "parse_bdf bdf =
     do {
       l \<leftarrow> scan_fields bdf_long bdf;
       if length l = 4 then Some (Some (l ! 0, l ! 1, l ! 2, l ! 3))
       else do {
         l \<leftarrow> scan_fields bdf_short bdf;
         if length l = 3 then Some (Some (0, l ! 0, l ! 1, l ! 2)) else Some None } }"

text \<open>The paths, cut to the 63 characters the buffer holds.\<close>

definition iommu_group_path :: "int \<Rightarrow> int \<Rightarrow> int \<Rightarrow> int \<Rightarrow> string" where
  "iommu_group_path domain bus slot func =
     take 63 (''/sys/bus/pci/devices/'' @ show_hex 4 domain @ '':'' @ show_hex 2 bus @ '':'' @ show_hex 2 slot
              @ ''.'' @ show_int func @ ''/iommu_group'')"

definition group_path :: "int \<Rightarrow> string" where
  "group_path group_num = take 63 (''/dev/vfio/'' @ show_int group_num)"

section \<open>Regions and interrupts\<close>

definition zero_vfio_region :: vfio_region where
  "zero_vfio_region = \<lparr>vr_index = 0, vr_size = 0, vr_offset = 0, vr_gpa = 0, vr_hva = NULL, vr_flags = 0\<rparr>"

definition zero_vfio_irq :: vfio_irq where
  "zero_vfio_irq = \<lparr>vi_index = 0, vi_count = 0, vi_type = 0, vi_fds = replicate VFIO_MAX_IRQS 0, vi_enabled = 0\<rparr>"

definition zero_vfio_dev :: vfio_dev where
  "zero_vfio_dev = \<lparr>vf_container_fd = 0, vf_group_fd = 0, vf_device_fd = 0, vf_vendor_id = 0, vf_device_id = 0,
     vf_regions = replicate VFIO_MAX_REGIONS zero_vfio_region, vf_num_regions = 0,
     vf_irqs = replicate VFIO_MAX_IRQS zero_vfio_irq, vf_num_irqs = 0, vf_iommu_group = 0\<rparr>"

definition device_info_words :: "vfio_device_info \<Rightarrow> u64 list" where
  "device_info_words i = [ucast (di_argsz i), ucast (di_flags i), ucast (di_num_regions i), ucast (di_num_irqs i)]"

definition vfio_device_get_info :: "env \<Rightarrow> ref \<Rightarrow> vfio_device_info \<Rightarrow> host \<Rightarrow> (int \<times> vfio_device_info \<times> host) option" where
  "vfio_device_get_info E r info s =
     do {
       vf \<leftarrow> vfios s r;
       let (a, s1) = syscall E (SYS_ioctl (vf_device_fd vf) ''VFIO_DEVICE_GET_INFO'' (device_info_words info)) s;
       let info' = \<lparr>di_argsz = ucast (out_word a 0 (ucast (di_argsz info))),
                    di_flags = ucast (out_word a 1 (ucast (di_flags info))),
                    di_num_regions = ucast (out_word a 2 (ucast (di_num_regions info))),
                    di_num_irqs = ucast (out_word a 3 (ucast (di_num_irqs info)))\<rparr>;
       if a_ret a < 0 then Some (-1, info', s1) else Some (0, info', s1) }"

text \<open>
  The caller's structure is a local variable with no defined contents; what the call leaves of it is
  the parameter \<open>info\<close>.
\<close>

definition vfio_device_get_region_info ::
    "env \<Rightarrow> ref \<Rightarrow> u32 \<Rightarrow> vfio_region_info \<Rightarrow> host \<Rightarrow> (int \<times> vfio_region_info \<times> host) option" where
  "vfio_device_get_region_info E r index info0 s =
     do {
       vf \<leftarrow> vfios s r;
       let info = info0\<lparr>ri_argsz := 32, ri_index := index\<rparr>;
       let (a, s1) = syscall E (SYS_ioctl (vf_device_fd vf) ''VFIO_DEVICE_GET_REGION_INFO''
             [ucast (ri_argsz info), ucast (ri_flags info), ucast (ri_index info), ucast (ri_cap_offset info),
              ri_size info, ri_offset info]) s;
       let info' = \<lparr>ri_argsz = ucast (out_word a 0 (ucast (ri_argsz info))),
                    ri_flags = ucast (out_word a 1 (ucast (ri_flags info))),
                    ri_index = ucast (out_word a 2 (ucast (ri_index info))),
                    ri_cap_offset = ucast (out_word a 3 (ucast (ri_cap_offset info))),
                    ri_size = out_word a 4 (ri_size info), ri_offset = out_word a 5 (ri_offset info)\<rparr>;
       if a_ret a < 0 then Some (-1, info', s1)
       else if unat index < VFIO_MAX_REGIONS
       then Some (0, info', set_vfio r (vf\<lparr>vf_regions := (vf_regions vf)[unat index :=
              (vf_regions vf ! unat index)\<lparr>vr_index := index, vr_size := ri_size info', vr_offset := ri_offset info',
                                            vr_flags := ri_flags info'\<rparr>]\<rparr>) s1)
       else Some (0, info', s1) }"

definition zero_region_info :: vfio_region_info where
  "zero_region_info = \<lparr>ri_argsz = 0, ri_flags = 0, ri_index = 0, ri_cap_offset = 0, ri_size = 0, ri_offset = 0\<rparr>"

definition vfio_map_region :: "env \<Rightarrow> ref \<Rightarrow> u32 \<Rightarrow> u64 \<Rightarrow> host \<Rightarrow> (int \<times> host) option" where
  "vfio_map_region E r index gpa s =
     (if unat index \<ge> VFIO_MAX_REGIONS then Some (-1, s)
      else do {
        (ret, info, s1) \<leftarrow> vfio_device_get_region_info E r index zero_region_info s;
        if ret < 0 then Some (-1, s1)
        else if ri_flags info AND VFIO_REGION_INFO_FLAG_MMAP = 0 then Some (-1, s1)
        else do {
          vf \<leftarrow> vfios s1 r;
          let (hva, s2) = mmap E (vf_device_fd vf) (uint (ri_size info)) (ri_offset info) s1;
          if hva = NULL then Some (-1, s2)
          else Some (0, set_vfio r (vf\<lparr>vf_regions := (vf_regions vf)[unat index :=
                 (vf_regions vf ! unat index)\<lparr>vr_hva := hva, vr_gpa := gpa\<rparr>]\<rparr>) s2) } })"

definition vfio_unmap_region :: "env \<Rightarrow> ref \<Rightarrow> u32 \<Rightarrow> host \<Rightarrow> (int \<times> host) option" where
  "vfio_unmap_region E r index s =
     (if unat index \<ge> VFIO_MAX_REGIONS then Some (-1, s)
      else do {
        vf \<leftarrow> vfios s r;
        let g = vf_regions vf ! unat index;
        if vr_hva g \<noteq> NULL
        then Some (0, set_vfio r (vf\<lparr>vf_regions := (vf_regions vf)[unat index := g\<lparr>vr_hva := NULL\<rparr>]\<rparr>)
                        (munmap E (vr_hva g) (uint (vr_size g)) s))
        else Some (0, s) })"

definition vfio_setup_irqs :: "env \<Rightarrow> ref \<Rightarrow> u32 \<Rightarrow> u32 \<Rightarrow> host \<Rightarrow> (int \<times> host) option" where
  "vfio_setup_irqs E r index type s =
     do {
       vf \<leftarrow> vfios s r;
       let (a, s1) = syscall E (SYS_ioctl (vf_device_fd vf) ''VFIO_DEVICE_GET_IRQ_INFO'' [16, 0, ucast index, 0]) s;
       if a_ret a < 0 then Some (-1, s1)
       else if unat index < VFIO_MAX_IRQS
       then Some (0, set_vfio r (vf\<lparr>vf_irqs := (vf_irqs vf)[unat index :=
              (vf_irqs vf ! unat index)\<lparr>vi_index := index, vi_count := ucast (out_word a 3 0),
                                         vi_type := sint type, vi_enabled := 0\<rparr>]\<rparr>) s1)
       else Some (0, s1) }"

text \<open>The words of \<open>struct vfio_irq_set\<close>.\<close>

definition irq_set_words :: "u32 \<Rightarrow> u32 \<Rightarrow> u32 \<Rightarrow> u32 \<Rightarrow> int \<Rightarrow> u64 list" where
  "irq_set_words flags index start count fd =
     [24, ucast flags, ucast index, ucast start, ucast count, ucast (of_int fd :: u32)]"

definition vfio_irq_enable :: "env \<Rightarrow> ref \<Rightarrow> u32 \<Rightarrow> u32 \<Rightarrow> int \<Rightarrow> host \<Rightarrow> (int \<times> host) option" where
  "vfio_irq_enable E r index subindex fd s =
     do {
       vf \<leftarrow> vfios s r;
       let (a, s1) = syscall E (SYS_ioctl (vf_device_fd vf) ''VFIO_DEVICE_SET_IRQS''
             (irq_set_words (VFIO_IRQ_SET_ACTION_TRIGGER OR VFIO_IRQ_SET_DATA_EVENTFD) index subindex 1 fd)) s;
       if a_ret a < 0 then Some (-1, s1)
       else if unat index < VFIO_MAX_IRQS
       then (let q = vf_irqs vf ! unat index in
             if unat subindex < length (vi_fds q)
             then Some (0, set_vfio r (vf\<lparr>vf_irqs := (vf_irqs vf)[unat index :=
                    q\<lparr>vi_fds := (vi_fds q)[unat subindex := fd], vi_enabled := 1\<rparr>]\<rparr>) s1)
             else None)
       else Some (0, s1) }"

definition vfio_irq_disable :: "env \<Rightarrow> ref \<Rightarrow> u32 \<Rightarrow> host \<Rightarrow> (int \<times> host) option" where
  "vfio_irq_disable E r index s =
     do {
       vf \<leftarrow> vfios s r;
       let (a, s1) = syscall E (SYS_ioctl (vf_device_fd vf) ''VFIO_DEVICE_SET_IRQS''
             (irq_set_words VFIO_IRQ_SET_DATA_NONE index 0 0 0)) s;
       if a_ret a < 0 then Some (-1, s1)
       else if unat index < VFIO_MAX_IRQS
       then Some (0, set_vfio r (vf\<lparr>vf_irqs := (vf_irqs vf)[unat index :=
              (vf_irqs vf ! unat index)\<lparr>vi_enabled := 0\<rparr>]\<rparr>) s1)
       else Some (0, s1) }"

section \<open>Configuration space\<close>

text \<open>
  The buffer is allocated for the call and freed on every path, so its bytes are kept in a list:
  \<open>info.size\<close> bytes, zero where the device delivered none.
\<close>

definition read_config :: "env \<Rightarrow> ref \<Rightarrow> host \<Rightarrow> ((u8 list \<times> vfio_region_info) option \<times> host) option" where
  "read_config E r s =
     do {
       (ret, info, s1) \<leftarrow> vfio_device_get_region_info E r 0 zero_region_info s;
       if ret < 0 then Some (None, s1)
       else
         let (cfg, s2) = alloc E s1 in
         if cfg = 0 then Some (None, s2)
         else do {
           vf \<leftarrow> vfios s2 r;
           let (a, s3) = syscall E (SYS_pread (vf_device_fd vf) (unat (ri_size info)) (ri_offset info)) s2;
           if a_ret a < 0 then Some (None, s3)
           else Some (Some (take (unat (ri_size info)) (take (nat (a_ret a)) (a_bytes a) @ replicate (unat (ri_size info)) 0),
                            info), s3) } }"

definition vfio_pci_cfg_read :: "env \<Rightarrow> ref \<Rightarrow> u32 \<Rightarrow> u8 list \<Rightarrow> u64 \<Rightarrow> host \<Rightarrow> (int \<times> u8 list \<times> host) option" where
  "vfio_pci_cfg_read E r off data sz s =
     do {
       (cfg, s1) \<leftarrow> read_config E r s;
       case cfg of
         None \<Rightarrow> Some (-1, data, s1)
       | Some (bs, info) \<Rightarrow>
           if unat off + unat sz \<le> length bs
           then do { data' \<leftarrow> put_buf data 0 (subrange bs (unat off) (unat sz)); Some (0, data', s1) }
           else None }"

definition vfio_pci_cfg_write :: "env \<Rightarrow> ref \<Rightarrow> u32 \<Rightarrow> u8 list \<Rightarrow> u64 \<Rightarrow> host \<Rightarrow> (int \<times> host) option" where
  "vfio_pci_cfg_write E r off data sz s =
     do {
       (cfg, s1) \<leftarrow> read_config E r s;
       case cfg of
         None \<Rightarrow> Some (-1, s1)
       | Some (bs, info) \<Rightarrow>
           if unat sz \<le> length data
           then do {
             bs' \<leftarrow> put_buf bs (unat off) (take (unat sz) data);
             vf \<leftarrow> vfios s1 r;
             let (a, s2) = syscall E (SYS_pwrite (vf_device_fd vf) bs' (ri_offset info)) s1;
             Some (if a_ret a < 0 then -1 else 0, s2) }
           else None }"

section \<open>Opening and closing\<close>

text \<open>The loop over the regions; an index past the array is undefined.\<close>

fun close_regions :: "env \<Rightarrow> vfio_dev \<Rightarrow> nat list \<Rightarrow> host \<Rightarrow> host option" where
  "close_regions E vf [] s = Some s"
| "close_regions E vf (i # is) s =
     (if i < length (vf_regions vf)
      then close_regions E vf is
             (let g = vf_regions vf ! i in
              if vr_hva g \<noteq> NULL then munmap E (vr_hva g) (uint (vr_size g)) s else s)
      else None)"

definition unset_container :: "env \<Rightarrow> int \<Rightarrow> int \<Rightarrow> host \<Rightarrow> host" where
  "unset_container E group_fd container_fd s =
     snd (syscall E (SYS_ioctl group_fd ''VFIO_GROUP_UNSET_CONTAINER'' [of_int container_fd]) s)"

definition vfio_device_close :: "env \<Rightarrow> ref \<Rightarrow> host \<Rightarrow> host option" where
  "vfio_device_close E r s =
     (if r = 0 then Some s
      else do {
        vf \<leftarrow> vfios s r;
        s1 \<leftarrow> close_regions E vf [0..<nat (vf_num_regions vf)] s;
        let s2 = (if vf_device_fd vf \<ge> 0 then snd (syscall E (SYS_close (vf_device_fd vf)) s1) else s1);
        let s3 = (if vf_group_fd vf \<ge> 0 then unset_container E (vf_group_fd vf) (vf_container_fd vf) s2 else s2);
        let s4 = (if vf_group_fd vf \<ge> 0 then snd (syscall E (SYS_close (vf_group_fd vf)) s3) else s3);
        free_obj r s4 })"

text \<open>The group: opened, found viable and put into the container, or the error return.\<close>

definition open_group :: "env \<Rightarrow> ref \<Rightarrow> int \<Rightarrow> host \<Rightarrow> ((int \<times> int) option \<times> host) option" where
  "open_group E cont group_num s =
     (let (g, s1) = syscall E (SYS_open (group_path group_num) ''O_RDWR'') s in
      if a_ret g < 0 then Some (None, s1)
      else
        let close_group = (\<lambda>s. snd (syscall E (SYS_close (a_ret g)) s));
            (st, s2) = syscall E (SYS_ioctl (a_ret g) ''VFIO_GROUP_GET_STATUS'' [8, 0]) s1 in
        if a_ret st < 0 then Some (None, close_group s2)
        else if ucast (out_word st 1 0) AND VFIO_GROUP_FLAGS_VIABLE = 0 then Some (None, close_group s2)
        else do {
          c \<leftarrow> vconts s2 cont;
          let (a, s3) = syscall E (SYS_ioctl (a_ret g) ''VFIO_GROUP_SET_CONTAINER'' [of_int (vc_fd c)]) s2;
          if a_ret a < 0 then Some (None, close_group s3)
          else
            let (b, s4) = syscall E (SYS_ioctl (vc_fd c) ''VFIO_SET_IOMMU'' [VFIO_TYPE1_IOMMU]) s3 in
            if a_ret b < 0 then Some (None, close_group (unset_container E (a_ret g) (vc_fd c) s4))
            else Some (Some (a_ret g, vc_fd c), s4) })"

text \<open>The two identifiers are read from what the code takes for the configuration space.\<close>

definition read_ids :: "env \<Rightarrow> ref \<Rightarrow> host \<Rightarrow> host option" where
  "read_ids E r s =
     do {
       vf \<leftarrow> vfios s r;
       (ret, v, s1) \<leftarrow> vfio_pci_cfg_read E r PCI_VENDOR_ID (le_bytes 2 (vf_vendor_id vf)) 2 s;
       vf1 \<leftarrow> vfios s1 r;
       let s2 = set_vfio r (vf1\<lparr>vf_vendor_id := le_word v\<rparr>) s1;
       (ret, d, s3) \<leftarrow> vfio_pci_cfg_read E r PCI_DEVICE_ID (le_bytes 2 (vf_device_id vf1)) 2 s2;
       vf3 \<leftarrow> vfios s3 r;
       Some (set_vfio r (vf3\<lparr>vf_device_id := le_word d\<rparr>) s3) }"

text \<open>What the kernel tells of a device whose structure has just been allocated.\<close>

definition probe_device :: "env \<Rightarrow> ref \<Rightarrow> vfio_dev \<Rightarrow> host \<Rightarrow> (ref \<times> host) option" where
  "probe_device E r vf s =
     do {
       (ret, info, s1) \<leftarrow> vfio_device_get_info E r
          \<lparr>di_argsz = 16, di_flags = 0, di_num_regions = 0, di_num_irqs = 0\<rparr> (set_vfio r vf s);
       if ret < 0 then do { s2 \<leftarrow> vfio_device_close E r s1; Some (0, s2) }
       else do {
         s2 \<leftarrow> read_ids E r (set_vfio r (vf\<lparr>vf_num_regions := sint (di_num_regions info),
                                            vf_num_irqs := sint (di_num_irqs info)\<rparr>) s1);
         Some (r, s2) } }"

text \<open>The device of the group: its descriptor and its structure.\<close>

definition open_device :: "env \<Rightarrow> string \<Rightarrow> int \<Rightarrow> int \<Rightarrow> int \<Rightarrow> host \<Rightarrow> (ref \<times> host) option" where
  "open_device E bdf group_num gfd cfd s =
     (let (d, s1) = syscall E (SYS_ioctl gfd ''VFIO_GROUP_GET_DEVICE_FD'' (map of_char bdf)) s;
          leave_group = (\<lambda>s. snd (syscall E (SYS_close gfd) (unset_container E gfd cfd s))) in
      if a_ret d < 0 then Some (0, leave_group s1)
      else
        let (r, s2) = alloc E s1 in
        if r = 0 then Some (0, leave_group (snd (syscall E (SYS_close (a_ret d)) s2)))
        else probe_device E r (zero_vfio_dev\<lparr>vf_container_fd := cfd, vf_group_fd := gfd, vf_device_fd := a_ret d,
                                             vf_iommu_group := group_num\<rparr>) s2)"

definition vfio_device_open :: "env \<Rightarrow> ref \<Rightarrow> string \<Rightarrow> host \<Rightarrow> (ref \<times> host) option" where
  "vfio_device_open E cont bdf s =
     do {
       p \<leftarrow> parse_bdf bdf;
       case p of
         None \<Rightarrow> Some (0, s)
       | Some (domain, bus, slot, func) \<Rightarrow>
           let (fp, s1) = syscall E (SYS_fopen (iommu_group_path domain bus slot func) ''r'') s in
           if a_ret fp = 0 then Some (0, s1)
           else do {
             let s2 = snd (syscall E (SYS_fclose (a_ret fp)) s1);
             (grp, s3) \<leftarrow> open_group E cont bus s2;
             case grp of None \<Rightarrow> Some (0, s3) | Some (gfd, cfd) \<Rightarrow> open_device E bdf bus gfd cfd s3 } }"

section \<open>Behind the device framework\<close>

text \<open>
  The region an offset belongs to: the loop starts at 1 and reads every entry it passes. The
  distance into the region is kept in an \<open>int\<close>.
\<close>

fun find_region :: "vfio_dev \<Rightarrow> u64 \<Rightarrow> nat list \<Rightarrow> vfio_region option option" where
  "find_region vf off [] = Some None"
| "find_region vf off (i # is) =
     (if i < length (vf_regions vf)
      then (let g = vf_regions vf ! i in
            if off \<ge> vr_gpa g \<and> off < vr_gpa g + vr_size g then Some (Some g) else find_region vf off is)
      else None)"

definition region_offset :: "vfio_region \<Rightarrow> u64 \<Rightarrow> u64" where
  "region_offset g off = scast (ucast (off - vr_gpa g) :: u32)"

definition vfio_device_read :: "env \<Rightarrow> ref \<Rightarrow> u64 \<Rightarrow> u8 list \<Rightarrow> u64 \<Rightarrow> host \<Rightarrow> (int \<times> u8 list \<times> host) option" where
  "vfio_device_read E dev off data sz s =
     do {
       d \<leftarrow> devs s dev;
       vf \<leftarrow> vfios s (d_data d);
       rg \<leftarrow> find_region vf off [1..<nat (vf_num_regions vf)];
       case rg of
         None \<Rightarrow> Some (-1, data, s)
       | Some g \<Rightarrow>
           if vr_hva g \<noteq> NULL
           then do { bs \<leftarrow> load s (ptr_add (vr_hva g) (region_offset g off)) (unat sz);
                     data' \<leftarrow> put_buf data 0 bs; Some (0, data', s) }
           else
             let (a, s1) = syscall E (SYS_pread (vf_device_fd vf) (unat sz) (vr_offset g + region_offset g off)) s in
             if a_ret a < 0 then Some (-1, data, s1)
             else do { data' \<leftarrow> put_buf data 0 (take (unat sz) (take (nat (a_ret a)) (a_bytes a))); Some (0, data', s1) } }"

definition vfio_device_write :: "env \<Rightarrow> ref \<Rightarrow> u64 \<Rightarrow> u8 list \<Rightarrow> u64 \<Rightarrow> host \<Rightarrow> (int \<times> host) option" where
  "vfio_device_write E dev off data sz s =
     do {
       d \<leftarrow> devs s dev;
       vf \<leftarrow> vfios s (d_data d);
       rg \<leftarrow> find_region vf off [1..<nat (vf_num_regions vf)];
       case rg of
         None \<Rightarrow> Some (-1, s)
       | Some g \<Rightarrow>
           if length data < unat sz then None
           else if vr_hva g \<noteq> NULL
           then do { s1 \<leftarrow> store (ptr_add (vr_hva g) (region_offset g off)) (take (unat sz) data) s; Some (0, s1) }
           else
             let (a, s1) = syscall E (SYS_pwrite (vf_device_fd vf) (take (unat sz) data)
                             (vr_offset g + region_offset g off)) s in
             Some (if a_ret a < 0 then -1 else 0, s1) }"

definition vfio_device_destroy_wrapper :: "env \<Rightarrow> ref \<Rightarrow> host \<Rightarrow> host option" where
  "vfio_device_destroy_wrapper E dev s =
     do {
       d \<leftarrow> devs s dev;
       s1 \<leftarrow> vfio_device_close E (d_data d) s;
       d1 \<leftarrow> devs s1 dev;
       free_obj dev s1 }"

definition vfio_device_ops :: "env \<Rightarrow> device_ops" where
  "vfio_device_ops E = \<lparr>do_name = ''vfio-device'', do_read = Some (vfio_device_read E),
     do_write = Some (vfio_device_write E), do_destroy = Some (vfio_device_destroy_wrapper E)\<rparr>"

text \<open>The loop that maps the BARs, with the next free guest address.\<close>

fun map_bars :: "env \<Rightarrow> ref \<Rightarrow> nat list \<Rightarrow> u64 \<Rightarrow> host \<Rightarrow> (u64 \<times> host) option" where
  "map_bars E r [] gpa s = Some (gpa, s)"
| "map_bars E r (i # is) gpa s =
     do {
       vf \<leftarrow> vfios s r;
       if vr_size (vf_regions vf ! i) = 0 then map_bars E r is gpa s
       else do {
         (ret, s1) \<leftarrow> vfio_map_region E r (of_nat i) gpa s;
         if ret < 0 then map_bars E r is gpa s1
         else do {
           vf1 \<leftarrow> vfios s1 r;
           map_bars E r is (gpa + ALIGN_UP_int (vr_size (vf_regions vf1 ! i)) 0x10000) s1 } } }"

definition vfio_register_with_vm :: "env \<Rightarrow> ref \<Rightarrow> ref \<Rightarrow> string \<Rightarrow> host \<Rightarrow> (int \<times> host) option" where
  "vfio_register_with_vm E vm r bdf s =
     (let (dev, s1) = alloc E s in
      if dev = 0 then Some (-1, s1)
      else do {
        let (nm, s2) = strdup E bdf (set_dev dev zero_device s1);
        let d = zero_device\<lparr>d_name := nm, d_data := r, d_ops := Some Vfio_device_ops\<rparr>;
        vf \<leftarrow> vfios s2 r;
        (gpa, s3) \<leftarrow> map_bars E r [1..<nat (min (vf_num_regions vf) 7)] 0xb000000 (set_dev dev d s2);
        let s4 = set_dev dev (d\<lparr>d_gpa_start := 0xb000000, d_gpa_end := gpa - 1, d_size := gpa - 0xb000000\<rparr>) s3;
        (ret, s5) \<leftarrow> device_register E vm dev s4;
        if ret < 0 then do { s6 \<leftarrow> free_obj dev s5; Some (ret, s6) }
        else do {
          (i, s6) \<leftarrow> vfio_setup_irqs E r VFIO_PCI_INTX_IRQ_INDEX 0 s5;
          (j, s7) \<leftarrow> vfio_setup_irqs E r VFIO_PCI_MSIX_IRQ_INDEX 0 s6;
          Some (0, s7) } })"

section \<open>The contract of the handlers\<close>

lemma vfio_read_frame:
  assumes "vfio_device_read E dev off data sz s = Some (ret, data', s')"
  shows "handler_frame s s' \<and> length data' = length data"
  using assms by (auto simp: vfio_device_read_def put_buf_def Let_def case_prod_beta Option.bind_eq_Some_conv array_simps
      handler_frame_refl io_only_frame [OF syscall_snd_io] split: option.splits if_splits)

lemma vfio_write_frame:
  assumes "vfio_device_write E dev off data sz s = Some (ret, s')"
  shows "handler_frame s s'"
  using assms by (auto simp: vfio_device_write_def Let_def case_prod_beta Option.bind_eq_Some_conv handler_frame_refl
      io_only_frame [OF syscall_snd_io] split: option.splits if_splits dest: store_handler_frame)

lemma vfio_destroy_gone:
  assumes "vfio_device_destroy_wrapper E dev s = Some s'" and "dev \<noteq> 0"
  shows "devs s' dev = None"
  using assms by (auto simp: vfio_device_destroy_wrapper_def Option.bind_eq_Some_conv free_obj_def split: if_splits)

section \<open>Frames of the operations\<close>

text \<open>
  The descriptors a process holds, from the record of its calls: an \<open>open\<close> or a request for the
  device of a group that succeeds adds one, a \<open>close\<close> removes one.
\<close>

definition gives_fd :: "syscall \<Rightarrow> bool" where
  "gives_fd c = (case c of SYS_open path mode \<Rightarrow> True
     | SYS_ioctl fd req ws \<Rightarrow> req = ''VFIO_GROUP_GET_DEVICE_FD'' | _ \<Rightarrow> False)"

definition closes_fd :: "syscall \<Rightarrow> int set" where
  "closes_fd c = (case c of SYS_close fd \<Rightarrow> {fd} | _ \<Rightarrow> {})"

fun open_fds :: "env \<Rightarrow> syscall list \<Rightarrow> int set" where
  "open_fds E [] = {}"
| "open_fds E (c # h) =
     (let new = (if gives_fd c \<and> 0 \<le> a_ret (answer_of E h c) then {a_ret (answer_of E h c)} else {})
      in (open_fds E h - closes_fd c) \<union> new)"

definition is_mmap :: "syscall \<Rightarrow> bool" where
  "is_mmap c = (case c of SYS_mmap fd n off \<Rightarrow> True | _ \<Rightarrow> False)"

lemma call_kinds [simp]:
  "\<not> is_mmap (SYS_ioctl fd req ws)" "\<not> is_mmap (SYS_pread fd n off)" "\<not> is_mmap (SYS_close fd)" "\<not> is_mmap (SYS_open path mode)"
  "\<not> is_mmap (SYS_fopen path mode)" "\<not> is_mmap (SYS_fclose fd)" "\<not> is_mmap SYS_eventfd"
  "\<not> gives_fd (SYS_pread fd n off)" "\<not> gives_fd (SYS_close fd)" "\<not> gives_fd (SYS_fopen path mode)" "\<not> gives_fd (SYS_fclose fd)"
  "gives_fd (SYS_open path mode)" "gives_fd (SYS_ioctl fd req ws) \<longleftrightarrow> req = ''VFIO_GROUP_GET_DEVICE_FD''"
  "closes_fd (SYS_ioctl fd req ws) = {}" "closes_fd (SYS_pread fd n off) = {}" "closes_fd (SYS_close fd) = {fd}"
  "closes_fd (SYS_open path mode) = {}" "closes_fd (SYS_fopen path mode) = {}" "closes_fd (SYS_fclose fd) = {}"
  by (simp_all add: is_mmap_def gives_fd_def closes_fd_def)

definition quiet_call :: "syscall \<Rightarrow> bool" where
  "quiet_call c \<longleftrightarrow> \<not> is_mmap c \<and> \<not> gives_fd c"

lemma quiet_open_fds: "\<forall>c \<in> set h. quiet_call c \<Longrightarrow> open_fds E (h @ h0) \<subseteq> open_fds E h0"
  by (induction h) (auto simp: Let_def quiet_call_def)

text \<open>
  What the calls that only ask the kernel keep: everything but the record of calls and the structure
  of the device.
\<close>

definition vfio_frame :: "ref \<Rightarrow> host \<Rightarrow> host \<Rightarrow> bool" where
  "vfio_frame r s s' \<longleftrightarrow> mem s' = mem s \<and> devs s' = devs s \<and> vms s' = vms s \<and> vconts s' = vconts s
     \<and> (\<forall>q. q \<noteq> r \<longrightarrow> vfios s' q = vfios s q)
     \<and> (\<exists>h. history s' = h @ history s \<and> (\<forall>c \<in> set h. quiet_call c))"

text \<open>
  A device as opened: its descriptors and the number of its regions, no region mapped, and the regions
  from 1 on of size zero, because only the information of region 0 was ever read.
\<close>

definition bars_unknown :: "int \<Rightarrow> int \<Rightarrow> int \<Rightarrow> ref \<Rightarrow> host \<Rightarrow> bool" where
  "bars_unknown g d n r s \<longleftrightarrow> (\<exists>vf. vfios s r = Some vf \<and> length (vf_regions vf) = VFIO_MAX_REGIONS
     \<and> length (vf_irqs vf) = VFIO_MAX_IRQS \<and> vf_group_fd vf = g \<and> vf_device_fd vf = d \<and> vf_num_regions vf = n
     \<and> (\<forall>i. 1 \<le> i \<longrightarrow> i < VFIO_MAX_REGIONS \<longrightarrow> vr_size (vf_regions vf ! i) = 0)
     \<and> (\<forall>i < VFIO_MAX_REGIONS. vr_hva (vf_regions vf ! i) = NULL))"

definition vfio_keeps :: "ref \<Rightarrow> host \<Rightarrow> host \<Rightarrow> bool" where
  "vfio_keeps r s s' \<longleftrightarrow> vfio_frame r s s' \<and> (\<forall>g d n. bars_unknown g d n r s \<longrightarrow> bars_unknown g d n r s')"

lemma vfio_keeps_refl: "vfio_keeps r s s"
  by (simp add: vfio_keeps_def vfio_frame_def)

lemma vfio_keeps_trans: "vfio_keeps r s s' \<Longrightarrow> vfio_keeps r s' s'' \<Longrightarrow> vfio_keeps r s s''"
  unfolding vfio_keeps_def vfio_frame_def by fastforce

lemma call_keeps: "quiet_call c \<Longrightarrow> vfio_keeps r s (snd (syscall E c s))"
  by (auto simp: vfio_keeps_def vfio_frame_def bars_unknown_def syscall_def Let_def)

lemma alloc_keeps: "alloc E s = (x, s') \<Longrightarrow> vfio_keeps r s s'"
  by (auto simp: vfio_keeps_def vfio_frame_def bars_unknown_def alloc_def)

lemma set_vfio_keeps:
  assumes "vfios s r = Some vf" and "vf_regions vf' = vf_regions vf" and "length (vf_irqs vf') = length (vf_irqs vf)"
    and "vf_group_fd vf' = vf_group_fd vf" and "vf_device_fd vf' = vf_device_fd vf" and "vf_num_regions vf' = vf_num_regions vf"
  shows "vfio_keeps r s (set_vfio r vf' s)"
  using assms by (auto simp: vfio_keeps_def vfio_frame_def bars_unknown_def)

lemma region_info_keeps:
  assumes "vfio_device_get_region_info E r 0 info s = Some (ret, info', s')"
  shows "vfio_keeps r s s'"
proof -
  obtain vf where vf: "vfios s r = Some vf"
    using assms by (auto simp: vfio_device_get_region_info_def Option.bind_eq_Some_conv)
  define c where "c = SYS_ioctl (vf_device_fd vf) ''VFIO_DEVICE_GET_REGION_INFO''
        [32, ucast (ri_flags info), 0, ucast (ri_cap_offset info), ri_size info, ri_offset info]"
  have q: "quiet_call c" by (simp add: c_def quiet_call_def)
  show ?thesis
    using assms vf q
    by (auto simp: vfio_device_get_region_info_def vfio_keeps_def vfio_frame_def bars_unknown_def VFIO_MAX_REGIONS_def
        nth_list_update syscall_def Let_def split: if_splits simp flip: c_def)
qed

lemma read_config_keeps:
  assumes "read_config E r s = Some (cfg, s')"
  shows "vfio_keeps r s s'"
proof -
  obtain ret info s1 where s1: "vfio_device_get_region_info E r 0 zero_region_info s = Some (ret, info, s1)"
    using assms by (auto simp: read_config_def Option.bind_eq_Some_conv)
  obtain c s2 where s2: "alloc E s1 = (c, s2)" by force
  have rest: "s' = s1 \<or> s' = s2 \<or> (\<exists>fd n off. s' = snd (syscall E (SYS_pread fd n off) s2))"
    using assms s1 s2 by (auto simp: read_config_def Option.bind_eq_Some_conv Let_def case_prod_beta split: if_splits)
  have "vfio_keeps r s s1" "vfio_keeps r s1 s2" using region_info_keeps [OF s1] alloc_keeps [OF s2] .
  then show ?thesis
    using rest call_keeps [of "SYS_pread _ _ _" r s2 E] by (auto simp: quiet_call_def intro: vfio_keeps_trans)
qed

lemma cfg_read_keeps:
  assumes "vfio_pci_cfg_read E r off data sz s = Some (ret, data', s')"
  shows "vfio_keeps r s s'"
  using assms by (auto simp: vfio_pci_cfg_read_def Option.bind_eq_Some_conv split: option.splits if_splits
      dest: read_config_keeps)

lemma read_ids_keeps:
  assumes "read_ids E r s = Some s'"
  shows "vfio_keeps r s s'"
proof -
  obtain vf ret v s1 where s1: "vfio_pci_cfg_read E r PCI_VENDOR_ID (le_bytes 2 (vf_vendor_id vf)) 2 s = Some (ret, v, s1)"
    and "vfios s r = Some vf"
    using assms by (auto simp: read_ids_def Option.bind_eq_Some_conv)
  with assms obtain vf1 ret' d s3 vf3 where vf1: "vfios s1 r = Some vf1"
    and s3: "vfio_pci_cfg_read E r PCI_DEVICE_ID (le_bytes 2 (vf_device_id vf1)) 2
        (set_vfio r (vf1\<lparr>vf_vendor_id := le_word v\<rparr>) s1) = Some (ret', d, s3)"
    and vf3: "vfios s3 r = Some vf3" and s': "s' = set_vfio r (vf3\<lparr>vf_device_id := le_word d\<rparr>) s3"
    by (auto simp: read_ids_def Option.bind_eq_Some_conv Let_def)
  show ?thesis
    using cfg_read_keeps [OF s1] set_vfio_keeps [OF vf1, of "vf1\<lparr>vf_vendor_id := le_word v\<rparr>"] cfg_read_keeps [OF s3]
      set_vfio_keeps [OF vf3, of "vf3\<lparr>vf_device_id := le_word d\<rparr>"] s'
    by (auto intro: vfio_keeps_trans)
qed

lemma map_bars_none:
  assumes "bars_unknown g d n r s" and "\<forall>i \<in> set is. 1 \<le> i \<and> i < VFIO_MAX_REGIONS"
  shows "map_bars E r is gpa s = Some (gpa, s)"
  using assms by (induction "is") (auto simp: bars_unknown_def)

definition no_mmap :: "host \<Rightarrow> host \<Rightarrow> bool" where
  "no_mmap s s' \<longleftrightarrow> (\<exists>h. history s' = h @ history s \<and> (\<forall>c \<in> set h. \<not> is_mmap c))"

lemma no_mmap_trans: "no_mmap s s' \<Longrightarrow> no_mmap s' s'' \<Longrightarrow> no_mmap s s''"
  unfolding no_mmap_def by fastforce

lemma no_mmap_call: "\<not> is_mmap c \<Longrightarrow> no_mmap s (snd (syscall E c s))"
  by (auto simp: no_mmap_def syscall_def Let_def)

lemma open_fds_call:
  "open_fds E (history (snd (syscall E c s))) =
     (open_fds E (history s) - closes_fd c)
       \<union> (if gives_fd c \<and> 0 \<le> a_ret (fst (syscall E c s)) then {a_ret (fst (syscall E c s))} else {})"
  by (simp add: syscall_def Let_def)

lemma call_io: "io_only s0 s \<Longrightarrow> io_only s0 (snd (syscall E c s))"
  by (rule io_only_trans [OF _ syscall_snd_io])

lemma call_no_mmap: "no_mmap s0 s \<Longrightarrow> \<not> is_mmap c \<Longrightarrow> no_mmap s0 (snd (syscall E c s))"
  by (rule no_mmap_trans [OF _ no_mmap_call])

lemma no_mmap_refl: "no_mmap s s"
  by (simp add: no_mmap_def)

lemma open_group_spec:
  assumes "open_group E cont n s = Some (grp, s')"
  shows "io_only s s'" and "no_mmap s s'"
    and "case grp of None \<Rightarrow> open_fds E (history s') \<subseteq> open_fds E (history s)
         | Some (g, c) \<Rightarrow> 0 \<le> g \<and> open_fds E (history s') \<subseteq> insert g (open_fds E (history s))"
proof -
  show "io_only s s'"
    using assms by (auto simp: open_group_def unset_container_def Let_def Option.bind_eq_Some_conv case_prod_beta
        intro!: call_io io_only_refl split: if_splits)
  show "no_mmap s s'"
    using assms by (auto simp: open_group_def unset_container_def Let_def Option.bind_eq_Some_conv case_prod_beta
        intro!: call_no_mmap no_mmap_refl split: if_splits)
  show "case grp of None \<Rightarrow> open_fds E (history s') \<subseteq> open_fds E (history s)
         | Some (g, c) \<Rightarrow> 0 \<le> g \<and> open_fds E (history s') \<subseteq> insert g (open_fds E (history s))"
    using assms by (auto simp: open_group_def unset_container_def Let_def Option.bind_eq_Some_conv case_prod_beta
        open_fds_call split: if_splits)
qed

text \<open>
  Opening leaves either nothing behind or a device as described above, and its two descriptors.
\<close>

definition open_outcome :: "env \<Rightarrow> ref \<Rightarrow> int set \<Rightarrow> host \<Rightarrow> host \<Rightarrow> bool" where
  "open_outcome E r fds s s' \<longleftrightarrow> mem s' = mem s \<and> vms s' = vms s \<and> devs s' = devs s \<and> no_mmap s s'
     \<and> (if r = 0 then vfios s' = vfios s \<and> open_fds E (history s') \<subseteq> fds
        else vfios s r = None \<and> (\<forall>q. q \<noteq> r \<longrightarrow> vfios s' q = vfios s q)
          \<and> (\<exists>g d n. 0 \<le> g \<and> 0 \<le> d \<and> bars_unknown g d n r s'
             \<and> open_fds E (history s') \<subseteq> insert d (insert g fds)))"

lemma keeps_no_mmap: "vfio_keeps r s s' \<Longrightarrow> no_mmap s s'"
  unfolding vfio_keeps_def vfio_frame_def no_mmap_def quiet_call_def by blast

lemma keeps_open_fds: "vfio_keeps r s s' \<Longrightarrow> open_fds E (history s') \<subseteq> open_fds E (history s)"
  unfolding vfio_keeps_def vfio_frame_def by (metis quiet_open_fds)

lemma bars_unknown_new:
  "bars_unknown g d n r (set_vfio r (zero_vfio_dev\<lparr>vf_container_fd := c, vf_group_fd := g, vf_device_fd := d,
     vf_iommu_group := k, vf_num_regions := n, vf_num_irqs := m\<rparr>) s)"
  by (simp add: bars_unknown_def zero_vfio_dev_def zero_vfio_region_def)

lemma leave_group:
  fixes E g c s
  defines "s' \<equiv> snd (syscall E (SYS_close g) (unset_container E g c s))"
  shows "io_only s s'" "no_mmap s s'" "open_fds E (history s') \<subseteq> open_fds E (history s) - {g}"
  unfolding s'_def unset_container_def
  by (auto intro!: call_io io_only_refl call_no_mmap no_mmap_refl simp: open_fds_call)

lemma get_info_asks:
  assumes "vfio_device_get_info E r info s = Some (ret, info', s')"
  shows "io_only s s'" and "no_mmap s s'" and "open_fds E (history s') \<subseteq> open_fds E (history s)"
  using assms by (auto simp: vfio_device_get_info_def Let_def Option.bind_eq_Some_conv case_prod_beta open_fds_call
      intro!: call_io io_only_refl call_no_mmap no_mmap_refl split: if_splits)

text \<open>
  Closing a device of at most eight regions, none of them mapped: the descriptors are closed and the
  structure is gone. With more regions the loop passes the end of the array.
\<close>

lemma close_regions_unmapped:
  assumes "\<forall>i \<in> set is. i < length (vf_regions vf) \<and> vr_hva (vf_regions vf ! i) = NULL"
  shows "close_regions E vf is s = Some s"
  using assms by (induction "is") (auto simp: Let_def)

lemma close_regions_beyond:
  "i \<in> set is \<Longrightarrow> length (vf_regions vf) \<le> i \<Longrightarrow> close_regions E vf is s = None"
  by (induction "is" arbitrary: s) auto

lemma vfio_close_unmapped:
  assumes "r \<noteq> 0" and "bars_unknown g d n r s" and "n \<le> 8"
  obtains s' where "vfio_device_close E r s = Some s'" and "vfios s' = (vfios s)(r := None)" and "mem s' = mem s"
    and "vms s' = (vms s)(r := None)" and "devs s' = (devs s)(r := None)" and "no_mmap s s'"
    and "0 \<le> g \<Longrightarrow> 0 \<le> d \<Longrightarrow> open_fds E (history s') \<subseteq> open_fds E (history s) - {g, d}"
proof -
  obtain vf where vf: "vfios s r = Some vf" "vf_group_fd vf = g" "vf_device_fd vf = d" "vf_num_regions vf = n"
    and null: "length (vf_regions vf) = 8" "\<forall>i < 8. vr_hva (vf_regions vf ! i) = NULL"
    using assms(2) unfolding bars_unknown_def VFIO_MAX_REGIONS_def by blast
  have none: "close_regions E vf [0..<nat n] s = Some s"
    using null assms(3) by (intro close_regions_unmapped) auto
  define s2 where "s2 = (if d \<ge> 0 then snd (syscall E (SYS_close d) s) else s)"
  define s3 where "s3 = (if g \<ge> 0 then unset_container E g (vf_container_fd vf) s2 else s2)"
  define s4 where "s4 = (if g \<ge> 0 then snd (syscall E (SYS_close g) s3) else s3)"
  have io: "io_only s s4" and nm: "no_mmap s s4"
    unfolding s4_def s3_def s2_def unset_container_def
    by (auto intro!: call_io io_only_refl call_no_mmap no_mmap_refl)
  have fd: "0 \<le> g \<Longrightarrow> 0 \<le> d \<Longrightarrow> open_fds E (history s4) \<subseteq> open_fds E (history s) - {g, d}"
    unfolding s4_def s3_def s2_def unset_container_def by (auto simp: open_fds_call)
  have live: "obj_live s4 r" using io_only_heaps(18) [OF io] vf(1) by (simp add: obj_live_def)
  obtain s' where s': "free_obj r s4 = Some s'" using live assms(1) by (simp add: free_obj_def)
  show thesis
  proof (rule that [of s'])
    show "vfio_device_close E r s = Some s'"
      using assms(1) vf none s' unfolding s4_def s3_def s2_def
      by (cases "0 \<le> g"; cases "0 \<le> d") (simp_all add: vfio_device_close_def Let_def)
    show "vfios s' = (vfios s)(r := None)" "mem s' = mem s" "vms s' = (vms s)(r := None)" "devs s' = (devs s)(r := None)"
      "no_mmap s s'" "0 \<le> g \<Longrightarrow> 0 \<le> d \<Longrightarrow> open_fds E (history s') \<subseteq> open_fds E (history s) - {g, d}"
      using s' io_only_heaps [OF io] nm fd live assms(1) by (auto simp: free_obj_def no_mmap_def)
  qed
qed

lemma probe_outcome:
  fixes g d c k E
  defines "vf \<equiv> zero_vfio_dev\<lparr>vf_container_fd := c, vf_group_fd := g, vf_device_fd := d, vf_iommu_group := k\<rparr>"
  assumes "probe_device E q vf s = Some (r, s')" and "q \<noteq> 0" and "\<not> obj_live s q" and "0 \<le> g" and "0 \<le> d"
    and "open_fds E (history s) \<subseteq> insert d (insert g fds)"
  shows "open_outcome E r fds s s'"
proof -
  have dead: "vfios s q = None" "vms s q = None" "devs s q = None" using assms(4) by (auto simp: obj_live_def)
  let ?info = "\<lparr>di_argsz = 16, di_flags = 0, di_num_regions = 0, di_num_irqs = 0\<rparr>"
  obtain ret info s1 where s1: "vfio_device_get_info E q ?info (set_vfio q vf s) = Some (ret, info, s1)"
    using assms(2) by (auto simp: probe_device_def Option.bind_eq_Some_conv)
  note a = get_info_asks [OF s1] and h = io_only_heaps [OF get_info_asks(1) [OF s1]]
  have nm: "no_mmap s s1" using a(2) by (simp add: no_mmap_def)
  have fd: "open_fds E (history s1) \<subseteq> insert d (insert g fds)" using a(3) assms(7) by auto
  show ?thesis
  proof (cases "ret < 0")
    case True
    have b: "bars_unknown g d 0 q s1"
      using h(15) by (simp add: bars_unknown_def vf_def zero_vfio_dev_def zero_vfio_region_def)
    obtain s2 where s2: "vfio_device_close E q s1 = Some s2" "vfios s2 = (vfios s1)(q := None)" "mem s2 = mem s1"
      "vms s2 = (vms s1)(q := None)" "devs s2 = (devs s1)(q := None)" "no_mmap s1 s2"
      "open_fds E (history s2) \<subseteq> open_fds E (history s1) - {g, d}"
      using vfio_close_unmapped [OF assms(3) b, of E] assms(5,6) by auto
    have "r = 0" "s' = s2" using assms(2) s1 s2(1) True by (simp_all add: probe_device_def)
    then show ?thesis
      using s2 h(1,3,5,15) fd dead no_mmap_trans [OF nm s2(6)] by (auto simp: open_outcome_def fun_upd_idem)
  next
    case False
    let ?vf' = "vf\<lparr>vf_num_regions := sint (di_num_regions info), vf_num_irqs := sint (di_num_irqs info)\<rparr>"
    have s2: "read_ids E q (set_vfio q ?vf' s1) = Some s'" and r: "r = q"
      using assms(2) s1 False by (auto simp: probe_device_def Option.bind_eq_Some_conv)
    note kp = read_ids_keeps [OF s2]
    have b: "bars_unknown g d (sint (di_num_regions info)) q s'"
      using kp bars_unknown_new by (auto simp: vfio_keeps_def vf_def)
    have "no_mmap s s'" using nm keeps_no_mmap [OF kp] by (auto simp: no_mmap_def)
    moreover have "open_fds E (history s') \<subseteq> insert d (insert g fds)" using fd keeps_open_fds [OF kp, of E] by simp
    moreover have "mem s' = mem s" "vms s' = vms s" "devs s' = devs s" "\<forall>p. p \<noteq> q \<longrightarrow> vfios s' p = vfios s p"
      using kp h by (auto simp: vfio_keeps_def vfio_frame_def)
    ultimately show ?thesis
      unfolding open_outcome_def r using b dead assms(3,5,6) by auto
  qed
qed

lemma open_device_outcome:
  assumes "open_device E bdf k g c s = Some (r, s')" and "fresh_heap s" and "0 \<le> g"
    and "open_fds E (history s) \<subseteq> insert g fds"
  shows "open_outcome E r fds s s'"
proof -
  define call where "call = SYS_ioctl g ''VFIO_GROUP_GET_DEVICE_FD'' (map of_char bdf)"
  obtain a s1 where s1: "syscall E call s = (a, s1)" by force
  obtain q s2 where s2: "alloc E s1 = (q, s2)" by force
  have fr: "vfios s (next_ref s) = None" "\<not> obj_live s (next_ref s)" "next_ref s \<noteq> 0"
    using assms(2) by (auto simp: fresh_heap_def obj_live_def)
  have k1: "mem s1 = mem s" "vms s1 = vms s" "devs s1 = devs s" "vfios s1 = vfios s" "next_ref s1 = next_ref s"
    "obj_live s1 = obj_live s" "no_mmap s s1"
    "open_fds E (history s1) \<subseteq> (if a_ret a < 0 then insert g fds else insert (a_ret a) (insert g fds))"
    using io_only_heaps [OF syscall_io_only [OF s1]] no_mmap_call [of call s E] open_fds_call [of E call s] s1 assms(4)
    by (auto simp: call_def)
  have k2: "mem s2 = mem s1" "vms s2 = vms s1" "devs s2 = devs s1" "vfios s2 = vfios s1" "history s2 = history s1"
    "obj_live s2 = obj_live s1" "q = 0 \<or> q = next_ref s1"
    using s2 by (auto simp: alloc_def obj_live_def [abs_def])
  let ?leave = "\<lambda>s. snd (syscall E (SYS_close g) (unset_container E g c s))"
  consider "a_ret a < 0" "r = 0" "s' = ?leave s1"
    | "\<not> a_ret a < 0" "q = 0" "r = 0" "s' = ?leave (snd (syscall E (SYS_close (a_ret a)) s2))"
    | "\<not> a_ret a < 0" "q \<noteq> 0"
    using assms(1) s1 s2 by (cases "a_ret a < 0"; cases "q = 0") (auto simp: open_device_def Let_def simp flip: call_def)
  then show ?thesis
  proof cases
    case 1
    then show ?thesis
      using leave_group [where s = s1 and E = E and g = g and c = c] io_only_heaps [OF leave_group(1) [where s = s1 and E = E and g = g and c = c]] k1
      by (auto simp: open_outcome_def intro: no_mmap_trans)
  next
    case 2
    let ?t = "snd (syscall E (SYS_close (a_ret a)) s2)"
    have "no_mmap s ?t" using k1(7) k2(5) call_no_mmap [of s s2] by (simp add: no_mmap_def)
    moreover have "open_fds E (history ?t) \<subseteq> insert g fds"
      using k1(8) k2(5) 2(1) by (auto simp: open_fds_call)
    ultimately show ?thesis
      using leave_group [where s = ?t and E = E and g = g and c = c] io_only_heaps [OF leave_group(1) [where s = ?t and E = E and g = g and c = c]] k1 k2 2
        io_only_heaps [OF syscall_snd_io [of s2 E "SYS_close (a_ret a)"]]
      by (auto simp: open_outcome_def intro: no_mmap_trans)
  next
    case 3
    have p: "probe_device E q (zero_vfio_dev\<lparr>vf_container_fd := c, vf_group_fd := g, vf_device_fd := a_ret a,
        vf_iommu_group := k\<rparr>) s2 = Some (r, s')"
      using assms(1) s1 s2 3 by (simp add: open_device_def Let_def flip: call_def)
    have "open_outcome E r fds s2 s'"
      using 3 fr k1 k2 assms(3) by (intro probe_outcome [OF p]) auto
    then show ?thesis using k1 k2 by (auto simp: open_outcome_def no_mmap_def split: if_splits)
  qed
qed

lemma open_rest_outcome:
  assumes "io_only s s2" and "no_mmap s s2" and "open_fds E (history s2) \<subseteq> fds" and "fresh_heap s"
    and "open_group E cont bus s2 = Some (grp, s3)"
    and "(case grp of None \<Rightarrow> Some (0, s3) | Some (gfd, cfd) \<Rightarrow> open_device E bdf bus gfd cfd s3) = Some (r, s')"
  shows "open_outcome E r fds s s'"
proof -
  note g = open_group_spec [OF assms(5)]
  have k3: "io_only s s3" "no_mmap s s3" using io_only_trans [OF assms(1) g(1)] no_mmap_trans [OF assms(2) g(2)] .
  show ?thesis
  proof (cases grp)
    case None
    then show ?thesis
      using assms(3,6) g(3) k3 io_only_heaps [OF k3(1)] by (auto simp: open_outcome_def)
  next
    case (Some gc)
    obtain gfd cfd where gc: "gc = (gfd, cfd)" by (cases gc)
    have "fresh_heap s3" using assms(4) io_only_heaps [OF k3(1)] by (simp add: fresh_heap_def)
    then have "open_outcome E r fds s3 s'"
      using assms(3,6) Some gc g(3) by (intro open_device_outcome [of E bdf bus gfd cfd]) auto
    then show ?thesis
      using io_only_heaps [OF k3(1)] no_mmap_trans [OF k3(2)] by (auto simp: open_outcome_def split: if_splits)
  qed
qed

lemma vfio_open_outcome:
  assumes "vfio_device_open E cont bdf s = Some (r, s')" and "fresh_heap s"
  shows "open_outcome E r (open_fds E (history s)) s s'"
proof -
  obtain p where p: "parse_bdf bdf = Some p" using assms(1) by (auto simp: vfio_device_open_def Option.bind_eq_Some_conv)
  show ?thesis
  proof (cases p)
    case None
    then show ?thesis using assms(1) p by (simp add: vfio_device_open_def open_outcome_def no_mmap_refl)
  next
    case (Some quad)
    obtain dom bus slot func where q: "quad = (dom, bus, slot, func)" by (cases quad)
    define c where "c = SYS_fopen (iommu_group_path dom bus slot func) ''r''"
    obtain a s1 where s1: "syscall E c s = (a, s1)" by force
    have k1: "io_only s s1" "no_mmap s s1" "open_fds E (history s1) \<subseteq> open_fds E (history s)"
      using syscall_io_only [OF s1] no_mmap_call [of c s E] open_fds_call [of E c s] s1 by (auto simp: c_def)
    show ?thesis
    proof (cases "a_ret a = 0")
      case True
      then show ?thesis
        using assms(1) p Some q s1 k1 io_only_heaps [OF k1(1)]
        by (simp add: vfio_device_open_def open_outcome_def Let_def flip: c_def)
    next
      case False
      define s2 where "s2 = snd (syscall E (SYS_fclose (a_ret a)) s1)"
      have k2: "io_only s s2" "no_mmap s s2" "open_fds E (history s2) \<subseteq> open_fds E (history s)"
        using call_io [OF k1(1)] call_no_mmap [OF k1(2)] k1(3) by (auto simp: s2_def open_fds_call)
      obtain grp s3 where s3: "open_group E cont bus s2 = Some (grp, s3)"
        using assms(1) p Some q s1 False
        by (auto simp: vfio_device_open_def Let_def s2_def Option.bind_eq_Some_conv simp flip: c_def)
      show ?thesis
        using assms(1) p Some q s1 False s3
        by (intro open_rest_outcome [OF k2 assms(2) s3]) (simp add: vfio_device_open_def Let_def s2_def flip: c_def)
    qed
  qed
qed

lemma setup_irqs_frame:
  assumes "vfio_setup_irqs E r index type s = Some (ret, s')"
  shows "devs s' = devs s" "vms s' = vms s" "no_mmap s s'"
  using assms by (auto simp: vfio_setup_irqs_def Let_def case_prod_beta Option.bind_eq_Some_conv syscall_def no_mmap_def
      split: if_splits)

section \<open>Properties\<close>

lemma hex_fields:
  assumes "fits_int i"
  shows "sint (word_of_int (i mod 4294967296) :: u32) = i"
proof -
  have "(word_of_int (i mod 4294967296) :: u32) = word_of_int i"
    by (simp add: word_of_int_eq_iff take_bit_eq_mod)
  then show ?thesis
    using assms by (simp add: fits_int_def signed_take_bit_int_eq_self_iff sint_sbintrunc')
qed

lemma parse_bdf_show:
  assumes "fits_int domain" and "fits_int bus" and "fits_int slot" and "fits_int func"
  shows "parse_bdf (show_hex 4 domain @ '':'' @ show_hex 2 bus @ '':'' @ show_hex 2 slot @ ''.'' @ show_int func)
      = Some (Some (domain, bus, slot, func))"
    and "parse_bdf (show_hex 2 bus @ '':'' @ show_hex 2 slot @ ''.'' @ show_int func) = Some (Some (0, bus, slot, func))"
proof -
  have i: "scan_int 10 (show_int func) = Some (func, [])" using scan_show_int [of "[]" func] by simp
  show "parse_bdf (show_hex 4 domain @ '':'' @ show_hex 2 bus @ '':'' @ show_hex 2 slot @ ''.'' @ show_int func)
      = Some (Some (domain, bus, slot, func))"
    "parse_bdf (show_hex 2 bus @ '':'' @ show_hex 2 slot @ ''.'' @ show_int func) = Some (Some (0, bus, slot, func))"
    using assms by (simp_all add: parse_bdf_def bdf_long_def bdf_short_def scan_show_hex digit_no_sign i hex_fields)
qed

text \<open>
  C40: the address of a device survives printing and parsing. Domain, bus, slot and function, each any
  \<open>int\<close>, printed in the long format of the path the code itself builds are parsed back; printed in
  the short format they are parsed back with domain 0.
\<close>

theorem parse_bdf_roundtrip:
  assumes "fits_int domain" and "fits_int bus" and "fits_int slot" and "fits_int func"
  shows "parse_bdf (show_hex 4 domain @ '':'' @ show_hex 2 bus @ '':'' @ show_hex 2 slot @ ''.'' @ show_int func)
      = Some (Some (domain, bus, slot, func))
    \<and> parse_bdf (show_hex 2 bus @ '':'' @ show_hex 2 slot @ ''.'' @ show_int func) = Some (Some (0, bus, slot, func))"
  using parse_bdf_show assms by simp

theorem parse_bdf_roundtrip_witness:
  "parse_bdf (show_hex 4 0 @ '':'' @ show_hex 2 1 @ '':'' @ show_hex 2 0 @ ''.'' @ show_int 1) = Some (Some (0, 1, 0, 1))"
  using parse_bdf_roundtrip [of 0 1 0 1] by (simp add: fits_int_def)

text \<open>
  C33: no BAR of a passed-through device ever reaches the guest. A device opened and registered, as the
  main program does it, is in the list of the machine, but its address range is empty, so no guest
  address is routed to it, and no region was mapped on the way: the code asks for the size of a region
  before it has read it.
\<close>

theorem vfio_bars_never_mapped:
  assumes "fresh_heap s" and "vms s vm = Some v" and "vm_devs_wf v"
    and "vfio_device_open E cont bdf s = Some (r, s1)" and "r \<noteq> 0"
    and "vfio_register_with_vm E vm r bdf s1 = Some (0, s2)"
  shows "\<exists>v' dev d. vms s2 vm = Some v' \<and> registered v' = registered v @ [dev]
     \<and> devs s2 dev = Some d \<and> d_ops d = Some Vfio_device_ops \<and> d_data d = r
     \<and> (\<forall>gpa. \<not> covers s2 dev gpa) \<and> no_mmap s s2"
proof -
  have o: "open_outcome E r (open_fds E (history s)) s s1" using vfio_open_outcome assms(1,4) by blast
  then obtain g d n where b: "bars_unknown g d n r s1" and v: "vms s1 vm = Some v" and nm: "no_mmap s s1"
    using assms(2,5) by (auto simp: open_outcome_def)
  then obtain vf where vf: "vfios s1 r = Some vf" "vf_num_regions vf = n" by (auto simp: bars_unknown_def)
  obtain dev t1 where t1: "alloc E s1 = (dev, t1)" by force
  obtain nm0 t2 where t2: "strdup E bdf (set_dev dev zero_device t1) = (nm0, t2)" by force
  let ?d = "zero_device\<lparr>d_name := nm0, d_data := r, d_ops := Some Vfio_device_ops\<rparr>"
  let ?d' = "?d\<lparr>d_gpa_start := 0xb000000, d_gpa_end := 0xaffffff, d_size := 0\<rparr>"
  have k: "vfios t2 = vfios s1" "vms t2 = vms s1" "history t2 = history s1"
    using t1 t2 by (auto simp: alloc_def strdup_def split: prod.splits)
  have "map_bars E r [1..<nat (min n 7)] 0xb000000 (set_dev dev ?d t2) = Some (0xb000000, set_dev dev ?d t2)"
    using b k(1) by (intro map_bars_none [of g d n]) (auto simp: bars_unknown_def VFIO_MAX_REGIONS_def)
  moreover have "dev \<noteq> 0" using assms(6) t1 by (cases "dev = 0") (auto simp: vfio_register_with_vm_def)
  ultimately obtain ret s5 where s5: "device_register E vm dev (set_dev dev ?d' t2) = Some (ret, s5)"
    and irqs: "(if ret < 0 then do { s6 \<leftarrow> free_obj dev s5; Some (ret, s6) }
        else do { (i, s6) \<leftarrow> vfio_setup_irqs E r VFIO_PCI_INTX_IRQ_INDEX 0 s5;
                  (j, s7) \<leftarrow> vfio_setup_irqs E r VFIO_PCI_MSIX_IRQ_INDEX 0 s6;
                  Some (0, s7) }) = Some (0, s2)"
    using assms(6) t1 t2 vf k(1) by (auto simp: vfio_register_with_vm_def Let_def Option.bind_eq_Some_conv)
  obtain s6 i j where ret: "\<not> ret < 0" and irq: "vfio_setup_irqs E r VFIO_PCI_INTX_IRQ_INDEX 0 s5 = Some (i, s6)"
      "vfio_setup_irqs E r VFIO_PCI_MSIX_IRQ_INDEX 0 s6 = Some (j, s2)"
    using irqs by (auto simp: Option.bind_eq_Some_conv split: if_splits)
  note f = setup_irqs_frame [OF irq(1)] setup_irqs_frame [OF irq(2)]
  have reg: "v_num_devices v < VM_MAX_DEVICES" "devs s5 dev = Some (?d'\<lparr>d_vm := vm\<rparr>)" "history s5 = history t2"
    "vms s5 vm = Some (v\<lparr>v_devices := (v_devices v)[v_num_devices v := dev], v_num_devices := v_num_devices v + 1\<rparr>)"
    using s5 ret k v by (auto simp: device_register_def Let_def zero_device_def split: if_splits)
  have "no_mmap s s2" using nm k(3) reg(3) f(3,6) by (auto simp: no_mmap_def)
  moreover have "\<not> covers s2 dev gpa" for gpa
    using f(1,4) reg(2) by (auto simp: covers_def word_le_nat_alt)
  ultimately show ?thesis
    using reg f assms(3) by (auto simp: registered_def vm_devs_wf_def take_Suc_conv_app_nth)
qed


text \<open>A device with six regions and a configuration region of four bytes, and a machine for it.\<close>

definition ex_bdf :: string where
  "ex_bdf = show_hex 2 1 @ '':'' @ show_hex 2 0 @ ''.'' @ show_int 1"

definition ex_vfio_env :: env where
  "ex_vfio_env = ok_env\<lparr>answer_of := (\<lambda>h c. case c of
      SYS_ioctl fd req ws \<Rightarrow>
        (if req = ''VFIO_GROUP_GET_STATUS'' then (answer_ok 0)\<lparr>a_words := [8, 1]\<rparr>
         else if req = ''VFIO_GROUP_GET_DEVICE_FD'' then answer_ok 12
         else if req = ''VFIO_DEVICE_GET_INFO'' then (answer_ok 0)\<lparr>a_words := [16, 0, 6, 5]\<rparr>
         else if req = ''VFIO_DEVICE_GET_REGION_INFO'' then (answer_ok 0)\<lparr>a_words := [32, 4, 0, 0, 4, 0]\<rparr>
         else answer_ok 0)
    | _ \<Rightarrow> answer_ok 4)\<rparr>"

definition ex_vfio_vm :: vm where
  "ex_vfio_vm = \<lparr>v_hv_vm = 0, v_state = VM_STATE_STOPPED, v_mem_regions = [], v_mem_size = 0, v_vcpus = [], v_num_vcpus = 0,
     v_devices = replicate VM_MAX_DEVICES 0, v_num_devices = 0, v_kernel_path = None, v_initrd_path = None, v_cmdline = None,
     v_irq_base = 0\<rparr>"

definition ex_vfio_host :: host where
  "ex_vfio_host = init_host\<lparr>vms := (\<lambda>_. None)(1 \<mapsto> ex_vfio_vm), vconts := (\<lambda>_. None)(2 \<mapsto> \<lparr>vc_fd = 9\<rparr>), next_ref := 3\<rparr>"

lemma setup_irqs_defined:
  assumes "vfios s r \<noteq> None"
  shows "\<exists>ret s'. vfio_setup_irqs E r index type s = Some (ret, s') \<and> vfios s' r \<noteq> None"
  using assms by (auto simp: vfio_setup_irqs_def syscall_def Let_def)

lemma vfio_register_ok:
  assumes "bars_unknown g d n r s" and "vms s vm = Some v" and "v_num_devices v < VM_MAX_DEVICES" and "vm \<noteq> 0"
    and "alloc_ok E (next_ref s)" and "next_ref s \<noteq> 0"
  shows "\<exists>s'. vfio_register_with_vm E vm r bdf s = Some (0, s')"
proof -
  obtain vf where vf: "vfios s r = Some vf" "vf_num_regions vf = n" using assms(1) by (auto simp: bars_unknown_def)
  let ?dev = "next_ref s"
  obtain nm s2 where s2: "strdup E bdf (set_dev ?dev zero_device (s\<lparr>next_ref := Suc ?dev\<rparr>)) = (nm, s2)" by force
  have k: "vfios s2 = vfios s" "vms s2 = vms s"
    using s2 by (auto simp: alloc_def strdup_def)
  let ?d = "zero_device\<lparr>d_name := nm, d_data := r, d_ops := Some Vfio_device_ops\<rparr>"
  have m: "map_bars E r [1..<nat (min n 7)] 0xb000000 (set_dev ?dev ?d s2) = Some (0xb000000, set_dev ?dev ?d s2)"
    using assms(1) k(1) by (intro map_bars_none [of g d n]) (auto simp: bars_unknown_def VFIO_MAX_REGIONS_def)
  have irqs: "\<exists>s'. (do { (i, s6) \<leftarrow> vfio_setup_irqs E r VFIO_PCI_INTX_IRQ_INDEX 0 t;
        (j, s7) \<leftarrow> vfio_setup_irqs E r VFIO_PCI_MSIX_IRQ_INDEX 0 s6; Some (0 :: int, s7) }) = Some (0, s')"
    if live: "vfios t r \<noteq> None" for t
  proof -
    obtain i s6 where s6: "vfio_setup_irqs E r VFIO_PCI_INTX_IRQ_INDEX 0 t = Some (i, s6)" "vfios s6 r \<noteq> None"
      using setup_irqs_defined [OF live] by blast
    with setup_irqs_defined [OF s6(2), of E VFIO_PCI_MSIX_IRQ_INDEX 0] show ?thesis by auto
  qed
  have "alloc E s = (?dev, s\<lparr>next_ref := Suc ?dev\<rparr>)" using assms(5) by (simp add: alloc_def)
  then show ?thesis
    using assms(2-4,6) s2 k vf m
    by (simp add: vfio_register_with_vm_def device_register_def Let_def zero_device_def irqs)
qed

lemma ex_vfio_opens:
  "\<exists>s1. vfio_device_open ex_vfio_env 2 ex_bdf ex_vfio_host = Some (3, s1) \<and> next_ref s1 \<noteq> 0"
proof -
  have p: "parse_bdf ex_bdf = Some (Some (0, 1, 0, 1))" unfolding ex_bdf_def by (rule parse_bdf_show(2) [of 0]) (simp_all add: fits_int_def)
  show ?thesis
    by (simp add: vfio_device_open_def p open_group_def open_device_def probe_device_def vfio_device_get_info_def
        read_ids_def vfio_pci_cfg_read_def read_config_def vfio_device_get_region_info_def syscall_def Let_def alloc_def
        ex_vfio_env_def ok_env_def answer_ok_def out_word_def ex_vfio_host_def init_host_def PCI_VENDOR_ID_def PCI_DEVICE_ID_def
        put_buf_def zero_region_info_def VFIO_GROUP_FLAGS_VIABLE_def VFIO_API_VERSION_def length_subrange VFIO_MAX_REGIONS_def)
qed

lemma ex_vfio_fresh: "fresh_heap ex_vfio_host"
  by (simp add: fresh_heap_def obj_live_def ex_vfio_host_def init_host_def)

theorem vfio_bars_never_mapped_witness:
  "\<exists>s1 s2 v' dev d. vfio_device_open ex_vfio_env 2 ex_bdf ex_vfio_host = Some (3, s1)
     \<and> vfio_register_with_vm ex_vfio_env 1 3 ex_bdf s1 = Some (0, s2)
     \<and> vms s2 1 = Some v' \<and> registered v' = [dev] \<and> devs s2 dev = Some d \<and> (\<forall>gpa. \<not> covers s2 dev gpa)"
proof -
  obtain s1 where s1: "vfio_device_open ex_vfio_env 2 ex_bdf ex_vfio_host = Some (3, s1)"
    and nx: "next_ref s1 \<noteq> 0"
    using ex_vfio_opens by blast
  have v: "vms ex_vfio_host 1 = Some ex_vfio_vm" "vm_devs_wf ex_vfio_vm" "registered ex_vfio_vm = []"
    "v_num_devices ex_vfio_vm < VM_MAX_DEVICES"
    by (simp_all add: ex_vfio_host_def vm_devs_wf_def ex_vfio_vm_def registered_def VM_MAX_DEVICES_def)
  from vfio_open_outcome [OF s1 ex_vfio_fresh] obtain g d n where "bars_unknown g d n 3 s1" "vms s1 1 = Some ex_vfio_vm"
    using v by (auto simp: open_outcome_def)
  then obtain s2 where s2: "vfio_register_with_vm ex_vfio_env 1 3 ex_bdf s1 = Some (0, s2)"
    using vfio_register_ok [of g d n 3 s1 1 ex_vfio_vm ex_vfio_env ex_bdf] v(4) nx by (auto simp: ex_vfio_env_def ok_env_def)
  with vfio_bars_never_mapped [OF ex_vfio_fresh v(1,2) s1 _ s2] v(3) s1 show ?thesis by fastforce
qed


end
