(* ===== verification/Device_Tables.thy ===== *)
theory Device_Tables
  imports Mmio_Console Virtio_Net Vfio
begin

text \<open>
  The device files linked together: the callbacks of the three virtio drivers and the operation
  tables of the five devices. The contracts of the virtio framework and of the device framework are
  discharged here, and the behaviour of a virtio device under arbitrary sequences of guest
  accesses is described by a step relation and an invariant of its reachable states.
\<close>

fun drv_queue_notify :: "env \<Rightarrow> virtio_driver \<Rightarrow> ref \<Rightarrow> nat \<Rightarrow> host \<Rightarrow> (int \<times> host) option" where
  "drv_queue_notify E Drv_console = virtio_console_queue_notify E"
| "drv_queue_notify E Drv_blk = virtio_blk_queue_notify E"
| "drv_queue_notify E Drv_net = virtio_net_queue_notify E"

fun drv_config_read :: "virtio_driver \<Rightarrow> ref \<Rightarrow> u64 \<Rightarrow> u8 list \<Rightarrow> u64 \<Rightarrow> host \<Rightarrow> (int \<times> u8 list \<times> host) option" where
  "drv_config_read Drv_console = virtio_console_config_read"
| "drv_config_read Drv_blk = virtio_blk_config_read"
| "drv_config_read Drv_net = virtio_net_config_read"

text \<open>The block driver installs no write callback.\<close>

fun drv_config_write :: "virtio_driver \<Rightarrow> ref \<Rightarrow> u64 \<Rightarrow> u8 list \<Rightarrow> u64 \<Rightarrow> host \<Rightarrow> (int \<times> host) option" where
  "drv_config_write Drv_console = virtio_console_config_write"
| "drv_config_write Drv_blk = (\<lambda>_ _ _ _ _. None)"
| "drv_config_write Drv_net = virtio_net_config_write"

definition virtio_drivers :: "env \<Rightarrow> virtio_cbs" where
  "virtio_drivers E = \<lparr>cb_queue_notify = drv_queue_notify E, cb_config_read = drv_config_read,
     cb_config_write = drv_config_write\<rparr>"

fun device_ops_of :: "env \<Rightarrow> device_tables" where
  "device_ops_of E Mmio_console_ops = mmio_console_ops E"
| "device_ops_of E Virtio_console_ops = virtio_console_ops E (virtio_drivers E)"
| "device_ops_of E Virtio_blk_ops = virtio_blk_ops E (virtio_drivers E)"
| "device_ops_of E Virtio_net_ops = virtio_net_ops E (virtio_drivers E)"
| "device_ops_of E Vfio_device_ops = vfio_device_ops E"

section \<open>The handlers in their frame\<close>

lemma notify_frame: "virtqueue_notify E vq s = Some s' \<Longrightarrow> handler_frame s s'"
  by (auto simp: virtqueue_notify_def split: Option.bind_splits dest: io_only_frame [OF device_assert_irq_io])

lemma push_frame: "virtqueue_push E vq ident len s = Some (vq', s') \<Longrightarrow> handler_frame s s'"
  by (auto simp: virtqueue_push_def store_word_def Let_def frame_intros Option.bind_eq_Some_conv split: if_splits
      dest!: store_handler_frame notify_frame) (auto intro: handler_frame_trans)

lemma console_loop_frame:
  assumes "console_loop E vm vq s = Some r"
  shows "handler_frame s (snd r)"
proof (rule console_loop.raw_induct [where P = "\<lambda>E vm vq s r. handler_frame s (snd r)", OF _ assms])
  fix loop E vm vq s r
  assume IH: "\<And>E vm vq s r. loop E vm vq s = Some r \<Longrightarrow> handler_frame s (snd r)"
   and b: "virtqueue_pop vq s \<bind>
         (\<lambda>b. case b of (p, vq1) \<Rightarrow> if p = NULL then Some (vq1, s)
            else read_desc s p \<bind> (\<lambda>d. vms s vm \<bind> (\<lambda>v.
              let hva = vm_gpa_to_hva v (desc_addr d) (ucast (desc_len d)) in
              if hva = NULL then loop E vm vq1 s
              else load s hva (unat (desc_len d)) \<bind> (\<lambda>bs.
                 let s1 = foldl (\<lambda>s b. putchar b s) s bs in
                 virtqueue_push E vq1 (ucast (ptr_diff p (q_desc vq1) div 16)) (desc_len d) s1 \<bind>
                 (\<lambda>b. case b of (vq2, s2) \<Rightarrow> loop E vm vq2 s2))))) = Some r"
  have fr: "handler_frame s s2" if "virtqueue_push E vq1 i l (foldl (\<lambda>s b. putchar b s) s bs) = Some (vq2, s2)" for vq1 i l bs vq2 s2
    using push_frame [OF that] foldl_putchar [of s bs] handler_frame_trans by blast
  from b show "handler_frame s (snd r)"
    by (auto simp: Let_def frame_intros split: Option.bind_splits if_splits dest!: IH dest: handler_frame_trans [OF fr])
qed

lemma set_vdev_frame: "handler_frame s (set_vdev r vd s)"
  by (simp add: handler_frame_def)

lemma put_vq_frame: "put_vq r q vq s = Some s' \<Longrightarrow> handler_frame s s'"
  by (auto simp: put_vq_def handler_frame_def split: Option.bind_splits)

lemma syscall_frame_eq [simp]:
  "handler_frame (snd (syscall E c s)) s' = handler_frame s s'" "handler_frame s' (snd (syscall E c s)) = handler_frame s' s"
  by (simp_all add: handler_frame_def syscall_def Let_def)

lemmas frame_unfold = Let_def frame_intros Option.bind_eq_Some_conv case_prod_beta

lemma blk_transfer_frame: "blk_transfer E b rq s = Some (st, s') \<Longrightarrow> handler_frame s s'"
  by (auto simp: blk_transfer_def frame_unfold split: if_splits
      dest!: store_handler_frame)

lemma virtio_console_notify_frame: "virtio_console_queue_notify E r q s = Some (ret, s') \<Longrightarrow> handler_frame s s'"
  by (auto simp: virtio_console_queue_notify_def frame_unfold
      dest!: console_loop_frame intro: handler_frame_trans [OF _ set_vdev_frame])

lemma virtio_blk_notify_frame:
  assumes "virtio_blk_queue_notify E r q s = Some (ret, s')"
  shows "handler_frame s s'"
  using assms
  by (auto simp: virtio_blk_queue_notify_def frame_unfold split: if_splits option.splits
      dest!: put_vq_frame blk_transfer_frame store_handler_frame push_frame) (auto intro: handler_frame_trans)

lemma net_chain_frame: "net_chain c vm vq p s = Some (r, s') \<Longrightarrow> handler_frame s s'"
  by (auto simp: net_chain_def frame_unfold split: if_splits
      dest!: store_handler_frame)

lemma virtio_net_rx_frame: "virtio_net_handle_rx E r q s = Some (ret, s') \<Longrightarrow> handler_frame s s'"
  by (auto simp: virtio_net_handle_rx_def frame_unfold split: if_splits option.splits
      dest!: put_vq_frame net_chain_frame store_handler_frame push_frame) (auto intro: handler_frame_trans)

lemma virtio_net_tx_frame: "virtio_net_handle_tx E r q s = Some (ret, s') \<Longrightarrow> handler_frame s s'"
  by (auto simp: virtio_net_handle_tx_def frame_unfold split: if_splits option.splits
      dest!: put_vq_frame net_chain_frame push_frame) (auto intro: handler_frame_trans)

lemma virtio_net_notify_frame: "virtio_net_queue_notify E r q s = Some (ret, s') \<Longrightarrow> handler_frame s s'"
  by (auto simp: virtio_net_queue_notify_def frame_unfold split: if_splits
      dest: virtio_net_rx_frame virtio_net_tx_frame)

interpretation vcb: virtio_callbacks "virtio_drivers E" for E
proof
  fix drv r q s ret s'
  assume "cb_queue_notify (virtio_drivers E) drv r q s = Some (ret, s')"
  then show "handler_frame s s'"
    by (cases drv) (auto simp: virtio_drivers_def
        dest: virtio_console_notify_frame virtio_blk_notify_frame virtio_net_notify_frame)
next
  fix drv r off data sz s ret data' s'
  assume "cb_config_read (virtio_drivers E) drv r off data sz s = Some (ret, data', s')"
  then show "handler_frame s s' \<and> length data' = length data"
    by (cases drv) (auto simp: virtio_drivers_def virtio_console_config_read_def virtio_blk_config_read_def
        virtio_net_config_read_def frame_intros dest!: put_buf_length split: Option.bind_splits if_splits)
next
  fix drv r off data sz s ret s'
  assume "cb_config_write (virtio_drivers E) drv r off data sz s = Some (ret, s')"
  then show "handler_frame s s'"
    by (cases drv) (auto simp: virtio_drivers_def virtio_console_config_write_def virtio_net_config_write_def
        handler_frame_def Let_def split: Option.bind_splits if_splits)
qed

section \<open>The operation tables in their contract\<close>

lemma free_obj_gone: "free_obj r s = Some s' \<Longrightarrow> r \<noteq> 0 \<Longrightarrow> devs s' r = None \<and> vdevs s' r = None"
  by (auto simp: free_obj_def split: if_splits)

text \<open>Each virtio \<open>destroy\<close> handler ends by freeing the structure the embedded device is part of.\<close>

lemma virtio_destroy_gone:
  assumes "dev \<noteq> 0"
  shows "virtio_console_destroy dev s = Some s' \<Longrightarrow> devs s' dev = None"
    and "virtio_blk_destroy E dev s = Some s' \<Longrightarrow> devs s' dev = None"
    and "virtio_net_destroy E dev s = Some s' \<Longrightarrow> devs s' dev = None"
  using assms by (auto simp: virtio_console_destroy_def virtio_blk_destroy_def virtio_net_destroy_def
      split: Option.bind_splits if_splits dest: free_obj_gone)

lemma mmio_console_destroy_frame: "mmio_console_destroy E dev s = Some s' \<Longrightarrow> vms s' = vms s \<and> devs s' = devs s"
  by (auto simp: mmio_console_destroy_def Let_def syscall_def split: Option.bind_splits if_splits prod.splits)

interpretation dt: device_handlers "device_ops_of E" for E
proof
  fix t f dev off data sz s ret data' s'
  assume "do_read (device_ops_of E t) = Some f" "f dev off data sz s = Some (ret, data', s')"
  then show "handler_frame s s' \<and> length data' = length data"
    using mmio_console_read_frame vcb.mmio_read_frame vfio_read_frame
    by (cases t) (auto simp: mmio_console_ops_def virtio_console_ops_def virtio_blk_ops_def virtio_net_ops_def vfio_device_ops_def
        virtio_console_read_def virtio_blk_read_def virtio_net_read_def)
next
  fix t g dev off data sz s ret s'
  assume "do_write (device_ops_of E t) = Some g" "g dev off data sz s = Some (ret, s')"
  then show "handler_frame s s'"
    using mmio_console_write_frame vcb.mmio_write_frame vfio_write_frame
    by (cases t) (auto simp: mmio_console_ops_def virtio_console_ops_def virtio_blk_ops_def virtio_net_ops_def vfio_device_ops_def
        virtio_console_write_def virtio_blk_write_def virtio_net_write_def)
next
  fix t h dev s s'
  assume "do_destroy (device_ops_of E t) = Some h" "dev \<noteq> 0" "h dev s = Some s'" "devs s' dev \<noteq> None"
  then show "vms s' = vms s \<and> devs s' = devs s"
    using mmio_console_destroy_frame virtio_destroy_gone vfio_destroy_gone
    by (cases t) (auto simp: mmio_console_ops_def virtio_console_ops_def virtio_blk_ops_def virtio_net_ops_def vfio_device_ops_def)
qed

section \<open>The virtio devices under guest accesses\<close>

text \<open>
  The guest can read and write the registers of a device and run on its own in between; a run of
  the guest may change any byte of memory. \<open>queues_dead\<close> says that no queue was ever set up.
\<close>

inductive guest_step :: "env \<Rightarrow> ref \<Rightarrow> host \<Rightarrow> host \<Rightarrow> bool" for E r where
  reg_read: "virtio_mmio_read (virtio_drivers E) r off data sz s = Some (ret, data', s') \<Longrightarrow> guest_step E r s s'"
| reg_write: "virtio_mmio_write E (virtio_drivers E) r off data sz s = Some (ret, s') \<Longrightarrow> guest_step E r s s'"
| runs: "guest_step E r s (guest_runs E s)"

inductive_cases guest_stepE: "guest_step E r s s'"

definition queues_dead :: "ref \<Rightarrow> host \<Rightarrow> bool" where
  "queues_dead r s \<longleftrightarrow> (\<exists>vd. vdevs s r = Some vd \<and> vd_queues vd = replicate 8 zero_virtqueue \<and> vd_num_queues vd = 0)"

definition only_irq_reads :: "ref \<Rightarrow> host \<Rightarrow> host \<Rightarrow> bool" where
  "only_irq_reads r s s' \<longleftrightarrow> (\<exists>n fd. history s' = replicate n (SYS_read fd 8) @ history s
     \<and> (n > 0 \<longrightarrow> (\<exists>d. devs s r = Some d \<and> d_irq_fd d = fd)))"

definition quiet :: "ref \<Rightarrow> host \<Rightarrow> host \<Rightarrow> bool" where
  "quiet r s s' \<longleftrightarrow> queues_dead r s' \<and> stdout_bytes s' = stdout_bytes s \<and> devs s' = devs s \<and> only_irq_reads r s s'"

lemma pop_zero: "virtqueue_pop zero_virtqueue s = Some (NULL, zero_virtqueue)"
  by (simp add: virtqueue_pop_def zero_virtqueue_def)

lemma quiet_same:
  "queues_dead r s' \<Longrightarrow> stdout_bytes s' = stdout_bytes s \<Longrightarrow> devs s' = devs s \<Longrightarrow> history s' = history s \<Longrightarrow> quiet r s s'"
  unfolding quiet_def only_irq_reads_def by (metis append_Nil less_irrefl replicate_0)

lemma quiet_trans:
  assumes "quiet r s s'" and "quiet r s' s''"
  shows "quiet r s s''"
proof -
  obtain n fd m fd' where "history s' = replicate n (SYS_read fd 8) @ history s"
    "history s'' = replicate m (SYS_read fd' 8) @ history s'" "n > 0 \<longrightarrow> (\<exists>d. devs s r = Some d \<and> d_irq_fd d = fd)"
    "m > 0 \<longrightarrow> (\<exists>d. devs s r = Some d \<and> d_irq_fd d = fd')"
    using assms unfolding quiet_def only_irq_reads_def by metis
  note h = this
  define f where "f = (if n = 0 then fd' else fd)"
  have "n = 0 \<or> fd = f" "m = 0 \<or> fd' = f" using h(3,4) by (auto simp: f_def)
  then have "replicate n (SYS_read fd 8) = replicate n (SYS_read f 8)" "replicate m (SYS_read fd' 8) = replicate m (SYS_read f 8)"
    by auto
  then have "history s'' = replicate (m + n) (SYS_read f 8) @ history s" using h(1,2) by (simp add: replicate_add)
  moreover have "m + n > 0 \<longrightarrow> (\<exists>d. devs s r = Some d \<and> d_irq_fd d = f)" using h(3,4) by (simp add: f_def)
  ultimately have "only_irq_reads r s s''" unfolding only_irq_reads_def by blast
  then show ?thesis using assms by (simp add: quiet_def)
qed

text \<open>With no queue set up a notification finds nothing, whichever driver serves it.\<close>

lemma notify_dead:
  assumes "vdevs s r = Some vd" and "vd_queues vd = replicate 8 zero_virtqueue" and "q < 8"
    and "drv_queue_notify E drv r q s = Some (ret, s')"
  shows "s' = s"
proof -
  have q: "vd_queues vd ! q = zero_virtqueue" using assms(2,3) by simp
  have same: "set_vdev r (vd\<lparr>vd_queues := (vd_queues vd)[q := zero_virtqueue]\<rparr>) s = s"
    using assms(1) q list_update_id [of "vd_queues vd" q] by (simp add: fun_upd_idem)
  have loop: "console_loop E m zero_virtqueue s = Some (zero_virtqueue, s)" for m
    by (subst console_loop.simps) (simp add: pop_zero)
  have put: "put_vq r q zero_virtqueue s = Some s" using same assms(1) by (simp add: put_vq_def)
  have "q_index zero_virtqueue = 0" by (simp add: zero_virtqueue_def)
  then show ?thesis
    using assms(1,4) q same
    by (cases drv) (auto simp: virtio_console_queue_notify_def virtio_blk_queue_notify_def virtio_net_queue_notify_def
        virtio_net_handle_rx_def pop_zero loop put split: Option.bind_splits)
qed

lemma config_read_state: "drv_config_read drv r off data sz s = Some (ret, data', s') \<Longrightarrow> s' = s"
  by (cases drv) (auto simp: virtio_console_config_read_def virtio_blk_config_read_def virtio_net_config_read_def
      split: Option.bind_splits)

lemma config_write_state:
  "drv_config_write drv r off data sz s = Some (ret, s') \<Longrightarrow>
   vdevs s' = vdevs s \<and> stdout_bytes s' = stdout_bytes s \<and> devs s' = devs s \<and> history s' = history s"
  by (cases drv) (auto simp: virtio_console_config_write_def virtio_net_config_write_def Let_def
      split: Option.bind_splits if_splits)

lemma deassert_quiet:
  assumes "device_deassert_irq E r s = Some (ret, s')" and "queues_dead r s"
  shows "quiet r s s'"
proof -
  have io: "io_only s s'" by (rule device_deassert_irq_io [OF assms(1)])
  have "only_irq_reads r s s'"
  proof (cases "history s' = history s")
    case True
    then have "history s' = replicate 0 (SYS_read fd 8) @ history s" for fd by simp
    then show ?thesis unfolding only_irq_reads_def by blast
  next
    case False
    then obtain d where "devs s r = Some d" "history s' = replicate 1 (SYS_read (d_irq_fd d) 8) @ history s"
      using assms(1) by (auto simp: device_deassert_irq_def syscall_def Let_def split: Option.bind_splits if_splits)
    then show ?thesis unfolding only_irq_reads_def by blast
  qed
  then show ?thesis using io_only_heaps [OF io] assms(2) by (simp add: quiet_def queues_dead_def)
qed

lemma write_quiet:
  assumes "virtio_mmio_write E (virtio_drivers E) r off data sz s = Some (ret, s')" and "queues_dead r s"
  shows "quiet r s s'"
proof -
  obtain vd where vd: "vdevs s r = Some vd" "vd_queues vd = replicate 8 zero_virtqueue" "vd_num_queues vd = 0"
    using assms(2) by (auto simp: queues_dead_def)
  have refl: "quiet r s s" using assms(2) by (simp add: quiet_same)
  have upd: "quiet r s (set_vdev r vd' s)" if "vd_queues vd' = vd_queues vd" "vd_num_queues vd' = vd_num_queues vd" for vd'
    using that vd by (intro quiet_same) (simp_all add: queues_dead_def)
  have cfg: "quiet r s s'" if "drv_config_write drv r o' data sz s = Some (ret, s')" for drv o'
    using config_write_state [OF that] assms(2) by (simp add: quiet_same queues_dead_def)
  show ?thesis
    using assms(1) vd refl cfg
    by (auto simp: virtio_mmio_write_def virtio_drivers_def Let_def upd split: if_splits Option.bind_splits option.splits
        dest: notify_dead [OF vd(1,2)] deassert_quiet [OF _ assms(2)])
qed

lemma read_state:
  assumes "virtio_mmio_read (virtio_drivers E) r off data sz s = Some (ret, data', s')"
  shows "s' = s"
  using assms by (auto simp: virtio_mmio_read_def virtio_drivers_def Let_def split: if_splits Option.bind_splits option.splits
      dest: config_read_state)

lemma step_quiet: "guest_step E r s s' \<Longrightarrow> queues_dead r s \<Longrightarrow> quiet r s s'"
proof (erule guest_stepE)
qed (auto dest: write_quiet dest!: read_state intro: quiet_same simp: guest_runs_def queues_dead_def)

lemma reach_quiet:
  assumes "(guest_step E r)\<^sup>*\<^sup>* s s'" and "queues_dead r s"
  shows "quiet r s s'"
  using assms
proof (induction rule: rtranclp_induct)
  case (step y z)
  then show ?case using step_quiet quiet_trans by (metis quiet_def)
qed (simp add: quiet_same)

text \<open>What each of the three constructors returns when it does not fail.\<close>

definition virtio_created :: "env \<Rightarrow> ref \<Rightarrow> host \<Rightarrow> bool" where
  "virtio_created E r s \<longleftrightarrow> r \<noteq> 0 \<and> (\<exists>s0. virtio_console_create E s0 = Some (r, s)
     \<or> (\<exists>path. virtio_blk_create E path s0 = Some (r, s)) \<or> (\<exists>name. virtio_net_create E name s0 = Some (r, s)))"

lemma strdup_fields: "strdup E str s = (nm, s') \<Longrightarrow> vdevs s' = vdevs s \<and> devs s' = devs s"
  by (auto simp: strdup_def alloc_def)

lemma virtio_init_state:
  "virtio_init E r ident s = Some (ret, s') \<Longrightarrow>
   vdevs s' = (vdevs s)(r \<mapsto> zero_virtio_dev\<lparr>vd_device_id := ident, vd_device_features := oversized_shift E\<rparr>)
   \<and> devs s' = (devs s)(r \<mapsto> zero_device)"
  by (auto simp: virtio_init_def split: if_splits)

lemma free_two_null: "free_two p r s = Some (x, s') \<Longrightarrow> x = 0"
  by (auto simp: free_two_def split: Option.bind_splits)

lemma bind_null: "(m \<bind> (\<lambda>s. Some (0, s))) = Some (x, s') \<Longrightarrow> x = 0"
  by (cases m) simp_all

text \<open>The last steps the three constructors share.\<close>

lemma attach_dead:
  assumes "(virtio_init E v ident s1 \<bind> (\<lambda>(ret, s2). vdevs s2 v \<bind> (\<lambda>vd.
      case strdup E nm (set_vdev v (f vd) s2) of (n, s3) \<Rightarrow> devs s3 v \<bind> (\<lambda>d.
        Some (v, set_dev v (virtio_device_fields t n v g z d) s3))))) = Some (r, s)"
    and "\<And>vd. vd_queues (f vd) = vd_queues vd \<and> vd_num_queues (f vd) = vd_num_queues vd"
  shows "queues_dead r s \<and> (\<exists>d. devs s r = Some d \<and> d_irq_fd d = 0)"
  using assms
  by (auto simp: queues_dead_def zero_virtio_dev_def virtio_device_fields_def zero_device_def
      split: Option.bind_splits prod.splits dest!: strdup_fields virtio_init_state)

lemma created_dead:
  assumes "virtio_created E r s"
  shows "queues_dead r s \<and> (\<exists>d. devs s r = Some d \<and> d_irq_fd d = 0)"
proof -
  have r: "r \<noteq> 0" using assms by (simp add: virtio_created_def)
  consider s0 where "virtio_console_create E s0 = Some (r, s)" | s0 path where "virtio_blk_create E path s0 = Some (r, s)"
    | s0 name where "virtio_net_create E name s0 = Some (r, s)"
    using assms unfolding virtio_created_def by blast
  then show ?thesis
  proof cases
    case 1
    with r show ?thesis
      by (simp add: virtio_console_create_def Let_def split: prod.splits if_splits)
        (auto dest!: bind_null attach_dead)
  next
    case 2
    with r show ?thesis
      by (simp add: virtio_blk_create_def Let_def split: prod.splits if_splits)
        (auto dest!: bind_null free_two_null attach_dead)
  next
    case 3
    with r show ?thesis
      by (simp add: virtio_net_create_def Let_def split: prod.splits if_splits)
        (auto dest!: bind_null free_two_null attach_dead)
  qed
qed

section \<open>Properties\<close>

text \<open>
  C11: an MMIO access reaches the right device. When the registered devices are live and their
  address ranges do not overlap, an access inside a range runs the handler of that device's table
  with the offset from the start of the range, an access outside every range is refused with -1
  and changes nothing, and whatever handler runs, the machines, the processors, the set of devices
  and the shape of memory stay as they are.
\<close>

theorem device_mmio_routing:
  assumes "devices_live s (registered v)"
    and "\<And>r r' g. r \<in> set (registered v) \<Longrightarrow> r' \<in> set (registered v) \<Longrightarrow> covers s r g \<Longrightarrow> covers s r' g \<Longrightarrow> r = r'"
  shows "(\<forall>r \<in> set (registered v). covers s r gpa \<longrightarrow> (\<forall>d t. devs s r = Some d \<longrightarrow> d_ops d = Some t \<longrightarrow>
        device_handle_mmio (device_ops_of E) v gpa True data sz s =
          map_option (\<lambda>(ret, s'). (ret, data, s'))
            (the (do_write (device_ops_of E t)) r (gpa - d_gpa_start d) data (ucast sz) s)
        \<and> device_handle_mmio (device_ops_of E) v gpa False data sz s =
            the (do_read (device_ops_of E t)) r (gpa - d_gpa_start d) data (ucast sz) s))
     \<and> ((\<forall>r \<in> set (registered v). \<not> covers s r gpa) \<longrightarrow>
        device_handle_mmio (device_ops_of E) v gpa w data sz s = Some (-1, data, s))
     \<and> (\<forall>ret data' s'. device_handle_mmio (device_ops_of E) v gpa w data sz s = Some (ret, data', s') \<longrightarrow>
        handler_frame s s' \<and> length data' = length data)"
proof (intro conjI)
  have at: "device_find_at_gpa v gpa s = Some (case find (\<lambda>r. covers s r gpa) (registered v) of None \<Rightarrow> 0 | Some r \<Rightarrow> r)"
    using find_device_find [OF assms(1)] by (simp add: device_find_at_gpa_def registered_def)
  have ops: "\<exists>f. do_read (device_ops_of E t) = Some f" "\<exists>f. do_write (device_ops_of E t) = Some f" for t
    by (cases t; simp add: mmio_console_ops_def virtio_console_ops_def virtio_blk_ops_def virtio_net_ops_def vfio_device_ops_def)+
  show "\<forall>r \<in> set (registered v). covers s r gpa \<longrightarrow> (\<forall>d t. devs s r = Some d \<longrightarrow> d_ops d = Some t \<longrightarrow>
        device_handle_mmio (device_ops_of E) v gpa True data sz s =
          map_option (\<lambda>(ret, s'). (ret, data, s'))
            (the (do_write (device_ops_of E t)) r (gpa - d_gpa_start d) data (ucast sz) s)
        \<and> device_handle_mmio (device_ops_of E) v gpa False data sz s =
            the (do_read (device_ops_of E t)) r (gpa - d_gpa_start d) data (ucast sz) s)"
  proof (intro ballI impI allI)
    fix r d t
    assume r: "r \<in> set (registered v)" "covers s r gpa" "devs s r = Some d" "d_ops d = Some t"
    then have "r \<noteq> 0" using assms(1) by (simp add: devices_live_def)
    then have "device_find_at_gpa v gpa s = Some r"
      using find_device_exact [OF assms(1), of r gpa] assms(2) r by (simp add: device_find_at_gpa_def registered_def)
    then show "device_handle_mmio (device_ops_of E) v gpa True data sz s =
          map_option (\<lambda>(ret, s'). (ret, data, s'))
            (the (do_write (device_ops_of E t)) r (gpa - d_gpa_start d) data (ucast sz) s)
        \<and> device_handle_mmio (device_ops_of E) v gpa False data sz s =
            the (do_read (device_ops_of E t)) r (gpa - d_gpa_start d) data (ucast sz) s"
      using ops [of t] r \<open>r \<noteq> 0\<close>
      by (auto simp: device_handle_mmio_def Let_def map_option_case split: Option.bind_splits option.splits)
  qed
  show "(\<forall>r \<in> set (registered v). \<not> covers s r gpa) \<longrightarrow>
        device_handle_mmio (device_ops_of E) v gpa w data sz s = Some (-1, data, s)"
    using at find_None_iff [of "\<lambda>r. covers s r gpa" "registered v"]
    by (auto simp: device_handle_mmio_def)
  show "\<forall>ret data' s'. device_handle_mmio (device_ops_of E) v gpa w data sz s = Some (ret, data', s') \<longrightarrow>
        handler_frame s s' \<and> length data' = length data"
    using dt.handle_mmio_frame by blast
qed

definition ex_dt_vm :: vm where
  "ex_dt_vm = ex_vm\<lparr>v_devices := (replicate 16 0)[0 := 5], v_num_devices := 1\<rparr>"

definition ex_dt_host :: host where
  "ex_dt_host = ex_vm_mem\<lparr>vms := (\<lambda>_. None)(2 \<mapsto> ex_dt_vm),
     devs := (\<lambda>_. None)(5 \<mapsto> ex_console_dev\<lparr>d_data := 6, d_vm := 2\<rparr>), uarts := (\<lambda>_. None)(6 \<mapsto> uart_init 0), next_ref := 7\<rparr>"

lemma ex_dt_registered: "registered ex_dt_vm = [5]"
  by (simp add: registered_def ex_dt_vm_def numeral_eq_Suc)

theorem device_mmio_routing_witness:
  "\<exists>s'. device_handle_mmio (device_ops_of ok_env) ex_dt_vm 0x90000000 True [0x41] 1 ex_dt_host = Some (0, [0x41], s')
     \<and> stdout_bytes s' = [0x41]"
proof -
  let ?d = "ex_console_dev\<lparr>d_data := 6, d_vm := 2\<rparr>"
  have d: "devs ex_dt_host 5 = Some ?d" "5 \<in> set (registered ex_dt_vm)" "d_ops ?d = Some Mmio_console_ops"
    "covers ex_dt_host 5 0x90000000" "d_gpa_start ?d = 0x90000000" "uarts ex_dt_host 6 = Some (uart_init 0)"
    "stdout_bytes ex_dt_host = []"
    by (simp_all add: ex_dt_host_def ex_console_dev_def ex_dt_registered covers_def ex_vm_mem_def ex_machine_def
        ex_vm_host_def init_host_def)
  have "devices_live ex_dt_host (registered ex_dt_vm)" using d(1) by (simp add: devices_live_def ex_dt_registered)
  from device_mmio_routing [OF this, where gpa = "0x90000000" and E = ok_env and data = "[0x41]" and sz = 1 and w = True] d
  have "device_handle_mmio (device_ops_of ok_env) ex_dt_vm 0x90000000 True [0x41] 1 ex_dt_host =
     map_option (\<lambda>(ret, s'). (ret, [0x41], s')) (mmio_console_write ok_env 5 0 [0x41] (ucast (1 :: u8)) ex_dt_host)"
    by (simp add: ex_dt_registered mmio_console_ops_def)
  also have "\<exists>s'. \<dots> = Some (0, [0x41], s') \<and> stdout_bytes s' = [0x41]"
    using d by (simp add: mmio_console_write_def uart_transmit_def putchar_def uart_init_def zero_uart_def)
  finally show ?thesis .
qed

text \<open>
  Unregistering a console takes exactly it out of its machine. The handler runs to the end,
  the device and its registers are given back, every other device keeps its place in the order of
  registration, and no other machine changes.
\<close>

theorem device_unregister_console:
  assumes "console_live s dev d u" and "dev \<noteq> 0" and "d_data d \<noteq> 0" and "d_data d \<noteq> dev"
    and "d_ops d = Some Mmio_console_ops" and "d_vm d \<noteq> 0" and "vms s (d_vm d) = Some v" and "vm_devs_wf v"
    and "vms s dev = None" and "vms s (d_data d) = None"
  shows "\<exists>s' v'. device_unregister E (device_ops_of E) dev s = Some s'
     \<and> devs s' = (devs s)(dev := None, d_data d := None) \<and> vms s' = (vms s)(d_vm d \<mapsto> v')
     \<and> vm_devs_wf v' \<and> registered v' = remove1 dev (registered v)"
proof -
  have dev: "devs s dev = Some d" using assms(1) by (simp add: console_live_def)
  have "console_live (set_vm (d_vm d) (remove_device v dev) s) dev d u" using assms(1) by (simp add: console_live_def)
  from console_device_destroy [OF this assms(2-5), of "device_ops_of E" E]
  obtain s' where "device_destroy E (device_ops_of E) dev (set_vm (d_vm d) (remove_device v dev) s) = Some s'"
    and devs: "devs s' = (devs s)(dev := None, d_data d := None)" by auto
  then have un: "device_unregister E (device_ops_of E) dev s = Some s'"
    using assms(2,6,7) dev by (simp add: device_unregister_def)
  from dt.unregister_removes [OF un assms(2) dev assms(6-10)] un devs show ?thesis by auto
qed

theorem device_unregister_console_witness:
  "\<exists>s' v'. device_unregister ok_env (device_ops_of ok_env) 5 ex_dt_host = Some s'
     \<and> devs s' = (\<lambda>_. None) \<and> vms s' = (vms ex_dt_host)(2 \<mapsto> v') \<and> registered v' = []"
proof -
  let ?d = "ex_console_dev\<lparr>d_data := 6, d_vm := 2\<rparr>"
  have "console_live ex_dt_host 5 ?d (uart_init 0)" "vms ex_dt_host (d_vm ?d) = Some ex_dt_vm" "vm_devs_wf ex_dt_vm"
    "vms ex_dt_host 5 = None" "vms ex_dt_host (d_data ?d) = None" "d_ops ?d = Some Mmio_console_ops"
    by (simp_all add: console_live_def ex_dt_host_def vm_devs_wf_def ex_dt_vm_def VM_MAX_DEVICES_def ex_vm_def ex_console_dev_def)
  from device_unregister_console [OF this(1) _ _ _ this(6) _ this(2-5), of ok_env]
  show ?thesis by (auto simp: ex_dt_registered ex_dt_host_def)
qed

text \<open>
  C31: destroying a virtio or a passed-through device is never defined. The \<open>destroy\<close> handler of each of
  the four frees the structure of the device, and \<open>device_destroy\<close> reads it again afterwards.
\<close>

theorem virtio_device_destroy_undefined:
  assumes "dev \<noteq> 0" and "devs s dev = Some d" and "d_ops d \<in> {Some Virtio_console_ops, Some Virtio_blk_ops, Some Virtio_net_ops, Some Vfio_device_ops}"
  shows "device_destroy E (device_ops_of E) dev s = None"
  using assms virtio_destroy_gone [OF assms(1)] vfio_destroy_gone [OF _ assms(1)]
  by (auto simp: device_destroy_def virtio_console_ops_def virtio_blk_ops_def virtio_net_ops_def vfio_device_ops_def
      split: Option.bind_splits)

definition ex_created :: "(ref \<times> host) option" where
  "ex_created = virtio_console_create ok_env init_host"

lemma ex_created_ok: "\<exists>s d. ex_created = Some (1, s) \<and> devs s 1 = Some d \<and> d_ops d = Some Virtio_console_ops
   \<and> virtio_created ok_env 1 s"
proof -
  have "\<exists>s d. ex_created = Some (1, s) \<and> devs s 1 = Some d \<and> d_ops d = Some Virtio_console_ops"
    by (simp add: ex_created_def virtio_console_create_def ok_env_def init_host_def alloc_def Let_def strdup_def
        virtio_init_def virtio_device_fields_def)
  then show ?thesis unfolding virtio_created_def ex_created_def by auto
qed

theorem virtio_device_destroy_undefined_witness:
  "\<exists>s. virtio_console_create ok_env init_host = Some (1, s)
     \<and> device_destroy ok_env (device_ops_of ok_env) 1 s = None"
  using ex_created_ok virtio_device_destroy_undefined [of 1 _ _ ok_env] by (fastforce simp: ex_created_def)

text \<open>
  C4: a virtio device never serves a queue. From the state a constructor returns, every sequence
  of register reads, register writes and guest runs leaves all eight queues as they were
  initialised, writes nothing to standard output, and makes no external call but reads of eight
  bytes from the device's interrupt descriptor; that descriptor is 0, standard input, because the
  structure was cleared after its creation.
\<close>

theorem virtio_queues_never_served:
  assumes "virtio_created E r s" and "(guest_step E r)\<^sup>*\<^sup>* s s'"
  shows "(\<exists>vd. vdevs s' r = Some vd \<and> vd_queues vd = replicate 8 zero_virtqueue \<and> vd_num_queues vd = 0)
     \<and> stdout_bytes s' = stdout_bytes s \<and> (\<exists>n. history s' = replicate n (SYS_read 0 8) @ history s)"
proof -
  obtain d where d: "queues_dead r s" "devs s r = Some d" "d_irq_fd d = 0" using created_dead [OF assms(1)] by blast
  have q: "quiet r s s'" by (rule reach_quiet [OF assms(2) d(1)])
  then obtain n fd where h: "history s' = replicate n (SYS_read fd 8) @ history s" "n > 0 \<longrightarrow> fd = 0"
    using d unfolding quiet_def only_irq_reads_def by auto
  then have "history s' = replicate n (SYS_read 0 8) @ history s" by (cases "n = 0") auto
  then show ?thesis using q by (auto simp: quiet_def queues_dead_def)
qed

theorem virtio_queues_never_served_witness:
  "\<exists>s s'. virtio_console_create ok_env init_host = Some (1, s) \<and> guest_step ok_env 1 s s'
     \<and> s' = guest_runs ok_env s \<and> stdout_bytes s' = stdout_bytes s
     \<and> (\<exists>n. history s' = replicate n (SYS_read 0 8) @ history s)"
proof -
  obtain s where s: "ex_created = Some (1, s)" "virtio_created ok_env 1 s" using ex_created_ok by blast
  have st: "guest_step ok_env 1 s (guest_runs ok_env s)" by (rule guest_step.runs)
  then have "(guest_step ok_env 1)\<^sup>*\<^sup>* s (guest_runs ok_env s)" by simp
  from virtio_queues_never_served [OF s(2) this] s(1) st show ?thesis by (auto simp: ex_created_def)
qed

end
