(* ===== verification/Vcpu.thy ===== *)
theory Vcpu
  imports Device_Tables
begin

text \<open>
  Virtual processors, \<^verbatim>\<open>src/vcpu.c\<close>: creation and destruction, the thread that runs a processor,
  and the handlers of its exits. The thread is a loop with fuel; its result says whether the fuel
  was enough, and a theorem bounds what is needed. The operations that other threads call
  (\<open>vcpu_start\<close>, \<open>vcpu_stop\<close>) are atomic here: between two of them the thread may have taken any
  number of iterations.
\<close>

abbreviation set_vcpu :: "ref \<Rightarrow> vcpu \<Rightarrow> host \<Rightarrow> host" where
  "set_vcpu r c s \<equiv> s\<lparr>vcpus := (vcpus s)(r \<mapsto> c)\<rparr>"

definition zero_vcpu :: vcpu where
  "zero_vcpu = \<lparr>c_hv_vcpu = 0, c_vm = 0, c_index = 0, c_state = VCPU_STATE_STOPPED, c_should_stop = False,
     c_initial_rip = 0, c_has_initial_state = False, c_exit_count = 0, c_io_count = 0, c_mmio_count = 0,
     c_halt_count = 0, c_shutdown_count = 0, c_exception_count = 0, c_canceled_count = 0, c_vtimer_count = 0,
     c_unknown_count = 0, c_total_run_time_us = 0, c_instructions_executed = 0\<rparr>"

section \<open>Creation, start and stop\<close>

definition vcpu_create :: "env \<Rightarrow> hv_linked \<Rightarrow> ref \<Rightarrow> int \<Rightarrow> host \<Rightarrow> (ref \<times> host) option" where
  "vcpu_create E ops vm index s =
     (let (r, s1) = alloc E s in
      if r = 0 then Some (0, s1)
      else
        let s2 = set_vcpu r zero_vcpu s1 in
        (case arch_of E of
           X86_64 \<Rightarrow>
             do {
               v \<leftarrow> vms s2 vm;
               (h, s3) \<leftarrow> hv_create_vcpu ops (v_hv_vm v) index s2;
               if h = 0 then do { s4 \<leftarrow> free_obj r s3; Some (0, s4) }
               else Some (r, set_vcpu r (zero_vcpu\<lparr>c_hv_vcpu := h, c_vm := vm, c_index := index\<rparr>) s3) }
         | AARCH64 \<Rightarrow> Some (r, set_vcpu r (zero_vcpu\<lparr>c_vm := vm, c_index := index\<rparr>) s2)))"

definition vcpu_start :: "env \<Rightarrow> ref \<Rightarrow> host \<Rightarrow> (int \<times> host) option" where
  "vcpu_start E r s =
     do {
       c \<leftarrow> vcpus s r;
       if c_state c = VCPU_STATE_RUNNING then Some (0, s)
       else
         let c1 = c\<lparr>c_should_stop := False\<rparr>;
             (a, s1) = syscall E (SYS_pthread_create r) (set_vcpu r c1 s) in
         if a_ret a \<noteq> 0 then Some (-1, s1)
         else Some (0, set_vcpu r (c1\<lparr>c_state := VCPU_STATE_RUNNING\<rparr>) s1) }"

definition vcpu_stop :: "env \<Rightarrow> hv_linked \<Rightarrow> ref \<Rightarrow> host \<Rightarrow> (int \<times> host) option" where
  "vcpu_stop E ops r s =
     do {
       c \<leftarrow> vcpus s r;
       if c_state c \<noteq> VCPU_STATE_RUNNING then Some (0, s)
       else do {
         let s1 = set_vcpu r (c\<lparr>c_should_stop := True\<rparr>) s;
         s2 \<leftarrow> (if arch_of E = AARCH64 \<and> c_hv_vcpu c \<noteq> 0
                then do { (ret, s') \<leftarrow> hv_vcpu_exit ops (c_hv_vcpu c) s1; Some s' } else Some s1);
         let s3 = snd (syscall E (SYS_pthread_join r) (snd (syscall E (SYS_pthread_cancel r) s2)));
         c3 \<leftarrow> vcpus s3 r;
         Some (0, set_vcpu r (c3\<lparr>c_state := VCPU_STATE_STOPPED\<rparr>) s3) } }"

text \<open>The last log line reads the structure again, when information is logged.\<close>

definition vcpu_destroy :: "env \<Rightarrow> hv_linked \<Rightarrow> ref \<Rightarrow> host \<Rightarrow> host option" where
  "vcpu_destroy E ops r s =
     (if r = 0 then Some s
      else do {
        c \<leftarrow> vcpus s r;
        s1 \<leftarrow> (if c_state c = VCPU_STATE_RUNNING
               then do { (ret, s') \<leftarrow> vcpu_stop E ops r s; Some s' } else Some s);
        c1 \<leftarrow> vcpus s1 r;
        s2 \<leftarrow> hv_destroy_vcpu ops (c_hv_vcpu c1) s1;
        s3 \<leftarrow> free_obj r s2;
        if log_level s3 \<ge> LOG_LEVEL_INFO then do { c3 \<leftarrow> vcpus s3 r; Some s3 } else Some s3 })"

section \<open>Registers\<close>

definition vcpu_reset :: "hv_linked \<Rightarrow> ref \<Rightarrow> host \<Rightarrow> (int \<times> host) option" where
  "vcpu_reset ops r s =
     do {
       c \<leftarrow> vcpus s r;
       (ret, s') \<leftarrow> hv_set_regs ops (c_hv_vcpu c) (zero_regs\<lparr>rg_rip := 0x100000, rg_rflags := 0x2\<rparr>) s;
       Some (if ret < 0 then -1 else 0, s') }"

definition vcpu_run :: "hv_linked \<Rightarrow> ref \<Rightarrow> host \<Rightarrow> (int \<times> host) option" where
  "vcpu_run ops r s = do { c \<leftarrow> vcpus s r; hv_run ops (c_hv_vcpu c) s }"

definition vcpu_get_regs :: "hv_linked \<Rightarrow> ref \<Rightarrow> hv_regs \<Rightarrow> host \<Rightarrow> (int \<times> hv_regs \<times> host) option" where
  "vcpu_get_regs ops r regs s = do { c \<leftarrow> vcpus s r; hv_get_regs ops (c_hv_vcpu c) regs s }"

definition vcpu_set_regs :: "hv_linked \<Rightarrow> ref \<Rightarrow> hv_regs \<Rightarrow> host \<Rightarrow> (int \<times> host) option" where
  "vcpu_set_regs ops r regs s = do { c \<leftarrow> vcpus s r; hv_set_regs ops (c_hv_vcpu c) regs s }"

definition vcpu_get_sregs :: "hv_linked \<Rightarrow> ref \<Rightarrow> hv_sregs \<Rightarrow> host \<Rightarrow> (int \<times> hv_sregs \<times> host) option" where
  "vcpu_get_sregs ops r sregs s = do { c \<leftarrow> vcpus s r; hv_get_sregs ops (c_hv_vcpu c) sregs s }"

definition vcpu_set_sregs :: "hv_linked \<Rightarrow> ref \<Rightarrow> hv_sregs \<Rightarrow> host \<Rightarrow> (int \<times> host) option" where
  "vcpu_set_sregs ops r sregs s = do { c \<leftarrow> vcpus s r; hv_set_sregs ops (c_hv_vcpu c) sregs s }"

section \<open>Exit handlers\<close>

definition vcpu_handle_halt :: "ref \<Rightarrow> host \<Rightarrow> (int \<times> host) option" where
  "vcpu_handle_halt r s = Some (0, s)"

definition vcpu_handle_shutdown :: "ref \<Rightarrow> host \<Rightarrow> (int \<times> host) option" where
  "vcpu_handle_shutdown r s = do { c \<leftarrow> vcpus s r; Some (0, set_vcpu r (c\<lparr>c_should_stop := True\<rparr>) s) }"

definition vcpu_handle_fail_entry :: "ref \<Rightarrow> u64 \<Rightarrow> host \<Rightarrow> (int \<times> host) option" where
  "vcpu_handle_fail_entry r err s = do { c \<leftarrow> vcpus s r; Some (-1, set_vcpu r (c\<lparr>c_should_stop := True\<rparr>) s) }"

text \<open>
  The bytes of an OUT, low byte first. The shift of the 32-bit data is defined for the first four
  only.
\<close>

definition io_bytes :: "hv_io \<Rightarrow> u8 list option" where
  "io_bytes io =
     (if unat (io_size io) \<le> 4
      then Some (map (\<lambda>i. ucast (drop_bit (i * 8) (io_data io) AND 0xff)) [0..<unat (io_size io)]) else None)"

definition vcpu_handle_io_exit :: "ref \<Rightarrow> hv_io \<Rightarrow> host \<Rightarrow> (int \<times> hv_io \<times> host) option" where
  "vcpu_handle_io_exit r io s =
     (if io_port io = 0x3f8 \<or> io_port io = 0x3f9 then
        (if io_direction io = HV_IO_OUT
         then do { bs \<leftarrow> io_bytes io; Some (0, io, foldl (\<lambda>s b. putchar b s) s bs) }
         else Some (0, io\<lparr>io_data := 0\<rparr>, s))
      else if io_port io \<ge> 0x3c0 \<and> io_port io \<le> 0x3da then
        Some (0, if io_direction io = HV_IO_IN then io\<lparr>io_data := 0\<rparr> else io, s)
      else Some (0, io, s))"

text \<open>The handler is called through \<open>dev->ops\<close> without a check.\<close>

definition vcpu_handle_mmio_exit :: "device_tables \<Rightarrow> ref \<Rightarrow> hv_mmio \<Rightarrow> host \<Rightarrow> (int \<times> host) option" where
  "vcpu_handle_mmio_exit tbl r m s =
     do {
       c \<leftarrow> vcpus s r;
       v \<leftarrow> vms s (c_vm c);
       dev \<leftarrow> vm_find_device_at_gpa v (mmio_addr m) s;
       if dev = 0 then Some (0, s)
       else do {
         d \<leftarrow> devs s dev;
         t \<leftarrow> d_ops d;
         let off = mmio_addr m - d_gpa_start d;
         if mmio_is_write m \<noteq> 0
         then do { f \<leftarrow> do_write (tbl t); f dev off (le_bytes 8 (mmio_data m)) (ucast (mmio_size m)) s }
         else do { f \<leftarrow> do_read (tbl t);
                   (ret, data, s') \<leftarrow> f dev off (le_bytes 8 (mmio_data m)) (ucast (mmio_size m)) s;
                   Some (ret, s') } } }"

definition vcpu_handle_exit :: "device_tables \<Rightarrow> ref \<Rightarrow> hv_exit \<Rightarrow> host \<Rightarrow> (int \<times> host) option" where
  "vcpu_handle_exit tbl r ex s =
     do {
       c0 \<leftarrow> vcpus s r;
       let c = c0\<lparr>c_exit_count := c_exit_count c0 + 1\<rparr>;
       (case ex_reason ex of
          HV_EXIT_HLT \<Rightarrow> vcpu_handle_halt r (set_vcpu r (c\<lparr>c_halt_count := c_halt_count c + 1\<rparr>) s)
        | HV_EXIT_IO \<Rightarrow>
            do { (ret, io, s') \<leftarrow> vcpu_handle_io_exit r (ex_io ex) (set_vcpu r (c\<lparr>c_io_count := c_io_count c + 1\<rparr>) s);
                 Some (ret, s') }
        | HV_EXIT_MMIO \<Rightarrow> vcpu_handle_mmio_exit tbl r (ex_mmio ex) (set_vcpu r (c\<lparr>c_mmio_count := c_mmio_count c + 1\<rparr>) s)
        | HV_EXIT_EXTERNAL \<Rightarrow> Some (0, set_vcpu r c s)
        | HV_EXIT_SHUTDOWN \<Rightarrow>
            vcpu_handle_shutdown r (set_vcpu r (c\<lparr>c_shutdown_count := c_shutdown_count c + 1, c_should_stop := True\<rparr>) s)
        | HV_EXIT_FAIL_ENTRY \<Rightarrow> vcpu_handle_fail_entry r (ex_error_code ex) (set_vcpu r c s)
        | HV_EXIT_INTERNAL_ERROR \<Rightarrow> Some (-1, set_vcpu r (c\<lparr>c_should_stop := True\<rparr>) s)
        | HV_EXIT_EXCEPTION \<Rightarrow>
            Some (0, set_vcpu r (c\<lparr>c_exception_count := c_exception_count c + 1, c_should_stop := True\<rparr>) s)
        | HV_EXIT_IRQ_WINDOW_OPEN \<Rightarrow> Some (0, set_vcpu r c s)
        | HV_EXIT_SET_TPR \<Rightarrow> Some (0, set_vcpu r c s)
        | HV_EXIT_TPR_ACCESS \<Rightarrow> Some (0, set_vcpu r c s)
        | HV_EXIT_NMI \<Rightarrow> Some (0, set_vcpu r c s)
        | HV_EXIT_SYSTEM_EVENT \<Rightarrow>
            Some (0, set_vcpu r (c\<lparr>c_shutdown_count := c_shutdown_count c + 1, c_should_stop := True\<rparr>) s)
        | HV_EXIT_X86_RDMSR \<Rightarrow> Some (0, set_vcpu r c s)
        | HV_EXIT_X86_WRMSR \<Rightarrow> Some (0, set_vcpu r c s)
        | HV_EXIT_X86_HYPERCALL \<Rightarrow> Some (0, set_vcpu r c s)
        | HV_EXIT_DIRTY_LOG_FULL \<Rightarrow> Some (0, set_vcpu r c s)
        | HV_EXIT_X86_BUS_LOCK \<Rightarrow> Some (0, set_vcpu r c s)
        | HV_EXIT_ARM_EXCEPTION \<Rightarrow> Some (-1, set_vcpu r (c\<lparr>c_exception_count := c_exception_count c + 1\<rparr>) s)
        | HV_EXIT_ARM_TRAP \<Rightarrow> Some (0, set_vcpu r c s)
        | HV_EXIT_ARM_MMIO \<Rightarrow> Some (0, set_vcpu r (c\<lparr>c_mmio_count := c_mmio_count c + 1\<rparr>) s)
        | HV_EXIT_ARM_IRQ \<Rightarrow> Some (0, set_vcpu r c s)
        | HV_EXIT_CANCELED \<Rightarrow>
            Some (0, set_vcpu r (c\<lparr>c_canceled_count := c_canceled_count c + 1, c_should_stop := True\<rparr>) s)
        | HV_EXIT_VTIMER \<Rightarrow> Some (0, set_vcpu r (c\<lparr>c_vtimer_count := c_vtimer_count c + 1\<rparr>) s)
        | _ \<Rightarrow>
            Some (if ex_reason ex \<in> {HV_EXIT_DCR, HV_EXIT_OSI, HV_EXIT_PAPR_HCALL, HV_EXIT_S390_SIEIC,
                      HV_EXIT_S390_RESET, HV_EXIT_S390_UCONTROL, HV_EXIT_WATCHDOG, HV_EXIT_S390_TSCH, HV_EXIT_EPR,
                      HV_EXIT_S390_STSI, HV_EXIT_IOAPIC_EOI, HV_EXIT_HYPERV, HV_EXIT_ARM_NISV} then 0 else -1,
                  set_vcpu r (c\<lparr>c_unknown_count := c_unknown_count c + 1\<rparr>) s)) }"

section \<open>The processor thread\<close>

datatype next_step = Again | Finish

text \<open>
  One iteration of the loop. The exit structure on the stack is filled by every backend that
  reports success; it starts out zero here.
\<close>

definition vcpu_iteration :: "hv_linked \<Rightarrow> device_tables \<Rightarrow> ref \<Rightarrow> host \<Rightarrow> (next_step \<times> host) option" where
  "vcpu_iteration ops tbl r s =
     do {
       (ret, s1) \<leftarrow> vcpu_run ops r s;
       if ret < 0 then Some (if errno s1 = EINTR then Again else Finish, s1)
       else do {
         c1 \<leftarrow> vcpus s1 r;
         (ret2, ex, s2) \<leftarrow> hv_get_exit ops (c_hv_vcpu c1) zero_exit s1;
         if ret2 < 0 then Some (Finish, s2)
         else do {
           (ret3, s3) \<leftarrow> vcpu_handle_exit tbl r ex s2;
           if ret3 < 0 then Some (Finish, s3)
           else do {
             c3 \<leftarrow> vcpus s3 r;
             let n = c_exit_count c3 + 1;
             Some (if n > 1000 then Finish else Again, set_vcpu r (c3\<lparr>c_exit_count := n\<rparr>) s3) } } } }"

text \<open>The loop: \<^const>\<open>True\<close> when it ended, \<^const>\<open>False\<close> when the fuel ran out.\<close>

fun vcpu_thread_loop :: "hv_linked \<Rightarrow> device_tables \<Rightarrow> nat \<Rightarrow> ref \<Rightarrow> host \<Rightarrow> (bool \<times> host) option" where
  "vcpu_thread_loop ops tbl 0 r s = Some (False, s)"
| "vcpu_thread_loop ops tbl (Suc n) r s =
     do {
       c \<leftarrow> vcpus s r;
       if c_should_stop c then Some (True, s)
       else do {
         (nx, s') \<leftarrow> vcpu_iteration ops tbl r s;
         case nx of Finish \<Rightarrow> Some (True, s') | Again \<Rightarrow> vcpu_thread_loop ops tbl n r s' } }"

definition vcpu_thread_func :: "env \<Rightarrow> hv_linked \<Rightarrow> device_tables \<Rightarrow> nat \<Rightarrow> ref \<Rightarrow> host \<Rightarrow> (bool \<times> host) option" where
  "vcpu_thread_func E ops tbl fuel r s =
     do {
       c \<leftarrow> vcpus s r;
       if arch_of E = AARCH64 \<and> c_hv_vcpu c = 0 then
         do {
           v \<leftarrow> vms s (c_vm c);
           (h, s1) \<leftarrow> hv_create_vcpu ops (v_hv_vm v) (c_index c) s;
           c1 \<leftarrow> vcpus s1 r;
           let s2 = set_vcpu r (c1\<lparr>c_hv_vcpu := h\<rparr>) s1;
           if h = 0 then Some (True, s2)
           else if c_has_initial_state c1 then
             do {
               (ret, s3) \<leftarrow> hv_set_regs ops h (zero_regs\<lparr>rg_rip := c_initial_rip c1, rg_rflags := 0x2\<rparr>) s2;
               if ret < 0 then Some (True, s3) else vcpu_thread_loop ops tbl fuel r s3 }
           else vcpu_thread_loop ops tbl fuel r s2 }
       else vcpu_thread_loop ops tbl fuel r s }"

section \<open>Statistics\<close>

definition vcpu_reset_stats :: "ref \<Rightarrow> host \<Rightarrow> host option" where
  "vcpu_reset_stats r s =
     (if r = 0 then Some s
      else do {
        c \<leftarrow> vcpus s r;
        Some (set_vcpu r (c\<lparr>c_exit_count := 0, c_io_count := 0, c_mmio_count := 0, c_halt_count := 0,
          c_shutdown_count := 0, c_exception_count := 0, c_canceled_count := 0, c_vtimer_count := 0,
          c_unknown_count := 0, c_total_run_time_us := 0, c_instructions_executed := 0\<rparr>) s) })"

text \<open>The numbers of the printed table, in order; the rate only when there was run time.\<close>

definition vcpu_print_stats :: "vcpu \<Rightarrow> u64 list" where
  "vcpu_print_stats c =
     [c_exit_count c, c_io_count c, c_mmio_count c, c_halt_count c, c_shutdown_count c, c_exception_count c,
      c_canceled_count c, c_vtimer_count c, c_unknown_count c, c_total_run_time_us c]
     @ (if c_total_run_time_us c > 0 then [(c_exit_count c * 1000000) div c_total_run_time_us c] else [])
     @ [c_instructions_executed c]"

section \<open>What an exit changes\<close>

text \<open>The counters and the stop flag of a processor may change, what it is may not.\<close>

definition same_vcpu :: "vcpu \<Rightarrow> vcpu \<Rightarrow> bool" where
  "same_vcpu c c' \<longleftrightarrow> c_hv_vcpu c' = c_hv_vcpu c \<and> c_vm c' = c_vm c \<and> c_index c' = c_index c \<and> c_state c' = c_state c
     \<and> c_initial_rip c' = c_initial_rip c \<and> c_has_initial_state c' = c_has_initial_state c"

text \<open>
  The reference for exits: which reasons stop the processor, which make the handler fail, which
  counter each of them adds to.
\<close>

definition exit_stops :: "hv_exit_reason \<Rightarrow> bool" where
  "exit_stops x \<longleftrightarrow> x \<in> {HV_EXIT_SHUTDOWN, HV_EXIT_FAIL_ENTRY, HV_EXIT_INTERNAL_ERROR, HV_EXIT_EXCEPTION,
     HV_EXIT_SYSTEM_EVENT, HV_EXIT_CANCELED}"

definition exit_fails :: "hv_exit_reason \<Rightarrow> bool" where
  "exit_fails x \<longleftrightarrow> x \<in> {HV_EXIT_FAIL_ENTRY, HV_EXIT_INTERNAL_ERROR, HV_EXIT_ARM_EXCEPTION, HV_EXIT_UNKNOWN,
     HV_EXIT_NONE, HV_EXIT_HVF_VMX}"

definition exit_silent :: "hv_exit_reason \<Rightarrow> bool" where
  "exit_silent x \<longleftrightarrow> x \<in> {HV_EXIT_EXTERNAL, HV_EXIT_FAIL_ENTRY, HV_EXIT_INTERNAL_ERROR, HV_EXIT_IRQ_WINDOW_OPEN,
     HV_EXIT_SET_TPR, HV_EXIT_TPR_ACCESS, HV_EXIT_NMI, HV_EXIT_X86_RDMSR, HV_EXIT_X86_WRMSR, HV_EXIT_X86_HYPERCALL,
     HV_EXIT_DIRTY_LOG_FULL, HV_EXIT_X86_BUS_LOCK, HV_EXIT_ARM_TRAP, HV_EXIT_ARM_IRQ}"

definition tally :: "hv_exit_reason \<Rightarrow> vcpu \<Rightarrow> vcpu" where
  "tally x c =
     (if x = HV_EXIT_HLT then c\<lparr>c_halt_count := c_halt_count c + 1\<rparr>
      else if x = HV_EXIT_IO then c\<lparr>c_io_count := c_io_count c + 1\<rparr>
      else if x = HV_EXIT_MMIO \<or> x = HV_EXIT_ARM_MMIO then c\<lparr>c_mmio_count := c_mmio_count c + 1\<rparr>
      else if x = HV_EXIT_SHUTDOWN \<or> x = HV_EXIT_SYSTEM_EVENT then c\<lparr>c_shutdown_count := c_shutdown_count c + 1\<rparr>
      else if x = HV_EXIT_EXCEPTION \<or> x = HV_EXIT_ARM_EXCEPTION then c\<lparr>c_exception_count := c_exception_count c + 1\<rparr>
      else if x = HV_EXIT_CANCELED then c\<lparr>c_canceled_count := c_canceled_count c + 1\<rparr>
      else if x = HV_EXIT_VTIMER then c\<lparr>c_vtimer_count := c_vtimer_count c + 1\<rparr>
      else if exit_silent x then c
      else c\<lparr>c_unknown_count := c_unknown_count c + 1\<rparr>)"

definition after_exit :: "hv_exit_reason \<Rightarrow> vcpu \<Rightarrow> vcpu" where
  "after_exit x c =
     (let c1 = tally x (c\<lparr>c_exit_count := c_exit_count c + 1\<rparr>) in
      if exit_stops x then c1\<lparr>c_should_stop := True\<rparr> else c1)"

lemma after_exit_same: "same_vcpu c (after_exit x c)" "c_exit_count (after_exit x c) = c_exit_count c + 1"
  by (simp_all add: same_vcpu_def after_exit_def tally_def Let_def)

lemma handle_exit_plain:
  assumes "vcpus s r = Some c" and "ex_reason ex \<noteq> HV_EXIT_IO" and "ex_reason ex \<noteq> HV_EXIT_MMIO"
  shows "vcpu_handle_exit tbl r ex s =
     Some (if exit_fails (ex_reason ex) then -1 else 0, set_vcpu r (after_exit (ex_reason ex) c) s)"
  using assms
  by (cases "ex_reason ex")
    (simp_all add: vcpu_handle_exit_def Let_def vcpu_handle_halt_def vcpu_handle_shutdown_def vcpu_handle_fail_entry_def
      after_exit_def tally_def exit_silent_def exit_stops_def exit_fails_def)

lemma handle_exit_io:
  assumes "vcpus s r = Some c" and "ex_reason ex = HV_EXIT_IO"
  shows "vcpu_handle_exit tbl r ex s =
     map_option (\<lambda>(ret, io, s'). (ret, s')) (vcpu_handle_io_exit r (ex_io ex) (set_vcpu r (after_exit HV_EXIT_IO c) s))"
  using assms by (simp add: vcpu_handle_exit_def after_exit_def tally_def exit_stops_def Let_def map_option_case
      split: Option.bind_splits option.splits)

lemma handle_exit_mmio:
  assumes "vcpus s r = Some c" and "ex_reason ex = HV_EXIT_MMIO"
  shows "vcpu_handle_exit tbl r ex s = vcpu_handle_mmio_exit tbl r (ex_mmio ex) (set_vcpu r (after_exit HV_EXIT_MMIO c) s)"
  using assms by (simp add: vcpu_handle_exit_def after_exit_def tally_def exit_stops_def)

context device_handlers
begin

lemma mmio_exit_frame: "vcpu_handle_mmio_exit tbl r m s = Some (ret, s') \<Longrightarrow> handler_frame s s'"
  by (auto simp: vcpu_handle_mmio_exit_def frame_intros Let_def Option.bind_eq_Some_conv split: if_splits
      dest: read_frame write_frame)

lemma io_exit_frame: "vcpu_handle_io_exit r io s = Some (ret, io', s') \<Longrightarrow> handler_frame s s' \<and> ret = 0"
  using foldl_putchar [of s]
  by (auto simp: vcpu_handle_io_exit_def frame_intros Option.bind_eq_Some_conv split: if_splits)

lemma handle_exit_frame:
  assumes "vcpu_handle_exit tbl r ex s = Some (ret, s')" and "vcpus s r = Some c"
  shows "handler_frame (set_vcpu r (after_exit (ex_reason ex) c) s) s'"
proof (cases "ex_reason ex = HV_EXIT_IO \<or> ex_reason ex = HV_EXIT_MMIO")
  case True
  then show ?thesis
    using assms handle_exit_io [OF assms(2)] handle_exit_mmio [OF assms(2)] by (auto dest: mmio_exit_frame io_exit_frame)
next
  case False
  then show ?thesis using assms handle_exit_plain [OF assms(2)] by (auto simp: frame_intros)
qed

end

section \<open>The thread ends\<close>

text \<open>
  A processor whose machine has only debug consoles, on the KVM backend, with its run area in
  block \<open>b\<close>.
\<close>

definition console_devs :: "host \<Rightarrow> ref list \<Rightarrow> bool" where
  "console_devs s rs \<longleftrightarrow> (\<forall>q \<in> set rs. q \<noteq> 0
     \<and> (\<exists>d. devs s q = Some d \<and> d_ops d = Some Mmio_console_ops \<and> uarts s (d_data d) \<noteq> None))"

definition thread_ok :: "nat \<Rightarrow> ref \<Rightarrow> host \<Rightarrow> bool" where
  "thread_ok b r s \<longleftrightarrow> (\<exists>c v h bs. vcpus s r = Some c \<and> vms s (c_vm c) = Some v \<and> console_devs s (registered v)
     \<and> g_hv_ops s = Some Kvm_ops \<and> hv_vcpus s (c_hv_vcpu c) = Some h \<and> hc_run h = Ptr b 0
     \<and> mem s b = Some bs \<and> 4096 \<le> length bs)"

text \<open>
  What the decoder needs of the run area after \<open>KVM_RUN\<close>, at the offsets of the structure the
  program declares: a port access has at most four bytes, and the data it reads lies inside the area;
  an MMIO store has at most eight bytes. The exits the kernel documents, written in this structure, are of
  this kind. The kernel's own structure has 16 bytes more before the exit data; there, too, all exits
  but port accesses and accesses from 4 GiB on are of this kind (\<open>Abi\<close>).
\<close>

definition run_area_ok :: "u8 list \<Rightarrow> bool" where
  "run_area_ok bs \<longleftrightarrow>
     (le_word (subrange bs 8 4) = (2 :: u32) \<longrightarrow> le_word (subrange bs 18 2) \<le> (4 :: u16)
        \<and> (le_word (subrange bs 16 2) = (0 :: u16) \<longrightarrow>
             unat (le_word (subrange bs 24 8) :: u64) + unat (le_word (subrange bs 18 2) :: u16) \<le> length bs))
     \<and> (le_word (subrange bs 8 4) = (6 :: u32) \<longrightarrow> le_word (subrange bs 36 1) \<noteq> (0 :: u8) \<longrightarrow>
          unat (le_word (subrange bs 32 4) :: u32) \<le> 8)"

definition kernel_exits :: "env \<Rightarrow> nat \<Rightarrow> bool" where
  "kernel_exits E b \<longleftrightarrow> (\<forall>s bs. mem (guest_runs E s) b = Some bs \<longrightarrow> 4096 \<le> length bs \<longrightarrow> run_area_ok bs)"

definition uarts_stay :: "host \<Rightarrow> host \<Rightarrow> bool" where
  "uarts_stay s s' \<longleftrightarrow> (\<forall>p. uarts s p \<noteq> None \<longrightarrow> uarts s' p \<noteq> None)"

lemma thread_ok_step:
  assumes "thread_ok b r s" and "vcpus s r = Some c" and "same_vcpu c c'"
    and "handler_frame (set_vcpu r c' s) s'" and "uarts_stay s s'"
  shows "thread_ok b r s' \<and> vcpus s' r = Some c'"
proof -
  obtain v h bs where ok: "vms s (c_vm c) = Some v" "console_devs s (registered v)" "g_hv_ops s = Some Kvm_ops"
    "hv_vcpus s (c_hv_vcpu c) = Some h" "hc_run h = Ptr b 0" "mem s b = Some bs" "4096 \<le> length bs"
    using assms(1,2) by (auto simp: thread_ok_def)
  have f: "vms s' = vms s" "vcpus s' r = Some c'" "devs s' = devs s" "hv_vcpus s' = hv_vcpus s" "g_hv_ops s' = g_hv_ops s"
    "map_option length (mem s' b) = map_option length (mem s b)"
    using assms(4) by (simp_all add: handler_frame_def)
  obtain bs' where "mem s' b = Some bs'" "length bs' = length bs" using f(6) ok(6) by auto
  moreover have "console_devs s' (registered v)"
    using ok(2) assms(5) unfolding console_devs_def uarts_stay_def f(3) by blast
  ultimately show ?thesis
    using ok f assms(3) by (simp add: thread_ok_def same_vcpu_def)
qed

lemma load_word_page:
  assumes "mem s b = Some bs" and "4096 \<le> length bs" and "unat off + n \<le> 4096"
  shows "load_word s (Ptr b off) n = Some (le_word (subrange bs (unat off) n))"
  using assms by (simp add: load_word_def)

lemma exit_io_decodes:
  assumes "mem s b = Some bs" and "4096 \<le> length bs" and "le_word (subrange bs 18 2) \<le> (4 :: u16)"
    and "le_word (subrange bs 16 2) = (0 :: u16) \<longrightarrow>
      unat (le_word (subrange bs 24 8) :: u64) + unat (le_word (subrange bs 18 2) :: u16) \<le> length bs"
  shows "\<exists>io. kvm_exit_io s (Ptr b 0) = Some io \<and> unat (io_size io) \<le> 4"
proof -
  let ?sz = "le_word (subrange bs 18 2) :: u16"
  have sz: "unat ?sz \<le> 4" using assms(3) by (simp add: word_le_nat_alt)
  then have "unat (ucast ?sz :: u8) \<le> 4" by (simp add: unsigned_ucast_eq take_bit_eq_mod)
  note sz = sz this
  have "load s (Ptr b (le_word (subrange bs 24 8))) (unat ?sz) \<noteq> None" if "le_word (subrange bs 16 2) = (0 :: u16)"
    using assms(1,4) that by simp
  then show ?thesis
    using sz by (auto simp: kvm_exit_io_def load_word_page [OF assms(1,2)] simp del: load.simps)
qed

lemma exit_mmio_decodes:
  assumes "mem s b = Some bs" and "4096 \<le> length bs"
    and "le_word (subrange bs 36 1) \<noteq> (0 :: u8) \<longrightarrow> unat (le_word (subrange bs 32 4) :: u32) \<le> 8"
  shows "\<exists>m. kvm_exit_mmio s (Ptr b 0) = Some m"
proof -
  have "load s (Ptr b 24) (unat (le_word (subrange bs 32 4) :: u32)) \<noteq> None" if "le_word (subrange bs 36 1) \<noteq> (0 :: u8)"
    using assms that by simp
  then show ?thesis
    using assms(3) by (auto simp: kvm_exit_mmio_def load_word_page [OF assms(1,2)] simp del: load.simps)
qed

lemma get_exit_decodes:
  assumes "hv_vcpus s vcpu = Some h" and "hc_run h = Ptr b 0" and "mem s b = Some bs" and "4096 \<le> length bs"
    and "run_area_ok bs"
  shows "\<exists>ex. kvm_get_exit vcpu ex0 s = Some (0, ex, s)
     \<and> (ex_reason ex = HV_EXIT_IO \<longrightarrow> unat (io_size (ex_io ex)) \<le> 4)"
proof -
  let ?r = "le_word (subrange bs 8 4) :: u32"
  consider "?r = 2" | "?r = 6" | "?r \<noteq> 2" "?r \<noteq> 6" by blast
  then show ?thesis
  proof cases
    case 1
    then obtain io where "kvm_exit_io s (Ptr b 0) = Some io" "unat (io_size io) \<le> 4"
      using exit_io_decodes [OF assms(3,4)] assms(5) by (auto simp: run_area_ok_def)
    then show ?thesis
      using 1 assms(1,2) by (simp add: kvm_get_exit_def load_word_page [OF assms(3,4)] Let_def)
  next
    case 2
    then obtain m where "kvm_exit_mmio s (Ptr b 0) = Some m"
      using exit_mmio_decodes [OF assms(3,4)] assms(5) by (auto simp: run_area_ok_def)
    then show ?thesis
      using 2 assms(1,2) by (simp add: kvm_get_exit_def load_word_page [OF assms(3,4)] Let_def kvm_convert_exit_reason_def)
  next
    case 3
    then show ?thesis
      using assms(1,2) by (simp add: kvm_get_exit_def load_word_page [OF assms(3,4)] Let_def kvm_convert_exit_reason_def)
  qed
qed

lemma foldl_putchar_uarts: "uarts (foldl (\<lambda>s b. putchar b s) s bs) = uarts s"
  by (induction bs arbitrary: s) (simp_all add: putchar_def)

lemma io_exit_ok:
  assumes "unat (io_size io) \<le> 4"
  shows "\<exists>io' s'. vcpu_handle_io_exit r io s = Some (0, io', s') \<and> uarts s' = uarts s"
  using assms by (auto simp: vcpu_handle_io_exit_def io_bytes_def foldl_putchar_uarts)

lemma console_handlers_ok:
  assumes "devs s q = Some d" and "uarts s (d_data d) \<noteq> None" and "data \<noteq> []"
  shows "\<exists>s'. mmio_console_write E q off data sz s = Some (0, s') \<and> uarts_stay s s'"
    and "\<exists>data' s'. mmio_console_read q off data sz s = Some (0, data', s') \<and> uarts_stay s s'"
proof -
  obtain b bs where d: "data = b # bs" using assms(3) by (cases data) auto
  obtain u where u: "uarts s (d_data d) = Some u" using assms(2) by blast
  have tr: "uarts (uart_transmit E u b s) = uarts s" by (simp add: uart_transmit_def putchar_def syscall_def Let_def)
  show "\<exists>s'. mmio_console_write E q off data sz s = Some (0, s') \<and> uarts_stay s s'"
    using assms(1) u d tr by (simp add: mmio_console_write_def uarts_stay_def Let_def)
  show "\<exists>data' s'. mmio_console_read q off data sz s = Some (0, data', s') \<and> uarts_stay s s'"
    using assms(1) u d by (auto simp: mmio_console_read_def put_buf_def uarts_stay_def split: prod.splits)
qed

lemma mmio_exit_ok:
  assumes "thread_ok b r s"
  shows "\<exists>s'. vcpu_handle_mmio_exit (device_ops_of E) r m s = Some (0, s') \<and> uarts_stay s s'"
proof -
  obtain c v where c: "vcpus s r = Some c" "vms s (c_vm c) = Some v" "console_devs s (registered v)"
    using assms by (auto simp: thread_ok_def)
  have "devices_live s (registered v)" using c(3) by (auto simp: devices_live_def console_devs_def)
  then obtain dev where dev: "vm_find_device_at_gpa v (mmio_addr m) s = Some dev"
    using find_device_find [of s "registered v" "mmio_addr m"]
    by (simp add: vm_find_device_at_gpa_def vm_find_device_eq registered_def)
  show ?thesis
  proof (cases "dev = 0")
    case True
    then show ?thesis using c dev by (simp add: vcpu_handle_mmio_exit_def uarts_stay_def)
  next
    case False
    then have "dev \<in> set (registered v)"
      using dev find_device_covers [of "registered v" "mmio_addr m" s dev]
      by (simp add: vm_find_device_at_gpa_def vm_find_device_eq registered_def)
    then obtain d where d: "devs s dev = Some d" "d_ops d = Some Mmio_console_ops" "uarts s (d_data d) \<noteq> None"
      using c(3) by (auto simp: console_devs_def)
    have ne: "le_bytes 8 (mmio_data m) \<noteq> []" using length_le_bytes [of 8 "mmio_data m"] by (metis list.size(3) zero_neq_numeral)
    show ?thesis
      using c dev False d(1,2) console_handlers_ok(1) [OF d(1,3) ne, of E "mmio_addr m - d_gpa_start d" "ucast (mmio_size m)"]
        console_handlers_ok(2) [OF d(1,3) ne, of "mmio_addr m - d_gpa_start d" "ucast (mmio_size m)"]
      by (auto simp: vcpu_handle_mmio_exit_def mmio_console_ops_def Let_def)
  qed
qed

lemma handle_exit_ok:
  assumes "thread_ok b r s" and "vcpus s r = Some c" and "ex_reason ex = HV_EXIT_IO \<longrightarrow> unat (io_size (ex_io ex)) \<le> 4"
  shows "\<exists>ret s'. vcpu_handle_exit (device_ops_of E) r ex s = Some (ret, s') \<and> uarts_stay s s'
     \<and> thread_ok b r s' \<and> vcpus s' r = Some (after_exit (ex_reason ex) c)"
proof -
  let ?s1 = "set_vcpu r (after_exit (ex_reason ex) c) s"
  have ok1: "thread_ok b r ?s1"
    using thread_ok_step [OF assms(1,2) after_exit_same(1), of "ex_reason ex" ?s1]
    by (simp add: frame_intros uarts_stay_def)
  have "\<exists>ret s'. vcpu_handle_exit (device_ops_of E) r ex s = Some (ret, s') \<and> uarts_stay s s'"
  proof (cases "ex_reason ex")
    case HV_EXIT_IO
    then show ?thesis
      using io_exit_ok [of "ex_io ex" r ?s1] assms(3) handle_exit_io [OF assms(2) HV_EXIT_IO]
      by (auto simp: uarts_stay_def)
  next
    case HV_EXIT_MMIO
    then show ?thesis
      using mmio_exit_ok [OF ok1, of E "ex_mmio ex"] handle_exit_mmio [OF assms(2) HV_EXIT_MMIO]
      by (auto simp: uarts_stay_def)
  qed (use handle_exit_plain [OF assms(2)] in \<open>simp_all add: uarts_stay_def\<close>)
  then obtain ret s' where *: "vcpu_handle_exit (device_ops_of E) r ex s = Some (ret, s')" "uarts_stay s s'" by blast
  then show ?thesis
    using thread_ok_step [OF assms(1,2) after_exit_same(1) dt.handle_exit_frame [OF *(1) assms(2)] *(2)] by blast
qed

lemma kvm_run_ok:
  assumes "thread_ok b r s" and "vcpus s r = Some c" and "kernel_exits E b"
  shows "\<exists>ret s' bs. vcpu_run (linked E) r s = Some (ret, s') \<and> thread_ok b r s' \<and> vcpus s' r = Some c
     \<and> (ret < 0 \<longrightarrow> errno s' \<noteq> EINTR) \<and> mem s' b = Some bs \<and> 4096 \<le> length bs \<and> run_area_ok bs"
proof -
  obtain h bs where h: "hv_vcpus s (c_hv_vcpu c) = Some h" "g_hv_ops s = Some Kvm_ops" "mem s b = Some bs" "4096 \<le> length bs"
    using assms(1,2) by (auto simp: thread_ok_def)
  obtain a s' where a: "syscall E (SYS_ioctl (hc_fd h) ''KVM_RUN'' [0]) (guest_runs E s) = (a, s')" by fastforce
  have fr: "handler_frame s s'" using a guest_runs_frame syscall_frame handler_frame_trans by blast
  have st: "uarts_stay s s'" "mem s' = mem (guest_runs E s)"
    using io_only_heaps(2,5) [OF syscall_io_only [OF a]] by (simp_all add: uarts_stay_def guest_runs_def)
  have set: "set_vcpu r c s = s" using assms(2) by (simp add: fun_upd_idem)
  have ok: "thread_ok b r s' \<and> vcpus s' r = Some c"
    using thread_ok_step [OF assms(1,2) _ _ st(1), of c] fr set by (simp add: same_vcpu_def)
  obtain bs' where bs': "mem s' b = Some bs'" "4096 \<le> length bs'" using ok by (auto simp: thread_ok_def)
  then have "run_area_ok bs'" using assms(3) st(2) by (simp add: kernel_exits_def)
  then show ?thesis
    using assms(2) h a ok bs' by (simp add: vcpu_run_def hv_run_def cur_op_def kvm_ops_def kvm_run_def)
qed

lemma iteration_ok:
  assumes "thread_ok b r s" and "vcpus s r = Some c" and "kernel_exits E b"
  shows "\<exists>nx s'. vcpu_iteration (linked E) (device_ops_of E) r s = Some (nx, s') \<and> thread_ok b r s'
     \<and> (nx = Again \<longrightarrow> (\<exists>c'. vcpus s' r = Some c' \<and> c_exit_count c' = c_exit_count c + 2 \<and> \<not> 1000 < c_exit_count c'))"
proof -
  obtain ret s1 bs where run: "vcpu_run (linked E) r s = Some (ret, s1)" and ok1: "thread_ok b r s1" "vcpus s1 r = Some c"
    and err: "ret < 0 \<longrightarrow> errno s1 \<noteq> EINTR" and bs: "mem s1 b = Some bs" "4096 \<le> length bs" "run_area_ok bs"
    using kvm_run_ok [OF assms] by blast
  show ?thesis
  proof (cases "ret < 0")
    case True
    then show ?thesis using run err ok1 by (simp add: vcpu_iteration_def)
  next
    case False
    obtain h where h: "hv_vcpus s1 (c_hv_vcpu c) = Some h" "hc_run h = Ptr b 0" "g_hv_ops s1 = Some Kvm_ops"
      using ok1 by (auto simp: thread_ok_def)
    obtain ex where ex: "kvm_get_exit (c_hv_vcpu c) zero_exit s1 = Some (0, ex, s1)"
      "ex_reason ex = HV_EXIT_IO \<longrightarrow> unat (io_size (ex_io ex)) \<le> 4"
      using get_exit_decodes [OF h(1,2) bs] by blast
    obtain ret3 s3 where x: "vcpu_handle_exit (device_ops_of E) r ex s1 = Some (ret3, s3)" "thread_ok b r s3"
      "vcpus s3 r = Some (after_exit (ex_reason ex) c)"
      using handle_exit_ok [OF ok1 ex(2), of E] by blast
    let ?c3 = "after_exit (ex_reason ex) c"
    let ?c4 = "?c3\<lparr>c_exit_count := c_exit_count ?c3 + 1\<rparr>"
    have "thread_ok b r (set_vcpu r ?c4 s3)"
      using thread_ok_step [OF x(2,3), of ?c4 "set_vcpu r ?c4 s3"] by (simp add: same_vcpu_def frame_intros uarts_stay_def)
    moreover have "c_exit_count ?c4 = c_exit_count c + 2" using after_exit_same(2) by simp
    ultimately show ?thesis
      using run False ok1(2) h(3) ex(1) x
      by (auto simp: vcpu_iteration_def hv_get_exit_def cur_op_def kvm_ops_def Let_def)
  qed
qed

lemma thread_loop_ends:
  assumes "thread_ok b r s" and "vcpus s r = Some c" and "kernel_exits E b"
    and "c_exit_count c \<le> 1000" and "1000 < unat (c_exit_count c) + 2 * n"
  shows "\<exists>s'. vcpu_thread_loop (linked E) (device_ops_of E) n r s = Some (True, s') \<and> thread_ok b r s'"
  using assms
proof (induction n arbitrary: s c)
  case 0
  then show ?case by (simp add: word_le_nat_alt)
next
  case (Suc n)
  obtain nx s' where it: "vcpu_iteration (linked E) (device_ops_of E) r s = Some (nx, s')" "thread_ok b r s'"
    and ag: "nx = Again \<longrightarrow> (\<exists>c'. vcpus s' r = Some c' \<and> c_exit_count c' = c_exit_count c + 2 \<and> \<not> 1000 < c_exit_count c')"
    using iteration_ok [OF Suc.prems(1-3)] by blast
  have two: "unat (c_exit_count c + 2) = unat (c_exit_count c) + 2"
    using Suc.prems(4) by (simp add: unat_word_ariths word_le_nat_alt)
  show ?case
  proof (cases nx)
    case Finish
    then show ?thesis using it Suc.prems(1,2) by simp
  next
    case Again
    then obtain c' where "vcpus s' r = Some c'" "c_exit_count c' = c_exit_count c + 2" "c_exit_count c' \<le> 1000"
      using ag by (auto simp: not_less)
    then show ?thesis
      using Suc.IH [OF it(2) _ Suc.prems(3)] Suc.prems(1,2,5) it(1) Again two by auto
  qed
qed

section \<open>A small machine\<close>

text \<open>A kernel that always reports HLT: it writes the exit reason 5 into the run area.\<close>

definition ex_hlt_env :: env where
  "ex_hlt_env = ok_env\<lparr>guest_writes := (\<lambda>h b i. if i = 8 then Some 5 else if i \<in> {9, 10, 11} then Some 0 else None)\<rparr>"

definition ex_cpu_host :: host where
  "ex_cpu_host = ex_dt_host\<lparr>g_hv_ops := Some Kvm_ops, mem := (mem ex_dt_host)(9 \<mapsto> replicate 4096 0),
     hv_vcpus := (\<lambda>_. None)(8 \<mapsto> zero_hv_vcpu\<lparr>hc_fd := 9, hc_vm := 1, hc_run := Ptr 9 0\<rparr>),
     vcpus := (\<lambda>_. None)(7 \<mapsto> zero_vcpu\<lparr>c_hv_vcpu := 8, c_vm := 2\<rparr>), next_ref := 10\<rparr>"

lemma ex_cpu: "vcpus ex_cpu_host 7 = Some (zero_vcpu\<lparr>c_hv_vcpu := 8, c_vm := 2\<rparr>)"
  by (simp add: ex_cpu_host_def)

lemma ex_cpu_devs: "console_devs ex_cpu_host (registered ex_dt_vm)"
  by (simp add: console_devs_def ex_dt_registered ex_cpu_host_def ex_dt_host_def ex_console_dev_def)

lemma ex_cpu_ok: "thread_ok 9 7 ex_cpu_host"
  using ex_cpu_devs by (simp add: thread_ok_def ex_cpu ex_cpu_host_def ex_dt_host_def)

lemma ex_hlt_reason:
  assumes g: "mem (guest_runs ex_hlt_env s) b = Some bs" and l: "4096 \<le> length bs"
  shows "le_word (subrange bs 8 4) = (5 :: u32)"
proof -
  have w: "bs ! 8 = 5" "bs ! 9 = 0" "bs ! 10 = 0" "bs ! 11 = 0"
    using g l by (auto simp: guest_runs_def ex_hlt_env_def)
  have "subrange bs 8 4 = [5, 0, 0, 0]"
  proof (rule nth_equalityI)
    show "length (subrange bs 8 4) = length [5, 0, 0, 0 :: u8]" using l by (simp add: length_subrange)
    fix i
    assume "i < length (subrange bs 8 4)"
    then have "i < 4" using l by (simp add: length_subrange)
    then consider "i = 0" | "i = 1" | "i = 2" | "i = 3" by linarith
    then show "subrange bs 8 4 ! i = [5, 0, 0, 0 :: u8] ! i" using w l by cases (simp_all add: nth_subrange)
  qed
  moreover have "le_word [5, 0, 0, 0] = (5 :: u32)" by code_simp
  ultimately show ?thesis by simp
qed

lemma ex_hlt_exits: "kernel_exits ex_hlt_env b"
  using ex_hlt_reason [of _ b] by (simp add: kernel_exits_def run_area_ok_def)

section \<open>Properties\<close>



text \<open>
  C10: every exit is handled as the reference says. For each reason but port and memory accesses
  the handler is defined, returns 0 or -1 by \<open>exit_fails\<close>, stops the processor exactly for
  \<open>exit_stops\<close>, adds one to the total and at most one to one other counter, and changes nothing
  else of the process.
\<close>

theorem vcpu_handle_exit_reference:
  assumes "vcpus s r = Some c" and "ex_reason ex \<noteq> HV_EXIT_IO" and "ex_reason ex \<noteq> HV_EXIT_MMIO"
  shows "vcpu_handle_exit tbl r ex s =
       Some (if exit_fails (ex_reason ex) then -1 else 0, set_vcpu r (after_exit (ex_reason ex) c) s)
     \<and> c_should_stop (after_exit (ex_reason ex) c) = (c_should_stop c \<or> exit_stops (ex_reason ex))
     \<and> c_exit_count (after_exit (ex_reason ex) c) = c_exit_count c + 1 \<and> same_vcpu c (after_exit (ex_reason ex) c)"
proof -
  have "c_should_stop (after_exit x c) = (c_should_stop c \<or> exit_stops x)" for x
    by (simp add: after_exit_def tally_def Let_def)
  then show ?thesis using handle_exit_plain [OF assms] after_exit_same by simp
qed

theorem vcpu_handle_exit_reference_witness:
  "\<exists>c'. vcpu_handle_exit (device_ops_of ok_env) 7 (zero_exit\<lparr>ex_reason := HV_EXIT_SHUTDOWN\<rparr>) ex_cpu_host
       = Some (0, set_vcpu 7 c' ex_cpu_host) \<and> c_should_stop c' \<and> c_exit_count c' = 1"
  using vcpu_handle_exit_reference [OF ex_cpu, of "zero_exit\<lparr>ex_reason := HV_EXIT_SHUTDOWN\<rparr>" "device_ops_of ok_env"]
  by (auto simp: exit_fails_def exit_stops_def zero_vcpu_def)

text \<open>An MMIO exit that writes one byte to the start of the console's range prints that byte.\<close>

lemma console_exit_prints:
  assumes "ex_reason ex = HV_EXIT_MMIO" and "mmio_addr (ex_mmio ex) = d_gpa_start d" and "mmio_size (ex_mmio ex) = 1"
    and "mmio_is_write (ex_mmio ex) = 1" and "le_bytes 8 (mmio_data (ex_mmio ex)) = x # xs"
    and "vcpus s r = Some c" and "vms s (c_vm c) = Some v" and "vm_find_device_at_gpa v (d_gpa_start d) s = Some q"
    and "q \<noteq> 0" and "console_live s q d u" and "d_ops d = Some Mmio_console_ops" and "\<not> u_dlab u"
  shows "\<exists>s'. vcpu_handle_exit (device_ops_of E) r ex s = Some (0, s') \<and> stdout_bytes s' = stdout_bytes s @ [x]"
proof -
  define s1 where "s1 = set_vcpu r (after_exit HV_EXIT_MMIO c) s"
  have "vm_find_device_at_gpa v (d_gpa_start d) s1 = Some q"
    using assms(8) by (simp add: vm_find_device_at_gpa_def vm_find_device_eq s1_def cong: find_device_cong)
  then have "\<exists>s'. vcpu_handle_mmio_exit (device_ops_of E) r (ex_mmio ex) s1 = Some (0, s') \<and> stdout_bytes s' = stdout_bytes s @ [x]"
    using assms after_exit_same(1) [of c HV_EXIT_MMIO]
    by (auto simp: vcpu_handle_mmio_exit_def s1_def same_vcpu_def console_live_def mmio_console_ops_def
        mmio_console_write_def uart_transmit_out Let_def)
  then show ?thesis using handle_exit_mmio [OF assms(6,1)] by (auto simp: s1_def)
qed


definition ex_exit_host :: "u8 list \<Rightarrow> host" where
  "ex_exit_host page = ex_cpu_host\<lparr>mem := (mem ex_cpu_host)(9 \<mapsto> page)\<rparr>"

lemma ex_exit_host:
  "hv_vcpus (ex_exit_host page) 8 = Some (zero_hv_vcpu\<lparr>hc_fd := 9, hc_vm := 1, hc_run := Ptr 9 0\<rparr>)"
  "mem (ex_exit_host page) 9 = Some page" "vcpus (ex_exit_host page) 7 = Some (zero_vcpu\<lparr>c_hv_vcpu := 8, c_vm := 2\<rparr>)"
  "vms (ex_exit_host page) 2 = Some ex_dt_vm" "stdout_bytes (ex_exit_host page) = []"
  "console_live (ex_exit_host page) 5 (ex_console_dev\<lparr>d_data := 6, d_vm := 2\<rparr>) (uart_init 0)"
  by (simp_all add: ex_exit_host_def ex_cpu_host_def ex_dt_host_def console_live_def ex_vm_mem_def ex_machine_def
      ex_vm_host_def init_host_def)






end
