(* ===== verification/Vm.thy ===== *)
theory Vm
  imports Vcpu
begin

text \<open>
  The life of a machine, the rest of \<^verbatim>\<open>src/vm.c\<close>: creation, the processors, start, stop and
  destruction. Starting is all or nothing; the properties are stated over the set of running
  processors, and destruction over what is left of the heap.
\<close>

section \<open>Creation\<close>

definition vm_create :: "env \<Rightarrow> hv_linked \<Rightarrow> host \<Rightarrow> (ref \<times> host) option" where
  "vm_create E ops s =
     do {
       (h, s1) \<leftarrow> hv_create_vm ops s;
       if h = 0 then Some (0, s1)
       else
         let (r, s2) = alloc E s1 in
         if r = 0 then do { s3 \<leftarrow> hv_destroy_vm ops h s2; Some (0, s3) }
         else Some (r, set_vm r (zero_vm\<lparr>v_hv_vm := h, v_state := VM_STATE_STOPPED, v_irq_base := 5\<rparr>) s2) }"

text \<open>The clean-up after a failed creation: the processors made so far, in order.\<close>

fun vm_undo_vcpus :: "env \<Rightarrow> hv_linked \<Rightarrow> ref \<Rightarrow> nat list \<Rightarrow> host \<Rightarrow> host option" where
  "vm_undo_vcpus E ops vm [] s = Some s"
| "vm_undo_vcpus E ops vm (j # js) s =
     do {
       v \<leftarrow> vms s vm;
       s1 \<leftarrow> vcpu_destroy E ops (v_vcpus v ! j) s;
       v1 \<leftarrow> vms s1 vm;
       vm_undo_vcpus E ops vm js (set_vm vm (v1\<lparr>v_vcpus := (v_vcpus v1)[j := 0]\<rparr>) s1) }"

fun vm_create_loop :: "env \<Rightarrow> hv_linked \<Rightarrow> ref \<Rightarrow> nat list \<Rightarrow> host \<Rightarrow> (int \<times> host) option" where
  "vm_create_loop E ops vm [] s = Some (0, s)"
| "vm_create_loop E ops vm (i # is) s =
     do {
       (r, s1) \<leftarrow> vcpu_create E ops vm (int i) s;
       v \<leftarrow> vms s1 vm;
       let s2 = set_vm vm (v\<lparr>v_vcpus := (v_vcpus v)[i := r]\<rparr>) s1;
       if r = 0 then do { s3 \<leftarrow> vm_undo_vcpus E ops vm [0..<i] s2; Some (-1, s3) }
       else vm_create_loop E ops vm is s2 }"

definition vm_create_vcpus :: "env \<Rightarrow> hv_linked \<Rightarrow> ref \<Rightarrow> int \<Rightarrow> host \<Rightarrow> (int \<times> host) option" where
  "vm_create_vcpus E ops vm num_vcpus s =
     (if num_vcpus > VM_MAX_VCPUS then Some (-1, s)
      else do {
        (ret, s1) \<leftarrow> vm_create_loop E ops vm [0..<nat num_vcpus] s;
        if ret < 0 then Some (-1, s1)
        else do { v \<leftarrow> vms s1 vm; Some (0, set_vm vm (v\<lparr>v_num_vcpus := num_vcpus\<rparr>) s1) } })"

section \<open>Start, stop and pause\<close>

definition vm_vcpus :: "vm \<Rightarrow> ref list" where
  "vm_vcpus v = take (nat (v_num_vcpus v)) (v_vcpus v)"

fun vm_stop_each :: "env \<Rightarrow> hv_linked \<Rightarrow> ref list \<Rightarrow> host \<Rightarrow> host option" where
  "vm_stop_each E ops [] s = Some s"
| "vm_stop_each E ops (r # rs) s = do { (ret, s1) \<leftarrow> vcpu_stop E ops r s; vm_stop_each E ops rs s1 }"

text \<open>The first list holds the processors already started, which are stopped again on a failure.\<close>

fun vm_start_loop :: "env \<Rightarrow> hv_linked \<Rightarrow> ref list \<Rightarrow> ref list \<Rightarrow> host \<Rightarrow> (int \<times> host) option" where
  "vm_start_loop E ops started [] s = Some (0, s)"
| "vm_start_loop E ops started (r # rs) s =
     do {
       (ret, s1) \<leftarrow> vcpu_start E r s;
       if ret < 0 then do { s2 \<leftarrow> vm_stop_each E ops started s1; Some (-1, s2) }
       else vm_start_loop E ops (started @ [r]) rs s1 }"

definition vm_start :: "env \<Rightarrow> hv_linked \<Rightarrow> ref \<Rightarrow> host \<Rightarrow> (int \<times> host) option" where
  "vm_start E ops vm s =
     do {
       v \<leftarrow> vms s vm;
       if v_state v = VM_STATE_RUNNING then Some (0, s)
       else do {
         (ret, s1) \<leftarrow> vm_start_loop E ops [] (vm_vcpus v) s;
         if ret < 0 then Some (-1, s1)
         else do { v1 \<leftarrow> vms s1 vm; Some (0, set_vm vm (v1\<lparr>v_state := VM_STATE_RUNNING\<rparr>) s1) } } }"

definition vm_stop :: "env \<Rightarrow> hv_linked \<Rightarrow> ref \<Rightarrow> host \<Rightarrow> (int \<times> host) option" where
  "vm_stop E ops vm s =
     do {
       v \<leftarrow> vms s vm;
       if v_state v = VM_STATE_STOPPED then Some (0, s)
       else do {
         s1 \<leftarrow> vm_stop_each E ops (filter (\<lambda>r. r \<noteq> 0) (vm_vcpus v)) s;
         v1 \<leftarrow> vms s1 vm;
         Some (0, set_vm vm (v1\<lparr>v_state := VM_STATE_STOPPED\<rparr>) s1) } }"

definition vm_pause :: "ref \<Rightarrow> host \<Rightarrow> (int \<times> host) option" where
  "vm_pause vm s = Some (0, s)"

section \<open>Destruction\<close>

fun vm_destroy_vcpus :: "env \<Rightarrow> hv_linked \<Rightarrow> ref list \<Rightarrow> host \<Rightarrow> host option" where
  "vm_destroy_vcpus E ops [] s = Some s"
| "vm_destroy_vcpus E ops (r # rs) s =
     do { s1 \<leftarrow> (if r = 0 then Some s else vcpu_destroy E ops r s); vm_destroy_vcpus E ops rs s1 }"

text \<open>
  The loop over the devices reads the count and the array anew in every round, while
  \<open>device_unregister\<close> shifts the array.
\<close>

fun vm_destroy_devices :: "env \<Rightarrow> device_tables \<Rightarrow> ref \<Rightarrow> nat list \<Rightarrow> host \<Rightarrow> host option" where
  "vm_destroy_devices E tbl vm [] s = Some s"
| "vm_destroy_devices E tbl vm (i # is) s =
     do {
       v \<leftarrow> vms s vm;
       if i < v_num_devices v then
         do { s1 \<leftarrow> (if v_devices v ! i = 0 then Some s else device_unregister E tbl (v_devices v ! i) s);
              vm_destroy_devices E tbl vm is s1 }
       else Some s }"

fun vm_destroy_regions :: "hv_linked \<Rightarrow> ref \<Rightarrow> nat list \<Rightarrow> host \<Rightarrow> host option" where
  "vm_destroy_regions ops vm [] s = Some s"
| "vm_destroy_regions ops vm (i # is) s =
     do {
       v \<leftarrow> vms s vm;
       let g = v_mem_regions v ! i;
       s1 \<leftarrow> (if r_used g then do { (ret, s') \<leftarrow> hv_unmap_mem ops (v_hv_vm v) (r_slot g) s; free (r_hva g) s' } else Some s);
       vm_destroy_regions ops vm is s1 }"

definition vm_destroy :: "env \<Rightarrow> hv_linked \<Rightarrow> device_tables \<Rightarrow> ref \<Rightarrow> host \<Rightarrow> host option" where
  "vm_destroy E ops tbl vm s =
     (if vm = 0 then Some s
      else do {
        v \<leftarrow> vms s vm;
        s1 \<leftarrow> (if v_state v = VM_STATE_RUNNING then do { (ret, s') \<leftarrow> vm_stop E ops vm s; Some s' } else Some s);
        v1 \<leftarrow> vms s1 vm;
        s2 \<leftarrow> vm_destroy_vcpus E ops (vm_vcpus v1) s1;
        s3 \<leftarrow> vm_destroy_devices E tbl vm [0..<VM_MAX_DEVICES] s2;
        s4 \<leftarrow> vm_destroy_regions ops vm [0..<VM_MAX_SLOTS] s3;
        v4 \<leftarrow> vms s4 vm;
        s5 \<leftarrow> hv_destroy_vm ops (v_hv_vm v4) s4;
        free_obj vm s5 })"

section \<open>The running processors\<close>

definition running :: "host \<Rightarrow> ref set" where
  "running s = {r. \<exists>c. vcpus s r = Some c \<and> c_state c = VCPU_STATE_RUNNING}"

lemma vcpu_start_running:
  assumes "vcpus s r \<noteq> None"
  shows "\<exists>ret s'. vcpu_start E r s = Some (ret, s') \<and> vms s' = vms s \<and> dom (vcpus s') = dom (vcpus s)
     \<and> (ret = 0 \<and> running s' = insert r (running s) \<or> ret = -1 \<and> running s' = running s)"
  using assms
  by (auto simp: vcpu_start_def running_def syscall_def Let_def)

lemma vcpu_stop_running:
  assumes "vcpus s r \<noteq> None" and "arch_of E = X86_64"
  shows "\<exists>s'. vcpu_stop E ops r s = Some (0, s') \<and> vms s' = vms s \<and> dom (vcpus s') = dom (vcpus s)
     \<and> running s' = running s - {r}"
  using assms
  by (auto simp: vcpu_stop_def running_def syscall_def Let_def)

lemma stop_each_running:
  assumes "set rs \<subseteq> dom (vcpus s)" and "arch_of E = X86_64"
  shows "\<exists>s'. vm_stop_each E ops rs s = Some s' \<and> vms s' = vms s \<and> dom (vcpus s') = dom (vcpus s)
     \<and> running s' = running s - set rs"
  using assms
proof (induction rs arbitrary: s)
  case (Cons r rs)
  obtain s1 where s1: "vcpu_stop E ops r s = Some (0, s1)" "vms s1 = vms s" "dom (vcpus s1) = dom (vcpus s)"
    "running s1 = running s - {r}"
    using vcpu_stop_running [of s r E ops] Cons.prems by (auto simp: dom_def)
  then obtain s2 where "vm_stop_each E ops rs s1 = Some s2" "vms s2 = vms s1" "dom (vcpus s2) = dom (vcpus s1)"
    "running s2 = running s1 - set rs"
    using Cons.IH [of s1] Cons.prems by auto
  with s1 show ?case by auto
qed simp

lemma start_loop_running:
  assumes "set started \<union> set rs \<subseteq> dom (vcpus s)" and "arch_of E = X86_64"
  shows "\<exists>ret s'. vm_start_loop E ops started rs s = Some (ret, s') \<and> vms s' = vms s \<and> dom (vcpus s') = dom (vcpus s)
     \<and> (ret = 0 \<and> running s' = running s \<union> set rs \<or> ret = -1 \<and> running s' \<subseteq> running s - set started \<union> set rs
        \<and> (running s \<subseteq> set started \<longrightarrow> running s' = {}))"
  using assms
proof (induction rs arbitrary: started s)
  case (Cons r rs)
  obtain ret s1 where st: "vcpu_start E r s = Some (ret, s1)" "vms s1 = vms s" "dom (vcpus s1) = dom (vcpus s)"
    and cs: "ret = 0 \<and> running s1 = insert r (running s) \<or> ret = -1 \<and> running s1 = running s"
    using vcpu_start_running [of s r E] Cons.prems by (auto simp: dom_def)
  show ?case
  proof (cases "ret = 0")
    case True
    obtain ret' s' where "vm_start_loop E ops (started @ [r]) rs s1 = Some (ret', s')" "vms s' = vms s1"
      "dom (vcpus s') = dom (vcpus s1)" "ret' = 0 \<and> running s' = running s1 \<union> set rs
        \<or> ret' = -1 \<and> running s' \<subseteq> running s1 - set (started @ [r]) \<union> set rs
          \<and> (running s1 \<subseteq> set (started @ [r]) \<longrightarrow> running s' = {})"
      using Cons.IH [of "started @ [r]" s1] Cons.prems st(3) by auto
    then show ?thesis using st cs True by auto
  next
    case False
    then obtain s2 where "vm_stop_each E ops started s1 = Some s2" "vms s2 = vms s1" "dom (vcpus s2) = dom (vcpus s1)"
      "running s2 = running s1 - set started"
      using stop_each_running [of started s1 E ops] Cons.prems st(3) by auto
    then show ?thesis using st cs False by auto
  qed
qed simp

section \<open>Giving memory back\<close>

definition region_blocks :: "vm \<Rightarrow> nat list \<Rightarrow> nat set" where
  "region_blocks v is = {b. \<exists>i \<in> set is. r_used (v_mem_regions v ! i) \<and> ptr_block (r_hva (v_mem_regions v ! i)) = b}"

text \<open>The regions own their blocks: each is the start of a live allocation, no two share one.\<close>

definition regions_owned :: "vm \<Rightarrow> host \<Rightarrow> nat list \<Rightarrow> bool" where
  "regions_owned v s is \<longleftrightarrow> distinct is
     \<and> (\<forall>i \<in> set is. r_used (v_mem_regions v ! i) \<longrightarrow>
          (\<exists>b. r_hva (v_mem_regions v ! i) = Ptr b 0 \<and> b \<noteq> 0 \<and> mem s b \<noteq> None))
     \<and> (\<forall>i \<in> set is. \<forall>j \<in> set is. i \<noteq> j \<longrightarrow> r_used (v_mem_regions v ! i) \<longrightarrow> r_used (v_mem_regions v ! j) \<longrightarrow>
          ptr_block (r_hva (v_mem_regions v ! i)) \<noteq> ptr_block (r_hva (v_mem_regions v ! j)))"

lemma unmap_defined:
  assumes "g_hv_ops s = Some Kvm_ops" and "hv_vms s h \<noteq> None"
  shows "\<exists>ret s'. hv_unmap_mem (linked E) h slot s = Some (ret, s') \<and> io_only s s'"
proof -
  have "hv_unmap_mem (linked E) h slot s \<noteq> None"
    using assms by (auto simp: hv_unmap_mem_def cur_op_def kvm_ops_def kvm_unmap_mem_def)
  then show ?thesis by (auto dest: lk.unmap_mem_io)
qed

lemma destroy_region:
  assumes "vms s vm = Some v" and "g_hv_ops s = Some Kvm_ops" and "hv_vms s (v_hv_vm v) \<noteq> None"
    and "regions_owned v s (i # is)"
  shows "\<exists>s1. vm_destroy_regions (linked E) vm (i # is) s = vm_destroy_regions (linked E) vm is s1
     \<and> io_only (s\<lparr>mem := mem s1\<rparr>) s1 \<and> regions_owned v s1 is
     \<and> mem s1 = (\<lambda>b. if b \<in> region_blocks v [i] then None else mem s b)"
proof (cases "r_used (v_mem_regions v ! i)")
  case True
  obtain b where b: "r_hva (v_mem_regions v ! i) = Ptr b 0" "b \<noteq> 0" "mem s b \<noteq> None"
    using assms(4) True by (auto simp: regions_owned_def)
  obtain ret s' where u: "hv_unmap_mem (linked E) (v_hv_vm v) (r_slot (v_mem_regions v ! i)) s = Some (ret, s')"
    and io: "io_only s s'" using unmap_defined [OF assms(2,3)] by blast
  let ?s1 = "s'\<lparr>mem := (mem s')(b := None)\<rparr>"
  have "vm_destroy_regions (linked E) vm (i # is) s = vm_destroy_regions (linked E) vm is ?s1"
    using assms(1) True u b io_only_heaps(5) [OF io] by (simp add: Let_def)
  moreover have "regions_owned v ?s1 is"
    using assms(4) b(1) True io_only_heaps(5) [OF io] unfolding regions_owned_def by fastforce
  moreover have "io_only (s\<lparr>mem := mem ?s1\<rparr>) ?s1" using io unfolding io_only_def by (cases s; cases s') simp
  ultimately show ?thesis
    using b(1) True io_only_heaps(5) [OF io] by (intro exI [of _ ?s1]) (auto simp: region_blocks_def)
next
  case False
  then show ?thesis
    using assms by (intro exI [of _ s]) (auto simp: region_blocks_def regions_owned_def io_only_def)
qed

lemma destroy_regions_frees:
  assumes "vms s vm = Some v" and "g_hv_ops s = Some Kvm_ops" and "hv_vms s (v_hv_vm v) \<noteq> None"
    and "regions_owned v s is"
  shows "\<exists>s'. vm_destroy_regions (linked E) vm is s = Some s' \<and> io_only (s\<lparr>mem := mem s'\<rparr>) s'
     \<and> mem s' = (\<lambda>b. if b \<in> region_blocks v is then None else mem s b)"
  using assms
proof (induction "is" arbitrary: s)
  case Nil
  then show ?case by (simp add: io_only_def region_blocks_def)
next
  case (Cons i "is")
  obtain s1 where s1: "vm_destroy_regions (linked E) vm (i # is) s = vm_destroy_regions (linked E) vm is s1"
    "io_only (s\<lparr>mem := mem s1\<rparr>) s1" "regions_owned v s1 is" "mem s1 = (\<lambda>b. if b \<in> region_blocks v [i] then None else mem s b)"
    using destroy_region [OF Cons.prems, of E] by blast
  have h: "vms s1 = vms s" "g_hv_ops s1 = g_hv_ops s" "hv_vms s1 = hv_vms s"
    using io_only_heaps(3,8,12) [OF s1(2)] by simp_all
  obtain s2 where s2: "vm_destroy_regions (linked E) vm is s1 = Some s2" "io_only (s1\<lparr>mem := mem s2\<rparr>) s2"
    "mem s2 = (\<lambda>b. if b \<in> region_blocks v is then None else mem s1 b)"
    using Cons.IH [of s1] Cons.prems s1(3) h by auto
  have "io_only (s\<lparr>mem := mem s2\<rparr>) s2" using s1(2) s2(2) unfolding io_only_def by (cases s; cases s1; cases s2) simp
  moreover have "mem s2 = (\<lambda>b. if b \<in> region_blocks v (i # is) then None else mem s b)"
    using s2(3) s1(4) by (auto simp: region_blocks_def fun_eq_iff)
  ultimately show ?case using s1(1) s2(1) by (intro exI [of _ s2]) simp
qed

text \<open>A device that was never told its machine is passed over.\<close>

lemma destroy_devices_skips:
  assumes "vms s vm = Some v" and "\<forall>i < v_num_devices v. v_devices v ! i \<noteq> 0 \<and> (\<exists>d. devs s (v_devices v ! i) = Some d \<and> d_vm d = 0)"
  shows "vm_destroy_devices E tbl vm is s = Some s"
  using assms by (induction "is") (auto simp: device_unregister_def)

section \<open>Properties\<close>


definition ex_vm1 :: vm where
  "ex_vm1 = ex_dt_vm\<lparr>v_vcpus := (replicate 8 0)[0 := 7], v_num_vcpus := 1\<rparr>"

definition ex_vm1_host :: host where
  "ex_vm1_host = ex_cpu_host\<lparr>vms := (\<lambda>_. None)(2 \<mapsto> ex_vm1)\<rparr>"

lemma ex_vm1: "vm_vcpus ex_vm1 = [7]" "vms ex_vm1_host 2 = Some ex_vm1" "v_state ex_vm1 = VM_STATE_STOPPED"
  by (simp_all add: vm_vcpus_def ex_vm1_def ex_vm1_host_def ex_dt_vm_def ex_vm_def zero_vm_def numeral_eq_Suc)



definition ex_vm2_host :: host where
  "ex_vm2_host = ex_vm_mem\<lparr>vms := (\<lambda>_. None)(2 \<mapsto> ex_dt_vm),
     devs := (\<lambda>_. None)(5 \<mapsto> ex_console_dev\<lparr>d_data := 6\<rparr>), uarts := (\<lambda>_. None)(6 \<mapsto> uart_init 0), next_ref := 7\<rparr>"

lemma ex_dt_region: "i < 32 \<Longrightarrow> v_mem_regions ex_dt_vm ! i = (if i = 0 then ex_region else zero_region)"
  by (simp add: ex_dt_vm_def ex_vm_def nth_list_update)


end
