(* ===== verification/Boot.thy ===== *)
theory Boot
  imports Vm
begin

text \<open>
  The boot loader, \<^verbatim>\<open>src/boot.c\<close>: loading a bzImage, an initial ramdisk and the command line into
  guest memory, the E820 map, the initial registers, and the loader of raw binaries. Files are
  read through the environment; a file buffer is its list of bytes, and an access outside it is
  undefined. The properties are about guest memory as the guest sees it.
\<close>

section \<open>Files and buffers\<close>

text \<open>
  The code that finds the size of a file, allocates a buffer and fills it. Bytes the file did not
  deliver are what \<open>malloc\<close> left there, taken as zero. \<open>SYS_fsize\<close> stands for the seek to the end,
  \<open>ftell\<close> and the seek back.
\<close>

definition read_file :: "env \<Rightarrow> string \<Rightarrow> host \<Rightarrow> u8 list option \<times> host" where
  "read_file E path s =
     (let (f, s1) = syscall E (SYS_fopen path ''rb'') s in
      if a_ret f = 0 then (None, s1)
      else
        let (z, s2) = syscall E (SYS_fsize (a_ret f)) s1;
            sz = (of_int (a_ret z) :: u64);
            (p, s3) = alloc E s2 in
        if p = 0 then (None, snd (syscall E (SYS_fclose (a_ret f)) s3))
        else
          let (d, s4) = syscall E (SYS_fread (a_ret f) (unat sz)) s3;
              s5 = snd (syscall E (SYS_fclose (a_ret f)) s4) in
          (Some (take (unat sz) (a_bytes d @ replicate (unat sz) 0)), s5))"

definition bytes_at :: "u8 list \<Rightarrow> nat \<Rightarrow> nat \<Rightarrow> u8 list option" where
  "bytes_at buf off n = (if off + n \<le> length buf then Some (subrange buf off n) else None)"

definition word_at :: "u8 list \<Rightarrow> nat \<Rightarrow> nat \<Rightarrow> 'a::len word option" where
  "word_at buf off n = map_option le_word (bytes_at buf off n)"

section \<open>Kernel image\<close>

definition BZIMAGE_MAGIC :: u32 where "BZIMAGE_MAGIC = 0x53726448"
definition HEADER_ADDR :: nat where "HEADER_ADDR = 0x1F1"
definition RAMDISK_IMAGE_ADDR :: u64 where "RAMDISK_IMAGE_ADDR = 0x218"
definition RAMDISK_SIZE_ADDR :: u64 where "RAMDISK_SIZE_ADDR = 0x21C"
definition CMDLINE_PTR_ADDR :: u64 where "CMDLINE_PTR_ADDR = 0x228"

text \<open>Offsets of the fields of the packed \<open>struct linux_header\<close>.\<close>

definition hdr_setup_sects :: "u8 list \<Rightarrow> u8 option" where
  "hdr_setup_sects buf = word_at buf (HEADER_ADDR + 0) 1"

definition hdr_boot_flag :: "u8 list \<Rightarrow> u16 option" where
  "hdr_boot_flag buf = word_at buf (HEADER_ADDR + 13) 2"

definition hdr_header :: "u8 list \<Rightarrow> u32 option" where
  "hdr_header buf = word_at buf (HEADER_ADDR + 17) 4"

definition hdr_version :: "u8 list \<Rightarrow> u16 option" where
  "hdr_version buf = word_at buf (HEADER_ADDR + 21) 2"

definition hdr_code32_start :: "u8 list \<Rightarrow> u32 option" where
  "hdr_code32_start buf = word_at buf (HEADER_ADDR + 35) 4"

definition load_bzimage :: "env \<Rightarrow> ref \<Rightarrow> string \<Rightarrow> host \<Rightarrow> (int \<times> host) option" where
  "load_bzimage E vm path s =
     (case read_file E path s of
        (None, s1) \<Rightarrow> Some (-1, s1)
      | (Some buf, s1) \<Rightarrow>
          if length buf < 0x200 then Some (-1, s1)
          else do {
            flag \<leftarrow> hdr_boot_flag buf;
            if flag \<noteq> 0xAA55 then Some (-1, s1)
            else do {
              magic \<leftarrow> hdr_header buf;
              if magic \<noteq> BZIMAGE_MAGIC then Some (-1, s1)
              else do {
                ver \<leftarrow> (if log_level s1 \<ge> LOG_LEVEL_INFO then hdr_version buf else Some 0);
                sects \<leftarrow> hdr_setup_sects buf;
                let setup_size = (unat sects + 1) * 512;
                let boot_size = (of_nat (length buf) - of_nat setup_size :: u64);
                v \<leftarrow> vms s1 vm;
                let hva = vm_gpa_to_hva v 0x10000 (of_nat setup_size);
                if hva = NULL then Some (-1, s1)
                else do {
                  sect \<leftarrow> bytes_at buf 0 setup_size;
                  s2 \<leftarrow> store hva sect s1;
                  c32 \<leftarrow> hdr_code32_start buf;
                  let code32_start = (if c32 \<noteq> 0 then c32 else 0x100000);
                  let hva2 = vm_gpa_to_hva v (ucast code32_start) boot_size;
                  if hva2 = NULL then Some (-1, s2)
                  else do {
                    body \<leftarrow> bytes_at buf setup_size (unat boot_size);
                    s3 \<leftarrow> store hva2 body s2;
                    Some (0, s3) } } } } })"

section \<open>Initial ramdisk and command line\<close>

text \<open>
  The pointers in the boot parameters are written behind the four bytes whose translation was
  asked for.
\<close>

definition load_initrd :: "env \<Rightarrow> ref \<Rightarrow> string \<Rightarrow> u64 \<Rightarrow> host \<Rightarrow> (int \<times> host) option" where
  "load_initrd E vm path max_addr s =
     (case read_file E path s of
        (None, s1) \<Rightarrow> Some (-1, s1)
      | (Some buf, s1) \<Rightarrow>
          do {
            let initrd_size = (of_nat (length buf) :: u64);
            let addr0 = (max_addr - initrd_size) AND NOT 0xfff;
            let initrd_addr = (if addr0 < 0x100000 then 0x10000000 else addr0);
            v \<leftarrow> vms s1 vm;
            let hva = vm_gpa_to_hva v initrd_addr initrd_size;
            if hva = NULL then Some (-1, s1)
            else do {
              s2 \<leftarrow> store hva buf s1;
              let params = vm_gpa_to_hva v 0x10000 4;
              if params = NULL then Some (0, s2)
              else do {
                s3 \<leftarrow> store_word (ptr_add params RAMDISK_IMAGE_ADDR) 4 (ucast initrd_addr :: u32) s2;
                s4 \<leftarrow> store_word (ptr_add params RAMDISK_SIZE_ADDR) 4 (ucast initrd_size :: u32) s3;
                Some (0, s4) } } })"

definition setup_cmdline :: "ref \<Rightarrow> string \<Rightarrow> host \<Rightarrow> (int \<times> host) option" where
  "setup_cmdline vm cmdline s =
     do {
       let cmdline_addr = (0x20000 :: u64);
       let bytes = map of_char cmdline @ [0];
       v \<leftarrow> vms s vm;
       let hva = vm_gpa_to_hva v cmdline_addr (of_nat (length bytes));
       if hva = NULL then Some (-1, s)
       else do {
         s1 \<leftarrow> store hva bytes s;
         let params = vm_gpa_to_hva v 0x10000 4;
         if params = NULL then Some (0, s1)
         else do {
           s2 \<leftarrow> store_word (ptr_add params CMDLINE_PTR_ADDR) 4 (ucast cmdline_addr :: u32) s1;
           Some (0, s2) } } }"

section \<open>Memory map\<close>

definition E820_RAM :: u32 where "E820_RAM = 1"
definition E820_RESERVED :: u32 where "E820_RESERVED = 2"

definition e820_entry_bytes :: "u64 \<Rightarrow> u64 \<Rightarrow> u32 \<Rightarrow> u8 list" where
  "e820_entry_bytes addr sz ty = le_bytes 8 addr @ le_bytes 8 sz @ le_bytes 4 ty"

definition setup_e820 :: "ref \<Rightarrow> host \<Rightarrow> (int \<times> host) option" where
  "setup_e820 vm s =
     do {
       v \<leftarrow> vms s vm;
       let hva = vm_gpa_to_hva v 0x10000 0x1000;
       if hva = NULL then Some (-1, s)
       else do {
         s1 \<leftarrow> store (ptr_add hva 0x2D0)
                 (e820_entry_bytes 0 0xA0000 E820_RAM @ e820_entry_bytes 0xA0000 0x60000 E820_RESERVED
                  @ e820_entry_bytes 0x100000 (v_mem_size v - 0x100000) E820_RAM) s;
         s2 \<leftarrow> store (ptr_add hva 0x1E8) [3] s1;
         Some (0, s2) } }"

section \<open>Registers\<close>

definition boot_segment :: "u16 \<Rightarrow> u32 \<Rightarrow> hv_segment" where
  "boot_segment sel ar = \<lparr>sg_selector = sel, sg_base = 0, sg_limit = 0xFFFFFFFF, sg_ar = ar\<rparr>"

definition linux_sregs :: hv_sregs where
  "linux_sregs =
     (let ds = boot_segment 0x18 0x4093 in
      zero_sregs\<lparr>sr_cs := boot_segment 0x10 0x409B, sr_ds := ds, sr_es := ds, sr_fs := ds, sr_gs := ds, sr_ss := ds,
        sr_gdt := \<lparr>dt_base = 0x5000, dt_limit = 0x7, dt_ar = 0\<rparr>,
        sr_idt := \<lparr>dt_base = 0, dt_limit = 0xFFFF, dt_ar = 0\<rparr>, sr_cr0 := 0x11, sr_cr4 := 0, sr_efer := 0\<rparr>)"

definition linux_regs :: hv_regs where
  "linux_regs = zero_regs\<lparr>rg_rsi := 0x10000, rg_rip := 0x100000, rg_rflags := 0x2\<rparr>"

definition setup_vcpu_regs :: "hv_linked \<Rightarrow> ref \<Rightarrow> host \<Rightarrow> (int \<times> host) option" where
  "setup_vcpu_regs ops r s =
     do {
       c \<leftarrow> vcpus s r;
       (ret, s1) \<leftarrow> hv_set_regs ops (c_hv_vcpu c) linux_regs s;
       if ret < 0 then Some (-1, s1)
       else do {
         (ret2, s2) \<leftarrow> hv_set_sregs ops (c_hv_vcpu c) linux_sregs s1;
         Some (if ret2 < 0 then -1 else 0, s2) } }"

section \<open>The two loaders\<close>

definition boot_setup_linux :: "env \<Rightarrow> hv_linked \<Rightarrow> ref \<Rightarrow> host \<Rightarrow> (int \<times> host) option" where
  "boot_setup_linux E ops vm s =
     do {
       v \<leftarrow> vms s vm;
       case v_kernel_path v of
         None \<Rightarrow> Some (-1, s)
       | Some kpath \<Rightarrow>
           do {
             (ret1, s1) \<leftarrow> load_bzimage E vm kpath s;
             if ret1 < 0 then Some (-1, s1)
             else do {
               (ret2, s2) \<leftarrow> (case v_initrd_path v of None \<Rightarrow> Some (0, s1)
                              | Some initrd \<Rightarrow> load_initrd E vm initrd (v_mem_size v) s1);
               if ret2 < 0 then Some (-1, s2)
               else do {
                 (ret3, s3) \<leftarrow> (case v_cmdline v of None \<Rightarrow> Some (0, s2) | Some cmd \<Rightarrow> setup_cmdline vm cmd s2);
                 if ret3 < 0 then Some (-1, s3)
                 else do {
                   (ret4, s4) \<leftarrow> setup_e820 vm s3;
                   if ret4 < 0 then Some (-1, s4)
                   else do {
                     (ret5, s5) \<leftarrow> setup_vcpu_regs ops (v_vcpus v ! 0) s4;
                     Some (if ret5 < 0 then -1 else 0, s5) } } } } } }"

definition raw_sregs :: hv_sregs where
  "raw_sregs =
     (let ds = boot_segment 0x18 0xC093 in
      zero_sregs\<lparr>sr_cs := boot_segment 0x10 0xA09B, sr_ds := ds, sr_es := ds, sr_fs := ds, sr_gs := ds, sr_ss := ds,
        sr_cr0 := 0x80010001, sr_cr4 := 0x620, sr_efer := 0x1000, sr_cr3 := 0\<rparr>)"

definition raw_regs :: "u64 \<Rightarrow> hv_regs" where
  "raw_regs entry = zero_regs\<lparr>rg_rip := entry, rg_rflags := 0x2\<rparr>"

definition boot_setup_raw_binary :: "env \<Rightarrow> hv_linked \<Rightarrow> ref \<Rightarrow> string \<Rightarrow> u64 \<Rightarrow> host \<Rightarrow> (int \<times> host) option" where
  "boot_setup_raw_binary E ops vm path entry s =
     (case read_file E path s of
        (None, s1) \<Rightarrow> Some (-1, s1)
      | (Some code, s1) \<Rightarrow>
          do {
            v \<leftarrow> vms s1 vm;
            let hva = vm_gpa_to_hva v entry (of_nat (length code));
            if hva = NULL then Some (-1, s1)
            else do {
              s2 \<leftarrow> store hva code s1;
              let r = v_vcpus v ! 0;
              c \<leftarrow> vcpus s2 r;
              (case arch_of E of
                 AARCH64 \<Rightarrow> Some (0, set_vcpu r (c\<lparr>c_initial_rip := entry, c_has_initial_state := True\<rparr>) s2)
               | X86_64 \<Rightarrow>
                   do { (ret1, s3) \<leftarrow> hv_set_sregs ops (c_hv_vcpu c) raw_sregs s2;
                        (ret2, s4) \<leftarrow> hv_set_regs ops (c_hv_vcpu c) (raw_regs entry) s3;
                        Some (0, s4) }) } })"

section \<open>Guest memory after loading\<close>

lemma read_file_frame:
  assumes "read_file E path s = (r, s1)"
  shows "vms s1 = vms s" "mem s1 = mem s" "vcpus s1 = vcpus s" "hv_vcpus s1 = hv_vcpus s" "g_hv_ops s1 = g_hv_ops s"
    "log_level s1 = log_level s"
  using assms by (auto simp: read_file_def syscall_def alloc_def Let_def split: if_splits)

lemma backed_same_mem: "mem s' = mem s \<Longrightarrow> vm_backed v s' = vm_backed v s"
  using load_mem_cong [of s' s] by (simp add: table_backed_def range_backed_def)

text \<open>
  What a copy of bytes to a translated guest range does to the guest's view of memory.
\<close>

lemma guest_copy:
  assumes "vm_backed v s" and "vm_apart v" and "vm_gpa_to_hva v gpa (of_nat (length xs)) \<noteq> NULL"
    and "unat gpa + length xs < 2 ^ 64"
  shows "\<exists>s'. store (vm_gpa_to_hva v gpa (of_nat (length xs))) xs s = Some s' \<and> vm_backed v s' \<and> handler_frame s s'
     \<and> (\<forall>g. no_wrap g 1 \<longrightarrow> guest_byte (vm_gpa_to_hva v) s' g =
          (if unat gpa \<le> unat g \<and> unat g < unat gpa + length xs then Some (xs ! (unat g - unat gpa))
           else guest_byte (vm_gpa_to_hva v) s g))"
proof -
  let ?n = "of_nat (length xs) :: u64"
  have n: "unat ?n = length xs" using assms(4) by (simp add: unat_of_nat take_bit_nat_eq_self)
  then have "no_wrap gpa (unat ?n)" using assms(4) by (simp add: no_wrap_def)
  from vmg.guest_write_map [OF assms(1,2) this assms(3)] n obtain s' where
    s': "store (vm_gpa_to_hva v gpa ?n) xs s = Some s'" "vm_backed v s'"
    "\<forall>g. no_wrap g 1 \<longrightarrow> guest_byte (vm_gpa_to_hva v) s' g =
       (if unat gpa \<le> unat g \<and> unat g < unat gpa + length xs then Some (xs ! (unat g - unat gpa))
        else guest_byte (vm_gpa_to_hva v) s g)" by auto
  then show ?thesis using store_handler_frame by blast
qed

lemma guest_byte_mem: "mem s' = mem s \<Longrightarrow> guest_byte tr s' = guest_byte tr s"
  unfolding guest_byte_def using load_mem_cong [of s' s] by fastforce

text \<open>A well-formed image of less than 4 GiB: the two magic numbers, a set-up part and a rest.\<close>

definition bzimage_ok :: "u8 list \<Rightarrow> nat \<Rightarrow> u32 \<Rightarrow> bool" where
  "bzimage_ok buf setup_size code32_start \<longleftrightarrow> hdr_boot_flag buf = Some 0xAA55 \<and> hdr_header buf = Some BZIMAGE_MAGIC
     \<and> (\<exists>n. hdr_setup_sects buf = Some n \<and> setup_size = (unat n + 1) * 512)
     \<and> (\<exists>c. hdr_code32_start buf = Some c \<and> code32_start = (if c \<noteq> 0 then c else 0x100000))
     \<and> setup_size \<le> length buf \<and> 0x218 \<le> length buf \<and> length buf < 2 ^ 32"

section \<open>Properties\<close>

text \<open>
  C2: a well-formed kernel image is loaded byte for byte. When guest memory covers both
  destinations, which do not overlap, the loader returns 0; the guest then sees the set-up part at
  0x10000 and the rest of the image at its start address, and every other byte of guest memory
  is as before.
\<close>

theorem load_bzimage_loads:
  assumes "vms s vm = Some v" and "vm_backed v s" and "vm_apart v"
    and "read_file E path s = (Some buf, s1)" and "bzimage_ok buf setup_size c32"
    and "vm_gpa_to_hva v 0x10000 (of_nat setup_size) \<noteq> NULL"
    and "vm_gpa_to_hva v (ucast c32) (of_nat (length buf - setup_size)) \<noteq> NULL"
    and "unat c32 + (length buf - setup_size) \<le> 0x10000 \<or> 0x10000 + setup_size \<le> unat c32"
  shows "\<exists>s'. load_bzimage E vm path s = Some (0, s') \<and> vms s' = vms s \<and> vm_backed v s'
     \<and> (\<forall>g. no_wrap g 1 \<longrightarrow> guest_byte (vm_gpa_to_hva v) s' g =
          (if 0x10000 \<le> unat g \<and> unat g < 0x10000 + setup_size then Some (buf ! (unat g - 0x10000))
           else if unat c32 \<le> unat g \<and> unat g < unat c32 + (length buf - setup_size)
           then Some (buf ! (setup_size + (unat g - unat c32)))
           else guest_byte (vm_gpa_to_hva v) s g))"
proof -
  note f = read_file_frame [OF assms(4)]
  have ok: "hdr_boot_flag buf = Some 0xAA55" "hdr_header buf = Some BZIMAGE_MAGIC" "setup_size \<le> length buf"
    "0x218 \<le> length buf" using assms(5) by (simp_all add: bzimage_ok_def)
  obtain n c where n: "hdr_setup_sects buf = Some n" "setup_size = (unat n + 1) * 512" "hdr_code32_start buf = Some c"
    "c32 = (if c \<noteq> 0 then c else 0x100000)" using assms(5) by (auto simp: bzimage_ok_def)
  have ver: "hdr_version buf \<noteq> None" using ok(4) by (simp add: hdr_version_def word_at_def bytes_at_def HEADER_ADDR_def)
  have "unat n < 256" using unsigned_less [of n] by simp
  then have ss: "setup_size \<le> 0x20000" using n(2) by simp
  have "unat c32 < 2 ^ 32" using unsigned_less [of c32] by simp
  then have c: "unat c32 < 2 ^ 32" "unat (ucast c32 :: u64) = unat c32" by simp_all
  have "length buf < 2 ^ 32" using assms(5) by (simp add: bzimage_ok_def)
  let ?hdr = "subrange buf 0 setup_size" and ?body = "subrange buf setup_size (length buf - setup_size)"
  have l: "length ?hdr = setup_size" "length ?body = length buf - setup_size" using ok(3) by (simp_all add: length_subrange)
  have bs: "of_nat (length buf) - of_nat setup_size = (of_nat (length buf - setup_size) :: u64)"
    "unat (of_nat (length buf - setup_size) :: u64) = length buf - setup_size"
    using ok(3) \<open>length buf < 2 ^ 32\<close> by (simp add: of_nat_diff, simp add: unat_of_nat take_bit_nat_eq_self del: of_nat_diff)
  have b1: "vm_backed v s1" using assms(2) backed_same_mem [OF f(2)] by simp
  obtain s2 where s2: "store (vm_gpa_to_hva v 0x10000 (of_nat setup_size)) ?hdr s1 = Some s2" "vm_backed v s2" "handler_frame s1 s2"
    "\<forall>g. no_wrap g 1 \<longrightarrow> guest_byte (vm_gpa_to_hva v) s2 g =
       (if 0x10000 \<le> unat g \<and> unat g < 0x10000 + setup_size then Some (?hdr ! (unat g - 0x10000))
        else guest_byte (vm_gpa_to_hva v) s1 g)"
    using guest_copy [OF b1 assms(3), of "0x10000" ?hdr] l(1) assms(6) ss by auto
  have top: "unat c32 + (length buf - setup_size) < 2 ^ 64" using c(1) \<open>length buf < 2 ^ 32\<close> by simp
  obtain s3 where s3: "store (vm_gpa_to_hva v (ucast c32) (of_nat (length buf - setup_size))) ?body s2 = Some s3"
    "vm_backed v s3" "handler_frame s2 s3"
    "\<forall>g. no_wrap g 1 \<longrightarrow> guest_byte (vm_gpa_to_hva v) s3 g =
       (if unat c32 \<le> unat g \<and> unat g < unat c32 + (length buf - setup_size) then Some (?body ! (unat g - unat c32))
        else guest_byte (vm_gpa_to_hva v) s2 g)"
    using guest_copy [OF s2(2) assms(3), of "ucast c32" ?body, unfolded c(2) l(2), OF assms(7) top] by blast
  have "load_bzimage E vm path s = Some (0, s3)"
    using assms(1,4,6,7) f ok n ver s2(1) s3(1) bs by (simp add: load_bzimage_def bytes_at_def Let_def) force
  moreover have "vms s3 = vms s" using s2(3) s3(3) f(1) by (simp add: handler_frame_def)
  moreover have "guest_byte (vm_gpa_to_hva v) s1 = guest_byte (vm_gpa_to_hva v) s" by (rule guest_byte_mem [OF f(2)])
  ultimately show ?thesis
    using s2(4) s3(2,4) assms(8) ok(3) by (intro exI [of _ s3]) (auto simp: nth_subrange)
qed

definition ex_image :: "u8 list" where
  "ex_image = replicate 0x1FE 0 @ [0x55, 0xAA, 0, 0, 0x48, 0x64, 0x72, 0x53] @ replicate 14 0 @ [0, 0, 2, 0]"

definition ex_boot_env :: env where
  "ex_boot_env = ok_env\<lparr>answer_of := (\<lambda>h c. case c of SYS_fopen p m \<Rightarrow> answer_ok 1
     | SYS_fsize f \<Rightarrow> answer_ok 0x218 | SYS_fread f n \<Rightarrow> (answer_ok 0)\<lparr>a_bytes := ex_image\<rparr> | _ \<Rightarrow> answer_ok 0)\<rparr>"

definition ex_boot_vm :: vm where
  "ex_boot_vm = zero_vm\<lparr>v_hv_vm := 1, v_mem_size := 0x40000, v_vcpus := (replicate 8 0)[0 := 7],
     v_mem_regions := (replicate 32 zero_region)[0 := \<lparr>r_gpa = 0, r_hva = Ptr 3 0, r_size = 0x40000, r_slot = 0, r_used = True\<rparr>]\<rparr>"

definition ex_boot_host :: host where
  "ex_boot_host = ex_cpu_host\<lparr>vms := (\<lambda>_. None)(2 \<mapsto> ex_boot_vm), mem := (mem ex_cpu_host)(3 \<mapsto> replicate 0x40000 0)\<rparr>"

lemma ex_boot_table: "vm_table ex_boot_vm i = (if i = 0 then Some (0, Ptr 3 0, 0x40000) else None)"
  by (auto simp: vm_table_def ex_boot_vm_def zero_region_def VM_MAX_SLOTS_def nth_list_update zero_vm_def)

lemma ex_boot_backed: "vm_backed ex_boot_vm ex_boot_host"
  by (simp add: table_backed_def ex_boot_table range_backed_def no_wrap_def ex_boot_host_def)

lemma ex_boot_apart: "vm_apart ex_boot_vm"
  by (simp add: table_apart_def ex_boot_table)

lemma ex_boot_translate:
  assumes "unat g + unat n \<le> 0x40000"
  shows "vm_gpa_to_hva ex_boot_vm g n = Ptr 3 g"
proof -
  have r: "v_mem_regions ex_boot_vm ! 0 = \<lparr>r_gpa = 0, r_hva = Ptr 3 0, r_size = 0x40000, r_slot = 0, r_used = True\<rparr>"
    by (simp add: ex_boot_vm_def)
  have "region_hit (v_mem_regions ex_boot_vm ! 0) g n"
    using assms by (simp add: r region_hit_def word_le_nat_alt unat_word_ariths)
  then have "find (\<lambda>i. region_hit (v_mem_regions ex_boot_vm ! i) g n) [0..<VM_MAX_SLOTS] = Some 0"
    unfolding find_upt_Some by (simp add: VM_MAX_SLOTS_def)
  then show ?thesis by (simp add: vm_gpa_to_hva_def r)
qed

lemma ex_image: "bzimage_ok ex_image 512 0x20000" "length ex_image = 0x218"
proof -
  have "hdr_boot_flag ex_image = Some 0xAA55" "hdr_header ex_image = Some BZIMAGE_MAGIC" "hdr_setup_sects ex_image = Some 0"
    "hdr_code32_start ex_image = Some 0x20000" "length ex_image = 0x218"
    by code_simp+
  then show "bzimage_ok ex_image 512 0x20000" "length ex_image = 0x218" by (simp_all add: bzimage_ok_def)
qed

lemma ex_read_file: "0 < next_ref s \<Longrightarrow> \<exists>s1. read_file ex_boot_env path s = (Some ex_image, s1)"
  using ex_image(2) by (simp add: read_file_def ex_boot_env_def ok_env_def syscall_def alloc_def answer_ok_def Let_def)

lemma ex_boot_vms: "vms ex_boot_host 2 = Some ex_boot_vm" "0 < next_ref ex_boot_host"
  by (simp_all add: ex_boot_host_def ex_cpu_host_def)

theorem load_bzimage_loads_witness:
  "\<exists>s'. load_bzimage ex_boot_env 2 ''vmlinuz'' ex_boot_host = Some (0, s')
     \<and> guest_byte (vm_gpa_to_hva ex_boot_vm) s' 0x101FF = Some 0xAA"
proof -
  obtain s1 where rf: "read_file ex_boot_env ''vmlinuz'' ex_boot_host = (Some ex_image, s1)"
    using ex_read_file [OF ex_boot_vms(2)] by blast
  have "vm_gpa_to_hva ex_boot_vm 0x10000 (of_nat 512) \<noteq> NULL"
    "vm_gpa_to_hva ex_boot_vm (ucast (0x20000 :: u32)) (of_nat (length ex_image - 512)) \<noteq> NULL"
    by (simp_all add: ex_boot_translate ex_image(2))
  from load_bzimage_loads [OF ex_boot_vms(1) ex_boot_backed ex_boot_apart rf ex_image(1) this] obtain s' where
    s': "load_bzimage ex_boot_env 2 ''vmlinuz'' ex_boot_host = Some (0, s')"
    "\<forall>g. no_wrap g 1 \<longrightarrow> guest_byte (vm_gpa_to_hva ex_boot_vm) s' g =
          (if 0x10000 \<le> unat g \<and> unat g < 0x10000 + 512 then Some (ex_image ! (unat g - 0x10000))
           else if unat (0x20000 :: u32) \<le> unat g \<and> unat g < unat (0x20000 :: u32) + (length ex_image - 512)
           then Some (ex_image ! (512 + (unat g - unat (0x20000 :: u32))))
           else guest_byte (vm_gpa_to_hva ex_boot_vm) ex_boot_host g)"
    by auto
  have "ex_image ! 0x1FF = 0xAA" by code_simp
  with s' spec [OF s'(2), of "0x101FF"] show ?thesis by (simp add: no_wrap_def)
qed

text \<open>
  Nothing is loaded from a bad kernel file. When the file cannot be opened or its buffer cannot
  be allocated, when it is shorter than 512 bytes, when the boot flag is wrong, or when the header
  is there with the wrong magic number, the loader returns -1 and guest memory and the machine
  are as before.
\<close>

theorem load_bzimage_rejects:
  assumes "read_file E path s = (r, s1)"
    and "r = None \<or> (\<exists>buf. r = Some buf \<and> (length buf < 0x200 \<or> hdr_boot_flag buf \<noteq> Some 0xAA55
           \<or> (\<exists>m. hdr_header buf = Some m \<and> m \<noteq> BZIMAGE_MAGIC)))"
  shows "\<exists>s'. load_bzimage E vm path s = Some (-1, s') \<and> mem s' = mem s \<and> vms s' = vms s"
proof -
  have "load_bzimage E vm path s = Some (-1, s1)"
  proof (cases r)
    case None
    then show ?thesis using assms(1) by (simp add: load_bzimage_def)
  next
    case (Some buf)
    show ?thesis
    proof (cases "length buf < 0x200")
      case True
      then show ?thesis using assms(1) Some by (simp add: load_bzimage_def)
    next
      case False
      then obtain f where "hdr_boot_flag buf = Some f"
        by (simp add: hdr_boot_flag_def word_at_def bytes_at_def HEADER_ADDR_def)
      then show ?thesis using assms Some False by (cases "f = 0xAA55") (auto simp: load_bzimage_def)
    qed
  qed
  then show ?thesis using read_file_frame [OF assms(1)] by simp
qed

definition no_file_env :: env where
  "no_file_env = ok_env"

theorem load_bzimage_rejects_witness:
  "\<exists>s'. load_bzimage no_file_env 2 ''missing'' ex_boot_host = Some (-1, s') \<and> mem s' = mem ex_boot_host
     \<and> vms s' = vms ex_boot_host"
proof -
  have "\<exists>s1. read_file no_file_env ''missing'' ex_boot_host = (None, s1)"
    by (simp add: read_file_def no_file_env_def ok_env_def syscall_def answer_ok_def Let_def)
  then show ?thesis using load_bzimage_rejects [of no_file_env "''missing''" ex_boot_host None] by blast
qed

lemma guest_copy_load:
  assumes "vm_backed v s" and "vm_gpa_to_hva v gpa n \<noteq> NULL" and "no_wrap gpa (unat n)" and "unat k + length xs \<le> unat n"
  shows "\<exists>s'. store (ptr_add (vm_gpa_to_hva v gpa n) k) xs s = Some s' \<and> vm_backed v s' \<and> handler_frame s s'
     \<and> load s' (ptr_add (vm_gpa_to_hva v gpa n) k) (length xs) = Some xs
     \<and> (\<forall>q m. separate (ptr_add (vm_gpa_to_hva v gpa n) k) (length xs) q m \<longrightarrow> load s' q m = load s q m)"
proof -
  let ?p = "vm_gpa_to_hva v gpa n"
  obtain b off where p: "?p = Ptr b off" by (cases ?p)
  have "load s ?p (unat n) \<noteq> None" using vmg.translate_readable [OF assms(1,3,2)] .
  moreover have "no_wrap off (unat n)" using vmg.translate_no_wrap [OF assms(1,3) p] assms(2) p by simp
  ultimately have "load s (ptr_add ?p k) (length xs) \<noteq> None"
    using load_sub [of s b off "unat n" k "length xs"] assms(4) p by (simp add: no_wrap_def del: load.simps ptr_add.simps)
  then obtain s' where s': "store (ptr_add ?p k) xs s = Some s'" "load s' (ptr_add ?p k) (length xs) = Some xs"
    using hm.write_then_read by fastforce
  then show ?thesis
    using hm.rd_wr_other [OF s'(1)] store_handler_frame [OF s'(1)] vmg.backed_store [OF assms(1) s'(1)] by auto
qed

text \<open>
  C25: the memory map the guest finds. With the zero page mapped, the three entries at 0x2D0 and
  the count at 0x1E8 are exactly: 640 KiB of RAM at 0, 384 KiB reserved, and RAM from 1 MiB of the
  size of the machine's memory less 1 MiB in 64-bit arithmetic, so that a machine with less than
  1 MiB is told it has almost 16 EiB.
\<close>

theorem setup_e820_map:
  assumes "vms s vm = Some v" and "vm_backed v s" and "vm_gpa_to_hva v 0x10000 0x1000 \<noteq> NULL"
  shows "\<exists>s'. setup_e820 vm s = Some (0, s') \<and> vms s' = vms s
     \<and> load s' (ptr_add (vm_gpa_to_hva v 0x10000 0x1000) 0x1E8) 1 = Some [3]
     \<and> load s' (ptr_add (vm_gpa_to_hva v 0x10000 0x1000) 0x2D0) 60 =
         Some (e820_entry_bytes 0 0xA0000 E820_RAM @ e820_entry_bytes 0xA0000 0x60000 E820_RESERVED
           @ e820_entry_bytes 0x100000 (v_mem_size v - 0x100000) E820_RAM)
     \<and> (v_mem_size v < 0x100000 \<longrightarrow> 2 ^ 64 - 0x100000 \<le> unat (v_mem_size v - 0x100000))"
proof -
  let ?p = "vm_gpa_to_hva v 0x10000 0x1000"
  let ?map = "e820_entry_bytes 0 0xA0000 E820_RAM @ e820_entry_bytes 0xA0000 0x60000 E820_RESERVED
           @ e820_entry_bytes 0x100000 (v_mem_size v - 0x100000) E820_RAM"
  have len: "length ?map = 60" by (simp add: e820_entry_bytes_def)
  have nw: "no_wrap 0x10000 (unat (0x1000 :: u64))" by (simp add: no_wrap_def)
  obtain s1 where s1: "store (ptr_add ?p 0x2D0) ?map s = Some s1" "vm_backed v s1" "handler_frame s s1"
    "load s1 (ptr_add ?p 0x2D0) 60 = Some ?map"
    using guest_copy_load [OF assms(2,3) nw, of "0x2D0" ?map] len by auto
  obtain s2 where s2: "store (ptr_add ?p 0x1E8) [3] s1 = Some s2" "handler_frame s1 s2"
    "load s2 (ptr_add ?p 0x1E8) 1 = Some [3]"
    "\<forall>q m. separate (ptr_add ?p 0x1E8) 1 q m \<longrightarrow> load s2 q m = load s1 q m"
    using guest_copy_load [OF s1(2) assms(3) nw, of "0x1E8" "[3]"] by auto
  obtain b off where p: "?p = Ptr b off" by (cases ?p)
  have "no_wrap off 0x1000" using vmg.translate_no_wrap [OF assms(2) nw p] assms(3) p by simp
  then have "unat (off + 0x1E8) = unat off + 0x1E8" "unat (off + 0x2D0) = unat off + 0x2D0"
    by (simp_all add: no_wrap_def unat_word_ariths(1))
  then have "separate (ptr_add ?p 0x1E8) 1 (ptr_add ?p 0x2D0) 60" using p by simp
  then have "load s2 (ptr_add ?p 0x2D0) 60 = Some ?map" using s1(4) s2(4) by simp
  moreover have "setup_e820 vm s = Some (0, s2)"
    using assms(1,3) s1(1) s2(1) by (simp add: setup_e820_def Let_def)
  moreover have "2 ^ 64 - 0x100000 \<le> unat (v_mem_size v - 0x100000)" if "v_mem_size v < 0x100000"
    using that by (simp add: unat_sub_if_size word_less_nat_alt word_le_nat_alt word_size)
  ultimately show ?thesis using s1(3) s2(2,3) by (auto simp: handler_frame_def)
qed

theorem setup_e820_map_witness:
  "\<exists>s'. setup_e820 2 ex_boot_host = Some (0, s') \<and> load s' (ptr_add (vm_gpa_to_hva ex_boot_vm 0x10000 0x1000) 0x1E8) 1 = Some [3]
     \<and> 2 ^ 64 - 0x100000 \<le> unat (v_mem_size ex_boot_vm - 0x100000)"
proof -
  have "vm_gpa_to_hva ex_boot_vm 0x10000 0x1000 \<noteq> NULL" by (simp add: ex_boot_translate)
  from setup_e820_map [OF ex_boot_vms(1) ex_boot_backed this] show ?thesis
    by (auto simp: ex_boot_vm_def simp del: load.simps ptr_add.simps)
qed



text \<open>
  The guest finds its command line. With the first MiB mapped in one region, the string is
  stored with its terminator at 0x20000 and its address in the boot parameters at 0x10228.
\<close>

theorem setup_cmdline_found:
  assumes "vms s vm = Some v" and "length cmd < 0x1000"
    and "\<And>g n. unat g + unat n \<le> 0x100000 \<Longrightarrow> vm_gpa_to_hva v g n = ptr_add base g" and "base \<noteq> NULL"
    and "load s base 0x100000 \<noteq> None" and "no_wrap (case base of Ptr b off \<Rightarrow> off) 0x100000"
  shows "\<exists>s'. setup_cmdline vm cmd s = Some (0, s') \<and> load s' (ptr_add base 0x20000) (length cmd + 1) = Some (map of_char cmd @ [0])
     \<and> load s' (ptr_add base 0x10228) 4 = Some (le_bytes 4 (0x20000 :: u32))"
proof -
  obtain b off where base: "base = Ptr b off" by (cases base)
  let ?xs = "map of_char cmd @ [0] :: u8 list"
  have nw: "no_wrap off 0x100000" using assms(6) base by simp
  have off: "unat (off + k) = unat off + unat k" if "unat k \<le> 0x100000" for k
    using nw that by (simp add: no_wrap_def unat_word_ariths(1))
  have bs: "\<exists>bs. mem s b = Some bs \<and> unat off + 0x100000 \<le> length bs"
    using assms(5) base by (auto split: option.splits if_splits)
  then obtain s1 where s1: "store (ptr_add base 0x20000) ?xs s = Some s1"
    using base off [of "0x20000"] assms(2) by (auto split: option.splits)
  have rd1: "load s1 (ptr_add base 0x20000) (length ?xs) = Some ?xs" by (rule hm.rd_wr_same [OF s1])
  have b1: "\<exists>bs. mem s1 b = Some bs \<and> unat off + 0x100000 \<le> length bs"
  proof -
    have "map_option length (mem s1 b) = map_option length (mem s b)" using store_handler_frame [OF s1] by (simp add: handler_frame_def)
    then show ?thesis using bs by auto
  qed
  then obtain s2 where s2: "store (ptr_add base 0x10228) (le_bytes 4 (0x20000 :: u32)) s1 = Some s2"
    using base off [of "0x10228"] by (auto split: option.splits)
  have rd2: "load s2 (ptr_add base 0x10228) 4 = Some (le_bytes 4 (0x20000 :: u32))" using hm.rd_wr_same [OF s2] by simp
  have "separate (ptr_add base 0x10228) 4 (ptr_add base 0x20000) (length ?xs)"
    using base off [of "0x10228"] off [of "0x20000"] by simp
  then have rd3: "load s2 (ptr_add base 0x20000) (length ?xs) = Some ?xs" using hm.rd_wr_other [OF s2] rd1 by simp
  have small: "unat (of_nat m :: u64) = m" if "m < 2 ^ 64" for m using that by (simp add: unat_of_nat take_bit_nat_eq_self)
  have n: "unat (of_nat (length ?xs) :: u64) = length ?xs" by (rule small) (use assms(2) in simp)
  have tr: "vm_gpa_to_hva v 0x20000 (of_nat (length ?xs)) = ptr_add base 0x20000" "vm_gpa_to_hva v 0x10000 4 = ptr_add base 0x10000"
    using assms(3) [of "0x20000" "of_nat (length ?xs)"] assms(3) [of "0x10000" 4] n assms(2) by auto
  have nn: "ptr_add base 0x20000 \<noteq> NULL" "ptr_add base 0x10000 \<noteq> NULL"
    using base off [of "0x20000"] off [of "0x10000"] by (auto simp: unat_eq_0 dest: arg_cong [where f = unat])
  have "setup_cmdline vm cmd s = Some (0, s2)"
    using assms(1) tr nn s1 s2 by (simp add: setup_cmdline_def store_word_def CMDLINE_PTR_ADDR_def ptr_add_add)
  then show ?thesis using rd2 rd3 by auto
qed

definition ex_big_vm :: vm where
  "ex_big_vm = zero_vm\<lparr>v_mem_regions := (replicate 32 zero_region)[0 := \<lparr>r_gpa = 0, r_hva = Ptr 3 0, r_size = 0x100000, r_slot = 0, r_used = True\<rparr>]\<rparr>"

definition ex_big_host :: host where
  "ex_big_host = init_host\<lparr>vms := (\<lambda>_. None)(2 \<mapsto> ex_big_vm), mem := (\<lambda>_. None)(3 \<mapsto> replicate 0x100000 0)\<rparr>"

lemma ex_big_translate:
  assumes "unat g + unat n \<le> 0x100000"
  shows "vm_gpa_to_hva ex_big_vm g n = ptr_add (Ptr 3 0) g"
proof -
  have r: "v_mem_regions ex_big_vm ! 0 = \<lparr>r_gpa = 0, r_hva = Ptr 3 0, r_size = 0x100000, r_slot = 0, r_used = True\<rparr>"
    by (simp add: ex_big_vm_def)
  have "region_hit (v_mem_regions ex_big_vm ! 0) g n"
    using assms by (simp add: r region_hit_def word_le_nat_alt unat_word_ariths)
  then have "find (\<lambda>i. region_hit (v_mem_regions ex_big_vm ! i) g n) [0..<VM_MAX_SLOTS] = Some 0"
    unfolding find_upt_Some by (simp add: VM_MAX_SLOTS_def)
  then show ?thesis by (simp add: vm_gpa_to_hva_def r)
qed

theorem setup_cmdline_found_witness:
  "\<exists>s'. setup_cmdline 2 ''quiet'' ex_big_host = Some (0, s')
     \<and> load s' (ptr_add (Ptr 3 0) 0x20000) (length ''quiet'' + 1) = Some (map of_char ''quiet'' @ [0])
     \<and> load s' (ptr_add (Ptr 3 0) 0x10228) 4 = Some (le_bytes 4 (0x20000 :: u32))"
  by (rule setup_cmdline_found [OF _ _ ex_big_translate]) (simp_all add: ex_big_host_def no_wrap_def)

end
