(* ===== verification/Device_Map.thy ===== *)
theory Device_Map
  imports Device_Tables
begin

text \<open>
  Where the devices of the program lie in the guest's address space. The locale \<open>device_maker\<close> is what
  the main program relies on of a constructor: it returns, touches nothing that existed, and a
  device it returns has a fixed range of addresses. It is interpreted for the four constructors, and gives what attaching a device does
  to the list of ranges of a machine.
\<close>

definition made :: "host \<Rightarrow> ref \<Rightarrow> host \<Rightarrow> u64 \<Rightarrow> u64 \<Rightarrow> bool" where
  "made s dev s' lo hi \<longleftrightarrow> fresh_heap s' \<and> vms s' = vms s \<and> (\<forall>r. devs s r \<noteq> None \<longrightarrow> devs s' r = devs s r)
     \<and> (dev = 0 \<or> devs s dev = None \<and> (\<exists>d. devs s' dev = Some d \<and> d_gpa_start d = lo \<and> d_gpa_end d = hi))"

text \<open>What a constructor may have done so far: only numbers handed out since \<open>s0\<close> name anything new.\<close>

definition confined :: "host \<Rightarrow> host \<Rightarrow> bool" where
  "confined s0 s \<longleftrightarrow> next_ref s0 \<le> next_ref s \<and> vms s = vms s0 \<and> (\<forall>r < next_ref s0. devs s r = devs s0 r) \<and> fresh_heap s"

lemma confined_refl: "fresh_heap s \<Longrightarrow> confined s s"
  by (simp add: confined_def)

lemma confined_alloc:
  assumes "confined s0 s" and "alloc E s = (r, s')"
  shows "confined s0 s' \<and> (r \<noteq> 0 \<longrightarrow> next_ref s0 \<le> r \<and> r < next_ref s')"
  using assms by (auto simp: confined_def alloc_def fresh_heap_def obj_live_def)

lemma confined_strdup:
  assumes "confined s0 s" and "strdup E str s = (nm, s')"
  shows "confined s0 s' \<and> next_ref s \<le> next_ref s'"
  using assms by (auto simp: confined_def strdup_def alloc_def fresh_heap_def obj_live_def)

lemma confined_io: "confined s0 s \<Longrightarrow> io_only s s' \<Longrightarrow> confined s0 s' \<and> next_ref s' = next_ref s"
  using io_only_heaps [of s s'] by (simp add: confined_def fresh_heap_def)

lemma confined_set:
  assumes "confined s0 s" and "next_ref s0 \<le> r" and "r < next_ref s"
  shows "confined s0 (set_dev r d s)" "confined s0 (set_vdev r vd s)" "confined s0 (set_uart r u s)"
    "confined s0 (s\<lparr>consoles := (consoles s)(r \<mapsto> c)\<rparr>)" "confined s0 (s\<lparr>blks := (blks s)(r \<mapsto> b)\<rparr>)"
    "confined s0 (s\<lparr>nets := (nets s)(r \<mapsto> n)\<rparr>)"
  using assms by (auto simp: confined_def fresh_heap_def obj_live_def)

lemma free_obj_parts:
  assumes "free_obj r s = Some s'" and "r \<noteq> 0"
  shows "obj_live s' q = (q \<noteq> r \<and> obj_live s q)" and "mem s' = mem s" and "next_ref s' = next_ref s"
    and "vms s' = (vms s)(r := None)" and "devs s' = (devs s)(r := None)"
proof -
  have s': "s' = s\<lparr>vms := (vms s)(r := None), vcpus := (vcpus s)(r := None), hv_vms := (hv_vms s)(r := None),
      hv_vcpus := (hv_vcpus s)(r := None), devs := (devs s)(r := None), vdevs := (vdevs s)(r := None),
      uarts := (uarts s)(r := None), consoles := (consoles s)(r := None), blks := (blks s)(r := None),
      nets := (nets s)(r := None), vfios := (vfios s)(r := None), vconts := (vconts s)(r := None)\<rparr>"
    using assms by (simp add: free_obj_def split: if_splits)
  show "obj_live s' q = (q \<noteq> r \<and> obj_live s q)" by (cases "q = r") (simp_all add: s' obj_live_def)
  show "mem s' = mem s" "next_ref s' = next_ref s" "vms s' = (vms s)(r := None)" "devs s' = (devs s)(r := None)"
    by (simp_all add: s')
qed

lemma confined_free:
  assumes "confined s0 s" and "fresh_heap s0" and "next_ref s0 \<le> r" and "free_obj r s = Some s'"
  shows "confined s0 s' \<and> next_ref s' = next_ref s"
proof -
  have r: "r \<noteq> 0" "vms s r = None" using assms(1-3) by (auto simp: confined_def fresh_heap_def obj_live_def)
  note f = free_obj_parts [OF assms(4) r(1)]
  have "fresh_heap s'" using assms(1) f by (simp add: confined_def fresh_heap_def)
  moreover have "vms s' = vms s" using f(4) r(2) by (simp add: fun_upd_idem)
  ultimately show ?thesis using assms(1,3) f by (simp add: confined_def)
qed

lemma confined_made:
  assumes "confined s0 s" and "fresh_heap s0" and "dev = 0 \<or> next_ref s0 \<le> dev \<and> (\<exists>d. devs s dev = Some d \<and> d_gpa_start d = lo \<and> d_gpa_end d = hi)"
  shows "made s0 dev s lo hi"
proof -
  have "devs s r = devs s0 r" if "devs s0 r \<noteq> None" for r
    using assms(1,2) that by (metis confined_def fresh_heap_def not_le obj_live_def)
  moreover have "devs s0 dev = None" if "next_ref s0 \<le> dev" using assms(2) that by (auto simp: fresh_heap_def obj_live_def)
  ultimately show ?thesis using assms by (auto simp: made_def confined_def)
qed

section \<open>The constructors\<close>

lemma finish_made:
  assumes "confined s0 s1" and "fresh_heap s0" and "next_ref s0 \<le> v" and "v < next_ref s1" and "vdevs s1 v \<noteq> None"
  shows "\<exists>s'. (virtio_init E v ident s1 \<bind> (\<lambda>(ret, s2). vdevs s2 v \<bind> (\<lambda>vd.
      case strdup E nm (set_vdev v (f vd) s2) of (n, s3) \<Rightarrow> devs s3 v \<bind> (\<lambda>d.
        Some (v, set_dev v (virtio_device_fields t n v gpa sz d) s3))))) = Some (v, s') \<and> made s0 v s' gpa (gpa + sz - 1)"
proof -
  let ?s2 = "set_dev v zero_device (set_vdev v (zero_virtio_dev\<lparr>vd_device_id := ident, vd_device_features := oversized_shift E\<rparr>) s1)"
  have i: "virtio_init E v ident s1 = Some (0, ?s2)" using assms(5) by (auto simp: virtio_init_def)
  define vd where "vd = f (zero_virtio_dev\<lparr>vd_device_id := ident, vd_device_features := oversized_shift E\<rparr>)"
  obtain n s3 where n: "strdup E nm (set_vdev v vd ?s2) = (n, s3)" by force
  have "confined s0 (set_vdev v vd ?s2)" using assms(1,3,4) by (intro confined_set) simp_all
  from confined_strdup [OF this n] have c: "confined s0 s3" "v < next_ref s3" using assms(4) by simp_all
  have d: "devs s3 v = Some zero_device" using strdup_fields [OF n] by simp
  have "made s0 v (set_dev v (virtio_device_fields t n v gpa sz zero_device) s3) gpa (gpa + sz - 1)"
    using confined_made [OF confined_set(1) [OF c(1) assms(3) c(2)] assms(2)] assms(3) by (auto simp: virtio_device_fields_def)
  then show ?thesis using i n d by (simp add: vd_def)
qed

lemma failed_made: "confined s0 s \<Longrightarrow> fresh_heap s0 \<Longrightarrow> made s0 0 s lo hi"
  by (rule confined_made) simp_all

lemma free_defined: "obj_live s r \<Longrightarrow> \<exists>s'. free_obj r s = Some s'"
  by (simp add: free_obj_def)

text \<open>The two allocations every virtio constructor starts with.\<close>

lemma two_allocs:
  assumes "fresh_heap s" and "alloc E s = (v, s1)" and "v \<noteq> 0"
    and "alloc E (set_dev v zero_device (set_vdev v zero_virtio_dev s1)) = (q, s2)"
  shows "confined s s2" "next_ref s \<le> v" "v < next_ref s2" "vdevs s2 v \<noteq> None" "obj_live s2 v"
    "q \<noteq> 0 \<longrightarrow> next_ref s \<le> q \<and> q < next_ref s2 \<and> q \<noteq> v"
proof -
  have a: "confined s s1" "next_ref s \<le> v" "v < next_ref s1" using confined_alloc [OF confined_refl [OF assms(1)] assms(2)] assms(3) by auto
  have "confined s (set_dev v zero_device (set_vdev v zero_virtio_dev s1))" using a by (intro confined_set) simp_all
  note c = confined_alloc [OF this assms(4)]
  have s2: "s2 = (set_dev v zero_device (set_vdev v zero_virtio_dev s1))\<lparr>next_ref := Suc (next_ref s1)\<rparr>"
    and q: "q \<noteq> 0 \<longrightarrow> q = next_ref s1"
    using assms(4) by (auto simp: alloc_def)
  show "confined s s2" "next_ref s \<le> v" using c a by simp_all
  show "v < next_ref s2" "vdevs s2 v \<noteq> None" "obj_live s2 v" using a(3) by (simp_all add: s2 obj_live_def)
  show "q \<noteq> 0 \<longrightarrow> next_ref s \<le> q \<and> q < next_ref s2 \<and> q \<noteq> v" using c q a(3) by auto
qed

lemma one_freed:
  assumes "confined s0 s" and "fresh_heap s0" and "next_ref s0 \<le> v" and "obj_live s v"
  shows "\<exists>s'. free_obj v s = Some s' \<and> made s0 0 s' lo hi"
  using free_defined [OF assms(4)] confined_free [OF assms(1-3)] failed_made [OF _ assms(2)] by blast

lemma two_freed:
  assumes "confined s0 s" and "fresh_heap s0" and "next_ref s0 \<le> v" and "next_ref s0 \<le> q" and "obj_live s v" and "obj_live s q" and "q \<noteq> v"
  shows "\<exists>s'. free_two q v s = Some (0, s') \<and> made s0 0 s' lo hi"
proof -
  obtain s1 where s1: "free_obj q s = Some s1" using free_defined [OF assms(6)] by blast
  then have "confined s0 s1" using confined_free [OF assms(1,2,4)] by blast
  moreover have "q \<noteq> 0" using assms(2,4) by (auto simp: fresh_heap_def)
  then have "obj_live s1 v" using free_obj_parts(1) [OF s1] assms(5,7) by simp
  ultimately show ?thesis using one_freed [OF _ assms(2,3)] s1 by (fastforce simp: free_two_def)
qed

text \<open>
  The virtio constructors begin alike: two allocations, then \<open>rest\<close> with the device \<open>v\<close> and the
  private structure \<open>q\<close>.
\<close>

definition ready :: "host \<Rightarrow> ref \<Rightarrow> ref \<Rightarrow> host \<Rightarrow> bool" where
  "ready s v q s2 \<longleftrightarrow> fresh_heap s \<and> confined s s2 \<and> next_ref s \<le> v \<and> v < next_ref s2 \<and> vdevs s2 v \<noteq> None
     \<and> obj_live s2 v \<and> next_ref s \<le> q \<and> q < next_ref s2 \<and> q \<noteq> v"

lemma constructor_makes:
  assumes "fresh_heap s" and rest: "\<And>v q s2. ready s v q s2 \<Longrightarrow> \<exists>dev s'. rest v q s2 = Some (dev, s') \<and> made s dev s' lo hi"
  shows "\<exists>dev s'. (let (v, s1) = alloc E s in
      if v = 0 then Some (0, s1)
      else let (q, s2) = alloc E (set_dev v zero_device (set_vdev v zero_virtio_dev s1)) in
           if q = 0 then do { s3 \<leftarrow> free_obj v s2; Some (0, s3) } else rest v q s2) = Some (dev, s') \<and> made s dev s' lo hi"
proof -
  obtain v s1 where v: "alloc E s = (v, s1)" by force
  obtain q s2 where q: "alloc E (set_dev v zero_device (set_vdev v zero_virtio_dev s1)) = (q, s2)" by force
  consider "v = 0" | "v \<noteq> 0" "q = 0" | "v \<noteq> 0" "q \<noteq> 0" by blast
  then show ?thesis
  proof cases
    case 1
    then show ?thesis using v failed_made [OF _ assms(1)] confined_alloc [OF confined_refl [OF assms(1)] v] by auto
  next
    case 2
    note a = two_allocs [OF assms(1) v 2(1) q]
    show ?thesis using v q 2 one_freed [OF a(1) assms(1) a(2,5)] by fastforce
  next
    case 3
    then have "ready s v q s2" using two_allocs [OF assms(1) v 3(1) q] assms(1) by (simp add: ready_def)
    then show ?thesis using v q 3 rest by simp
  qed
qed

lemma ready_finish:
  assumes "ready s v q s2" and "confined s s3" and "next_ref s3 = next_ref s2" and "vdevs s3 = vdevs s2"
  shows "\<exists>dev s'. (virtio_init E v ident s3 \<bind> (\<lambda>(ret, s2). vdevs s2 v \<bind> (\<lambda>vd.
      case strdup E nm (set_vdev v (f vd) s2) of (n, s3) \<Rightarrow> devs s3 v \<bind> (\<lambda>d.
        Some (v, set_dev v (virtio_device_fields t n v gpa sz d) s3))))) = Some (dev, s') \<and> made s dev s' gpa (gpa + sz - 1)"
  using finish_made [OF assms(2), where v = v and E = E and ident = ident and nm = nm and f = f and t = t and gpa = gpa and sz = sz]
    assms by (auto simp: ready_def)

lemma ready_freed:
  assumes "ready s v q s2" and "confined s s3" and "obj_live s3 q" and "obj_live s3 v"
  shows "\<exists>dev s'. free_two q v s3 = Some (dev, s') \<and> made s dev s' lo hi"
  using two_freed [OF assms(2) _ _ _ assms(4,3)] assms(1) unfolding ready_def by blast

lemma virtio_console_makes:
  assumes "fresh_heap s"
  shows "\<exists>dev s'. virtio_console_create E s = Some (dev, s') \<and> made s dev s' VIRTIO_CONSOLE_GPA (VIRTIO_CONSOLE_GPA + VIRTIO_CONSOLE_SIZE - 1)"
  unfolding virtio_console_create_def
proof (rule constructor_makes [OF assms])
  fix v q s2
  assume r: "ready s v q s2"
  then have "confined s (s2\<lparr>consoles := (consoles s2)(q \<mapsto> console_config_init)\<rparr>)" by (simp add: ready_def confined_set)
  from ready_finish [OF r this] show "\<exists>dev s'. (do {
      (ret, s3) \<leftarrow> virtio_init E v VIRTIO_ID_CONSOLE (s2\<lparr>consoles := (consoles s2)(q \<mapsto> console_config_init)\<rparr>);
      vd \<leftarrow> vdevs s3 v;
      let s4 = set_vdev v (vd\<lparr>vd_priv := q, vd_config_read := Some Drv_console, vd_config_write := Some Drv_console,
                 vd_queue_notify := Some Drv_console\<rparr>) s3;
      let (nm, s5) = strdup E ''virtio-console'' s4;
      d \<leftarrow> devs s5 v;
      Some (v, set_dev v (virtio_device_fields Virtio_console_ops nm v VIRTIO_CONSOLE_GPA VIRTIO_CONSOLE_SIZE d) s5) })
      = Some (dev, s') \<and> made s dev s' VIRTIO_CONSOLE_GPA (VIRTIO_CONSOLE_GPA + VIRTIO_CONSOLE_SIZE - 1)"
    by (simp add: Let_def)
qed

lemma open_disk_io: "open_disk E path s = (fd, s') \<Longrightarrow> io_only s s'"
  by (auto simp: open_disk_def Let_def case_prod_beta split: if_splits intro!: call_io io_only_refl)

lemma open_tap_io: "open_tap E name s = (fd, s') \<Longrightarrow> io_only s s'"
  by (auto simp: open_tap_def Let_def case_prod_beta split: if_splits intro!: call_io io_only_refl)

text \<open>The private structure is live once stored, and stays so through external calls.\<close>

lemma private_io:
  assumes "ready s v q s2" and "s3 = s2\<lparr>blks := (blks s2)(q \<mapsto> b)\<rparr> \<or> s3 = s2\<lparr>nets := (nets s2)(q \<mapsto> n)\<rparr>" and "io_only s3 s4"
  shows "confined s s4" "next_ref s4 = next_ref s2" "vdevs s4 = vdevs s2" "obj_live s4 q" "obj_live s4 v"
proof -
  have 3: "confined s s3" "next_ref s3 = next_ref s2" "vdevs s3 = vdevs s2" "vdevs s2 v \<noteq> None"
    using assms(1,2) by (auto simp: ready_def confined_set)
  have q: "obj_live s3 q" using assms(2) by (elim disjE) (simp_all add: obj_live_def)
  have v: "obj_live s3 v" using 3(3,4) by (simp add: obj_live_def)
  show "confined s s4" "next_ref s4 = next_ref s2" "vdevs s4 = vdevs s2" "obj_live s4 q" "obj_live s4 v"
    using confined_io [OF 3(1) assms(3)] io_only_heaps(4,18) [OF assms(3)] 3 q v by simp_all
qed

lemma virtio_blk_makes:
  assumes "fresh_heap s"
  shows "\<exists>dev s'. virtio_blk_create E path s = Some (dev, s') \<and> made s dev s' VIRTIO_BLOCK_GPA (VIRTIO_BLOCK_GPA + VIRTIO_BLOCK_SIZE - 1)"
  unfolding virtio_blk_create_def
proof (rule constructor_makes [OF assms], goal_cases)
  case (1 v q s2)
  obtain fd s3 where o: "open_disk E path (s2\<lparr>blks := (blks s2)(q \<mapsto> zero_blk)\<rparr>) = (fd, s3)" by force
  obtain st s4 where st: "syscall E (SYS_fstat fd) s3 = (st, s4)" by force
  note io3 = open_disk_io [OF o]
  note io4 = io_only_trans [OF io3 syscall_io_only [OF st]]
  note io5 = io_only_trans [OF io4 syscall_snd_io]
  note p = private_io [OF 1 disjI1 [OF refl]]
  have c: "confined s (s4\<lparr>blks := (blks s4)(q \<mapsto> b)\<rparr>)" for b using p [OF io4] 1 confined_set(5) by (simp add: ready_def)
  consider "fd < 0" | "\<not> fd < 0" "a_ret st < 0" | "\<not> fd < 0" "\<not> a_ret st < 0" by blast
  then show ?case
  proof cases
    case 1
    then show ?thesis using o ready_freed [OF \<open>ready s v q s2\<close> p(1,4,5) [OF io3]] by simp
  next
    case 2
    then show ?thesis using o st ready_freed [OF \<open>ready s v q s2\<close> p(1,4,5) [OF io5]] by simp
  next
    case 3
    then show ?thesis
      using o st ready_finish [OF \<open>ready s v q s2\<close> c] p(2,3) [OF io4] by (simp add: Let_def)
  qed
qed

lemma virtio_net_makes:
  assumes "fresh_heap s"
  shows "\<exists>dev s'. virtio_net_create E tap s = Some (dev, s') \<and> made s dev s' VIRTIO_NET_GPA (VIRTIO_NET_GPA + VIRTIO_NET_SIZE - 1)"
  unfolding virtio_net_create_def
proof (rule constructor_makes [OF assms], goal_cases)
  case (1 v q s2)
  obtain fd s3 where o: "open_tap E tap (s2\<lparr>nets := (nets s2)(q \<mapsto> zero_net)\<rparr>) = (fd, s3)" by force
  let ?s4 = "snd (syscall E (SYS_fcntl fd ''F_SETFL O_NONBLOCK'') (snd (syscall E (SYS_fcntl fd ''F_GETFL'') s3)))"
  note io3 = open_tap_io [OF o]
  have io4: "io_only (s2\<lparr>nets := (nets s2)(q \<mapsto> zero_net)\<rparr>) ?s4"
    by (rule io_only_trans [OF io_only_trans [OF io3 syscall_snd_io] syscall_snd_io])
  note p = private_io [OF 1 disjI2 [OF refl]]
  have c: "confined s (?s4\<lparr>nets := (nets ?s4)(q \<mapsto> n)\<rparr>)" for n using p [OF io4] 1 confined_set(6) by (simp add: ready_def)
  show ?case
  proof (cases "fd < 0")
    case True
    then show ?thesis using o ready_freed [OF \<open>ready s v q s2\<close> p(1,4,5) [OF io3]] by simp
  next
    case False
    then show ?thesis
      using o ready_finish [OF \<open>ready s v q s2\<close> c] p(2,3) [OF io4] by (simp add: Let_def)
  qed
qed

text \<open>The debug console is made by \<open>device_create\<close>.\<close>

lemma device_create_makes:
  assumes "fresh_heap s"
  shows "\<exists>dev s1. device_create E name 32 (\<lambda>p. set_uart p u) s = Some (dev, s1) \<and> confined s s1
     \<and> (dev \<noteq> 0 \<longrightarrow> next_ref s \<le> dev \<and> dev < next_ref s1 \<and> (\<exists>d. devs s1 dev = Some d \<and> next_ref s \<le> d_data d \<and> d_data d < next_ref s1))"
proof -
  obtain dev s1 where d: "alloc E s = (dev, s1)" by force
  note a = confined_alloc [OF confined_refl [OF assms] d]
  obtain nm s2 where n: "strdup E name (set_dev dev zero_device s1) = (nm, s2)" by force
  obtain q s3 where q: "alloc E s2 = (q, s3)" by force
  show ?thesis
  proof (cases "dev = 0")
    case True
    then show ?thesis using d a by (simp add: device_create_def)
  next
    case False
    note c1 = confined_set(1) [of s s1 dev zero_device]
    have c2: "confined s s2" "next_ref s1 \<le> next_ref s2" "devs s2 dev = Some zero_device"
      using confined_strdup [OF c1 n] a False strdup_fields [OF n] by auto
    note c3 = confined_alloc [OF c2(1) q]
    have l: "obj_live s2 dev" "obj_live s3 dev" "next_ref s2 < next_ref s3" using c2(3) q by (auto simp: obj_live_def alloc_def)
    have f: "\<exists>s'. free_obj dev t = Some s' \<and> confined s s'" if "confined s t" "obj_live t dev" for t
      using free_defined [OF that(2)] confined_free [OF that(1) assms, of dev] a False by blast
    have "confined s (set_dev dev x (set_uart q u s3))" if "q \<noteq> 0" for x
      using c3 that a False c2(2) l(3) by (intro confined_set) simp_all
    then show ?thesis
      using d n q False a c2(2) c3 l f [OF c2(1) l(1)] f [OF conjunct1 [OF c3] l(2)] by (auto simp: device_create_def Let_def)
  qed
qed

lemma mmio_console_makes:
  assumes "fresh_heap s"
  shows "\<exists>dev s'. mmio_console_create E s = Some (dev, s') \<and> made s dev s' MMIO_CONSOLE_GPA (MMIO_CONSOLE_GPA + MMIO_CONSOLE_SIZE - 1)"
proof -
  obtain dev s1 where c: "device_create E ''mmio-console'' 32 (\<lambda>p. set_uart p zero_uart) s = Some (dev, s1)" "confined s s1"
    and d: "dev \<noteq> 0 \<longrightarrow> next_ref s \<le> dev \<and> dev < next_ref s1 \<and> (\<exists>d. devs s1 dev = Some d \<and> next_ref s \<le> d_data d \<and> d_data d < next_ref s1)"
    using device_create_makes [OF assms, of E "''mmio-console''" zero_uart] by blast
  show ?thesis
  proof (cases "dev = 0")
    case True
    then show ?thesis using c failed_made [OF c(2) assms] by (simp add: mmio_console_create_def)
  next
    case False
    then obtain x where x: "devs s1 dev = Some x" "next_ref s \<le> d_data x" "d_data x < next_ref s1" "next_ref s \<le> dev" "dev < next_ref s1"
      using d by blast
    obtain f s2 where f: "syscall E (SYS_fopen ''vmm_console.log'' ''w'') s1 = (f, s2)" by force
    define s3 where "s3 = (if a_ret f \<noteq> 0 then foldl (\<lambda>s b. snd (syscall E (SYS_fputc (a_ret f) b) s)) s2 log_banner else s2)"
    have "io_only s1 s3"
      using io_only_trans [OF syscall_io_only [OF f] foldl_syscall_io [where c = "SYS_fputc (a_ret f)" and bs = log_banner and E = E]]
        syscall_io_only [OF f] by (simp add: s3_def)
    then have "confined s s3" "next_ref s3 = next_ref s1" using confined_io [OF c(2)] by simp_all
    then have "confined s (set_dev dev y (set_uart (d_data x) u s3))" for y u using x by (intro confined_set) simp_all
    then have "made s dev (set_dev dev (x\<lparr>d_ops := Some Mmio_console_ops, d_gpa_start := MMIO_CONSOLE_GPA,
          d_gpa_end := MMIO_CONSOLE_GPA + MMIO_CONSOLE_SIZE - 1, d_size := MMIO_CONSOLE_SIZE\<rparr>)
        (set_uart (d_data x) (uart_init (a_ret f)) s3)) MMIO_CONSOLE_GPA (MMIO_CONSOLE_GPA + MMIO_CONSOLE_SIZE - 1)"
      using confined_made [OF _ assms] x(4) by simp
    then show ?thesis using c(1) x(1) f False by (simp add: mmio_console_create_def Let_def s3_def)
  qed
qed

section \<open>Attaching devices\<close>

text \<open>The ranges of the registered devices, in order.\<close>

definition placed :: "host \<Rightarrow> vm \<Rightarrow> (u64 \<times> u64) list \<Rightarrow> bool" where
  "placed s v ws \<longleftrightarrow> vm_devs_wf v \<and> list_all2 (\<lambda>r (lo, hi). r \<noteq> 0 \<and> (\<exists>d. devs s r = Some d \<and> d_gpa_start d = lo \<and> d_gpa_end d = hi)) (registered v) ws"

definition windows_apart :: "(u64 \<times> u64) list \<Rightarrow> bool" where
  "windows_apart ws \<longleftrightarrow> sorted_wrt (\<lambda>(a, b) (c, d). b < c \<or> d < a) ws"

lemma placed_nth:
  assumes "placed s v ws" and "r \<in> set (registered v)"
  obtains i d where "i < length ws" "registered v ! i = r" "r \<noteq> 0" "devs s r = Some d" "ws ! i = (d_gpa_start d, d_gpa_end d)"
proof -
  obtain i where i: "i < length (registered v)" "registered v ! i = r" using assms(2) by (auto simp: in_set_conv_nth)
  have *: "list_all2 (\<lambda>r (lo, hi). r \<noteq> 0 \<and> (\<exists>d. devs s r = Some d \<and> d_gpa_start d = lo \<and> d_gpa_end d = hi)) (registered v) ws"
    using assms(1) by (simp add: placed_def)
  show thesis using list_all2_nthD [OF * i(1)] list_all2_lengthD [OF *] i that by (auto split: prod.splits)
qed

lemma placed_live: "placed s v ws \<Longrightarrow> devices_live s (registered v)"
  unfolding devices_live_def by (auto elim: placed_nth)

lemma placed_unique:
  assumes "placed s v ws" and "windows_apart ws"
    and "r \<in> set (registered v)" and "r' \<in> set (registered v)" and "covers s r g" and "covers s r' g"
  shows "r = r'"
proof -
  obtain i d where i: "i < length ws" "registered v ! i = r" "devs s r = Some d" "ws ! i = (d_gpa_start d, d_gpa_end d)"
    using placed_nth [OF assms(1,3)] by metis
  obtain j e where j: "j < length ws" "registered v ! j = r'" "devs s r' = Some e" "ws ! j = (d_gpa_start e, d_gpa_end e)"
    using placed_nth [OF assms(1,4)] by metis
  note apart = sorted_wrt_nth_less [OF assms(2) [unfolded windows_apart_def]]
  have g: "d_gpa_start d \<le> g" "g \<le> d_gpa_end d" "d_gpa_start e \<le> g" "g \<le> d_gpa_end e"
    using assms(5,6) i(3) j(3) by (simp_all add: covers_def)
  have c: "d_gpa_start e \<le> d_gpa_end d" "d_gpa_start d \<le> d_gpa_end e"
    using order_trans [OF g(3,2)] order_trans [OF g(1,4)] .
  have "\<not> i < j" using apart [of i j] i(4) j(1,4) c by (auto simp: not_less [symmetric])
  moreover have "\<not> j < i" using apart [of j i] j(4) i(1,4) c by (auto simp: not_less [symmetric])
  ultimately have "i = j" by simp
  then show ?thesis using i(2) j(2) by simp
qed

definition window :: "bool \<Rightarrow> u64 \<Rightarrow> u64 \<Rightarrow> (u64 \<times> u64) list" where
  "window present lo hi = (if present then [(lo, hi)] else [])"

lemma length_window: "length (window present lo hi) \<le> 1"
  by (simp add: window_def)

text \<open>The interface of a constructor, and what registering its device does to the ranges.\<close>

locale device_maker =
  fixes create :: "host \<Rightarrow> (ref \<times> host) option" and lo hi :: u64
  assumes makes: "fresh_heap s \<Longrightarrow> \<exists>dev s'. create s = Some (dev, s') \<and> made s dev s' lo hi"
begin

lemma register_places:
  assumes "fresh_heap s" and "vms s vm = Some v" and "placed s v ws" and "length ws < VM_MAX_DEVICES"
  shows "\<exists>dev s1. create s = Some (dev, s1) \<and> (if dev = 0 then fresh_heap s1 \<and> vms s1 vm = Some v \<and> placed s1 v ws
     else \<exists>s2 v'. vm_register_device vm dev s1 = Some (0, s2) \<and> fresh_heap s2 \<and> vms s2 vm = Some v' \<and> placed s2 v' (ws @ [(lo, hi)]))"
proof -
  obtain dev s1 where c: "create s = Some (dev, s1)" "made s dev s1 lo hi" using makes [OF assms(1)] by blast
  have v1: "vms s1 vm = Some v" "fresh_heap s1" using c(2) assms(2) by (simp_all add: made_def)
  have keep: "list_all2 (\<lambda>r (lo, hi). r \<noteq> 0 \<and> (\<exists>d. devs s1 r = Some d \<and> d_gpa_start d = lo \<and> d_gpa_end d = hi)) (registered v) ws"
    using assms(3) c(2) unfolding placed_def made_def by (auto elim!: list_all2_mono) 
  have len: "v_num_devices v < VM_MAX_DEVICES" "length (v_devices v) = VM_MAX_DEVICES"
    using assms(3,4) list_all2_lengthD [OF keep] by (auto simp: placed_def vm_devs_wf_def registered_def)
  show ?thesis
  proof (cases "dev = 0")
    case True
    then show ?thesis using c v1 keep assms(3) by (auto simp: placed_def)
  next
    case False
    let ?v = "v\<lparr>v_devices := (v_devices v)[v_num_devices v := dev], v_num_devices := v_num_devices v + 1\<rparr>"
    obtain d where d: "devs s1 dev = Some d" "d_gpa_start d = lo" "d_gpa_end d = hi" using c(2) False by (auto simp: made_def)
    have "registered ?v = registered v @ [dev]" using len by (simp add: registered_def take_Suc_conv_app_nth)
    then have "placed (set_vm vm ?v s1) ?v (ws @ [(lo, hi)])"
      using keep d len False assms(3) by (auto simp: placed_def vm_devs_wf_def intro!: list_all2_appendI)
    moreover have "fresh_heap (set_vm vm ?v s1)" using v1 by (auto simp: fresh_heap_def obj_live_def)
    moreover have "vm_register_device vm dev s1 = Some (0, set_vm vm ?v s1)" using v1 d(1) len by (simp add: vm_register_device_def)
    ultimately show ?thesis using c(1) False by simp
  qed
qed

end

interpretation mc: device_maker "mmio_console_create E" MMIO_CONSOLE_GPA "MMIO_CONSOLE_GPA + MMIO_CONSOLE_SIZE - 1" for E
  by unfold_locales (rule mmio_console_makes)

interpretation vc: device_maker "virtio_console_create E" VIRTIO_CONSOLE_GPA "VIRTIO_CONSOLE_GPA + VIRTIO_CONSOLE_SIZE - 1" for E
  by unfold_locales (rule virtio_console_makes)

interpretation vb: device_maker "virtio_blk_create E path" VIRTIO_BLOCK_GPA "VIRTIO_BLOCK_GPA + VIRTIO_BLOCK_SIZE - 1" for E path
  by unfold_locales (rule virtio_blk_makes)

interpretation vn: device_maker "virtio_net_create E tap" VIRTIO_NET_GPA "VIRTIO_NET_GPA + VIRTIO_NET_SIZE - 1" for E tap
  by unfold_locales (rule virtio_net_makes)

end
