(* ===== verification/Vmm_Main.thy ===== *)
theory Vmm_Main
  imports Boot Ctext Device_Map
begin

text \<open>
  The program itself, \<^verbatim>\<open>src/main.c\<close>: options, set-up of the machine, the wait for its end and
  the clean-up. \<open>getopt_long\<close> is the C library's: the model takes the options it reports, a
  letter and an argument each. While the main thread sleeps, the threads of the processors run and
  signals arrive; what happens in each sleep is a list of events, so that a theorem about all lists
  covers every interleaving at the grain of one iteration of a processor thread. Text on standard
  error is left out.
\<close>

section \<open>Options\<close>

record cmdline_args =
  ar_kernel_path :: "string option"
  ar_initrd_path :: "string option"
  ar_cmdline :: "string option"
  ar_mem_size :: u64
  ar_num_vcpus :: int
  ar_disk_path :: "string option"
  ar_net_tap :: "string option"
  ar_vfio_bdf :: "string option"
  ar_enable_console :: int
  ar_log_level :: int
  ar_binary_path :: "string option"
  ar_binary_entry :: u64

definition DEFAULT_MEM_SIZE :: u64 where "DEFAULT_MEM_SIZE = 512 * 1024 * 1024"
definition DEFAULT_NUM_VCPUS :: int where "DEFAULT_NUM_VCPUS = 1"
definition LOG_LEVEL_NONE :: int where "LOG_LEVEL_NONE = 0"

definition size_unit :: "char \<Rightarrow> u64" where
  "size_unit c =
     (if c = CHR ''G'' \<or> c = CHR ''g'' then 1024 * 1024 * 1024
      else if c = CHR ''M'' \<or> c = CHR ''m'' then 1024 * 1024
      else if c = CHR ''K'' \<or> c = CHR ''k'' then 1024 else 1)"

text \<open>
  The format \<open>%lu%c\<close> matches when a character follows the number; a number beyond the range of
  \<open>unsigned long\<close> is undefined.
\<close>

definition parse_size :: "string \<Rightarrow> u64 option" where
  "parse_size str =
     (case scan_int 10 str of
        Some (n, c # _) \<Rightarrow> if \<bar>n\<bar> < 2 ^ 64 then Some (of_int n * size_unit c) else None
      | _ \<Rightarrow> map_option of_int (atoi str))"

text \<open>Parsing goes on or returns with a status and the structure, or the program exits with 0.\<close>

datatype parsed = Parsed int cmdline_args | Exits

definition set_copy ::
    "env \<Rightarrow> (string option \<Rightarrow> cmdline_args \<Rightarrow> cmdline_args) \<Rightarrow> string \<Rightarrow> cmdline_args \<Rightarrow> host \<Rightarrow> (parsed \<times> host) option" where
  "set_copy E upd str args s = (let (p, s1) = strdup E str s in Some (Parsed 0 (upd p args), s1))"

definition parse_opt :: "env \<Rightarrow> char \<Rightarrow> string \<Rightarrow> cmdline_args \<Rightarrow> host \<Rightarrow> (parsed \<times> host) option" where
  "parse_opt E opt optarg args s =
     (if opt = CHR ''k'' then set_copy E (\<lambda>p a. a\<lparr>ar_kernel_path := p\<rparr>) optarg args s
      else if opt = CHR ''i'' then set_copy E (\<lambda>p a. a\<lparr>ar_initrd_path := p\<rparr>) optarg args s
      else if opt = CHR ''c'' then set_copy E (\<lambda>p a. a\<lparr>ar_cmdline := p\<rparr>) optarg args s
      else if opt = CHR ''m'' then
        do { n \<leftarrow> parse_size optarg;
             Some (Parsed (if n = 0 then -1 else 0) (args\<lparr>ar_mem_size := n\<rparr>), s) }
      else if opt = CHR ''n'' then
        do { n \<leftarrow> atoi optarg;
             Some (Parsed (if n \<le> 0 \<or> n > VM_MAX_VCPUS then -1 else 0) (args\<lparr>ar_num_vcpus := n\<rparr>), s) }
      else if opt = CHR ''d'' then set_copy E (\<lambda>p a. a\<lparr>ar_disk_path := p\<rparr>) optarg args s
      else if opt = CHR ''t'' then
        (if take 4 optarg = ''tap='' then set_copy E (\<lambda>p a. a\<lparr>ar_net_tap := p\<rparr>) (drop 4 optarg) args s
         else Some (Parsed (-1) args, s))
      else if opt = CHR ''v'' then set_copy E (\<lambda>p a. a\<lparr>ar_vfio_bdf := p\<rparr>) optarg args s
      else if opt = CHR ''C'' then Some (Parsed 0 (args\<lparr>ar_enable_console := 1\<rparr>), s)
      else if opt = CHR ''b'' then set_copy E (\<lambda>p a. a\<lparr>ar_binary_path := p\<rparr>) optarg args s
      else if opt = CHR ''e'' then Some (Parsed 0 (args\<lparr>ar_binary_entry := strtoull16 optarg\<rparr>), s)
      else if opt = CHR ''l'' then
        do { n \<leftarrow> atoi optarg;
             Some (Parsed (if n < LOG_LEVEL_NONE \<or> n > LOG_LEVEL_DEBUG then -1 else 0) (args\<lparr>ar_log_level := n\<rparr>), s) }
      else if opt = CHR ''h'' then Some (Exits, s)
      else Some (Parsed (-1) args, s))"

fun parse_opts :: "env \<Rightarrow> (char \<times> string) list \<Rightarrow> cmdline_args \<Rightarrow> host \<Rightarrow> (parsed \<times> host) option" where
  "parse_opts E [] args s = Some (Parsed 0 args, s)"
| "parse_opts E ((opt, optarg) # os) args s =
     do {
       (p, s1) \<leftarrow> parse_opt E opt optarg args s;
       case p of Exits \<Rightarrow> Some (Exits, s1)
       | Parsed ret args1 \<Rightarrow> if ret < 0 then Some (Parsed ret args1, s1) else parse_opts E os args1 s1 }"

definition default_args :: cmdline_args where
  "default_args =
     \<lparr>ar_kernel_path = None, ar_initrd_path = None, ar_cmdline = None, ar_mem_size = DEFAULT_MEM_SIZE,
      ar_num_vcpus = DEFAULT_NUM_VCPUS, ar_disk_path = None, ar_net_tap = None, ar_vfio_bdf = None,
      ar_enable_console = 0, ar_log_level = LOG_LEVEL_INFO, ar_binary_path = None, ar_binary_entry = 0\<rparr>"

definition parse_args :: "env \<Rightarrow> (char \<times> string) list \<Rightarrow> host \<Rightarrow> (parsed \<times> host) option" where
  "parse_args E opts s =
     do {
       (p, s1) \<leftarrow> parse_opts E opts default_args s;
       case p of Exits \<Rightarrow> Some (Exits, s1)
       | Parsed ret args \<Rightarrow>
           if ret < 0 then Some (Parsed ret args, s1)
           else if ar_kernel_path args = None \<and> ar_binary_path args = None then Some (Parsed (-1) args, s1)
           else if ar_binary_path args \<noteq> None \<and> ar_binary_entry args = 0 then Some (Parsed (-1) args, s1)
           else if ar_kernel_path args \<noteq> None \<and> ar_cmdline args = None
           then set_copy E (\<lambda>p a. a\<lparr>ar_cmdline := p\<rparr>) ''console=hvc0 earlyprintk=serial panic=1'' args s1
           else Some (Parsed 0 args, s1) }"

section \<open>Setting up the machine\<close>

definition print_text :: "string \<Rightarrow> host \<Rightarrow> host" where
  "print_text str s = s\<lparr>stdout_bytes := stdout_bytes s @ map of_char str\<rparr>"

abbreviation newline :: string where "newline \<equiv> [CHR 0x0A]"

definition rule_text :: string where
  "rule_text = ''=============================================='' @ newline"

text \<open>The paths are handed over whatever they are, the initial ramdisk's too.\<close>

definition main_paths :: "env \<Rightarrow> cmdline_args \<Rightarrow> ref \<Rightarrow> host \<Rightarrow> host option" where
  "main_paths E args vm s =
     (if ar_kernel_path args = None then Some s
      else do {
        (i, s1) \<leftarrow> vm_set_kernel E vm (ar_kernel_path args) s;
        (j, s2) \<leftarrow> vm_set_initrd E vm (ar_initrd_path args) s1;
        (k, s3) \<leftarrow> vm_set_cmdline E vm (ar_cmdline args) s2;
        Some s3 })"

definition main_ram_size :: "cmdline_args \<Rightarrow> u64" where
  "main_ram_size args = (if ar_mem_size args < 128 * 1024 * 1024 then ar_mem_size args else 128 * 1024 * 1024)"

definition attach :: "ref \<Rightarrow> (host \<Rightarrow> (ref \<times> host) option) \<Rightarrow> host \<Rightarrow> host option" where
  "attach vm create s =
     do {
       (dev, s1) \<leftarrow> create s;
       if dev = 0 then Some s1 else do { (ret, s2) \<leftarrow> vm_register_device vm dev s1; Some s2 } }"

definition main_devices :: "env \<Rightarrow> cmdline_args \<Rightarrow> ref \<Rightarrow> host \<Rightarrow> host option" where
  "main_devices E args vm s =
     do {
       s1 \<leftarrow> attach vm (mmio_console_create E) s;
       s2 \<leftarrow> attach vm (virtio_console_create E) s1;
       s3 \<leftarrow> (case ar_disk_path args of None \<Rightarrow> Some s2 | Some path \<Rightarrow> attach vm (virtio_blk_create E path) s2);
       case ar_net_tap args of None \<Rightarrow> Some s3 | Some tap \<Rightarrow> attach vm (virtio_net_create E (Some tap)) s3 }"

text \<open>
  The rest of the set-up returns whether it goes on (\<^const>\<open>False\<close> is \<open>goto cleanup\<close>), the value of
  \<open>ret\<close> and the VFIO container.
\<close>

definition main_vfio :: "env \<Rightarrow> cmdline_args \<Rightarrow> ref \<Rightarrow> int \<Rightarrow> host \<Rightarrow> (bool \<times> int \<times> ref \<times> host) option" where
  "main_vfio E args vm ret s =
     (case ar_vfio_bdf args of
        None \<Rightarrow> Some (True, ret, 0, s)
      | Some bdf \<Rightarrow>
          let (cont, s1) = vfio_container_create E s in
          if cont = 0 then Some (False, ret, 0, s1)
          else do {
            (dev, s2) \<leftarrow> vfio_device_open E cont bdf s1;
            if dev = 0 then Some (False, ret, cont, s2)
            else do {
              (ret2, s3) \<leftarrow> vfio_register_with_vm E vm dev bdf s2;
              Some (\<not> ret2 < 0, ret2, cont, s3) } })"

definition main_boot :: "env \<Rightarrow> hv_linked \<Rightarrow> cmdline_args \<Rightarrow> ref \<Rightarrow> int \<Rightarrow> host \<Rightarrow> (int \<times> host) option" where
  "main_boot E ops args vm ret s =
     (if ar_kernel_path args \<noteq> None then boot_setup_linux E ops vm s
      else case ar_binary_path args of
             Some path \<Rightarrow> boot_setup_raw_binary E ops vm path (ar_binary_entry args) s
           | None \<Rightarrow> Some (ret, s))"

definition main_prepare :: "env \<Rightarrow> hv_linked \<Rightarrow> cmdline_args \<Rightarrow> ref \<Rightarrow> host \<Rightarrow> (bool \<times> int \<times> ref \<times> host) option" where
  "main_prepare E ops args vm s =
     do {
       (ret1, s1) \<leftarrow> vm_add_memory_region E ops vm 0 (main_ram_size args) s;
       if ret1 < 0 then Some (False, ret1, 0, s1)
       else do {
         (ret2, s2) \<leftarrow> vm_create_vcpus E ops vm (ar_num_vcpus args) s1;
         if ret2 < 0 then Some (False, ret2, 0, s2)
         else do {
           s3 \<leftarrow> main_devices E args vm s2;
           (go, ret4, cont, s4) \<leftarrow> main_vfio E args vm ret2 s3;
           if \<not> go then Some (False, ret4, cont, s4)
           else do {
             (ret5, s5) \<leftarrow> main_boot E ops args vm ret4 s4;
             if ret5 < 0 then Some (False, ret5, cont, s5)
             else do {
               (ret6, s6) \<leftarrow> vm_start E ops vm (print_text (newline @ rule_text
                   @ ''VM is running. Press Ctrl+C to stop.'' @ newline @ rule_text @ newline) s5);
               Some (\<not> ret6 < 0, ret6, cont, s6) } } } } }"

section \<open>Waiting for the end\<close>

datatype thread_phase = Created | Looping | Ended

datatype signal = SIGINT | SIGTERM | SIGPIPE

text \<open>
  What a signal does: the default action of these three ends the process. No other signal is in the
  model.
\<close>

datatype disposition = SIG_DFL | Signal_handler

type_synonym sigactions = "signal \<Rightarrow> disposition"

datatype event = Runs ref nat | Signal signal

record process =
  g_vm :: ref
  g_running :: bool
  handlers :: sigactions
  killed :: bool
  threads :: "ref \<Rightarrow> thread_phase"
  proc :: host

text \<open>
  The thread of a processor makes some iterations; it does nothing before it is started, after it is
  joined and after its function returned.
\<close>

definition thread_runs :: "env \<Rightarrow> hv_linked \<Rightarrow> device_tables \<Rightarrow> ref \<Rightarrow> nat \<Rightarrow> process \<Rightarrow> process option" where
  "thread_runs E ops tbl r n p =
     do {
       c \<leftarrow> vcpus (proc p) r;
       if c_state c \<noteq> VCPU_STATE_RUNNING \<or> threads p r = Ended then Some p
       else do {
         (fin, s) \<leftarrow> (if threads p r = Created then vcpu_thread_func E ops tbl n r (proc p)
                      else vcpu_thread_loop ops tbl n r (proc p));
         Some (p\<lparr>threads := (threads p)(r := if fin then Ended else Looping), proc := s\<rparr>) } }"

definition signal_handler :: "env \<Rightarrow> hv_linked \<Rightarrow> process \<Rightarrow> process option" where
  "signal_handler E ops p =
     (let p1 = p\<lparr>g_running := False\<rparr> in
      if g_vm p1 = 0 then Some p1
      else do { (ret, s) \<leftarrow> vm_stop E ops (g_vm p1) (proc p1); Some (p1\<lparr>proc := s\<rparr>) })"

definition setup_signals :: "sigactions \<Rightarrow> sigactions" where
  "setup_signals acts = acts(SIGINT := Signal_handler, SIGTERM := Signal_handler, SIGPIPE := Signal_handler)"

definition deliver :: "env \<Rightarrow> hv_linked \<Rightarrow> signal \<Rightarrow> process \<Rightarrow> process option" where
  "deliver E ops sig p =
     (case handlers p sig of SIG_DFL \<Rightarrow> Some (p\<lparr>killed := True\<rparr>) | Signal_handler \<Rightarrow> signal_handler E ops p)"

fun happen :: "env \<Rightarrow> hv_linked \<Rightarrow> device_tables \<Rightarrow> event list \<Rightarrow> process \<Rightarrow> process option" where
  "happen E ops tbl [] p = Some p"
| "happen E ops tbl (e # es) p =
     (if killed p then Some p
      else do {
        p1 \<leftarrow> (case e of Runs r n \<Rightarrow> thread_runs E ops tbl r n p | Signal sig \<Rightarrow> deliver E ops sig p);
        happen E ops tbl es p1 })"

text \<open>The check after each sleep: the first processor asked to stop ends the loop.\<close>

fun vcpu_check :: "ref list \<Rightarrow> host \<Rightarrow> bool option" where
  "vcpu_check [] s = Some False"
| "vcpu_check (r # rs) s = do { c \<leftarrow> vcpus s r; if c_should_stop c then Some True else vcpu_check rs s }"

text \<open>One list of events for each sleep; \<^const>\<open>False\<close>: still waiting after all of them.\<close>

definition main_goes_on :: "ref \<Rightarrow> process \<Rightarrow> bool option" where
  "main_goes_on vm p = do { v \<leftarrow> vms (proc p) vm; Some (g_running p \<and> v_state v = VM_STATE_RUNNING) }"

fun main_wait :: "env \<Rightarrow> hv_linked \<Rightarrow> device_tables \<Rightarrow> ref \<Rightarrow> event list list \<Rightarrow> process \<Rightarrow> (bool \<times> process) option" where
  "main_wait E ops tbl vm [] p = do { go \<leftarrow> main_goes_on vm p; Some (\<not> go, p) }"
| "main_wait E ops tbl vm (es # ess) p =
     do {
       go \<leftarrow> main_goes_on vm p;
       if \<not> go then Some (True, p)
       else do {
         p1 \<leftarrow> happen E ops tbl es p;
         if killed p1 then Some (True, p1)
         else do {
           v \<leftarrow> vms (proc p1) vm;
           stop \<leftarrow> vcpu_check (vm_vcpus v) (proc p1);
           main_wait E ops tbl vm ess (if stop then p1\<lparr>g_running := False\<rparr> else p1) } } }"

section \<open>The whole program\<close>

datatype outcome = Exit int | Waiting | Killed

definition main_cleanup :: "env \<Rightarrow> hv_linked \<Rightarrow> device_tables \<Rightarrow> ref \<Rightarrow> ref \<Rightarrow> int \<Rightarrow> host \<Rightarrow> (outcome \<times> host) option" where
  "main_cleanup E ops tbl vm cont ret s =
     do {
       s1 \<leftarrow> (if vm \<noteq> 0 then vm_destroy E ops tbl vm s else Some s);
       s2 \<leftarrow> (if cont \<noteq> 0 then vfio_container_destroy E cont s1 else Some s1);
       s3 \<leftarrow> hv_cleanup ops s2;
       Some (Exit (if ret < 0 then 1 else 0), s3) }"

text \<open>The loop over the statistics reads every processor; the numbers go to standard error.\<close>

fun main_stats :: "ref list \<Rightarrow> host \<Rightarrow> u64 list list option" where
  "main_stats [] s = Some []"
| "main_stats (r # rs) s = do { c \<leftarrow> vcpus s r; ts \<leftarrow> main_stats rs s; Some (vcpu_print_stats c # ts) }"

definition main_run ::
    "env \<Rightarrow> hv_linked \<Rightarrow> device_tables \<Rightarrow> event list list \<Rightarrow> sigactions \<Rightarrow> ref \<Rightarrow> ref \<Rightarrow> int \<Rightarrow> host \<Rightarrow> (outcome \<times> host) option" where
  "main_run E ops tbl ess acts vm cont ret s =
     do {
       (ended, p) \<leftarrow> main_wait E ops tbl vm ess
         \<lparr>g_vm = vm, g_running = True, handlers = acts, killed = False, threads = (\<lambda>_. Created), proc = s\<rparr>;
       if \<not> ended then Some (Waiting, proc p)
       else if killed p then Some (Killed, proc p)
       else do {
         let s1 = print_text (newline @ rule_text @ ''VM stopped.'' @ newline @ rule_text @ newline) (proc p);
         v \<leftarrow> vms s1 vm;
         stats \<leftarrow> main_stats (vm_vcpus v) s1;
         main_cleanup E ops tbl vm cont ret s1 } }"

definition main ::
    "env \<Rightarrow> hv_linked \<Rightarrow> device_tables \<Rightarrow> (char \<times> string) list \<Rightarrow> event list list \<Rightarrow> host \<Rightarrow> (outcome \<times> host) option" where
  "main E ops tbl opts ess s =
     do {
       (p, s0) \<leftarrow> parse_args E opts (print_text (''Vibe-VMM v0.1 - A Minimal Virtual Machine Monitor'' @ newline
          @ rule_text @ newline) s);
       case p of Exits \<Rightarrow> Some (Exit 0, s0)
       | Parsed ret args \<Rightarrow>
           if ret < 0 then Some (Exit 1, s0)
           else do {
             let acts = setup_signals (\<lambda>_. SIG_DFL);
             (ret1, s1) \<leftarrow> hv_init E ops HV_TYPE_AUTO (s0\<lparr>log_level := ar_log_level args\<rparr>);
             if ret1 < 0 then Some (Exit 1, s1)
             else do {
               (vm, s2) \<leftarrow> vm_create E ops s1;
               if vm = 0 then do { s3 \<leftarrow> hv_cleanup ops s2; Some (Exit 1, s3) }
               else do {
                 s3 \<leftarrow> main_paths E args vm s2;
                 (go, ret2, cont, s4) \<leftarrow> main_prepare E ops args vm s3;
                 if \<not> go then main_cleanup E ops tbl vm cont ret2 s4
                 else main_run E ops tbl ess acts vm cont ret2 s4 } } } }"

section \<open>Options that are accepted\<close>

definition args_ok :: "cmdline_args \<Rightarrow> bool" where
  "args_ok args \<longleftrightarrow> ar_mem_size args \<noteq> 0 \<and> 1 \<le> ar_num_vcpus args \<and> ar_num_vcpus args \<le> VM_MAX_VCPUS
     \<and> LOG_LEVEL_NONE \<le> ar_log_level args \<and> ar_log_level args \<le> LOG_LEVEL_DEBUG"

lemma set_copy_ok:
  assumes "set_copy E upd str args s = Some (Parsed ret args', s')" and "args_ok args" and "\<And>p. args_ok (upd p args) = args_ok args"
  shows "args_ok args' \<and> ret = 0"
  using assms by (auto simp: set_copy_def split: prod.splits)

lemma parse_opt_ok:
  assumes "parse_opt E opt optarg args s = Some (Parsed ret args', s')" and "args_ok args"
  shows "ret = -1 \<or> ret = 0 \<and> args_ok args'"
proof -
  have upd: "args_ok (args\<lparr>ar_kernel_path := p\<rparr>) = args_ok args" "args_ok (args\<lparr>ar_initrd_path := p\<rparr>) = args_ok args"
    "args_ok (args\<lparr>ar_cmdline := p\<rparr>) = args_ok args" "args_ok (args\<lparr>ar_disk_path := p\<rparr>) = args_ok args"
    "args_ok (args\<lparr>ar_net_tap := p\<rparr>) = args_ok args" "args_ok (args\<lparr>ar_vfio_bdf := p\<rparr>) = args_ok args"
    "args_ok (args\<lparr>ar_binary_path := p\<rparr>) = args_ok args" for p
    by (simp_all add: args_ok_def)
  show ?thesis
    using assms(1) set_copy_ok [OF _ assms(2)] upd assms(2)
    unfolding parse_opt_def by (fastforce simp: Option.bind_eq_Some_conv args_ok_def split: if_splits)
qed

lemma parse_opts_ok:
  assumes "parse_opts E os args s = Some (Parsed ret args', s')" and "args_ok args"
  shows "ret = -1 \<or> ret = 0 \<and> args_ok args'"
  using assms
proof (induction E os args s rule: parse_opts.induct)
  case (2 E opt optarg os args s)
  obtain p s1 where p: "parse_opt E opt optarg args s = Some (p, s1)"
    using "2.prems"(1) by (auto simp: Option.bind_eq_Some_conv)
  show ?case
  proof (cases p)
    case (Parsed r a)
    then show ?thesis
      using 2 p parse_opt_ok [of E opt optarg args s r a s1] by (auto split: if_splits)
  next
    case Exits
    then show ?thesis using "2.prems"(1) p by simp
  qed
qed simp

section \<open>Waiting for a halted guest\<close>

text \<open>
  A guest that does nothing but halt: whenever it ran, the run area \<open>b\<close> reports HLT. The processors
  \<open>rs\<close> are on KVM, each with its run area in \<open>B\<close>, and none is asked to stop.
\<close>

definition guest_halts :: "env \<Rightarrow> nat \<Rightarrow> bool" where
  "guest_halts E b \<longleftrightarrow> (\<forall>s bs. mem (guest_runs E s) b = Some bs \<longrightarrow> 4096 \<le> length bs \<longrightarrow> le_word (subrange bs 8 4) = (5 :: u32))"

definition halting_vcpu :: "nat set \<Rightarrow> host \<Rightarrow> vcpu \<Rightarrow> bool" where
  "halting_vcpu B s c \<longleftrightarrow> \<not> c_should_stop c \<and> (\<exists>h b bs. hv_vcpus s (c_hv_vcpu c) = Some h \<and> hc_run h = Ptr b 0 \<and> b \<in> B
     \<and> mem s b = Some bs \<and> 4096 \<le> length bs)"

definition halting :: "nat set \<Rightarrow> ref set \<Rightarrow> host \<Rightarrow> bool" where
  "halting B rs s \<longleftrightarrow> g_hv_ops s = Some Kvm_ops \<and> (\<forall>r \<in> rs. \<exists>c. vcpus s r = Some c \<and> halting_vcpu B s c)"

lemma halting_vcpu_frame:
  assumes "halting_vcpu B s c" and "handler_frame s s'"
  shows "halting_vcpu B s' c"
proof -
  obtain h b bs where h: "\<not> c_should_stop c" "hv_vcpus s (c_hv_vcpu c) = Some h" "hc_run h = Ptr b 0" "b \<in> B" "mem s b = Some bs"
    "4096 \<le> length bs"
    using assms(1) by (auto simp: halting_vcpu_def)
  moreover have f: "hv_vcpus s' = hv_vcpus s" "map_option length (mem s' b) = map_option length (mem s b)"
    using assms(2) by (simp_all add: handler_frame_def)
  moreover obtain bs' where "mem s' b = Some bs'" "length bs' = length bs" using f(2) h(5) by auto
  ultimately show ?thesis by (auto simp: halting_vcpu_def)
qed

lemma halting_frame:
  assumes "halting B rs s" and "handler_frame s s'"
  shows "halting B rs s'"
  using assms halting_vcpu_frame [OF _ assms(2)] by (auto simp: halting_def handler_frame_def)

lemma halting_update:
  assumes "halting B rs s" and "vcpus s r = Some c" and "same_vcpu c c'" and "c_should_stop c' = c_should_stop c"
  shows "halting B rs (set_vcpu r c' s)"
  using assms by (auto simp: halting_def halting_vcpu_def same_vcpu_def)

lemma halting_get_exit:
  assumes "hv_vcpus s h = Some hc" and "hc_run hc = Ptr b 0" and "mem s b = Some bs" and "4096 \<le> length bs"
    and "le_word (subrange bs 8 4) = (5 :: u32)"
  shows "kvm_get_exit h ex0 s = Some (0, zero_exit\<lparr>ex_reason := HV_EXIT_HLT\<rparr>, s)"
  using assms(1,2,5) by (simp add: kvm_get_exit_def load_word_page [OF assms(3,4)] kvm_convert_exit_reason_def Let_def)

text \<open>What is said of one processor under the kernel's answers, whatever they are.\<close>

lemma halting_run:
  assumes "halting B rs s" and "r \<in> rs" and "\<forall>b \<in> B. guest_halts E b"
  shows "\<exists>ret s' c. vcpu_run (linked E) r s = Some (ret, s') \<and> vcpus s' r = Some c \<and> halting B rs s' \<and> vms s' = vms s
     \<and> (ret < 0 \<longrightarrow> errno s' \<noteq> EINTR)
     \<and> kvm_get_exit (c_hv_vcpu c) zero_exit s' = Some (0, zero_exit\<lparr>ex_reason := HV_EXIT_HLT\<rparr>, s')"
proof -
  obtain c where c: "vcpus s r = Some c" "halting_vcpu B s c" "g_hv_ops s = Some Kvm_ops"
    using assms(1,2) by (auto simp: halting_def)
  obtain h where h: "hv_vcpus s (c_hv_vcpu c) = Some h" using c(2) by (auto simp: halting_vcpu_def)
  obtain a s' where a: "syscall E (SYS_ioctl (hc_fd h) ''KVM_RUN'' [0]) (guest_runs E s) = (a, s')" by fastforce
  have fr: "handler_frame s s'" using a guest_runs_frame syscall_frame handler_frame_trans by blast
  have m: "mem s' = mem (guest_runs E s)" using io_only_heaps(5) [OF syscall_io_only [OF a]] .
  have ok: "halting_vcpu B s' c" "halting B rs s'" using halting_vcpu_frame [OF c(2) fr] halting_frame [OF assms(1) fr] .
  then obtain hc b bs where hc: "hv_vcpus s' (c_hv_vcpu c) = Some hc" "hc_run hc = Ptr b 0" "b \<in> B" "mem s' b = Some bs" "4096 \<le> length bs"
    by (auto simp: halting_vcpu_def)
  then have "le_word (subrange bs 8 4) = (5 :: u32)" using assms(3) m by (simp add: guest_halts_def)
  then have "kvm_get_exit (c_hv_vcpu c) zero_exit s' = Some (0, zero_exit\<lparr>ex_reason := HV_EXIT_HLT\<rparr>, s')"
    by (rule halting_get_exit [OF hc(1,2,4,5)])
  then show ?thesis
    using c h a ok(2) fr by (simp add: vcpu_run_def hv_run_def cur_op_def kvm_ops_def kvm_run_def handler_frame_def)
qed

lemma halting_iteration:
  assumes "halting B rs s" and "r \<in> rs" and "\<forall>b \<in> B. guest_halts E b"
  shows "\<exists>nx s'. vcpu_iteration (linked E) tbl r s = Some (nx, s') \<and> halting B rs s' \<and> vms s' = vms s"
proof -
  obtain ret s1 c where r: "vcpu_run (linked E) r s = Some (ret, s1)" "vcpus s1 r = Some c" "halting B rs s1" "vms s1 = vms s"
    "kvm_get_exit (c_hv_vcpu c) zero_exit s1 = Some (0, zero_exit\<lparr>ex_reason := HV_EXIT_HLT\<rparr>, s1)"
    using halting_run [OF assms] by blast
  have g: "g_hv_ops s1 = Some Kvm_ops" using r(3) by (simp add: halting_def)
  let ?c1 = "after_exit HV_EXIT_HLT c"
  let ?c2 = "?c1\<lparr>c_exit_count := c_exit_count ?c1 + 1\<rparr>"
  have x: "vcpu_handle_exit tbl r (zero_exit\<lparr>ex_reason := HV_EXIT_HLT\<rparr>) s1 = Some (0, set_vcpu r ?c1 s1)"
    using handle_exit_plain [OF r(2), of "zero_exit\<lparr>ex_reason := HV_EXIT_HLT\<rparr>" tbl] by (simp add: exit_fails_def)
  have "c_should_stop ?c2 = c_should_stop c" by (simp add: after_exit_def tally_def exit_stops_def Let_def)
  then have "halting B rs (set_vcpu r ?c2 s1)"
    using halting_update [OF r(3,2), of ?c2] after_exit_same(1) [of c HV_EXIT_HLT] by (simp add: same_vcpu_def)
  then show ?thesis
    using r g x by (auto simp: vcpu_iteration_def hv_get_exit_def cur_op_def kvm_ops_def Let_def)
qed

lemma halting_loop:
  assumes "halting B rs s" and "r \<in> rs" and "\<forall>b \<in> B. guest_halts E b"
  shows "\<exists>fin s'. vcpu_thread_loop (linked E) tbl n r s = Some (fin, s') \<and> halting B rs s' \<and> vms s' = vms s"
  using assms(1)
proof (induction n arbitrary: s)
  case (Suc n)
  obtain nx s1 where it: "vcpu_iteration (linked E) tbl r s = Some (nx, s1)" "halting B rs s1" "vms s1 = vms s"
    using halting_iteration [OF Suc.prems assms(2,3)] by blast
  obtain c where c: "vcpus s r = Some c" "\<not> c_should_stop c" using Suc.prems assms(2) by (auto simp: halting_def halting_vcpu_def)
  then show ?case using it Suc.IH [OF it(2)] by (cases nx) auto
qed auto

definition same_control :: "process \<Rightarrow> process \<Rightarrow> bool" where
  "same_control p p' \<longleftrightarrow> vms (proc p') = vms (proc p) \<and> g_running p' = g_running p \<and> g_vm p' = g_vm p
     \<and> handlers p' = handlers p \<and> killed p' = killed p"

lemma halting_happen:
  assumes "halting B rs (proc p)" and "\<forall>e \<in> set es. \<exists>r n. e = Runs r n \<and> r \<in> rs" and "\<forall>b \<in> B. guest_halts E b"
    and "arch_of E = X86_64"
    and "\<not> killed p"
  shows "\<exists>p'. happen E (linked E) tbl es p = Some p' \<and> halting B rs (proc p') \<and> same_control p p'"
  using assms(1,2,5)
proof (induction es arbitrary: p)
  case (Cons e es)
  obtain r n where e: "e = Runs r n" "r \<in> rs" using Cons.prems(2) by auto
  obtain c where c: "vcpus (proc p) r = Some c" using Cons.prems(1) e(2) by (auto simp: halting_def)
  have "\<exists>p1. thread_runs E (linked E) tbl r n p = Some p1 \<and> halting B rs (proc p1) \<and> same_control p p1"
    using halting_loop [OF Cons.prems(1) e(2) assms(3), of tbl n] Cons.prems(1) c assms(4)
    by (auto simp: thread_runs_def vcpu_thread_func_def same_control_def)
  then obtain p1 where p1: "thread_runs E (linked E) tbl r n p = Some p1" "halting B rs (proc p1)" "same_control p p1" by blast
  obtain p' where "happen E (linked E) tbl es p1 = Some p'" "halting B rs (proc p')" "same_control p1 p'"
    using Cons.IH [OF p1(2)] Cons.prems(2,3) p1(3) by (auto simp: same_control_def)
  then show ?case using Cons.prems(3) e p1 by (simp add: same_control_def)
qed (simp add: same_control_def)

lemma halting_check: "halting B rs s \<Longrightarrow> set xs \<subseteq> rs \<Longrightarrow> vcpu_check xs s = Some False"
  by (induction xs) (auto simp: halting_def halting_vcpu_def)

lemma halting_wait:
  assumes "halting B (set (vm_vcpus v)) (proc p)" and "\<forall>es \<in> set ess. \<forall>e \<in> set es. \<exists>r n. e = Runs r n \<and> r \<in> set (vm_vcpus v)"
    and "\<forall>b \<in> B. guest_halts E b" and "arch_of E = X86_64" and "vms (proc p) vm = Some v" and "v_state v = VM_STATE_RUNNING"
    and "g_running p" and "\<not> killed p"
  shows "\<exists>p'. halting B (set (vm_vcpus v)) (proc p') \<and> same_control p p'
     \<and> (\<forall>later. main_wait E (linked E) tbl vm (ess @ later) p = main_wait E (linked E) tbl vm later p')"
  using assms(1,2,5,7,8)
proof (induction ess arbitrary: p)
  case (Cons es ess)
  obtain p1 where p1: "happen E (linked E) tbl es p = Some p1" "halting B (set (vm_vcpus v)) (proc p1)" "same_control p p1"
    using halting_happen [OF Cons.prems(1) _ assms(3,4), of es tbl] Cons.prems(2,5) by auto
  have "main_wait E (linked E) tbl vm ((es # ess) @ later) p = main_wait E (linked E) tbl vm (ess @ later) p1" for later
    using p1 Cons.prems(3-5) assms(6) halting_check [OF p1(2) subset_refl] by (simp add: main_goes_on_def same_control_def)
  moreover obtain p' where "halting B (set (vm_vcpus v)) (proc p')" "same_control p1 p'"
    "\<forall>later. main_wait E (linked E) tbl vm (ess @ later) p1 = main_wait E (linked E) tbl vm later p'"
    using Cons.IH [OF p1(2)] Cons.prems p1(3) by (auto simp: same_control_def)
  ultimately show ?case using p1(3) by (auto simp: same_control_def)
qed (auto simp: same_control_def)

lemma check_defined: "set rs \<subseteq> dom (vcpus s) \<Longrightarrow> \<exists>b. vcpu_check rs s = Some b"
proof (induction rs)
  case (Cons r rs)
  then obtain c b where "vcpus s r = Some c" "vcpu_check rs s = Some b" by auto
  then show ?case by auto
qed auto

text \<open>Any of the three signals in the next sleep ends the loop with every processor stopped.\<close>

lemma setup_signals_all: "setup_signals acts sig = Signal_handler"
  by (cases sig) (simp_all add: setup_signals_def)

lemma signal_ends:
  assumes "g_vm p = vm" and "vm \<noteq> 0" and "vms (proc p) vm = Some v" and "v_state v = VM_STATE_RUNNING" and "g_running p"
    and "set (vm_vcpus v) \<subseteq> dom (vcpus (proc p))" and "arch_of E = X86_64" and "0 \<notin> set (vm_vcpus v)"
    and "handlers p sig = Signal_handler" and "\<not> killed p"
  shows "\<exists>p'. main_wait E ops tbl vm ([Signal sig] # later) p = Some (True, p') \<and> \<not> killed p' \<and> running (proc p') \<inter> set (vm_vcpus v) = {}"
proof -
  have f: "filter (\<lambda>r. r \<noteq> 0) (vm_vcpus v) = vm_vcpus v" using assms(8) by (metis (mono_tags) filter_True)
  obtain s1 where s1: "vm_stop_each E ops (vm_vcpus v) (proc p) = Some s1" "vms s1 = vms (proc p)"
    "dom (vcpus s1) = dom (vcpus (proc p))" "running s1 = running (proc p) - set (vm_vcpus v)"
    using stop_each_running [OF assms(6,7), of ops] by blast
  let ?v = "v\<lparr>v_state := VM_STATE_STOPPED\<rparr>"
  let ?p = "p\<lparr>g_running := False, proc := set_vm vm ?v s1\<rparr>"
  have h: "happen E ops tbl [Signal sig] p = Some ?p"
    using assms s1(1,2) f by (simp add: deliver_def signal_handler_def vm_stop_def Let_def)
  obtain b where "vcpu_check (vm_vcpus ?v) (proc ?p) = Some b"
    using check_defined [of "vm_vcpus v" "proc ?p"] assms(6) s1(3) by (auto simp: vm_vcpus_def)
  then have "main_wait E ops tbl vm ([Signal sig] # later) p = Some (True, ?p)"
    using h assms(3-5,10) by (cases later) (auto simp: main_goes_on_def)
  then show ?thesis using s1(4) assms(10) by (auto simp: running_def)
qed

section \<open>Properties\<close>

text \<open>
  C16: what \<open>parse_args\<close> accepts. With result 0 there is something to boot, a raw binary has an
  entry point, the machine has one to eight processors and a log level from 0 to 4, and the RAM that
  will be mapped is not empty and at most 128 MiB.
\<close>

theorem parse_args_valid:
  assumes "parse_args E opts s = Some (Parsed ret args, s')"
  shows "ret = -1 \<or> ret = 0 \<and> args_ok args \<and> (ar_kernel_path args \<noteq> None \<or> ar_binary_path args \<noteq> None)
     \<and> (ar_binary_path args \<noteq> None \<longrightarrow> ar_binary_entry args \<noteq> 0)
     \<and> 0 < main_ram_size args \<and> main_ram_size args \<le> 0x8000000"
proof -
  obtain q s1 where q: "parse_opts E opts default_args s = Some (q, s1)"
    using assms by (auto simp: parse_args_def Option.bind_eq_Some_conv)
  then obtain r a where p: "parse_opts E opts default_args s = Some (Parsed r a, s1)"
    using assms by (cases q) (auto simp: parse_args_def)
  have "args_ok default_args"
    by (simp add: args_ok_def default_args_def DEFAULT_MEM_SIZE_def DEFAULT_NUM_VCPUS_def VM_MAX_VCPUS_def
        LOG_LEVEL_NONE_def LOG_LEVEL_INFO_def LOG_LEVEL_DEBUG_def)
  then have "r = -1 \<or> r = 0 \<and> args_ok a" using parse_opts_ok [OF p] by blast
  moreover have "0 < main_ram_size args \<and> main_ram_size args \<le> 0x8000000" if "args_ok args" for args
    using that by (auto simp: main_ram_size_def args_ok_def word_neq_0_conv)
  ultimately show ?thesis
    using assms p by (auto simp: parse_args_def set_copy_def args_ok_def split: if_splits prod.splits)
qed

definition ex_opts :: "(char \<times> string) list" where
  "ex_opts = [(CHR ''b'', ''kernel.raw''), (CHR ''e'', ''0x10000''), (CHR ''m'', ''1G''), (CHR ''n'', ''2''), (CHR ''l'', ''1'')]"

lemma ex_numbers:
  "parse_size ''1G'' = Some 0x40000000" "atoi ''2'' = Some 2" "atoi ''1'' = Some 1" "strtoull16 ''0x10000'' = 0x10000"
  by (simp_all add: parse_size_def atoi_def strtoull16_def scan_int_def read_nat_def digit_value_def is_space_def
      fits_int_def size_unit_def)

theorem parse_args_valid_witness:
  "\<exists>args s'. parse_args ok_env ex_opts init_host = Some (Parsed 0 args, s') \<and> args_ok args \<and> main_ram_size args = 0x8000000"
proof -
  obtain args s' where a: "parse_args ok_env ex_opts init_host = Some (Parsed 0 args, s')" "ar_mem_size args = 0x40000000"
    by (simp add: parse_args_def ex_opts_def parse_opt_def ex_numbers set_copy_def strdup_def alloc_def ok_env_def init_host_def
        default_args_def VM_MAX_VCPUS_def LOG_LEVEL_NONE_def LOG_LEVEL_DEBUG_def)
  then show ?thesis using parse_args_valid [OF a(1)] by (auto simp: main_ram_size_def)
qed

text \<open>
  Memory sizes. A number followed by another character is scaled by the unit that character
  names, in 64 bits, so that large sizes wrap; a number alone is read by \<open>atoi\<close> and is defined only
  below two gibibytes.
\<close>

theorem parse_size_units:
  assumes "n < 2 ^ 64" and "digit_value 10 c = None"
  shows "parse_size (show_nat 10 n @ c # rest) = Some (of_nat n * size_unit c)
     \<and> parse_size (show_nat 10 n) = (if n < 2 ^ 31 then Some (of_nat n) else None)"
proof -
  have "scan_int 10 (show_nat 10 n @ c # rest) = Some (int n, c # rest)"
    using scan_show_int [of "c # rest" "int n"] assms(2) by (simp add: show_int_def)
  moreover have "scan_int 10 (show_nat 10 n) = Some (int n, [])"
    using scan_show_int [of "[]" "int n"] by (simp add: show_int_def)
  moreover have "\<bar>int n\<bar> < 2 ^ 64" using assms(1) by simp
  ultimately show ?thesis by (auto simp: parse_size_def atoi_def fits_int_def)
qed

theorem parse_size_units_witness:
  "parse_size (show_nat 10 17179869185 @ ''G'') = Some (1024 * 1024 * 1024) \<and> parse_size (show_nat 10 2147483648) = None"
proof -
  have "digit_value 10 (CHR ''G'') = None" by (simp add: digit_value_def)
  then show ?thesis using parse_size_units [of 17179869185 "CHR ''G''" "[]"] parse_size_units [of 2147483648 "CHR ''G''" "[]"]
    by (simp add: size_unit_def)
qed

text \<open>
  C8: a guest that halts does not end the program. When the machine runs on KVM and its guest does
  nothing but halt, the main thread is still waiting after any number of sleeps in which the
  processor threads make any number of iterations, although each thread returns once its counter
  exceeds 1000: the loop watches the stop flags only, and that limit sets none. Interrupt,
  termination and broken pipe, whose actions \<open>setup_signals\<close> installed, each end the wait when they
  arrive in the next sleep: the process is not killed and every processor is stopped.
\<close>

theorem main_waits_for_halted_guest:
  assumes "halting B (set (vm_vcpus v)) (proc p)" and "\<forall>b \<in> B. guest_halts E b" and "arch_of E = X86_64"
    and "vms (proc p) vm = Some v" and "v_state v = VM_STATE_RUNNING" and "g_running p" and "g_vm p = vm" and "vm \<noteq> 0"
    and "0 \<notin> set (vm_vcpus v)" and "handlers p = setup_signals acts" and "\<not> killed p" and "\<forall>es \<in> set ess. \<forall>e \<in> set es. \<exists>r n. e = Runs r n \<and> r \<in> set (vm_vcpus v)"
  shows "(\<exists>p'. main_wait E (linked E) tbl vm ess p = Some (False, p'))
     \<and> (\<exists>p'. main_wait E (linked E) tbl vm (ess @ [[Signal sig]]) p = Some (True, p') \<and> \<not> killed p'
          \<and> running (proc p') \<inter> set (vm_vcpus v) = {})"
proof -
  obtain p' where p': "halting B (set (vm_vcpus v)) (proc p')" "same_control p p'"
    and w: "\<And>later. main_wait E (linked E) tbl vm (ess @ later) p = main_wait E (linked E) tbl vm later p'"
    using halting_wait [OF assms(1,12,2-6,11), of tbl] by blast
  have c: "vms (proc p') = vms (proc p)" "g_running p'" "g_vm p' = vm" "handlers p' sig = Signal_handler" "\<not> killed p'"
    using p'(2) assms(6,7,10,11) by (simp_all add: same_control_def setup_signals_all)
  have "main_wait E (linked E) tbl vm [] p' = Some (False, p')" using c assms(4,5) by (simp add: main_goes_on_def)
  moreover have "set (vm_vcpus v) \<subseteq> dom (vcpus (proc p'))" using p'(1) by (auto simp: halting_def)
  ultimately show ?thesis
    using w [of "[]"] w [of "[[Signal sig]]"] signal_ends [of p' vm v E sig "linked E" tbl "[]"] c assms(3-9) by auto
qed

definition ex_wait_vm :: vm where
  "ex_wait_vm = ex_dt_vm\<lparr>v_state := VM_STATE_RUNNING, v_vcpus := [7, 0, 0, 0, 0, 0, 0, 0], v_num_vcpus := 1\<rparr>"

definition ex_wait :: process where
  "ex_wait = \<lparr>g_vm = 2, g_running = True, handlers = setup_signals (\<lambda>_. SIG_DFL), killed = False,
     threads = (\<lambda>_. Created), proc = ex_cpu_host\<lparr>vms := (\<lambda>_. None)(2 \<mapsto> ex_wait_vm),
       vcpus := (\<lambda>_. None)(7 \<mapsto> zero_vcpu\<lparr>c_hv_vcpu := 8, c_vm := 2, c_state := VCPU_STATE_RUNNING\<rparr>)\<rparr>\<rparr>"

theorem main_waits_for_halted_guest_witness:
  "(\<exists>p'. main_wait ex_hlt_env (linked ex_hlt_env) (device_ops_of ex_hlt_env) 2 (replicate 3600 [Runs 7 1000]) ex_wait
       = Some (False, p'))
   \<and> (\<exists>p'. main_wait ex_hlt_env (linked ex_hlt_env) (device_ops_of ex_hlt_env) 2
         (replicate 3600 [Runs 7 1000] @ [[Signal SIGTERM]]) ex_wait = Some (True, p') \<and> \<not> killed p')"
proof -
  have v: "vm_vcpus ex_wait_vm = [7]" by (simp add: vm_vcpus_def ex_wait_vm_def)
  have h: "halting {9} (set (vm_vcpus ex_wait_vm)) (proc ex_wait)"
    by (simp add: v halting_def halting_vcpu_def ex_wait_def ex_cpu_host_def zero_vcpu_def)
  have g: "\<forall>b \<in> {9}. guest_halts ex_hlt_env b" using ex_hlt_reason by (auto simp: guest_halts_def)
  have "arch_of ex_hlt_env = X86_64" "vms (proc ex_wait) 2 = Some ex_wait_vm" "v_state ex_wait_vm = VM_STATE_RUNNING"
    "g_running ex_wait" "g_vm ex_wait = 2"
    by (simp_all add: ex_hlt_env_def ok_env_def ex_wait_def ex_wait_vm_def)
  from main_waits_for_halted_guest [OF h g this, where acts = "\<lambda>_. SIG_DFL" and ess = "replicate 3600 [Runs 7 1000]"
      and tbl = "device_ops_of ex_hlt_env" and sig = SIGTERM]
  show ?thesis by (auto simp: v ex_wait_def)
qed

text \<open>
  C38: a kernel without an initial ramdisk is undefined. When a kernel was given and no ramdisk, the
  hypervisor is there and the machine can be created, the program passes a null path to \<open>strdup\<close>.
\<close>

theorem kernel_without_initrd_undefined:
  assumes "parse_args E opts (print_text (''Vibe-VMM v0.1 - A Minimal Virtual Machine Monitor'' @ newline @ rule_text @ newline) s)
      = Some (Parsed 0 args, s0)"
    and "ar_kernel_path args \<noteq> None" and "ar_initrd_path args = None"
    and "hv_init E ops HV_TYPE_AUTO (s0\<lparr>log_level := ar_log_level args\<rparr>) = Some (0, s1)"
    and "vm_create E ops s1 = Some (vm, s2)" and "vm \<noteq> 0"
  shows "main E ops tbl opts ess s = None"
proof -
  have "main_paths E args vm s2 = None"
    using assms(2,3)
    by (simp add: main_paths_def vm_set_initrd_def vm_set_string_def split: Option.bind_splits prod.splits)
  then show ?thesis using assms by (simp add: main_def)
qed

definition ex_kernel_opts :: "(char \<times> string) list" where
  "ex_kernel_opts = [(CHR ''k'', ''bzImage'')]"

theorem kernel_without_initrd_undefined_witness:
  "main ex_kvm_env (linked ex_kvm_env) (device_ops_of ex_kvm_env) ex_kernel_opts [] init_host = None"
proof -
  let ?E = "ex_kvm_env"
  let ?s = "print_text (''Vibe-VMM v0.1 - A Minimal Virtual Machine Monitor'' @ newline @ rule_text @ newline) init_host"
  obtain args s0 where a: "parse_args ?E ex_kernel_opts ?s = Some (Parsed 0 args, s0)" "ar_kernel_path args \<noteq> None"
    "ar_initrd_path args = None"
    by (simp add: parse_args_def ex_kernel_opts_def parse_opt_def set_copy_def strdup_def alloc_def ex_kvm_env_def ok_env_def
        init_host_def default_args_def print_text_def)
  obtain s1 where h: "hv_init ?E (linked ?E) HV_TYPE_AUTO (s0\<lparr>log_level := ar_log_level args\<rparr>) = Some (0, s1)"
    "g_hv_ops s1 = Some Kvm_ops"
    by (simp add: hv_init_def hv_detect_def ex_kvm_env_def ok_env_def kvm_ops_def kvm_init_def syscall_def
        answer_ok_def KVM_API_VERSION_def Let_def)
  have "\<exists>vm s2. vm_create ?E (linked ?E) s1 = Some (vm, s2) \<and> vm \<noteq> 0" if "0 < next_ref s1"
    using h(2) that by (simp add: vm_create_def hv_create_vm_def cur_op_def kvm_ops_def kvm_create_vm_def ex_kvm_env_def ok_env_def
        syscall_def alloc_def answer_ok_def Let_def)
  moreover have "0 < next_ref s1"
    using a(1) h(1) by (auto simp: parse_args_def ex_kernel_opts_def parse_opt_def set_copy_def strdup_def alloc_def ex_kvm_env_def
        ok_env_def init_host_def default_args_def print_text_def hv_init_def hv_detect_def kvm_ops_def kvm_init_def syscall_def
        answer_ok_def KVM_API_VERSION_def Let_def)
  ultimately obtain vm s2 where "vm_create ?E (linked ?E) s1 = Some (vm, s2)" "vm \<noteq> 0" by blast
  then show ?thesis by (rule kernel_without_initrd_undefined [OF a h(1)])
qed


definition ex_no_vfio :: env where
  "ex_no_vfio = ok_env\<lparr>arch_of := AARCH64, alloc_ok := (\<lambda>n. n < 5),
     answer_of := (\<lambda>h c. if c = SYS_open ''/dev/vfio/vfio'' ''O_RDWR'' then answer_ok (-1) else answer_ok 0)\<rparr>"

definition ex_vfio_args :: cmdline_args where
  "ex_vfio_args = default_args\<lparr>ar_binary_path := Some ''kernel.raw'', ar_binary_entry := 0x10000, ar_vfio_bdf := Some ''0000:01:00.0''\<rparr>"


section \<open>The address map\<close>

context device_maker
begin

lemma attach_places:
  assumes "fresh_heap s" and "vms s vm = Some v" and "placed s v ws" and "length ws < VM_MAX_DEVICES"
  shows "\<exists>s' v' b. attach vm create s = Some s' \<and> fresh_heap s' \<and> vms s' vm = Some v' \<and> placed s' v' (ws @ window b lo hi)"
proof -
  obtain dev s1 where c: "create s = Some (dev, s1)" and r: "if dev = 0 then fresh_heap s1 \<and> vms s1 vm = Some v \<and> placed s1 v ws
     else \<exists>s2 v'. vm_register_device vm dev s1 = Some (0, s2) \<and> fresh_heap s2 \<and> vms s2 vm = Some v' \<and> placed s2 v' (ws @ [(lo, hi)])"
    using register_places [OF assms] by blast
  show ?thesis
  proof (cases "dev = 0")
    case True
    then show ?thesis using c r by (intro exI [of _ s1] exI [of _ v] exI [of _ False]) (simp add: attach_def window_def)
  next
    case False
    then obtain s2 v' where "vm_register_device vm dev s1 = Some (0, s2)" "fresh_heap s2" "vms s2 vm = Some v'" "placed s2 v' (ws @ [(lo, hi)])"
      using r by auto
    then show ?thesis using c False by (intro exI [of _ s2] exI [of _ v'] exI [of _ True]) (simp add: attach_def window_def)
  qed
qed

end

lemma main_devices_places:
  assumes "fresh_heap s" and "vms s vm = Some v" and "placed s v []"
  shows "\<exists>s' v' a b c d. main_devices E args vm s = Some s' \<and> vms s' vm = Some v'
     \<and> placed s' v' (((([] @ window a MMIO_CONSOLE_GPA (MMIO_CONSOLE_GPA + MMIO_CONSOLE_SIZE - 1))
        @ window b VIRTIO_CONSOLE_GPA (VIRTIO_CONSOLE_GPA + VIRTIO_CONSOLE_SIZE - 1))
        @ window c VIRTIO_BLOCK_GPA (VIRTIO_BLOCK_GPA + VIRTIO_BLOCK_SIZE - 1))
        @ window d VIRTIO_NET_GPA (VIRTIO_NET_GPA + VIRTIO_NET_SIZE - 1))" (is "\<exists>s' v' a b c d. _ \<and> _ \<and> placed s' v' (((?wa a @ ?wb b) @ ?wc c) @ ?wd d)")
proof -
  have few: "length (?wa a) < VM_MAX_DEVICES" "length (?wa a @ ?wb b) < VM_MAX_DEVICES" "length ((?wa a @ ?wb b) @ ?wc c) < VM_MAX_DEVICES" for a b c
    by (simp_all add: window_def VM_MAX_DEVICES_def)
  obtain s1 v1 a where 1: "attach vm (mmio_console_create E) s = Some s1" "fresh_heap s1" "vms s1 vm = Some v1" "placed s1 v1 (?wa a)"
    using mc.attach_places [OF assms, of E] by (auto simp: VM_MAX_DEVICES_def)
  obtain s2 v2 b where 2: "attach vm (virtio_console_create E) s1 = Some s2" "fresh_heap s2" "vms s2 vm = Some v2"
      "placed s2 v2 (?wa a @ ?wb b)"
    using vc.attach_places [OF 1(2-4) few(1), of E] by blast
  have "\<exists>s3 v3 c. (case ar_disk_path args of None \<Rightarrow> Some s2 | Some path \<Rightarrow> attach vm (virtio_blk_create E path) s2) = Some s3
      \<and> fresh_heap s3 \<and> vms s3 vm = Some v3 \<and> placed s3 v3 ((?wa a @ ?wb b) @ ?wc c)"
  proof (cases "ar_disk_path args")
    case None
    then show ?thesis using 2 by (intro exI [of _ s2] exI [of _ v2] exI [of _ False]) (simp add: window_def)
  next
    case (Some path)
    then show ?thesis using vb.attach_places [OF 2(2-4) few(2), of E path] by (simp only: option.case)
  qed
  then obtain s3 v3 c where 3: "(case ar_disk_path args of None \<Rightarrow> Some s2 | Some path \<Rightarrow> attach vm (virtio_blk_create E path) s2) = Some s3"
      "fresh_heap s3" "vms s3 vm = Some v3" "placed s3 v3 ((?wa a @ ?wb b) @ ?wc c)" by blast
  have "\<exists>s4 v4 d. (case ar_net_tap args of None \<Rightarrow> Some s3 | Some tap \<Rightarrow> attach vm (virtio_net_create E (Some tap)) s3) = Some s4
      \<and> vms s4 vm = Some v4 \<and> placed s4 v4 (((?wa a @ ?wb b) @ ?wc c) @ ?wd d)"
  proof (cases "ar_net_tap args")
    case None
    then show ?thesis using 3 by (intro exI [of _ s3] exI [of _ v3] exI [of _ False]) (simp add: window_def)
  next
    case (Some tap)
    then show ?thesis using vn.attach_places [OF 3(2-4) few(3), of E "Some tap"] by (simp only: option.case) blast
  qed
  then show ?thesis using 1(1) 2(1) 3(1) unfolding main_devices_def by (simp only: bind.bind_lunit) blast
qed

lemma windows_fit:
  fixes a b c d
  defines "ws \<equiv> ((([] @ window a MMIO_CONSOLE_GPA (MMIO_CONSOLE_GPA + MMIO_CONSOLE_SIZE - 1))
        @ window b VIRTIO_CONSOLE_GPA (VIRTIO_CONSOLE_GPA + VIRTIO_CONSOLE_SIZE - 1))
        @ window c VIRTIO_BLOCK_GPA (VIRTIO_BLOCK_GPA + VIRTIO_BLOCK_SIZE - 1))
        @ window d VIRTIO_NET_GPA (VIRTIO_NET_GPA + VIRTIO_NET_SIZE - 1)"
  shows "windows_apart ws" and "\<forall>(lo, hi) \<in> set ws. 128 * 1024 * 1024 \<le> lo \<and> hi - lo = 0xFFF"
  by (auto simp add: ws_def window_def windows_apart_def sorted_wrt_append MMIO_CONSOLE_GPA_def MMIO_CONSOLE_SIZE_def
      VIRTIO_CONSOLE_GPA_def VIRTIO_CONSOLE_SIZE_def VIRTIO_BLOCK_GPA_def VIRTIO_BLOCK_SIZE_def VIRTIO_NET_GPA_def VIRTIO_NET_SIZE_def)



end
