(* ===== verification/Hvf.thy ===== *)
theory Hvf
  imports Kvm
begin

text \<open>
  The backend for the Apple Hypervisor framework on x86, \<^verbatim>\<open>src/hypervisor/hvf.c\<close>. The framework is the
  environment: a call is \<open>SYS_hvf\<close> with the name of the function, followed by the name of the
  register or segment where there is one, and the arguments as words; what the function writes
  through its pointers is the words of the answer. The conditional compilation on \<open>__x86_64__\<close> is a
  case distinction on \<^const>\<open>arch_of\<close>. The register transfers are tables: one entry for each call of
  the source, in its order, and the locale \<open>fw_table\<close> states when reading a table returns what
  writing it stored.
\<close>

section \<open>Calls of the framework\<close>

text \<open>A call of the framework leaves \<open>errno\<close> alone. \<open>HV_SUCCESS\<close> is 0.\<close>

definition fw_call :: "env \<Rightarrow> string \<Rightarrow> u64 list \<Rightarrow> host \<Rightarrow> answer \<times> host" where
  "fw_call E name args s =
     (answer_of E (history s) (SYS_hvf name args), s\<lparr>history := SYS_hvf name args # history s\<rparr>)"

definition fw_word :: "u64 list \<Rightarrow> nat \<Rightarrow> u64 \<Rightarrow> u64" where
  "fw_word ws i old = (if i < length ws then ws ! i else old)"

lemma fw_call_io: "io_only s (snd (fw_call E name args s))"
  by (simp add: fw_call_def io_only_def)

lemma fw_call_parts [simp]:
  "fst (fw_call E name args s) = answer_of E (history s) (SYS_hvf name args)"
  "history (snd (fw_call E name args s)) = SYS_hvf name args # history s"
  by (simp_all add: fw_call_def)

section \<open>Initialisation and machines\<close>

definition hvf_init :: "env \<Rightarrow> host \<Rightarrow> (int \<times> host) option" where
  "hvf_init E s =
     (case arch_of E of
        X86_64 \<Rightarrow>
          (let (a, s1) = fw_call E ''hv_vm_create'' [0] s in
           if a_ret a \<noteq> 0 then Some (-1, s1) else Some (0, snd (fw_call E ''hv_vm_destroy'' [] s1)))
      | AARCH64 \<Rightarrow> Some (-1, s))"

definition hvf_cleanup :: "host \<Rightarrow> host option" where
  "hvf_cleanup s = Some s"

definition hvf_create_vm :: "env \<Rightarrow> host \<Rightarrow> (ref \<times> host) option" where
  "hvf_create_vm E s =
     (let (vm, s1) = alloc E s in
      if vm = 0 then Some (0, s1)
      else
        let (data, s2) = alloc E (s1\<lparr>hv_vms := (hv_vms s1)(vm \<mapsto> zero_hv_vm)\<rparr>) in
        if data = 0 then do { s3 \<leftarrow> free_obj vm s2; Some (0, s3) }
        else
          (case arch_of E of
             X86_64 \<Rightarrow>
               (let (a, s3) = fw_call E ''hv_vm_create'' [0] s2 in
                if a_ret a \<noteq> 0 then do { s4 \<leftarrow> free_obj vm s3; Some (0, s4) }
                else Some (vm, s3\<lparr>hv_vms := (hv_vms s3)(vm \<mapsto>
                       zero_hv_vm\<lparr>hv_ops_of := Hvf_ops, hv_fd := -1, hv_vm_created := 1\<rparr>)\<rparr>))
           | AARCH64 \<Rightarrow> do { s3 \<leftarrow> free_obj vm s2; Some (0, s3) }))"

definition hvf_destroy_vm :: "env \<Rightarrow> ref \<Rightarrow> host \<Rightarrow> host option" where
  "hvf_destroy_vm E vm s =
     (if vm = 0 then Some s
      else do {
        v \<leftarrow> hv_vms s vm;
        free_obj vm (if arch_of E = X86_64 \<and> hv_vm_created v \<noteq> 0 then snd (fw_call E ''hv_vm_destroy'' [] s) else s) })"

definition hvf_vm_get_fd :: "ref \<Rightarrow> host \<Rightarrow> int option" where
  "hvf_vm_get_fd vm s = Some (-1)"

section \<open>Processors\<close>

definition hvf_create_vcpu :: "env \<Rightarrow> ref \<Rightarrow> int \<Rightarrow> host \<Rightarrow> (ref \<times> host) option" where
  "hvf_create_vcpu E vm index s =
     (let (vcpu, s1) = alloc E s in
      if vcpu = 0 then Some (0, s1)
      else
        let (data, s2) = alloc E (s1\<lparr>hv_vcpus := (hv_vcpus s1)(vcpu \<mapsto> zero_hv_vcpu)\<rparr>) in
        if data = 0 then do { s3 \<leftarrow> free_obj vcpu s2; Some (0, s3) }
        else
          let (run, s3) = calloc E 256 s2;
              c = zero_hv_vcpu\<lparr>hc_ops := Hvf_ops, hc_fd := -1, hc_vm := vm, hc_index := index, hc_run := run\<rparr> in
          if run = NULL then do { s4 \<leftarrow> free_obj vcpu s3; Some (0, s4) }
          else
            (case arch_of E of
               X86_64 \<Rightarrow>
                 (let (a, s4) = fw_call E ''hv_vcpu_create'' [0] s3 in
                  if a_ret a \<noteq> 0 then do { s5 \<leftarrow> free run s4; s6 \<leftarrow> free_obj vcpu s5; Some (0, s6) }
                  else Some (vcpu, s4\<lparr>hv_vcpus := (hv_vcpus s4)(vcpu \<mapsto>
                         c\<lparr>hc_id := fw_word (a_words a) 0 0, hc_created := 1\<rparr>)\<rparr>))
             | AARCH64 \<Rightarrow> Some (vcpu, s3\<lparr>hv_vcpus := (hv_vcpus s3)(vcpu \<mapsto> c)\<rparr>)))"

definition hvf_destroy_vcpu :: "env \<Rightarrow> ref \<Rightarrow> host \<Rightarrow> host option" where
  "hvf_destroy_vcpu E vcpu s =
     (if vcpu = 0 then Some s
      else do {
        c \<leftarrow> hv_vcpus s vcpu;
        s1 \<leftarrow> (if hc_run c \<noteq> NULL then free (hc_run c) s else Some s);
        free_obj vcpu (if arch_of E = X86_64 \<and> hc_created c \<noteq> 0
                       then snd (fw_call E ''hv_vcpu_destroy'' [hc_id c] s1) else s1) })"

definition hvf_vcpu_get_fd :: "ref \<Rightarrow> host \<Rightarrow> int option" where
  "hvf_vcpu_get_fd vcpu s = Some (-1)"

section \<open>Memory and running\<close>

definition hvf_map_mem :: "env \<Rightarrow> ref \<Rightarrow> hv_memory_slot \<Rightarrow> host \<Rightarrow> (int \<times> host) option" where
  "hvf_map_mem E vm slot s =
     (case arch_of E of
        X86_64 \<Rightarrow>
          (let (a, s1) = fw_call E ''hv_vm_map'' (ptr_words (ms_hva slot) @ [ms_gpa slot, ms_size slot, 1 OR 2 OR 4]) s in
           if a_ret a \<noteq> 0 then Some (-1, s1) else Some (0, s1))
      | AARCH64 \<Rightarrow> Some (-1, s))"

definition hvf_unmap_mem :: "ref \<Rightarrow> u32 \<Rightarrow> host \<Rightarrow> (int \<times> host) option" where
  "hvf_unmap_mem vm slot s = Some (0, s)"

definition hvf_run :: "env \<Rightarrow> ref \<Rightarrow> host \<Rightarrow> (int \<times> host) option" where
  "hvf_run E vcpu s =
     do {
       c \<leftarrow> hv_vcpus s vcpu;
       case arch_of E of
         X86_64 \<Rightarrow>
           (let (a, s1) = fw_call E ''hv_vcpu_run'' [hc_id c] (guest_runs E s) in
            if a_ret a \<noteq> 0 then (if a_ret a = HV_ERROR E then Some (-1, s1) else Some (0, s1)) else Some (0, s1))
       | AARCH64 \<Rightarrow> Some (-1, s) }"

definition hvf_get_exit :: "ref \<Rightarrow> hv_exit \<Rightarrow> host \<Rightarrow> (int \<times> hv_exit \<times> host) option" where
  "hvf_get_exit vcpu ex s = Some (0, zero_exit\<lparr>ex_reason := HV_EXIT_HLT\<rparr>, s)"

definition hvf_irq_line :: "ref \<Rightarrow> int \<Rightarrow> int \<Rightarrow> host \<Rightarrow> (int \<times> host) option" where
  "hvf_irq_line vm irq level s = Some (0, s)"

section \<open>Registers\<close>

text \<open>
  An entry of a transfer table: the kind of the call, the constant naming the register, the words
  written, and how the words read enter the structure.
\<close>

type_synonym 'x fw_item = "string \<times> string \<times> ('x \<Rightarrow> u64 list) \<times> (u64 list \<Rightarrow> 'x \<Rightarrow> 'x)"

fun write_items :: "env \<Rightarrow> u64 \<Rightarrow> 'x fw_item list \<Rightarrow> 'x \<Rightarrow> host \<Rightarrow> int \<times> host" where
  "write_items E vc [] x s = (0, s)"
| "write_items E vc ((kind, name, put, get) # ts) x s =
     (let (a, s1) = fw_call E (''hv_vcpu_write_'' @ kind @ name) (vc # put x) s in
      if a_ret a \<noteq> 0 then (-1, s1) else write_items E vc ts x s1)"

fun read_items :: "env \<Rightarrow> u64 \<Rightarrow> 'x fw_item list \<Rightarrow> 'x \<Rightarrow> host \<Rightarrow> int \<times> 'x \<times> host" where
  "read_items E vc [] x s = (0, x, s)"
| "read_items E vc ((kind, name, put, get) # ts) x s =
     (let (a, s1) = fw_call E (''hv_vcpu_read_'' @ kind @ name) [vc] s in
      if a_ret a \<noteq> 0 then (-1, x, s1) else read_items E vc ts (get (a_words a) x) s1)"

definition reg_item :: "string \<Rightarrow> ('x \<Rightarrow> u64) \<Rightarrow> (u64 \<Rightarrow> 'x \<Rightarrow> 'x) \<Rightarrow> 'x fw_item" where
  "reg_item name g upd = (''register '', name, \<lambda>x. [g x], \<lambda>ws x. upd (fw_word ws 0 (g x)) x)"

definition hvf_regs_items :: "hv_regs fw_item list" where
  "hvf_regs_items =
     [reg_item ''HV_X64_RIP'' rg_rip (\<lambda>v x. x\<lparr>rg_rip := v\<rparr>),
      reg_item ''HV_X64_RFLAGS'' rg_rflags (\<lambda>v x. x\<lparr>rg_rflags := v\<rparr>),
      reg_item ''HV_X64_RAX'' rg_rax (\<lambda>v x. x\<lparr>rg_rax := v\<rparr>),
      reg_item ''HV_X64_RBX'' rg_rbx (\<lambda>v x. x\<lparr>rg_rbx := v\<rparr>),
      reg_item ''HV_X64_RCX'' rg_rcx (\<lambda>v x. x\<lparr>rg_rcx := v\<rparr>),
      reg_item ''HV_X64_RDX'' rg_rdx (\<lambda>v x. x\<lparr>rg_rdx := v\<rparr>),
      reg_item ''HV_X64_RSI'' rg_rsi (\<lambda>v x. x\<lparr>rg_rsi := v\<rparr>),
      reg_item ''HV_X64_RDI'' rg_rdi (\<lambda>v x. x\<lparr>rg_rdi := v\<rparr>),
      reg_item ''HV_X64_RSP'' rg_rsp (\<lambda>v x. x\<lparr>rg_rsp := v\<rparr>),
      reg_item ''HV_X64_RBP'' rg_rbp (\<lambda>v x. x\<lparr>rg_rbp := v\<rparr>),
      reg_item ''HV_X64_R8'' rg_r8 (\<lambda>v x. x\<lparr>rg_r8 := v\<rparr>),
      reg_item ''HV_X64_R9'' rg_r9 (\<lambda>v x. x\<lparr>rg_r9 := v\<rparr>),
      reg_item ''HV_X64_R10'' rg_r10 (\<lambda>v x. x\<lparr>rg_r10 := v\<rparr>),
      reg_item ''HV_X64_R11'' rg_r11 (\<lambda>v x. x\<lparr>rg_r11 := v\<rparr>),
      reg_item ''HV_X64_R12'' rg_r12 (\<lambda>v x. x\<lparr>rg_r12 := v\<rparr>),
      reg_item ''HV_X64_R13'' rg_r13 (\<lambda>v x. x\<lparr>rg_r13 := v\<rparr>),
      reg_item ''HV_X64_R14'' rg_r14 (\<lambda>v x. x\<lparr>rg_r14 := v\<rparr>),
      reg_item ''HV_X64_R15'' rg_r15 (\<lambda>v x. x\<lparr>rg_r15 := v\<rparr>)]"

text \<open>A segment is passed as the structure \<open>hv_segment_t\<close>: base, limit, selector and access.\<close>

definition seg_words :: "hv_segment \<Rightarrow> u64 list" where
  "seg_words g = [sg_base g, ucast (sg_limit g), ucast (sg_selector g), ucast (sg_ar g)]"

definition words_seg :: "u64 list \<Rightarrow> hv_segment \<Rightarrow> hv_segment" where
  "words_seg ws g =
     \<lparr>sg_selector = ucast (fw_word ws 2 (ucast (sg_selector g))), sg_base = fw_word ws 0 (sg_base g),
      sg_limit = ucast (fw_word ws 1 (ucast (sg_limit g))), sg_ar = ucast (fw_word ws 3 (ucast (sg_ar g)))\<rparr>"

definition seg_item :: "string \<Rightarrow> (hv_sregs \<Rightarrow> hv_segment) \<Rightarrow> (hv_segment \<Rightarrow> hv_sregs \<Rightarrow> hv_sregs) \<Rightarrow> hv_sregs fw_item" where
  "seg_item name g upd = (''segment '', name, \<lambda>x. seg_words (g x), \<lambda>ws x. upd (words_seg ws (g x)) x)"

definition hvf_sregs_items :: "hv_sregs fw_item list" where
  "hvf_sregs_items =
     [seg_item ''HV_X64_SEGMENT_CS'' sr_cs (\<lambda>v x. x\<lparr>sr_cs := v\<rparr>),
      seg_item ''HV_X64_SEGMENT_DS'' sr_ds (\<lambda>v x. x\<lparr>sr_ds := v\<rparr>),
      seg_item ''HV_X64_SEGMENT_ES'' sr_es (\<lambda>v x. x\<lparr>sr_es := v\<rparr>),
      seg_item ''HV_X64_SEGMENT_FS'' sr_fs (\<lambda>v x. x\<lparr>sr_fs := v\<rparr>),
      seg_item ''HV_X64_SEGMENT_GS'' sr_gs (\<lambda>v x. x\<lparr>sr_gs := v\<rparr>),
      seg_item ''HV_X64_SEGMENT_SS'' sr_ss (\<lambda>v x. x\<lparr>sr_ss := v\<rparr>),
      reg_item ''HV_X64_CR0'' sr_cr0 (\<lambda>v x. x\<lparr>sr_cr0 := v\<rparr>),
      reg_item ''HV_X64_CR2'' sr_cr2 (\<lambda>v x. x\<lparr>sr_cr2 := v\<rparr>),
      reg_item ''HV_X64_CR3'' sr_cr3 (\<lambda>v x. x\<lparr>sr_cr3 := v\<rparr>),
      reg_item ''HV_X64_CR4'' sr_cr4 (\<lambda>v x. x\<lparr>sr_cr4 := v\<rparr>)]"

definition hvf_get_regs :: "env \<Rightarrow> ref \<Rightarrow> hv_regs \<Rightarrow> host \<Rightarrow> (int \<times> hv_regs \<times> host) option" where
  "hvf_get_regs E vcpu regs s =
     do { c \<leftarrow> hv_vcpus s vcpu;
          case arch_of E of X86_64 \<Rightarrow> Some (read_items E (hc_id c) hvf_regs_items regs s)
          | AARCH64 \<Rightarrow> Some (-1, zero_regs, s) }"

definition hvf_set_regs :: "env \<Rightarrow> ref \<Rightarrow> hv_regs \<Rightarrow> host \<Rightarrow> (int \<times> host) option" where
  "hvf_set_regs E vcpu regs s =
     do { c \<leftarrow> hv_vcpus s vcpu;
          case arch_of E of X86_64 \<Rightarrow> Some (write_items E (hc_id c) hvf_regs_items regs s)
          | AARCH64 \<Rightarrow> Some (-1, s) }"

definition hvf_get_sregs :: "env \<Rightarrow> ref \<Rightarrow> hv_sregs \<Rightarrow> host \<Rightarrow> (int \<times> hv_sregs \<times> host) option" where
  "hvf_get_sregs E vcpu sregs s =
     do { c \<leftarrow> hv_vcpus s vcpu;
          case arch_of E of
            X86_64 \<Rightarrow> (case read_items E (hc_id c) hvf_sregs_items sregs s of (ret, x, s1) \<Rightarrow>
                         if ret < 0 then Some (-1, x, s1) else Some (0, x\<lparr>sr_efer := 0x1000\<rparr>, s1))
          | AARCH64 \<Rightarrow> Some (-1, zero_sregs, s) }"

definition hvf_set_sregs :: "env \<Rightarrow> ref \<Rightarrow> hv_sregs \<Rightarrow> host \<Rightarrow> (int \<times> host) option" where
  "hvf_set_sregs E vcpu sregs s =
     do { c \<leftarrow> hv_vcpus s vcpu;
          case arch_of E of X86_64 \<Rightarrow> Some (write_items E (hc_id c) hvf_sregs_items sregs s)
          | AARCH64 \<Rightarrow> Some (-1, s) }"

definition hvf_ops :: "env \<Rightarrow> hv_ops" where
  "hvf_ops E = \<lparr>ho_init = Some (hvf_init E), ho_cleanup = Some hvf_cleanup,
     ho_create_vm = Some (hvf_create_vm E), ho_destroy_vm = Some (hvf_destroy_vm E), ho_vm_get_fd = Some hvf_vm_get_fd,
     ho_create_vcpu = Some (hvf_create_vcpu E), ho_destroy_vcpu = Some (hvf_destroy_vcpu E),
     ho_vcpu_get_fd = Some hvf_vcpu_get_fd, ho_vcpu_exit = None,
     ho_map_mem = Some (hvf_map_mem E), ho_unmap_mem = Some hvf_unmap_mem,
     ho_run = Some (hvf_run E), ho_get_exit = Some hvf_get_exit,
     ho_get_regs = Some (hvf_get_regs E), ho_set_regs = Some (hvf_set_regs E),
     ho_get_sregs = Some (hvf_get_sregs E), ho_set_sregs = Some (hvf_set_sregs E),
     ho_irq_line = Some hvf_irq_line\<rparr>"

section \<open>The contract of the layer\<close>

text \<open>The tables of a build for an Intel Mac, with stubs for the other two backends.\<close>

fun linked_hvf :: "env \<Rightarrow> hv_linked" where
  "linked_hvf E Kvm_ops = kvm_stub_ops"
| "linked_hvf E Hvf_ops = hvf_ops E"
| "linked_hvf E Hvf_arm64_ops = hvf_stub_ops"

lemma fw_step_io: "fw_call E name args s = (a, s') \<Longrightarrow> io_only s s'"
  using fw_call_io [of s E name args] by simp

lemma hvf_run_frame: "hvf_run E vcpu s = Some (ret, s') \<Longrightarrow> handler_frame s s'"
  using handler_frame_trans [OF guest_runs_frame io_only_frame [OF fw_call_io]]
  by (cases "arch_of E")
    (auto simp: hvf_run_def Let_def case_prod_beta Option.bind_eq_Some_conv handler_frame_refl split: if_splits)

lemmas stub_defs = hvf_stub_ops_def kvm_stub_ops_def stub_ops_def

interpretation hl: hv_tables "linked_hvf E" for E
proof
  fix b f s ret s'
  show "ho_init (linked_hvf E b) = Some f \<Longrightarrow> f s = Some (ret, s') \<Longrightarrow> g_hv_ops s' = g_hv_ops s"
    by (cases b) (auto simp: hvf_ops_def stub_defs hvf_init_def fw_call_def split: arch.splits if_splits)
next
  fix b g vm slot s ret s'
  show "ho_map_mem (linked_hvf E b) = Some g \<Longrightarrow> g vm slot s = Some (ret, s') \<Longrightarrow> io_only s s'"
    by (cases b) (auto simp: hvf_ops_def stub_defs hvf_map_mem_def frame_intros fw_call_io case_prod_beta Let_def
        split: arch.splits if_splits)
next
  fix b h vm n s ret s'
  show "ho_unmap_mem (linked_hvf E b) = Some h \<Longrightarrow> h vm n s = Some (ret, s') \<Longrightarrow> io_only s s'"
    by (cases b) (auto simp: hvf_ops_def stub_defs hvf_unmap_mem_def frame_intros)
next
  fix b k vm irq level s ret s'
  show "ho_irq_line (linked_hvf E b) = Some k \<Longrightarrow> k vm irq level s = Some (ret, s') \<Longrightarrow> io_only s s'"
    by (cases b) (auto simp: hvf_ops_def stub_defs hvf_irq_line_def frame_intros)
next
  fix b r vcpu s ret s'
  show "ho_run (linked_hvf E b) = Some r \<Longrightarrow> r vcpu s = Some (ret, s') \<Longrightarrow> handler_frame s s'"
    by (cases b) (auto simp: hvf_ops_def stub_defs frame_intros dest: hvf_run_frame)
next
  fix b e vcpu ex s ret ex' s'
  show "ho_get_exit (linked_hvf E b) = Some e \<Longrightarrow> e vcpu ex s = Some (ret, ex', s') \<Longrightarrow> io_only s s'"
    by (cases b) (auto simp: hvf_ops_def stub_defs hvf_get_exit_def frame_intros)
qed

section \<open>Reading back what was written\<close>

text \<open>The words last written to a register or segment of a processor, from the record of calls.\<close>

fun last_write :: "u64 \<Rightarrow> string \<Rightarrow> syscall list \<Rightarrow> u64 list option" where
  "last_write vc key [] = None"
| "last_write vc key (c # h) =
     (case c of
        SYS_hvf name (i # ws) \<Rightarrow> if name = ''hv_vcpu_write_'' @ key \<and> i = vc then Some ws else last_write vc key h
      | _ \<Rightarrow> last_write vc key h)"

text \<open>
  What the framework documents of its register calls: they succeed on a processor that exists, and
  reading returns what was last written.
\<close>

definition fw_keeps :: "env \<Rightarrow> u64 \<Rightarrow> bool" where
  "fw_keeps E vc \<longleftrightarrow> (\<forall>h key.
     (\<forall>ws. a_ret (answer_of E h (SYS_hvf (''hv_vcpu_write_'' @ key) (vc # ws))) = 0)
     \<and> a_ret (answer_of E h (SYS_hvf (''hv_vcpu_read_'' @ key) [vc])) = 0
     \<and> (\<forall>ws. last_write vc key h = Some ws \<longrightarrow> a_words (answer_of E h (SYS_hvf (''hv_vcpu_read_'' @ key) [vc])) = ws))"

definition item_key :: "'x fw_item \<Rightarrow> string" where
  "item_key t = fst t @ fst (snd t)"

definition item_call :: "u64 \<Rightarrow> 'x \<Rightarrow> 'x fw_item \<Rightarrow> syscall" where
  "item_call vc x t = SYS_hvf (''hv_vcpu_write_'' @ item_key t) (vc # fst (snd (snd t)) x)"

lemma last_write_append:
  "last_write vc key (h @ h') = (case last_write vc key h of None \<Rightarrow> last_write vc key h' | Some ws \<Rightarrow> Some ws)"
  by (induction h) (auto split: syscall.splits list.splits)

lemma last_write_other: "key \<notin> item_key ` set ts \<Longrightarrow> last_write vc key (rev (map (item_call vc x) ts)) = None"
  by (induction ts) (auto simp: last_write_append item_call_def)

lemma last_write_item:
  assumes "distinct (map item_key ts)" and "t \<in> set ts"
  shows "last_write vc (item_key t) (rev (map (item_call vc x) ts) @ h) = Some (fst (snd (snd t)) x)"
  using assms
proof (induction ts arbitrary: h)
  case (Cons u ts)
  show ?case
  proof (cases "t = u")
    case True
    then have "item_key t \<notin> item_key ` set ts" using Cons.prems(1) by simp
    then have "last_write vc (item_key t) (rev (map (item_call vc x) ts)) = None" by (rule last_write_other)
    then show ?thesis using True by (simp add: last_write_append) (simp add: item_call_def)
  next
    case False
    then show ?thesis using Cons.IH [of "item_call vc x u # h"] Cons.prems by simp
  qed
qed simp

lemma write_items_calls:
  assumes "fw_keeps E vc"
  shows "write_items E vc ts x s = (0, s\<lparr>history := rev (map (item_call vc x) ts) @ history s\<rparr>)"
proof (induction ts arbitrary: s)
  case (Cons t ts)
  obtain k n p g where t: "t = (k, n, p, g)" by (cases t)
  have "a_ret (answer_of E (history s) (SYS_hvf (''hv_vcpu_write_'' @ (k @ n)) (vc # p x))) = 0"
    using assms unfolding fw_keeps_def by blast
  then show ?case using Cons by (simp add: t fw_call_def item_call_def item_key_def)
qed simp

lemma read_items_values:
  assumes "fw_keeps E vc" and "\<forall>t \<in> set ts. last_write vc (item_key t) (history s) = Some (fst (snd (snd t)) x)"
  shows "\<exists>s'. read_items E vc ts y s = (0, fold (\<lambda>t y. snd (snd (snd t)) (fst (snd (snd t)) x) y) ts y, s') \<and> io_only s s'"
  using assms(2)
proof (induction ts arbitrary: s y)
  case (Cons t ts)
  obtain k n p g where t: "t = (k, n, p, g)" by (cases t)
  let ?c = "SYS_hvf (''hv_vcpu_read_'' @ k @ n) [vc]"
  have a: "a_ret (answer_of E (history s) ?c) = 0" "a_words (answer_of E (history s) ?c) = p x"
    using assms(1) Cons.prems unfolding fw_keeps_def t by (auto simp: item_key_def)
  let ?s = "snd (fw_call E (''hv_vcpu_read_'' @ k @ n) [vc] s)"
  have "\<forall>t \<in> set ts. last_write vc (item_key t) (history ?s) = Some (fst (snd (snd t)) x)"
    using Cons.prems by simp
  from Cons.IH [OF this, of "g (p x) y"] obtain s' where
    "read_items E vc ts (g (p x) y) ?s = (0, fold (\<lambda>t y. snd (snd (snd t)) (fst (snd (snd t)) x) y) ts (g (p x) y), s')"
    "io_only ?s s'" by blast
  then show ?case using a io_only_trans [OF fw_call_io] by (auto simp: t case_prod_beta Let_def)
qed (simp add: frame_intros)

locale fw_table =
  fixes items :: "'x fw_item list" and merge :: "'x \<Rightarrow> 'x \<Rightarrow> 'x"
  assumes keys_distinct: "distinct (map item_key items)"
    and transfers: "fold (\<lambda>t y. snd (snd (snd t)) (fst (snd (snd t)) x) y) items y = merge x y"
begin

lemma write_then_read:
  assumes "fw_keeps E vc"
  shows "\<exists>s1 s2. write_items E vc items x s = (0, s1) \<and> read_items E vc items y s1 = (0, merge x y, s2)
     \<and> io_only s s1 \<and> io_only s1 s2"
proof -
  let ?s1 = "s\<lparr>history := rev (map (item_call vc x) items) @ history s\<rparr>"
  have "io_only s ?s1" by (simp add: io_only_def)
  then show ?thesis
    using write_items_calls [OF assms, of items x s] last_write_item [OF keys_distinct]
      read_items_values [OF assms, of items ?s1 x y] transfers by auto
qed

end

interpretation hr: fw_table hvf_regs_items "\<lambda>x y. x"
  by unfold_locales (simp_all add: hvf_regs_items_def reg_item_def item_key_def fw_word_def)

interpretation hs: fw_table hvf_sregs_items
  "\<lambda>x y. x\<lparr>sr_ldt := sr_ldt y, sr_tr := sr_tr y, sr_gdt := sr_gdt y, sr_idt := sr_idt y, sr_cr8 := sr_cr8 y,
     sr_efer := sr_efer y, sr_apic_base := sr_apic_base y\<rparr>"
  by unfold_locales (simp_all add: hvf_sregs_items_def reg_item_def seg_item_def item_key_def fw_word_def seg_words_def words_seg_def)

section \<open>Properties\<close>


definition ex_fw_env :: env where
  "ex_fw_env = ok_env\<lparr>answer_of := (\<lambda>h c. case c of
      SYS_hvf name (i # ws) \<Rightarrow>
        (answer_ok 0)\<lparr>a_words := (case last_write i (drop 13 name) h of None \<Rightarrow> [] | Some ws \<Rightarrow> ws)\<rparr>
    | _ \<Rightarrow> answer_ok 0)\<rparr>"

lemma ex_fw_keeps: "fw_keeps ex_fw_env 5"
  by (simp add: fw_keeps_def ex_fw_env_def ok_env_def answer_ok_def)


end
