(* ===== verification/Hvf_Arm64.thy ===== *)
theory Hvf_Arm64
  imports Hvf Vcpu
begin

text \<open>
  The backend for the Apple Hypervisor framework on arm64, \<^verbatim>\<open>src/hypervisor/hvf_arm64.c\<close>. The framework is
  the environment, as in \<open>Hvf\<close>. The exit information is memory of the framework: its address is
  handed out when a processor is created, \<open>hv_vcpu_run\<close> fills it, and it is not a block of the
  allocator, so that \<open>free\<close> of its address is undefined. The properties show what an exit becomes on its
  way through \<open>vcpu.c\<close> to the console, what the life of a processor handle leaves behind, and when
  the processor thread never ends.
\<close>

section \<open>Initialisation and machines\<close>

definition hvf_arm64_init :: "env \<Rightarrow> host \<Rightarrow> (int \<times> host) option" where
  "hvf_arm64_init E s =
     (let (a, s1) = fw_call E ''hv_vm_create'' [0] s in
      if a_ret a \<noteq> 0 then Some (-1, s1) else Some (0, snd (fw_call E ''hv_vm_destroy'' [] s1)))"

definition hvf_arm64_cleanup :: "host \<Rightarrow> host option" where
  "hvf_arm64_cleanup s = Some s"

definition hvf_arm64_create_vm :: "env \<Rightarrow> host \<Rightarrow> (ref \<times> host) option" where
  "hvf_arm64_create_vm E s =
     (let (vm, s1) = alloc E s in
      if vm = 0 then Some (0, s1)
      else
        let (data, s2) = alloc E (s1\<lparr>hv_vms := (hv_vms s1)(vm \<mapsto> zero_hv_vm)\<rparr>) in
        if data = 0 then do { s3 \<leftarrow> free_obj vm s2; Some (0, s3) }
        else
          let (a, s3) = fw_call E ''hv_vm_create'' [0] s2 in
          if a_ret a \<noteq> 0 then do { s4 \<leftarrow> free_obj vm s3; Some (0, s4) }
          else Some (vm, s3\<lparr>hv_vms := (hv_vms s3)(vm \<mapsto>
                 zero_hv_vm\<lparr>hv_ops_of := Hvf_arm64_ops, hv_fd := -1, hv_vm_created := 1\<rparr>)\<rparr>))"

definition hvf_arm64_destroy_vm :: "env \<Rightarrow> ref \<Rightarrow> host \<Rightarrow> host option" where
  "hvf_arm64_destroy_vm E vm s =
     (if vm = 0 then Some s
      else do {
        v \<leftarrow> hv_vms s vm;
        free_obj vm (if hv_vm_created v \<noteq> 0 then snd (fw_call E ''hv_vm_destroy'' [] s) else s) })"

definition hvf_arm64_vm_get_fd :: "ref \<Rightarrow> host \<Rightarrow> int option" where
  "hvf_arm64_vm_get_fd vm s = Some (-1)"

section \<open>Processors\<close>

text \<open>
  The exit information allocated first is replaced by the framework's when the processor is created;
  a failing call leaves the pointer.
\<close>

definition zero_exit_info :: hv_vcpu_exit_info where
  "zero_exit_info = \<lparr>xi_reason = 0, xi_syndrome = 0, xi_virtual_address = 0, xi_physical_address = 0\<rparr>"

definition hvf_arm64_create_vcpu :: "env \<Rightarrow> ref \<Rightarrow> int \<Rightarrow> host \<Rightarrow> (ref \<times> host) option" where
  "hvf_arm64_create_vcpu E vm index s =
     (let (vcpu, s1) = alloc E s in
      if vcpu = 0 then Some (0, s1)
      else
        let (data, s2) = alloc E (s1\<lparr>hv_vcpus := (hv_vcpus s1)(vcpu \<mapsto> zero_hv_vcpu)\<rparr>) in
        if data = 0 then do { s3 \<leftarrow> free_obj vcpu s2; Some (0, s3) }
        else
          let (info, s3) = calloc E 32 s2 in
          if info = NULL then do { s4 \<leftarrow> free_obj vcpu s3; Some (0, s4) }
          else
            let (cfg, s4) = fw_call E ''hv_vcpu_config_create'' [] s3 in
            if a_ret cfg = 0 then do { s5 \<leftarrow> free info s4; s6 \<leftarrow> free_obj vcpu s5; Some (0, s6) }
            else
              let (a, s5) = fw_call E ''hv_vcpu_create'' [of_int (a_ret cfg)] s4 in
              if a_ret a \<noteq> 0 then do { s6 \<leftarrow> free info s5; s7 \<leftarrow> free_obj vcpu s6; Some (0, s7) }
              else
                let b = next_ref s5 in
                Some (vcpu, s5\<lparr>next_ref := Suc b, fw_exits := (fw_exits s5)(b \<mapsto> zero_exit_info),
                  hv_vcpus := (hv_vcpus s5)(vcpu \<mapsto> zero_hv_vcpu\<lparr>hc_ops := Hvf_arm64_ops, hc_fd := -1, hc_vm := vm,
                     hc_index := index, hc_id := fw_word (a_words a) 0 0, hc_created := 1, hc_exit_info := Ptr b 0\<rparr>)\<rparr>))"

definition hvf_arm64_destroy_vcpu :: "env \<Rightarrow> ref \<Rightarrow> host \<Rightarrow> host option" where
  "hvf_arm64_destroy_vcpu E vcpu s =
     (if vcpu = 0 then Some s
      else do {
        c \<leftarrow> hv_vcpus s vcpu;
        let s1 = (if hc_created c \<noteq> 0
                  then (snd (fw_call E ''hv_vcpu_destroy'' [hc_id c] s))
                         \<lparr>fw_exits := (fw_exits s)(ptr_block (hc_exit_info c) := None)\<rparr>
                  else s);
        s2 \<leftarrow> (if hc_exit_info c \<noteq> NULL then free (hc_exit_info c) s1 else Some s1);
        free_obj vcpu s2 })"

definition hvf_arm64_vcpu_get_fd :: "ref \<Rightarrow> host \<Rightarrow> int option" where
  "hvf_arm64_vcpu_get_fd vcpu s = Some (-1)"

section \<open>Memory and running\<close>

definition hvf_arm64_map_mem :: "env \<Rightarrow> ref \<Rightarrow> hv_memory_slot \<Rightarrow> host \<Rightarrow> (int \<times> host) option" where
  "hvf_arm64_map_mem E vm slot s =
     (let (a, s1) = fw_call E ''hv_vm_map'' (ptr_words (ms_hva slot) @ [ms_gpa slot, ms_size slot, 1 OR 2 OR 4]) s in
      if a_ret a \<noteq> 0 then Some (-1, s1) else Some (0, s1))"

definition hvf_arm64_unmap_mem :: "ref \<Rightarrow> u32 \<Rightarrow> host \<Rightarrow> (int \<times> host) option" where
  "hvf_arm64_unmap_mem vm slot s = Some (0, s)"

text \<open>The words of the answer to \<open>hv_vcpu_run\<close> are what the framework wrote to its exit information.\<close>

definition exit_info_of :: "u64 list \<Rightarrow> hv_vcpu_exit_info" where
  "exit_info_of ws = \<lparr>xi_reason = ucast (fw_word ws 0 0), xi_syndrome = fw_word ws 1 0,
     xi_virtual_address = fw_word ws 2 0, xi_physical_address = fw_word ws 3 0\<rparr>"

definition hvf_arm64_run :: "env \<Rightarrow> ref \<Rightarrow> host \<Rightarrow> (int \<times> host) option" where
  "hvf_arm64_run E vcpu s =
     do {
       c \<leftarrow> hv_vcpus s vcpu;
       let (a, s1) = fw_call E ''hv_vcpu_run'' [hc_id c] (guest_runs E s);
       let s2 = s1\<lparr>fw_exits := (fw_exits s1)(ptr_block (hc_exit_info c) \<mapsto> exit_info_of (a_words a))\<rparr>;
       if a_ret a \<noteq> 0
       then (if a_ret a = HV_ERROR E then Some (-1, s2)
             else if a_ret a = HV_UNSUPPORTED E then Some (-1, s2) else Some (0, s2))
       else Some (0, s2) }"

definition hvf_arm64_get_exit :: "env \<Rightarrow> ref \<Rightarrow> hv_exit \<Rightarrow> host \<Rightarrow> (int \<times> hv_exit \<times> host) option" where
  "hvf_arm64_get_exit E vcpu ex s =
     do {
       c \<leftarrow> hv_vcpus s vcpu;
       if hc_exit_info c = NULL then Some (0, zero_exit\<lparr>ex_reason := HV_EXIT_HLT\<rparr>, s)
       else do {
         info \<leftarrow> fw_exits s (ptr_block (hc_exit_info c));
         if xi_reason info = HV_EXIT_REASON_CANCELED E then Some (0, zero_exit\<lparr>ex_reason := HV_EXIT_CANCELED\<rparr>, s)
         else if xi_reason info = HV_EXIT_REASON_EXCEPTION E then
           let (a, s1) = fw_call E ''hv_vcpu_get_reg HV_REG_PC'' [hc_id c] s;
               current_pc = fw_word (a_words a) 0 0 in
           if xi_virtual_address info \<noteq> 0 then
             let (b, s2) = fw_call E ''hv_vcpu_get_reg HV_REG_X0'' [hc_id c] s1;
                 x0_value = fw_word (a_words b) 0 0;
                 s3 = snd (fw_call E ''hv_vcpu_set_reg HV_REG_PC'' [hc_id c, current_pc + 4] s2) in
             Some (0, zero_exit\<lparr>ex_reason := HV_EXIT_MMIO,
                ex_mmio := \<lparr>mmio_addr = xi_physical_address info, mmio_size = 1, mmio_is_write = 1,
                            mmio_data = x0_value AND 0xFF\<rparr>\<rparr>, s3)
           else Some (0, zero_exit\<lparr>ex_reason := HV_EXIT_EXCEPTION\<rparr>, s1)
         else if xi_reason info = HV_EXIT_REASON_VTIMER_ACTIVATED E
         then Some (0, zero_exit\<lparr>ex_reason := HV_EXIT_VTIMER\<rparr>, s)
         else Some (0, zero_exit\<lparr>ex_reason := HV_EXIT_HLT\<rparr>, s) } }"

section \<open>Registers and interrupts\<close>

definition hvf_arm64_get_regs :: "ref \<Rightarrow> hv_regs \<Rightarrow> host \<Rightarrow> (int \<times> hv_regs \<times> host) option" where
  "hvf_arm64_get_regs vcpu regs s = Some (0, regs, s)"

text \<open>The loop over the general registers; a failure is only logged.\<close>

definition clear_general :: "env \<Rightarrow> u64 \<Rightarrow> host \<Rightarrow> host" where
  "clear_general E vc s =
     foldl (\<lambda>s i. snd (fw_call E ''hv_vcpu_set_reg HV_REG_X0 + i'' [vc, of_nat i, 0] s)) s [0..<31]"

definition hvf_arm64_set_regs :: "env \<Rightarrow> ref \<Rightarrow> hv_regs \<Rightarrow> host \<Rightarrow> (int \<times> host) option" where
  "hvf_arm64_set_regs E vcpu regs s =
     do {
       c \<leftarrow> hv_vcpus s vcpu;
       if hc_created c = 0 then Some (-1, s)
       else
         let (a, s1) = fw_call E ''hv_vcpu_set_reg HV_REG_CPSR'' [hc_id c, 0x3C5] s in
         if a_ret a \<noteq> 0 then Some (-1, s1)
         else
           let (b, s2) = fw_call E ''hv_vcpu_set_reg HV_REG_PC'' [hc_id c, rg_rip regs] s1 in
           if a_ret b \<noteq> 0 then Some (-1, s2)
           else
             let s3 = clear_general E (hc_id c) s2;
                 s4 = snd (fw_call E ''hv_vcpu_set_reg HV_REG_FP'' [hc_id c, 0x50000] s3);
                 s5 = snd (fw_call E ''hv_vcpu_set_sys_reg HV_SYS_REG_SP_EL1'' [hc_id c, 0x50000] s4) in
             Some (0, s5) }"

definition hvf_arm64_get_sregs :: "ref \<Rightarrow> hv_sregs \<Rightarrow> host \<Rightarrow> (int \<times> hv_sregs \<times> host) option" where
  "hvf_arm64_get_sregs vcpu sregs s = Some (0, sregs, s)"

definition hvf_arm64_set_sregs :: "ref \<Rightarrow> hv_sregs \<Rightarrow> host \<Rightarrow> (int \<times> host) option" where
  "hvf_arm64_set_sregs vcpu sregs s = Some (0, s)"

definition hvf_arm64_vcpu_exit :: "env \<Rightarrow> ref \<Rightarrow> host \<Rightarrow> (int \<times> host) option" where
  "hvf_arm64_vcpu_exit E vcpu s =
     (if vcpu = 0 then Some (-1, s)
      else do {
        c \<leftarrow> hv_vcpus s vcpu;
        if hc_created c = 0 then Some (-1, s)
        else let (a, s1) = fw_call E ''hv_vcpus_exit'' [hc_id c, 1] s in
             if a_ret a \<noteq> 0 then Some (-1, s1) else Some (0, s1) })"

definition hvf_arm64_irq_line :: "ref \<Rightarrow> int \<Rightarrow> int \<Rightarrow> host \<Rightarrow> (int \<times> host) option" where
  "hvf_arm64_irq_line vm irq level s = Some (0, s)"

definition hvf_arm64_ops :: "env \<Rightarrow> hv_ops" where
  "hvf_arm64_ops E = \<lparr>ho_init = Some (hvf_arm64_init E), ho_cleanup = Some hvf_arm64_cleanup,
     ho_create_vm = Some (hvf_arm64_create_vm E), ho_destroy_vm = Some (hvf_arm64_destroy_vm E),
     ho_vm_get_fd = Some hvf_arm64_vm_get_fd,
     ho_create_vcpu = Some (hvf_arm64_create_vcpu E), ho_destroy_vcpu = Some (hvf_arm64_destroy_vcpu E),
     ho_vcpu_get_fd = Some hvf_arm64_vcpu_get_fd, ho_vcpu_exit = Some (hvf_arm64_vcpu_exit E),
     ho_map_mem = Some (hvf_arm64_map_mem E), ho_unmap_mem = Some hvf_arm64_unmap_mem,
     ho_run = Some (hvf_arm64_run E), ho_get_exit = Some (hvf_arm64_get_exit E),
     ho_get_regs = Some hvf_arm64_get_regs, ho_set_regs = Some (hvf_arm64_set_regs E),
     ho_get_sregs = Some hvf_arm64_get_sregs, ho_set_sregs = Some hvf_arm64_set_sregs,
     ho_irq_line = Some hvf_arm64_irq_line\<rparr>"

text \<open>The tables of the build for Apple Silicon: this backend and the two stubs.\<close>

fun linked_arm64 :: "env \<Rightarrow> hv_linked" where
  "linked_arm64 E Kvm_ops = kvm_stub_ops"
| "linked_arm64 E Hvf_ops = hvf_stub_ops"
| "linked_arm64 E Hvf_arm64_ops = hvf_arm64_ops E"

section \<open>The contract of the layer\<close>

lemma run_framework_frame: "handler_frame s (snd (fw_call E name args (guest_runs E s))\<lparr>fw_exits := x\<rparr>)"
  using handler_frame_trans [OF guest_runs_frame io_only_frame [OF fw_call_io]] by (simp add: handler_frame_def)

lemma hvf_arm64_run_frame: "hvf_arm64_run E vcpu s = Some (ret, s') \<Longrightarrow> handler_frame s s'"
  using run_framework_frame
  by (auto simp: hvf_arm64_run_def Let_def case_prod_beta Option.bind_eq_Some_conv split: if_splits)

lemma fw_io: "io_only s0 s \<Longrightarrow> io_only s0 (snd (fw_call E name args s))"
  by (rule io_only_trans [OF _ fw_call_io])

lemma hvf_arm64_get_exit_io: "hvf_arm64_get_exit E vcpu ex s = Some (ret, ex', s') \<Longrightarrow> io_only s s'"
  by (auto simp: hvf_arm64_get_exit_def Let_def case_prod_beta Option.bind_eq_Some_conv split: if_splits
      intro!: fw_io io_only_refl)

interpretation al: hv_tables "linked_arm64 E" for E
proof
  fix b f s ret s'
  show "ho_init (linked_arm64 E b) = Some f \<Longrightarrow> f s = Some (ret, s') \<Longrightarrow> g_hv_ops s' = g_hv_ops s"
    by (cases b) (auto simp: hvf_arm64_ops_def stub_defs hvf_arm64_init_def fw_call_def split: if_splits)
next
  fix b g vm slot s ret s'
  show "ho_map_mem (linked_arm64 E b) = Some g \<Longrightarrow> g vm slot s = Some (ret, s') \<Longrightarrow> io_only s s'"
    by (cases b) (auto simp: hvf_arm64_ops_def stub_defs hvf_arm64_map_mem_def frame_intros fw_call_io case_prod_beta Let_def
        split: if_splits)
next
  fix b h vm n s ret s'
  show "ho_unmap_mem (linked_arm64 E b) = Some h \<Longrightarrow> h vm n s = Some (ret, s') \<Longrightarrow> io_only s s'"
    by (cases b) (auto simp: hvf_arm64_ops_def stub_defs hvf_arm64_unmap_mem_def frame_intros)
next
  fix b k vm irq level s ret s'
  show "ho_irq_line (linked_arm64 E b) = Some k \<Longrightarrow> k vm irq level s = Some (ret, s') \<Longrightarrow> io_only s s'"
    by (cases b) (auto simp: hvf_arm64_ops_def stub_defs hvf_arm64_irq_line_def frame_intros)
next
  fix b r vcpu s ret s'
  show "ho_run (linked_arm64 E b) = Some r \<Longrightarrow> r vcpu s = Some (ret, s') \<Longrightarrow> handler_frame s s'"
    by (cases b) (auto simp: hvf_arm64_ops_def stub_defs frame_intros dest: hvf_arm64_run_frame)
next
  fix b e vcpu ex s ret ex' s'
  show "ho_get_exit (linked_arm64 E b) = Some e \<Longrightarrow> e vcpu ex s = Some (ret, ex', s') \<Longrightarrow> io_only s s'"
    by (cases b) (auto simp: hvf_arm64_ops_def stub_defs frame_intros dest: hvf_arm64_get_exit_io)
qed

section \<open>A small machine\<close>

definition ex_arm_env :: env where
  "ex_arm_env = ok_env\<lparr>arch_of := AARCH64, os_of := MacOS,
     answer_of := (\<lambda>h c. if c = SYS_hvf ''hv_vcpu_config_create'' [] then answer_ok 1
        else if c = SYS_hvf ''hv_vcpu_get_reg HV_REG_X0'' [0] then (answer_ok 0)\<lparr>a_words := [0x141]\<rparr>
        else if c = SYS_hvf ''hv_vcpu_get_reg HV_REG_PC'' [0] then (answer_ok 0)\<lparr>a_words := [0x10000]\<rparr>
        else if c = SYS_hvf ''hv_vcpu_run'' [0] then answer_ok (HV_ERROR ok_env) else answer_ok 0)\<rparr>"

definition ex_arm_vcpu :: hv_vcpu where
  "ex_arm_vcpu = zero_hv_vcpu\<lparr>hc_ops := Hvf_arm64_ops, hc_fd := -1, hc_vm := 1, hc_created := 1, hc_exit_info := Ptr 11 0\<rparr>"

definition ex_arm_host :: host where
  "ex_arm_host = ex_cpu_host\<lparr>g_hv_ops := Some Hvf_arm64_ops, errno := EINTR, next_ref := 12,
     hv_vcpus := (\<lambda>_. None)(8 \<mapsto> ex_arm_vcpu),
     fw_exits := (\<lambda>_. None)(11 \<mapsto> \<lparr>xi_reason = 1, xi_syndrome = 0x93800007, xi_virtual_address = 0x90000000,
        xi_physical_address = 0x90000000\<rparr>)\<rparr>"

section \<open>Properties\<close>



lemma low_byte: "(ucast (x AND 0xFF :: u64) :: u8) = ucast x"
proof -
  have "x AND 0xFF = take_bit 8 x" by (simp add: take_bit_eq_mask mask_eq_exp_minus_1)
  then have "(ucast (x AND 0xFF) :: u8) = ucast (take_bit 8 x)" by simp
  also have "\<dots> = ucast x" by (rule bit_word_eqI) (simp add: bit_ucast_iff bit_take_bit_iff)
  finally show ?thesis .
qed

text \<open>
  C36: what the guest stores to the console on Apple Silicon. An exception at a device address is
  decoded as a one-byte write whatever the syndrome says of its kind, size and register: the low
  byte of X0 is printed and the program counter moved past the instruction.
\<close>

theorem arm64_guest_mmio_output:
  assumes "hv_vcpus s h = Some hc" and "hc_exit_info hc = Ptr b 0" and "b \<noteq> 0" and "fw_exits s b = Some info"
    and "xi_reason info = HV_EXIT_REASON_EXCEPTION E" and "HV_EXIT_REASON_CANCELED E \<noteq> HV_EXIT_REASON_EXCEPTION E"
    and "xi_virtual_address info \<noteq> 0" and "xi_physical_address info = d_gpa_start d"
    and "fst (fw_call E ''hv_vcpu_get_reg HV_REG_PC'' [hc_id hc] s) = apc" and "a_words apc = [pc]"
    and "fst (fw_call E ''hv_vcpu_get_reg HV_REG_X0'' [hc_id hc] (snd (fw_call E ''hv_vcpu_get_reg HV_REG_PC'' [hc_id hc] s))) = ax"
    and "a_words ax = [x0]"
    and "vcpus s r = Some c" and "vms s (c_vm c) = Some v" and "vm_find_device_at_gpa v (d_gpa_start d) s = Some q"
    and "q \<noteq> 0" and "console_live s q d u" and "d_ops d = Some Mmio_console_ops" and "\<not> u_dlab u"
  shows "\<exists>ex s1 s'. hvf_arm64_get_exit E h zero_exit s = Some (0, ex, s1)
     \<and> hd (history s1) = SYS_hvf ''hv_vcpu_set_reg HV_REG_PC'' [hc_id hc, pc + 4]
     \<and> vcpu_handle_exit (device_ops_of E) r ex s1 = Some (0, s') \<and> stdout_bytes s' = stdout_bytes s @ [ucast x0]"
proof -
  let ?m = "\<lparr>mmio_addr = d_gpa_start d, mmio_size = 1, mmio_is_write = 1, mmio_data = x0 AND 0xFF\<rparr>"
  let ?ex = "zero_exit\<lparr>ex_reason := HV_EXIT_MMIO, ex_mmio := ?m\<rparr>"
  obtain s1 where get: "hvf_arm64_get_exit E h zero_exit s = Some (0, ?ex, s1)"
    and hist: "hd (history s1) = SYS_hvf ''hv_vcpu_set_reg HV_REG_PC'' [hc_id hc, pc + 4]"
    using assms(1-12) by (auto simp: hvf_arm64_get_exit_def case_prod_beta Let_def fw_word_def)
  have io: "io_only s s1" by (rule hvf_arm64_get_exit_io [OF get])
  note heaps = io_only_heaps [OF io]
  have "\<exists>ys. le_bytes 8 (x0 AND 0xFF) = ucast x0 # ys"
    by (simp add: le_bytes_def upt_rec [of 0 8] low_byte)
  moreover have "vm_find_device_at_gpa v (d_gpa_start d) s1 = Some q"
    using assms(15) by (simp add: vm_find_device_at_gpa_def vm_find_device_eq heaps cong: find_device_cong)
  moreover have "console_live s1 q d u" using assms(17) by (simp add: console_live_def heaps)
  ultimately have "\<exists>s'. vcpu_handle_exit (device_ops_of E) r ?ex s1 = Some (0, s') \<and> stdout_bytes s' = stdout_bytes s1 @ [ucast x0]"
    using console_exit_prints [of ?ex d "ucast x0" _ s1 r c v q u E] assms(13,14,16,18,19) heaps by auto
  then show ?thesis using get hist heaps(7) by auto
qed

theorem arm64_guest_mmio_output_witness:
  "\<exists>ex s1 s'. hvf_arm64_get_exit ex_arm_env 8 zero_exit ex_arm_host = Some (0, ex, s1)
     \<and> hd (history s1) = SYS_hvf ''hv_vcpu_set_reg HV_REG_PC'' [0, 0x10004]
     \<and> vcpu_handle_exit (device_ops_of ex_arm_env) 7 ex s1 = Some (0, s') \<and> stdout_bytes s' = [0x41]"
proof -
  let ?d = "ex_console_dev\<lparr>d_data := 6, d_vm := 2\<rparr>"
  let ?info = "\<lparr>xi_reason = 1, xi_syndrome = 0x93800007, xi_virtual_address = 0x90000000, xi_physical_address = 0x90000000\<rparr>"
  let ?apc = "(answer_ok 0)\<lparr>a_words := [0x10000]\<rparr>" and ?ax = "(answer_ok 0)\<lparr>a_words := [0x141]\<rparr>"
  have s: "hv_vcpus ex_arm_host 8 = Some ex_arm_vcpu" "fw_exits ex_arm_host 11 = Some ?info"
    "vcpus ex_arm_host 7 = Some (zero_vcpu\<lparr>c_hv_vcpu := 8, c_vm := 2\<rparr>)" "vms ex_arm_host 2 = Some ex_dt_vm"
    "stdout_bytes ex_arm_host = []" "console_live ex_arm_host 5 ?d (uart_init 0)"
    using ex_exit_host(4,5,6) [of "[]"] by (simp_all add: ex_arm_host_def ex_cpu_host_def ex_exit_host_def console_live_def)
  have e: "HV_EXIT_REASON_CANCELED ex_arm_env = 0" "HV_EXIT_REASON_EXCEPTION ex_arm_env = 1" "hc_id ex_arm_vcpu = 0"
    "hc_exit_info ex_arm_vcpu = Ptr 11 0"
    by (simp_all add: ex_arm_env_def ok_env_def ex_arm_vcpu_def zero_hv_vcpu_def)
  have d: "d_gpa_start ?d = 0x90000000" "d_ops ?d = Some Mmio_console_ops" "\<not> u_dlab (uart_init 0)"
    by (simp_all add: ex_console_dev_def uart_init_def zero_uart_def)
  have "vm_find_device_at_gpa ex_dt_vm 0x90000000 ex_arm_host = Some 5"
    using s(6) ex_dt_registered by (simp add: vm_find_device_at_gpa_def registered_def console_live_def ex_console_dev_def)
  then show ?thesis
    using arm64_guest_mmio_output [OF s(1) e(4) _ s(2), of ex_arm_env ?d ?apc "0x10000" ?ax "0x141" 7 _ ex_dt_vm 5 "uart_init 0"]
      s e d by (auto simp: ex_arm_env_def answer_ok_def)
qed

text \<open>
  C37: a failing run can make the thread spin for ever. The framework reports errors in its result
  and never sets \<open>errno\<close>; when an earlier call left \<open>EINTR\<close> there and the framework keeps answering
  \<open>HV_ERROR\<close>, the thread repeats the call without end: no number of iterations is enough, and no
  exit is counted towards the limit.
\<close>

theorem hvf_stale_errno_spins:
  assumes "g_hv_ops s = Some Hvf_arm64_ops" and "vcpus s r = Some c" and "\<not> c_should_stop c"
    and "hv_vcpus s (c_hv_vcpu c) = Some hc" and "errno s = EINTR" and "HV_ERROR E \<noteq> 0"
    and "\<forall>h. a_ret (answer_of E h (SYS_hvf ''hv_vcpu_run'' [hc_id hc])) = HV_ERROR E"
  shows "\<exists>s'. vcpu_thread_loop (linked_arm64 E) tbl n r s = Some (False, s') \<and> vcpus s' r = Some c"
  using assms(1-5)
proof (induction n arbitrary: s)
  case (Suc n)
  obtain s1 where it: "vcpu_run (linked_arm64 E) r s = Some (-1, s1)" and e: "errno s1 = EINTR"
    and fr: "handler_frame s s1"
    using Suc.prems assms(6,7) hvf_arm64_run_frame [of E "c_hv_vcpu c" s]
    by (auto simp: vcpu_run_def hv_run_def cur_op_def hvf_arm64_ops_def hvf_arm64_run_def fw_call_def guest_runs_def Let_def)
  have "vcpu_iteration (linked_arm64 E) tbl r s = Some (Again, s1)" using it e by (simp add: vcpu_iteration_def)
  moreover have "\<exists>s'. vcpu_thread_loop (linked_arm64 E) tbl n r s1 = Some (False, s') \<and> vcpus s' r = Some c"
    using Suc.IH [of s1] Suc.prems fr e by (simp add: handler_frame_def)
  ultimately show ?case using Suc.prems(2,3) by simp
qed simp

theorem hvf_stale_errno_spins_witness:
  "\<exists>s'. vcpu_thread_loop (linked_arm64 ex_arm_env) (device_ops_of ex_arm_env) 1000000 7 ex_arm_host = Some (False, s')"
proof -
  have "g_hv_ops ex_arm_host = Some Hvf_arm64_ops" "vcpus ex_arm_host 7 = Some (zero_vcpu\<lparr>c_hv_vcpu := 8, c_vm := 2\<rparr>)"
    "hv_vcpus ex_arm_host 8 = Some ex_arm_vcpu" "errno ex_arm_host = EINTR"
    by (simp_all add: ex_arm_host_def ex_cpu_host_def)
  moreover have "\<forall>h. a_ret (answer_of ex_arm_env h (SYS_hvf ''hv_vcpu_run'' [hc_id ex_arm_vcpu])) = HV_ERROR ex_arm_env"
    and "HV_ERROR ex_arm_env \<noteq> 0"
    by (simp_all add: ex_arm_env_def ok_env_def answer_ok_def ex_arm_vcpu_def zero_hv_vcpu_def)
  ultimately show ?thesis
    using hvf_stale_errno_spins [of ex_arm_host 7 "zero_vcpu\<lparr>c_hv_vcpu := 8, c_vm := 2\<rparr>" ex_arm_vcpu ex_arm_env
        "device_ops_of ex_arm_env" 1000000] by (auto simp: zero_vcpu_def)
qed

end
