(* ===== verification/Layout.thy ===== *)
theory Layout
  imports Prelude
begin

text \<open>
  How a C compiler lays out structures in memory. A type is a scalar of a given size, aligned to
  that size, an array, a structure, a union, or a structure declared packed; a member is found by
  its name. \<open>ioctl_number\<close> is the encoding of request numbers by the macros \<open>_IO\<close>, \<open>_IOR\<close>, \<open>_IOW\<close> and \<open>_IOWR\<close>, which
  contain the size of the argument. The theory \<open>Abi\<close> holds the structures of the program.
\<close>

datatype ctype =
    Scalar nat
  | Array ctype nat
  | Struct members
  | CUnion members
  | Packed members
and members = End | Member string ctype members

abbreviation U8 :: ctype where "U8 \<equiv> Scalar 1"
abbreviation U16 :: ctype where "U16 \<equiv> Scalar 2"
abbreviation U32 :: ctype where "U32 \<equiv> Scalar 4"
abbreviation U64 :: ctype where "U64 \<equiv> Scalar 8"

text \<open>A list of declarations as the members of a structure.\<close>

definition decl :: "(string \<times> ctype) list \<Rightarrow> members" where
  "decl ds = foldr (\<lambda>(n, t). Member n t) ds End"

definition round_up :: "nat \<Rightarrow> nat \<Rightarrow> nat" where
  "round_up n a = (n + a - 1) div a * a"

primrec align_of :: "ctype \<Rightarrow> nat" and aligns_of :: "members \<Rightarrow> nat" where
  "align_of (Scalar n) = n"
| "align_of (Array t n) = align_of t"
| "align_of (Struct ms) = aligns_of ms"
| "align_of (CUnion ms) = aligns_of ms"
| "align_of (Packed ms) = 1"
| "aligns_of End = 1"
| "aligns_of (Member n t ms) = max (align_of t) (aligns_of ms)"

text \<open>
  The size of a type; the end of the members of a structure that are placed from an offset on; the
  largest member of a union; the sum of the members of a packed structure.
\<close>

fun size_of :: "ctype \<Rightarrow> nat" and end_of :: "members \<Rightarrow> nat \<Rightarrow> nat" and widest :: "members \<Rightarrow> nat"
  and sum_of :: "members \<Rightarrow> nat" where
  "size_of (Scalar n) = n"
| "size_of (Array t n) = size_of t * n"
| "size_of (Struct ms) = round_up (end_of ms 0) (aligns_of ms)"
| "size_of (CUnion ms) = round_up (widest ms) (aligns_of ms)"
| "size_of (Packed ms) = sum_of ms"
| "end_of End off = off"
| "end_of (Member n t ms) off = end_of ms (round_up off (align_of t) + size_of t)"
| "widest End = 0"
| "widest (Member n t ms) = max (size_of t) (widest ms)"
| "sum_of End = 0"
| "sum_of (Member n t ms) = size_of t + sum_of ms"

fun in_struct :: "members \<Rightarrow> nat \<Rightarrow> string \<Rightarrow> (nat \<times> ctype) option" where
  "in_struct End off m = None"
| "in_struct (Member n t ms) off m =
     (if n = m then Some (round_up off (align_of t), t) else in_struct ms (round_up off (align_of t) + size_of t) m)"

fun in_packed :: "members \<Rightarrow> nat \<Rightarrow> string \<Rightarrow> (nat \<times> ctype) option" where
  "in_packed End off m = None"
| "in_packed (Member n t ms) off m = (if n = m then Some (off, t) else in_packed ms (off + size_of t) m)"

fun in_union :: "members \<Rightarrow> string \<Rightarrow> (nat \<times> ctype) option" where
  "in_union End m = None"
| "in_union (Member n t ms) m = (if n = m then Some (0, t) else in_union ms m)"

fun member_of :: "ctype \<Rightarrow> string \<Rightarrow> (nat \<times> ctype) option" where
  "member_of (Struct ms) m = in_struct ms 0 m"
| "member_of (Packed ms) m = in_packed ms 0 m"
| "member_of (CUnion ms) m = in_union ms m"
| "member_of t m = None"

text \<open>The offset and the type of a member of a member.\<close>

fun locate :: "ctype \<Rightarrow> string list \<Rightarrow> (nat \<times> ctype) option" where
  "locate t [] = Some (0, t)"
| "locate t (m # path) =
     (case member_of t m of None \<Rightarrow> None
      | Some (off, u) \<Rightarrow> map_option (\<lambda>(off', u'). (off + off', u')) (locate u path))"

definition offset_of :: "ctype \<Rightarrow> string list \<Rightarrow> nat" where
  "offset_of t path = (case locate t path of Some (off, u) \<Rightarrow> off | None \<Rightarrow> 0)"

text \<open>Request numbers: direction, size of the argument, type and number.\<close>

datatype ioc_dir = IOC_NONE | IOC_WRITE | IOC_READ | IOC_READ_WRITE

fun dir_bits :: "ioc_dir \<Rightarrow> nat" where
  "dir_bits IOC_NONE = 0"
| "dir_bits IOC_WRITE = 1"
| "dir_bits IOC_READ = 2"
| "dir_bits IOC_READ_WRITE = 3"

definition ioctl_number :: "ioc_dir \<Rightarrow> nat \<Rightarrow> nat \<Rightarrow> nat \<Rightarrow> nat" where
  "ioctl_number dir type nr sz = dir_bits dir * 2 ^ 30 + sz * 2 ^ 16 + type * 2 ^ 8 + nr"

section \<open>Members lie inside their structure\<close>

text \<open>Types without empty scalars.\<close>

primrec sound :: "ctype \<Rightarrow> bool" and sounds :: "members \<Rightarrow> bool" where
  "sound (Scalar n) = (0 < n)"
| "sound (Array t n) = sound t"
| "sound (Struct ms) = sounds ms"
| "sound (CUnion ms) = sounds ms"
| "sound (Packed ms) = sounds ms"
| "sounds End = True"
| "sounds (Member n t ms) = (sound t \<and> sounds ms)"

lemma round_up_ge:
  assumes "0 < a"
  shows "n \<le> round_up n a"
proof -
  have "n + a - 1 < ((n + a - 1) div a + 1) * a" using assms by (simp add: dividend_less_div_times)
  then show ?thesis using assms by (simp add: round_up_def)
qed

lemma align_pos: "sound t \<Longrightarrow> 0 < align_of t" "0 < aligns_of ms"
  by (induction t and ms) auto

lemma end_of_ge: "sounds ms \<Longrightarrow> off \<le> end_of ms off"
proof (induction ms arbitrary: off rule: members.induct [where ?P1.0 = "\<lambda>_. True"])
  case (Member n t ms)
  have "off \<le> round_up off (align_of t) + size_of t"
    using round_up_ge [OF align_pos(1)] Member.prems by (simp add: trans_le_add1)
  then show ?case using Member.IH [of "round_up off (align_of t) + size_of t"] Member.prems by simp
qed simp_all

lemma in_struct_inside: "in_struct ms off m = Some (o', u) \<Longrightarrow> sounds ms \<Longrightarrow> o' + size_of u \<le> end_of ms off \<and> sound u"
  by (induction ms off m rule: in_struct.induct) (auto simp: end_of_ge split: if_splits)

lemma in_packed_inside: "in_packed ms off m = Some (o', u) \<Longrightarrow> sounds ms \<Longrightarrow> o' + size_of u \<le> off + sum_of ms \<and> sound u"
  by (induction ms off m rule: in_packed.induct) (auto split: if_splits)

lemma in_union_inside: "in_union ms m = Some (o', u) \<Longrightarrow> sounds ms \<Longrightarrow> o' + size_of u \<le> widest ms \<and> sound u"
  by (induction ms m rule: in_union.induct) (auto split: if_splits)

lemma member_inside:
  assumes "member_of t m = Some (off, u)" and "sound t"
  shows "off + size_of u \<le> size_of t \<and> sound u"
proof (cases t)
  case (Struct ms)
  then show ?thesis
    using assms in_struct_inside [of ms 0 m off u] round_up_ge [OF align_pos(2) [of ms], of "end_of ms 0"] by simp
next
  case (CUnion ms)
  then show ?thesis
    using assms in_union_inside [of ms m off u] round_up_ge [OF align_pos(2) [of ms], of "widest ms"] by simp
next
  case (Packed ms)
  then show ?thesis using assms in_packed_inside [of ms 0 m off u] by simp
qed (use assms in simp_all)

lemma locate_inside:
  assumes "locate t path = Some (off, u)" and "sound t"
  shows "off + size_of u \<le> size_of t"
  using assms
proof (induction t path arbitrary: off rule: locate.induct)
  case (2 t m path)
  obtain o1 u1 o2 where m: "member_of t m = Some (o1, u1)" and l: "locate u1 path = Some (o2, u)" "off = o1 + o2"
    using "2.prems"(1) by (auto split: option.splits)
  show ?case using "2.IH" [OF m refl l(1)] member_inside [OF m "2.prems"(2)] l(2) by simp
qed simp

lemmas locate_simps = locate.simps

declare locate.simps [simp del]

end
