(* ===== verification/Abi.thy ===== *)
theory Abi
  imports Layout Kvm Virtio_Blk Virtio_Net Boot
begin

text \<open>
  The structures the program shares with the kernel and with the guest, as \<^verbatim>\<open>src/hypervisor/kvm.c\<close>,
  \<^verbatim>\<open>src/vfio.c\<close>, \<^verbatim>\<open>src/boot.c\<close>, \<^verbatim>\<open>include/virtio.h\<close>, \<^verbatim>\<open>include/vfio.h\<close> and \<^verbatim>\<open>include/boot.h\<close> declare them. The other theories read and write
  members at numbers; here these numbers are shown to be where a compiler places the members. The
  sizes also enter the request numbers of the ioctls, which the other theories name by strings.
\<close>

section \<open>Reading a member by its name\<close>

definition read_member :: "ctype \<Rightarrow> string list \<Rightarrow> host \<Rightarrow> ptr \<Rightarrow> 'a::len word option" where
  "read_member t path s p =
     (case locate t path of None \<Rightarrow> None | Some (off, u) \<Rightarrow> load_word s (ptr_add p (of_nat off)) (size_of u))"

lemma ptr_add_zero [simp]: "ptr_add p 0 = p"
  by (cases p) simp

section \<open>The run area\<close>

definition kvm_run_layout :: ctype where
  "kvm_run_layout = Struct (decl
     [(''request_interrupt_window'', U8), (''padding1'', Array U8 7), (''exit_reason'', U32),
      (''ready_for_interrupt_injection'', U8), (''if_flag'', U8), (''padding2'', Array U8 2),
      (''u'', CUnion (decl
        [(''mmio'', Struct (decl [(''phys_addr'', U64), (''data'', Array U8 8), (''len'', U32), (''is_write'', U8)])),
         (''mmio_ex'', Struct (decl [(''phys_addr'', U64), (''data'', U64), (''len'', U32), (''is_write'', U8)])),
         (''io'', Struct (decl [(''direction'', U16), (''size'', U16), (''port'', U16), (''count'', U16), (''data_offset'', U64)])),
         (''internal'', Struct (decl
            [(''data'', Array (Struct (decl [(''addr'', U64), (''length'', U64), (''is_write'', U8)])) 2),
             (''ndata'', U32), (''flags'', U32)]))]))])"

lemmas layout_simps = decl_def round_up_def locate_simps

lemma run_members:
  "locate kvm_run_layout [''exit_reason''] = Some (8, U32)"
  "locate kvm_run_layout [''u'', ''io'', ''direction''] = Some (16, U16)"
  "locate kvm_run_layout [''u'', ''io'', ''size''] = Some (18, U16)"
  "locate kvm_run_layout [''u'', ''io'', ''port''] = Some (20, U16)"
  "locate kvm_run_layout [''u'', ''io'', ''data_offset''] = Some (24, U64)"
  "locate kvm_run_layout [''u'', ''mmio'', ''phys_addr''] = Some (16, U64)"
  "locate kvm_run_layout [''u'', ''mmio'', ''data''] = Some (24, Array U8 8)"
  "locate kvm_run_layout [''u'', ''mmio'', ''len''] = Some (32, U32)"
  "locate kvm_run_layout [''u'', ''mmio'', ''is_write''] = Some (36, U8)"
  "locate kvm_run_layout [''u'', ''internal'', ''ndata''] = Some (64, U32)"
  "size_of kvm_run_layout = 72"
  by (simp_all add: kvm_run_layout_def layout_simps)

text \<open>The decoder of exits with every access to the run area by name.\<close>

definition exit_by_name :: "u32 \<Rightarrow> ptr \<Rightarrow> host \<Rightarrow> hv_exit option" where
  "exit_by_name r run s =
     (let ex0 = zero_exit\<lparr>ex_reason := kvm_convert_exit_reason r\<rparr>;
          member = (\<lambda>path. [''u''] @ path) in
      if r = 2 then
        do {
          dir \<leftarrow> read_member kvm_run_layout (member [''io'', ''direction'']) s run :: u16 option;
          sz \<leftarrow> read_member kvm_run_layout (member [''io'', ''size'']) s run :: u16 option;
          port \<leftarrow> read_member kvm_run_layout (member [''io'', ''port'']) s run;
          data \<leftarrow> (if dir = 0
            then do { off \<leftarrow> read_member kvm_run_layout (member [''io'', ''data_offset'']) s run;
                      bs \<leftarrow> load s (ptr_add run off) (unat sz);
                      if unat sz \<le> 16 then Some (le_word (take 4 bs)) else None }
            else Some 0);
          Some (ex0\<lparr>ex_io := \<lparr>io_port = port, io_size = ucast sz,
                  io_direction = (if dir = 0 then HV_IO_IN else HV_IO_OUT), io_data = data\<rparr>\<rparr>) }
      else if r = 6 then
        do {
          addr \<leftarrow> read_member kvm_run_layout (member [''mmio'', ''phys_addr'']) s run;
          len \<leftarrow> read_member kvm_run_layout (member [''mmio'', ''len'']) s run :: u32 option;
          w \<leftarrow> read_member kvm_run_layout (member [''mmio'', ''is_write'']) s run :: u8 option;
          data \<leftarrow> (if w \<noteq> 0
            then (if unat len \<le> 8
                  then map_option le_word
                    (load s (ptr_add run (of_nat (offset_of kvm_run_layout (member [''mmio'', ''data''])))) (unat len))
                  else None)
            else Some 0);
          Some (ex0\<lparr>ex_mmio := \<lparr>mmio_addr = addr, mmio_size = ucast len, mmio_is_write = uint w, mmio_data = data\<rparr>\<rparr>) }
      else if r = 9 then do { x \<leftarrow> load_word s run 8; Some (ex0\<lparr>ex_error_code := x\<rparr>) }
      else if r = 17 then
        do { x \<leftarrow> read_member kvm_run_layout (member [''internal'', ''ndata'']) s run;
             Some (ex0\<lparr>ex_error_code := ucast (x :: u32)\<rparr>) }
      else Some ex0)"

section \<open>Structures in guest memory\<close>

definition vring_desc_layout :: ctype where
  "vring_desc_layout = Struct (decl [(''addr'', U64), (''len'', U32), (''flags'', U16), (''next'', U16)])"

text \<open>The rings at the ends have no size of their own.\<close>

definition vring_avail_layout :: ctype where
  "vring_avail_layout = Struct (decl [(''flags'', U16), (''idx'', U16), (''ring'', Array U16 0)])"

definition vring_used_elem_layout :: ctype where
  "vring_used_elem_layout = Struct (decl [(''id'', U32), (''len'', U32)])"

definition vring_used_layout :: ctype where
  "vring_used_layout = Struct (decl [(''flags'', U16), (''idx'', U16), (''ring'', Array vring_used_elem_layout 0)])"

definition virtio_blk_req_layout :: ctype where
  "virtio_blk_req_layout = Struct (decl [(''type'', U32), (''ioprio'', U32), (''sector'', U64)])"

definition virtio_blk_config_layout :: ctype where
  "virtio_blk_config_layout = Packed (decl
     [(''capacity'', U64), (''size_max'', U32), (''seg_max'', U32),
      (''geometry'', Struct (decl [(''cylinders'', U16), (''heads'', U8), (''sectors'', U8)])), (''blk_size'', U32)])"

definition virtio_net_hdr_layout :: ctype where
  "virtio_net_hdr_layout = Struct (decl
     [(''flags'', U8), (''gso_type'', U8), (''hdr_len'', U16), (''gso_size'', U16), (''csum_start'', U16), (''csum_offset'', U16)])"

definition linux_header_layout :: ctype where
  "linux_header_layout = Packed (decl
     [(''setup_sects'', U8), (''root_flags'', U16), (''syssize'', U32), (''ram_size'', U16), (''vid_mode'', U16),
      (''root_dev'', U16), (''boot_flag'', U16), (''jump'', U16), (''header'', U32), (''version'', U16),
      (''realmode_swtch'', U32), (''start_sys_seg'', U16), (''kernel_version'', U16), (''type_of_loader'', U8),
      (''loadflags'', U8), (''setup_move_size'', U16), (''code32_start'', U32), (''ramdisk_image'', U32),
      (''ramdisk_size'', U32), (''bootsect_kludge'', U32), (''heap_end_ptr'', U16), (''pad1'', U16),
      (''cmd_line_ptr'', U32), (''initrd_addr_max'', U32), (''kernel_alignment'', U32), (''relocatable_kernel'', U8),
      (''min_alignment'', U8), (''xloadflags'', U16), (''cmdline_size'', U32)])"

definition e820_entry_layout :: ctype where
  "e820_entry_layout = Packed (decl [(''addr'', U64), (''size'', U64), (''type'', U32)])"

section \<open>Request numbers\<close>

definition kvm_regs_layout :: ctype where
  "kvm_regs_layout = Struct (decl (map (\<lambda>r. (r, U64))
     [''rax'', ''rbx'', ''rcx'', ''rdx'', ''rsi'', ''rdi'', ''rsp'', ''rbp'', ''r8'', ''r9'', ''r10'', ''r11'', ''r12'', ''r13'',
      ''r14'', ''r15'', ''rip'', ''rflags'']))"

definition kvm_sregs_layout :: ctype where
  "kvm_sregs_layout =
     (let seg = Struct (decl [(''base'', U64), (''limit'', U32), (''selector'', U16), (''ar'', U16)]);
          tab = Struct (decl [(''base'', U64), (''limit'', U32), (''ar'', U32)]) in
      Struct (decl (map (\<lambda>r. (r, seg)) [''cs'', ''ds'', ''es'', ''fs'', ''gs'', ''ss'', ''ldt'', ''tr'']
        @ map (\<lambda>r. (r, tab)) [''gdt'', ''idt'']
        @ map (\<lambda>r. (r, U64)) [''cr0'', ''cr2'', ''cr3'', ''cr4'', ''cr8'', ''efer'', ''apic_base'']
        @ [(''interrupt_bitmap'', Array U64 16)])))"

definition kvm_userspace_memory_region_layout :: ctype where
  "kvm_userspace_memory_region_layout = Struct (decl
     [(''slot'', U32), (''flags'', U32), (''guest_phys_addr'', U64), (''memory_size'', U64), (''userspace_addr'', U64)])"

definition kvm_irq_level_layout :: ctype where
  "kvm_irq_level_layout = Struct (decl [('''', CUnion (decl [(''irq'', U32), (''status'', U32)])), (''level'', U32)])"

definition KVMIO :: nat where "KVMIO = 0xAE"
definition VFIO_TYPE :: nat where "VFIO_TYPE = 0xAF"
definition VFIO_BASE :: nat where "VFIO_BASE = 0"

definition kvm_requests :: "(string \<times> nat) list" where
  "kvm_requests =
     [(''KVM_GET_API_VERSION'', ioctl_number IOC_NONE KVMIO 0x00 0), (''KVM_CREATE_VM'', ioctl_number IOC_NONE KVMIO 0x01 0),
      (''KVM_GET_VCPU_MMAP_SIZE'', ioctl_number IOC_NONE KVMIO 0x04 0), (''KVM_CREATE_VCPU'', ioctl_number IOC_NONE KVMIO 0x41 0),
      (''KVM_GET_REGS'', ioctl_number IOC_READ KVMIO 0x81 (size_of kvm_regs_layout)),
      (''KVM_SET_REGS'', ioctl_number IOC_WRITE KVMIO 0x82 (size_of kvm_regs_layout)),
      (''KVM_GET_SREGS'', ioctl_number IOC_READ KVMIO 0x83 (size_of kvm_sregs_layout)),
      (''KVM_SET_SREGS'', ioctl_number IOC_WRITE KVMIO 0x84 (size_of kvm_sregs_layout)),
      (''KVM_RUN'', ioctl_number IOC_NONE KVMIO 0x80 0),
      (''KVM_SET_USER_MEMORY_REGION'', ioctl_number IOC_WRITE KVMIO 0x46 (size_of kvm_userspace_memory_region_layout)),
      (''KVM_IRQ_LINE'', ioctl_number IOC_WRITE KVMIO 0x61 (size_of kvm_irq_level_layout))]"

text \<open>The structures of the VFIO requests; a pointer has eight bytes, an \<open>int\<close> four.\<close>

definition vfio_group_status_layout :: ctype where
  "vfio_group_status_layout = Struct (decl [(''argsz'', U32), (''flags'', U32)])"

definition vfio_device_info_layout :: ctype where
  "vfio_device_info_layout = Struct (decl [(''argsz'', U32), (''flags'', U32), (''num_regions'', U32), (''num_irqs'', U32)])"

definition vfio_region_info_layout :: ctype where
  "vfio_region_info_layout = Struct (decl
     [(''argsz'', U32), (''flags'', U32), (''index'', U32), (''cap_offset'', U32), (''size'', U64), (''offset'', U64)])"

definition vfio_irq_info_layout :: ctype where
  "vfio_irq_info_layout = Struct (decl [(''argsz'', U32), (''flags'', U32), (''index'', U32), (''count'', U32)])"

definition vfio_irq_set_layout :: ctype where
  "vfio_irq_set_layout = Struct (decl
     [(''argsz'', U32), (''flags'', U32), (''index'', U32), (''start'', U32), (''count'', U32), (''fd'', U32)])"

definition vfio_requests :: "(string \<times> nat) list" where
  "vfio_requests =
     (let req = (\<lambda>name dir nr t. (name, ioctl_number dir VFIO_TYPE (VFIO_BASE + nr) t)) in
      [req ''VFIO_GET_API_VERSION'' IOC_NONE 0 0, req ''VFIO_CHECK_EXTENSION'' IOC_NONE 1 0, req ''VFIO_SET_IOMMU'' IOC_NONE 2 0,
       req ''VFIO_GROUP_GET_STATUS'' IOC_READ 3 (size_of vfio_group_status_layout),
       req ''VFIO_GROUP_SET_CONTAINER'' IOC_WRITE 4 (size_of U32), req ''VFIO_GROUP_UNSET_CONTAINER'' IOC_WRITE 5 (size_of U32),
       req ''VFIO_GROUP_GET_DEVICE_FD'' IOC_WRITE 6 (size_of U64),
       req ''VFIO_DEVICE_GET_INFO'' IOC_READ 7 (size_of vfio_device_info_layout),
       req ''VFIO_DEVICE_GET_REGION_INFO'' IOC_READ_WRITE 8 (size_of vfio_region_info_layout),
       req ''VFIO_DEVICE_GET_IRQ_INFO'' IOC_READ_WRITE 9 (size_of vfio_irq_info_layout),
       req ''VFIO_DEVICE_SET_IRQS'' IOC_WRITE 10 (size_of vfio_irq_set_layout)])"

section \<open>Properties\<close>

lemma run_area_inside:
  assumes "locate kvm_run_layout path = Some (off, u)"
  shows "off + size_of u \<le> 72"
proof -
  have "sound kvm_run_layout" by (simp add: kvm_run_layout_def decl_def)
  then show ?thesis using locate_inside [OF assms] run_members(11) by simp
qed

lemma exit_by_name_eq:
  "exit_by_name r run s =
     (let ex0 = zero_exit\<lparr>ex_reason := kvm_convert_exit_reason r\<rparr> in
      if r = 2 then do { x \<leftarrow> kvm_exit_io s run; Some (ex0\<lparr>ex_io := x\<rparr>) }
      else if r = 6 then do { x \<leftarrow> kvm_exit_mmio s run; Some (ex0\<lparr>ex_mmio := x\<rparr>) }
      else if r = 9 then do { x \<leftarrow> load_word s run 8; Some (ex0\<lparr>ex_error_code := x\<rparr>) }
      else if r = 17 then do { x \<leftarrow> load_word s (ptr_add run 64) 4; Some (ex0\<lparr>ex_error_code := ucast (x :: u32)\<rparr>) }
      else Some ex0)"
  by (simp add: exit_by_name_def kvm_exit_io_def kvm_exit_mmio_def read_member_def offset_of_def run_members Let_def
      Option.bind_assoc cong: if_cong)




text \<open>
  An MMIO exit as the kernel lays it out: the task priority \<open>cr8\<close> at 16 and the APIC base at 24 come first,
  the guest address follows at 32.
\<close>

definition kernel_mmio_area :: "u8 list \<Rightarrow> u64 \<Rightarrow> u64 \<Rightarrow> bool" where
  "kernel_mmio_area bs cr8 gpa \<longleftrightarrow> 4096 \<le> length bs \<and> le_word (subrange bs 8 4) = (6 :: u32)
     \<and> le_word (subrange bs 16 8) = cr8 \<and> le_word (subrange bs 32 8) = gpa"

lemma le_word_inside:
  assumes "off + n \<le> m" and "i + m \<le> length bs" and "8 * n = LENGTH('a::len)" and "8 * m = LENGTH('b::len)"
  shows "le_word (subrange bs (i + off) n) = (ucast (drop_bit (8 * off) (le_word (subrange bs i m) :: 'b word)) :: 'a word)"
proof (rule bit_word_eqI)
  fix k
  assume k: "k < LENGTH('a)"
  then have "k div 8 < n" using assms(3) by (simp add: less_mult_imp_div_less mult.commute)
  moreover have "(8 * off + k) div 8 = off + k div 8" "(8 * off + k) mod 8 = k mod 8" by simp_all
  moreover have "8 * off + k < LENGTH('b)" using assms(1,3,4) k by linarith
  ultimately show "bit (le_word (subrange bs (i + off) n) :: 'a word) k
      = bit (ucast (drop_bit (8 * off) (le_word (subrange bs i m) :: 'b word)) :: 'a word) k"
    using k assms by (simp add: bit_le_word bit_ucast_iff bit_drop_bit_eq length_subrange nth_subrange add.assoc)
qed

lemma kernel_mmio_fields:
  assumes "kernel_mmio_area bs cr8 gpa" and "gpa < 0x100000000"
  shows "le_word (subrange bs 32 4) = (ucast gpa :: u32)" and "le_word (subrange bs 36 1) = (0 :: u8)"
proof -
  have l: "4096 \<le> length bs" and g: "le_word (subrange bs 32 8) = gpa" using assms(1) by (simp_all add: kernel_mmio_area_def)
  show "le_word (subrange bs 32 4) = (ucast gpa :: u32)"
    using le_word_inside [of 0 4 8 32 bs, where 'a = 32 and 'b = 64] l g by simp
  have "drop_bit 32 gpa = 0" using assms(2) by (simp add: drop_bit_eq_div word_less_nat_alt word_arith_nat_div unat_div)
  then show "le_word (subrange bs 36 1) = (0 :: u8)"
    using le_word_inside [of 4 1 8 32 bs, where 'a = 8 and 'b = 64] l g by simp
qed

lemma kernel_mmio_area_ok: "kernel_mmio_area bs cr8 gpa \<Longrightarrow> gpa < 0x100000000 \<Longrightarrow> run_area_ok bs"
  using kernel_mmio_fields(2) [of bs cr8 gpa] unfolding run_area_ok_def kernel_mmio_area_def by simp

lemma kernel_mmio_decoded:
  assumes "hv_vcpus s h = Some hc" and "hc_run hc = Ptr b 0" and "mem s b = Some bs" and "kernel_mmio_area bs cr8 gpa"
    and "gpa < 0x100000000"
  shows "kvm_get_exit h ex s = Some (0, zero_exit\<lparr>ex_reason := HV_EXIT_MMIO,
     ex_mmio := \<lparr>mmio_addr = cr8, mmio_size = ucast (ucast gpa :: u32), mmio_is_write = 0, mmio_data = 0\<rparr>\<rparr>, s)"
proof -
  have k: "4096 \<le> length bs" "le_word (subrange bs 8 4) = (6 :: u32)" "le_word (subrange bs 16 8) = cr8"
    using assms(4) by (simp_all add: kernel_mmio_area_def)
  show ?thesis
    using assms(1,2) kernel_mmio_fields [OF assms(4,5)] k
    by (simp add: kvm_get_exit_def kvm_exit_mmio_def kvm_convert_exit_reason_def load_word_page [OF assms(3) k(1)] Let_def)
qed

lemma uncovered_mmio:
  assumes "vcpus s r = Some c" and "vms s (c_vm c) = Some v" and "devices_live s (registered v)"
    and "\<forall>q \<in> set (registered v). \<not> covers s q (mmio_addr m)"
  shows "vcpu_handle_mmio_exit tbl r m s = Some (0, s)"
proof -
  have "vm_find_device_at_gpa v (mmio_addr m) s = Some 0"
    using find_device_find [OF assms(3), of "mmio_addr m"] assms(4) find_None_iff [of "\<lambda>r. covers s r (mmio_addr m)" "registered v"]
    by (auto simp: vm_find_device_at_gpa_def vm_find_device_eq registered_def split: option.splits)
  then show ?thesis using assms(1,2) by (simp add: vcpu_handle_mmio_exit_def)
qed

text \<open>
  C22: memory accesses of the guest are misread on a kernel with the documented structure. For any
  access below 4 GiB, a store to the debug console included, the decoder takes the task priority for the
  address, the address for the size and reports a load. When no device covers the task priority, which is
  below 16 and in RAM, the exit is handled with result 0, no device is called and only the
  counters of the processor change.
\<close>

theorem kernel_mmio_misread:
  assumes "vcpus s r = Some c" and "hv_vcpus s (c_hv_vcpu c) = Some h" and "hc_run h = Ptr b 0" and "mem s b = Some bs"
    and "kernel_mmio_area bs cr8 gpa" and "gpa < 0x100000000" and "vms s (c_vm c) = Some v" and "devices_live s (registered v)"
    and "\<forall>q \<in> set (registered v). \<not> covers s q cr8"
  shows "\<exists>ex. kvm_get_exit (c_hv_vcpu c) zero_exit s = Some (0, ex, s) \<and> ex_reason ex = HV_EXIT_MMIO
     \<and> ex_mmio ex = \<lparr>mmio_addr = cr8, mmio_size = ucast (ucast gpa :: u32), mmio_is_write = 0, mmio_data = 0\<rparr>
     \<and> vcpu_handle_exit tbl r ex s = Some (0, set_vcpu r (c\<lparr>c_exit_count := c_exit_count c + 1, c_mmio_count := c_mmio_count c + 1\<rparr>) s)"
proof -
  let ?m = "\<lparr>mmio_addr = cr8, mmio_size = ucast (ucast gpa :: u32), mmio_is_write = 0, mmio_data = 0\<rparr>"
  let ?c = "c\<lparr>c_exit_count := c_exit_count c + 1, c_mmio_count := c_mmio_count c + 1\<rparr>"
  have "vcpu_handle_mmio_exit tbl r ?m (set_vcpu r ?c s) = Some (0, set_vcpu r ?c s)"
    using assms(7-9) by (intro uncovered_mmio [of _ _ ?c v]) (simp_all add: devices_live_def covers_def)
  then show ?thesis
    using kernel_mmio_decoded [OF assms(2-6)] assms(1) by (simp add: vcpu_handle_exit_def)
qed

text \<open>A store to the debug console at 0x90000000 on such a kernel.\<close>

definition ex_kernel_page :: "u8 list" where
  "ex_kernel_page = (replicate 4096 0)[8 := 6, 35 := 0x90, 40 := 0x41, 48 := 1, 52 := 1]"

lemma ex_kernel_page: "kernel_mmio_area ex_kernel_page 0 0x90000000"
proof -
  have "le_word (subrange ex_kernel_page 8 4) = (6 :: u32)" "le_word (subrange ex_kernel_page 16 8) = (0 :: u64)"
    "le_word (subrange ex_kernel_page 32 8) = (0x90000000 :: u64)"
    by code_simp+
  then show ?thesis by (simp add: kernel_mmio_area_def ex_kernel_page_def)
qed

theorem kernel_mmio_misread_witness:
  "\<exists>ex c'. kvm_get_exit 8 zero_exit (ex_exit_host ex_kernel_page) = Some (0, ex, ex_exit_host ex_kernel_page)
     \<and> mmio_addr (ex_mmio ex) = 0 \<and> mmio_is_write (ex_mmio ex) = 0
     \<and> vcpu_handle_exit (device_ops_of ok_env) 7 ex (ex_exit_host ex_kernel_page) = Some (0, set_vcpu 7 c' (ex_exit_host ex_kernel_page))"
proof -
  let ?s = "ex_exit_host ex_kernel_page"
  note e = ex_exit_host [of ex_kernel_page]
  have "devices_live ?s (registered ex_dt_vm)" "\<forall>q \<in> set (registered ex_dt_vm). \<not> covers ?s q 0"
    using e(6) by (auto simp: ex_dt_registered devices_live_def covers_def console_live_def ex_console_dev_def)
  then show ?thesis
    using kernel_mmio_misread [OF e(3) _ _ e(2) ex_kernel_page, of _ ex_dt_vm "device_ops_of ok_env"] e(1,4,5) by auto
qed

lemma ring_members:
  "locate vring_desc_layout [''addr''] = Some (0, U64)" "locate vring_desc_layout [''len''] = Some (8, U32)"
  "locate vring_desc_layout [''flags''] = Some (12, U16)" "locate vring_desc_layout [''next''] = Some (14, U16)"
  "locate vring_avail_layout [''idx''] = Some (2, U16)" "locate vring_used_layout [''idx''] = Some (2, U16)"
  "offset_of vring_avail_layout [''ring''] = 4" "offset_of vring_used_layout [''ring''] = 4"
  "size_of vring_desc_layout = 16" "size_of vring_used_elem_layout = 8"
  by code_simp+

lemma request_members:
  "locate virtio_blk_req_layout [''type''] = Some (0, U32)" "locate virtio_blk_req_layout [''ioprio''] = Some (4, U32)"
  "locate virtio_blk_req_layout [''sector''] = Some (8, U64)" "size_of virtio_blk_req_layout = 16"
  "size_of virtio_blk_config_layout = 24" "size_of virtio_net_hdr_layout = 10"
  by code_simp+


lemma header_members:
  "locate linux_header_layout [''setup_sects''] = Some (0, U8)" "locate linux_header_layout [''boot_flag''] = Some (13, U16)"
  "locate linux_header_layout [''header''] = Some (17, U32)" "locate linux_header_layout [''version''] = Some (21, U16)"
  "locate linux_header_layout [''code32_start''] = Some (35, U32)" "offset_of linux_header_layout [''ramdisk_image''] = 39"
  "offset_of linux_header_layout [''ramdisk_size''] = 43" "offset_of linux_header_layout [''cmd_line_ptr''] = 55"
  "size_of e820_entry_layout = 20"
  by code_simp+

definition word_member :: "ctype \<Rightarrow> string list \<Rightarrow> u8 list \<Rightarrow> nat \<Rightarrow> 'a::len word option" where
  "word_member t path buf base =
     (case locate t path of None \<Rightarrow> None | Some (off, u) \<Rightarrow> word_at buf (base + off) (size_of u))"

text \<open>
  The boot header is read by its declaration. Every field of \<open>struct linux_header\<close> the loader looks at
  is where the packed structure has it, the three addresses the loader patches are members of the
  same header in the zero page, and an E820 entry has the twenty bytes of its structure.
\<close>

theorem boot_header_by_name:
  "hdr_setup_sects buf = word_member linux_header_layout [''setup_sects''] buf HEADER_ADDR
   \<and> hdr_boot_flag buf = word_member linux_header_layout [''boot_flag''] buf HEADER_ADDR
   \<and> hdr_header buf = word_member linux_header_layout [''header''] buf HEADER_ADDR
   \<and> hdr_version buf = word_member linux_header_layout [''version''] buf HEADER_ADDR
   \<and> hdr_code32_start buf = word_member linux_header_layout [''code32_start''] buf HEADER_ADDR
   \<and> RAMDISK_IMAGE_ADDR = of_nat (HEADER_ADDR + offset_of linux_header_layout [''ramdisk_image''])
   \<and> RAMDISK_SIZE_ADDR = of_nat (HEADER_ADDR + offset_of linux_header_layout [''ramdisk_size''])
   \<and> CMDLINE_PTR_ADDR = of_nat (HEADER_ADDR + offset_of linux_header_layout [''cmd_line_ptr''])
   \<and> length (e820_entry_bytes addr sz ty) = size_of e820_entry_layout"
  by (simp add: hdr_setup_sects_def hdr_boot_flag_def hdr_header_def hdr_version_def hdr_code32_start_def word_member_def
      header_members RAMDISK_IMAGE_ADDR_def RAMDISK_SIZE_ADDR_def CMDLINE_PTR_ADDR_def HEADER_ADDR_def e820_entry_bytes_def)

lemma request_sizes:
  "size_of kvm_regs_layout = 144" "size_of kvm_sregs_layout = 344" "size_of kvm_userspace_memory_region_layout = 32"
  "size_of kvm_irq_level_layout = 8" "size_of vfio_group_status_layout = 8" "size_of vfio_device_info_layout = 16"
  "size_of vfio_region_info_layout = 32" "size_of vfio_irq_info_layout = 16" "size_of vfio_irq_set_layout = 24"
  by code_simp+

text \<open>
  The requests of the program. Every request has a number of its own, so that naming
  them loses nothing. The number for the general registers is the kernel's; the ones for the
  special registers contain the size 344 of the structure the program declares, and those of VFIO the type
  0xAF and numbers from 0, which are not the kernel's (312, and type 0x3B with numbers from 100).
\<close>

theorem ioctl_request_numbers:
  "distinct (map snd (kvm_requests @ vfio_requests)) \<and> distinct (map fst (kvm_requests @ vfio_requests))
   \<and> map_of kvm_requests ''KVM_GET_REGS'' = Some 0x8090AE81 \<and> map_of kvm_requests ''KVM_SET_REGS'' = Some 0x4090AE82
   \<and> map_of kvm_requests ''KVM_GET_SREGS'' = Some 0x8158AE83 \<and> map_of kvm_requests ''KVM_SET_SREGS'' = Some 0x4158AE84
   \<and> map_of kvm_requests ''KVM_SET_USER_MEMORY_REGION'' = Some 0x4020AE46
   \<and> map_of vfio_requests ''VFIO_GET_API_VERSION'' = Some 0xAF00 \<and> map_of vfio_requests ''VFIO_DEVICE_GET_INFO'' = Some 0x8010AF07"
  by (simp add: kvm_requests_def vfio_requests_def request_sizes ioctl_number_def KVMIO_def VFIO_TYPE_def VFIO_BASE_def Let_def)

end
