(* ===== verification/Spec2Isabelle.thy ===== *)
theory Spec2Isabelle
  imports Mm Vmm_Main Hvf_Arm64 Abi
begin

text \<open>
  Vibe-VMM is a small virtual machine monitor in C: it runs a guest kernel or a raw binary on KVM
  (Linux) or on the Apple Hypervisor framework (macOS), with a debug console, virtio devices and
  passed-through PCI devices. This development models the program function by function and proves
  what the functions do, on every branch and for every answer of the operating system.

  \<^bold>\<open>The program and its parts.\<close> \<^verbatim>\<open>src/main.c\<close> parses options, selects a backend
  through \<^verbatim>\<open>src/hypervisor.c\<close>, creates the machine (\<^verbatim>\<open>src/vm.c\<close>), its memory, processors and devices,
  loads the guest (\<^verbatim>\<open>src/boot.c\<close>), starts one thread per processor (\<^verbatim>\<open>src/vcpu.c\<close>) and waits. A
  thread runs the guest through the backend (\<^verbatim>\<open>src/hypervisor/*.c\<close>), decodes the exit and handles
  it; a memory access outside RAM goes to the device registered for the address
  (\<^verbatim>\<open>src/devices.c\<close>), whose handlers (\<^verbatim>\<open>src/devices/*.c\<close>, \<^verbatim>\<open>src/vfio.c\<close>) read guest
  memory through the region table of the machine. \<^verbatim>\<open>src/mm.c\<close> is a second, separate
  memory table.

  \<^bold>\<open>Theories and sources.\<close>
  \<^item> \<open>Prelude\<close>: words, byte strings in little-endian order, lists updated by index, the alignment
    macros of \<^verbatim>\<open>include/utils.h\<close> with their integer promotions.
  \<^item> \<open>Structs\<close>: the structures of the headers as records, the enumerations as datatypes.
  \<^item> \<open>Host\<close>: the C runtime and the operating system (below).
  \<^item> \<open>Ctext\<close>: the text conversions of the C library (\<open>atoi\<close>, \<open>strtoull\<close>, the number formats).
  \<^item> \<open>Hypervisor\<close>: \<^verbatim>\<open>src/hypervisor.c\<close>; \<open>Kvm\<close>: \<^verbatim>\<open>kvm.c\<close> and the two stubs; \<open>Hvf\<close>: \<^verbatim>\<open>hvf.c\<close>;
    \<open>Hvf_Arm64\<close>: \<^verbatim>\<open>hvf_arm64.c\<close>.
  \<^item> \<open>Mm\<close>: \<^verbatim>\<open>src/mm.c\<close>; \<open>Vm_Memory\<close> and \<open>Vm\<close>: \<^verbatim>\<open>src/vm.c\<close>; \<open>Vcpu\<close>: \<^verbatim>\<open>src/vcpu.c\<close>; \<open>Boot\<close>:
    \<^verbatim>\<open>src/boot.c\<close>; \<open>Vmm_Main\<close>: \<^verbatim>\<open>src/main.c\<close>.
  \<^item> \<open>Devices\<close>: \<^verbatim>\<open>src/devices.c\<close>; \<open>Mmio_Console\<close>: \<^verbatim>\<open>mmio.c\<close>; \<open>Virtio\<close>: \<^verbatim>\<open>virtio.c\<close>;
    \<open>Virtio_Console\<close>, \<open>Virtio_Blk\<close>, \<open>Virtio_Net\<close>: the three drivers; \<open>Vfio\<close>: \<^verbatim>\<open>src/vfio.c\<close>;
    \<open>Device_Tables\<close>: the operation tables of all devices put together; \<open>Device_Map\<close>: what the four
    constructors make and where it lies in the guest's address space.
  \<^item> \<open>Layout\<close>: how C places the members of a structure; \<open>Abi\<close>: the structures shared with the
    kernel and the guest (\<^verbatim>\<open>kvm.c\<close>, \<^verbatim>\<open>vfio.c\<close>, \<^verbatim>\<open>boot.c\<close>, \<^verbatim>\<open>include/virtio.h\<close>,
    \<^verbatim>\<open>include/vfio.h\<close>) and the numbers of the ioctl requests.

  \<^bold>\<open>State and operations.\<close> A C function \<open>f\<close> is a definition \<open>f\<close> that takes the state
  of the process and returns the result and the new state. The record \<^typ>\<open>host\<close> holds one heap per
  structure, the byte blocks of the allocator, the global variables, what was printed and the
  history of external calls. A structure pointer is a number (0 is null), a byte pointer a
  block and an offset. \<^const>\<open>None\<close> is undefined behaviour: a null, dead or out-of-range access, a bad
  \<open>free\<close>, a conversion out of range. The record \<^typ>\<open>env\<close> is everything outside: which allocations succeed,
  what each system call, ioctl or framework call answers as a function of the history, what the
  running guest writes. No theorem fixes it beyond the named hypotheses on what the kernel
  or the framework does (\<open>kernel_exits\<close>, \<open>kernel_keeps\<close>, \<open>fw_keeps\<close>). Tables of function pointers are
  parameters; machine integers have their C width.

  \<^bold>\<open>Interfaces.\<close> \<open>hv_tables\<close> is what the program relies on of a backend, interpreted for the
  KVM, Intel and Apple Silicon builds (\<open>lk\<close>, \<open>hl\<close>, \<open>al\<close>); \<open>device_handlers\<close> what the processor and the device layer
  rely on of a device, interpreted for the tables of the program; \<open>device_maker\<close> what the main program relies on of a
  constructor, interpreted for the four; \<open>virtio_callbacks\<close> what the virtio
  layer relies on of a driver; \<open>byte_memory\<close>, \<open>region_table\<close>, \<open>guest_translation\<close> and \<open>guest_map\<close> take the laws of byte blocks
  to the two region tables; \<open>work_queue\<close> is the virtio ring as a list; \<open>fw_table\<close> the register transfer tables of the
  framework; \<open>number_format\<close> printing and reading of numbers.

  \<^bold>\<open>What the lemmas show.\<close>
  \<^item> Memory: translation of guest addresses is exact on ranges that do not wrap, and what is
    unreadable is characterised on those that do; writes are updates of an abstract guest memory.
  \<^item> Backends: the right table is selected, handles leak nothing, registers survive the round trip
    or what of them is lost.
  \<^item> Devices: the console against a reference for the port, the virtio ring against a list of
    pending descriptors, the queue handlers terminate, block requests and packets transfer what is said;
    what a guest can reach of a virtio device; passed-through devices are opened and closed without leaks
    and never mapped.
  \<^item> Processors: every exit against a reference table, a stored byte reaches standard output, the
    thread ends.
  \<^item> Machine and boot: all-or-nothing start, what destruction frees, the kernel image, the raw
    binary and the memory map in guest memory.
  \<^item> Program: which options are accepted, how sizes are read, that devices overlap neither each
    other nor the RAM, when the wait ends and on which signals, two failures that are not handled.
  \<^item> Layouts: the offsets and sizes at which the other theories access shared structures are those
    of the declared members. The theorems on exits take the run area in the structure the program
    declares; the kernel's own has two more members, 16 bytes, before the exit data, and \<open>Abi\<close>
    shows what the decoder makes of an access laid out that way.

  \<^bold>\<open>Bounds and fuel.\<close> The processor thread takes the number of iterations; 501 are proved to be enough on
  KVM, and a case is proved in which none is. The queue loops are \<open>partial_function\<close>s, for which not returning is
  \<^const>\<open>None\<close>, and are proved to return. The wait of the main thread takes one list of events for each sleep.
  Everything else is total by structure.

  \<^bold>\<open>Not modelled.\<close> The text of log lines and of standard error, except where a log line reads
  memory; terminal settings; the parsing of the
  argument vector by \<open>getopt_long\<close>, whose results are the input; signals other than the three the program
  handles, and signals outside the wait; strings copied by \<open>strdup\<close> are values, so
  that their \<open>free\<close> has no effect in the model. A processor thread runs in whole iterations and only while the main thread
  sleeps; starting and stopping a processor are atomic. The guest sees the values a handler delivers only
  through memory. Test kernels, scripts and documents are not part of the monitor.
\<close>

end
